(* ===== verification/Prelude.thy ===== *)
theory Prelude
  imports Complex_Main "HOL-Library.AList" "HOL-Library.Sublist" "HOL-Library.Multiset"
begin

text \<open>
  Shared material of the development: the JavaScript values the dashboard code under
  \<^verbatim>\<open>src/internal/site/src\<close> computes with, and the generic lemmas about them.

  \<^item> Strings are \<open>string\<close>, read as the UTF-8 encoding of the JavaScript string. Comparing,
    concatenating and cutting at ASCII delimiters agree with JavaScript's operations on that
    encoding; where code iterates over code points (\<open>for (const c of s)\<close>) the string is
    decoded first (\<open>code_points\<close>).
  \<^item> Numbers that can be \<open>NaN\<close> or infinite are \<open>jsnum\<close>; other numbers are \<open>rat\<close> or
    \<open>int\<close>, exact: the rounding of IEEE doubles is not modelled.
  \<^item> \<open>Map\<close> and plain objects used as dictionaries are association lists in insertion order
    (\<open>AList.update\<close> writes in place or appends, as \<open>Map.set\<close> does).
  \<^item> Array, string and number methods the sources use: \<open>split\<close>, \<open>join\<close>, \<open>trim\<close>,
    \<open>slice(-n)\<close>, \<open>at(-1)\<close>, \<open>sort\<close> with a comparator, \<open>Number\<close>, decimal printing.
\<close>

named_theorems js_defs \<open>definitions a component's proofs unfold\<close>
named_theorems dict_simps \<open>lookup and domain laws of insertion-ordered dictionaries\<close>

section \<open>Insertion-ordered dictionaries\<close>

type_synonym ('k, 'v) dict = "('k \<times> 'v) list"

abbreviation dget :: "('k, 'v) dict \<Rightarrow> 'k \<Rightarrow> 'v option" where
  "dget d k \<equiv> map_of d k"

abbreviation dset :: "'k \<Rightarrow> 'v \<Rightarrow> ('k, 'v) dict \<Rightarrow> ('k, 'v) dict" where
  "dset k v d \<equiv> AList.update k v d"

abbreviation ddel :: "'k \<Rightarrow> ('k, 'v) dict \<Rightarrow> ('k, 'v) dict" where
  "ddel k d \<equiv> AList.delete k d"

abbreviation dkeys :: "('k, 'v) dict \<Rightarrow> 'k list" where
  "dkeys d \<equiv> map fst d"

abbreviation dvals :: "('k, 'v) dict \<Rightarrow> 'v list" where
  "dvals d \<equiv> map snd d"

lemma dget_dset [simp, dict_simps]:
  "dget (dset k v d) j = (if j = k then Some v else dget d j)"
  by (simp add: update_conv')

lemma dget_ddel [simp, dict_simps]:
  "dget (ddel k d) j = (if j = k then None else dget d j)"
  by (simp add: delete_conv')

lemma dkeys_dset [dict_simps]:
  "dkeys (dset k v d) = (if k \<in> set (dkeys d) then dkeys d else dkeys d @ [k])"
  by (induction d) auto

lemma distinct_dset [simp, intro]:
  "distinct (dkeys d) \<Longrightarrow> distinct (dkeys (dset k v d))"
  by (rule distinct_update)

lemma distinct_ddel [simp, intro]:
  "distinct (dkeys d) \<Longrightarrow> distinct (dkeys (ddel k d))"
  by (rule distinct_delete)

lemma dset_dkeys_set [simp]: "set (dkeys (dset k v d)) = insert k (set (dkeys d))"
  by (auto simp: dkeys_dset)

lemma dget_Some_iff_dkeys: "dget d k \<noteq> None \<longleftrightarrow> k \<in> set (dkeys d)"
  by (simp add: map_of_eq_None_iff)

lemma dvals_of_dget: "distinct (dkeys d) \<Longrightarrow> set (dvals d) = {v. \<exists>k. dget d k = Some v}"
  by (force simp: image_iff dest: map_of_SomeD)

text \<open>\<open>m.has(k)\<close>\<close>

definition dhas :: "('k, 'v) dict \<Rightarrow> 'k \<Rightarrow> bool" where
  "dhas d k \<longleftrightarrow> dget d k \<noteq> None"

lemma dhas_simps [simp, dict_simps]:
  "\<not> dhas [] k" "dhas (dset j v d) k \<longleftrightarrow> k = j \<or> dhas d k" "dhas (ddel j d) k \<longleftrightarrow> k \<noteq> j \<and> dhas d k"
  "dhas ((i, v) # d) k \<longleftrightarrow> k = i \<or> dhas d k"
  by (auto simp: dhas_def simp del: not_None_eq)

lemma dhas_dget: "dget d k = Some v \<Longrightarrow> dhas d k"
  by (simp add: dhas_def)

lemma dhas_dkeys: "dhas d k \<longleftrightarrow> k \<in> set (dkeys d)"
  unfolding dhas_def by (rule dget_Some_iff_dkeys)

lemma dkeys_dset_has: "dkeys (dset k v d) = (if dhas d k then dkeys d else dkeys d @ [k])"
  unfolding dhas_dkeys by (rule dkeys_dset)

section \<open>Lists: array methods\<close>

text \<open>\<open>xs.at(-1)\<close>: the last element, undefined on the empty array.\<close>

definition at_last :: "'a list \<Rightarrow> 'a option" where
  "at_last xs = (if xs = [] then None else Some (last xs))"

lemma at_last_simps [simp]: "at_last [] = None" "at_last (xs @ [x]) = Some x"
  "at_last (x # xs) = Some (last (x # xs))"
  by (simp_all add: at_last_def)

text \<open>\<open>xs[i]\<close> with \<open>undefined\<close> out of range.\<close>

definition nth_opt :: "'a list \<Rightarrow> nat \<Rightarrow> 'a option" where
  "nth_opt xs i = (if i < length xs then Some (xs ! i) else None)"

lemma nth_opt_simps [simp]: "nth_opt [] i = None" "nth_opt (x # xs) 0 = Some x"
  "nth_opt (x # xs) (Suc i) = nth_opt xs i"
  by (simp_all add: nth_opt_def)

lemma nth_opt_numeral [simp]: "nth_opt (x # xs) (numeral n) = nth_opt xs (pred_numeral n)"
  by (simp add: numeral_eq_Suc)

lemma nth_opt_one [simp]: "nth_opt (x # xs) 1 = nth_opt xs 0"
  by (simp add: nth_opt_def)

text \<open>\<open>xs.slice(-n)\<close> for a positive \<open>n\<close>: the last \<open>n\<close> elements.\<close>

definition slice_last :: "nat \<Rightarrow> 'a list \<Rightarrow> 'a list" where
  "slice_last n xs = drop (length xs - n) xs"

lemma length_slice_last [simp]: "length (slice_last n xs) = min n (length xs)"
  by (simp add: slice_last_def)

lemma set_slice_last: "set (slice_last n xs) \<subseteq> set xs"
  by (simp add: slice_last_def set_drop_subset)

lemma slice_last_suffix: "suffix (slice_last n xs) xs"
  by (simp add: slice_last_def suffix_drop)

lemma take_drop_length:
  "length xs = n \<Longrightarrow> take n (xs @ ys) = xs" "length xs = n \<Longrightarrow> drop n (xs @ ys) = ys"
  by auto

text \<open>Two positions split a list in five pieces.\<close>

lemma split_at_two:
  assumes "i < j" "j < length xs"
  obtains bs where "xs = take i xs @ xs ! i # bs @ xs ! j # drop (Suc j) xs"
    "take j xs = take i xs @ xs ! i # bs" "drop (Suc i) xs = bs @ xs ! j # drop (Suc j) xs"
    "length bs = j - Suc i" "\<forall>y\<in>set bs. \<exists>n. i < n \<and> n < j \<and> y = xs ! n"
proof
  let ?bs = "take (j - Suc i) (drop (Suc i) xs)"
  have a: "xs = take i xs @ xs ! i # drop (Suc i) xs" using assms by (simp add: id_take_nth_drop)
  have b: "drop (Suc i) xs = ?bs @ drop j xs"
    using assms append_take_drop_id [of "j - Suc i" "drop (Suc i) xs"] by simp
  have c: "drop j xs = xs ! j # drop (Suc j) xs" using assms by (simp add: Cons_nth_drop_Suc)
  show d: "drop (Suc i) xs = ?bs @ xs ! j # drop (Suc j) xs" using b c by simp
  show "xs = take i xs @ xs ! i # ?bs @ xs ! j # drop (Suc j) xs" using a d by simp
  have "take j xs = take i xs @ take (j - i) (drop i xs)"
    using assms by (metis less_imp_le_nat le_add_diff_inverse take_add)
  then show "take j xs = take i xs @ xs ! i # ?bs"
    using assms by (simp add: Cons_nth_drop_Suc [symmetric] take_Cons' Suc_diff_Suc [symmetric])
  show "length ?bs = j - Suc i" using assms by simp
  show "\<forall>y\<in>set ?bs. \<exists>n. i < n \<and> n < j \<and> y = xs ! n"
  proof
    fix y assume "y \<in> set ?bs"
    then obtain m where "m < j - Suc i" "y = xs ! (Suc i + m)"
      using assms by (auto simp: in_set_conv_nth)
    then show "\<exists>n. i < n \<and> n < j \<and> y = xs ! n" by (intro exI [of _ "Suc i + m"]) auto
  qed
qed

text \<open>\<open>xs.findIndex(p)\<close>, \<open>-1\<close> when no element satisfies \<open>p\<close>.\<close>

primrec find_index :: "('a \<Rightarrow> bool) \<Rightarrow> 'a list \<Rightarrow> nat option" where
  "find_index p [] = None"
| "find_index p (x # xs) = (if p x then Some 0 else map_option Suc (find_index p xs))"

lemma find_index_SomeD:
  "find_index p xs = Some i \<Longrightarrow> i < length xs \<and> p (xs ! i) \<and> (\<forall>j<i. \<not> p (xs ! j))"
proof (induction xs arbitrary: i)
  case Nil
  then show ?case by simp
next
  case (Cons x xs)
  then show ?case
    by (cases i) (auto split: if_splits simp: less_Suc_eq_0_disj)
qed

lemma find_index_None_iff: "find_index p xs = None \<longleftrightarrow> (\<forall>x\<in>set xs. \<not> p x)"
  by (induction xs) auto

lemma find_index_distinct:
  assumes "distinct (map f xs)" "i < length xs"
  shows "find_index (\<lambda>x. f x = f (xs ! i)) xs = Some i"
proof (cases "find_index (\<lambda>x. f x = f (xs ! i)) xs")
  case None
  with assms(2) show ?thesis by (auto simp: find_index_None_iff)
next
  case (Some j)
  then have "j < length xs" "map f xs ! j = map f xs ! i" using find_index_SomeD [OF Some] assms by auto
  then have "j = i" using assms nth_eq_iff_index_eq [of "map f xs" j i] by simp
  with Some show ?thesis by simp
qed

lemma find_SomeD: "find P xs = Some x \<Longrightarrow> P x \<and> x \<in> set xs"
  by (induction xs) (auto split: if_splits)

lemma find_unique:
  assumes "x \<in> set xs" "P x" "\<forall>y\<in>set xs. P y \<longrightarrow> y = x"
  shows "find P xs = Some x"
proof (cases "find P xs")
  case None
  with assms(1,2) show ?thesis by (simp add: find_None_iff)
next
  case (Some y)
  with assms(3) show ?thesis using find_SomeD [OF Some] by blast
qed

text \<open>\<open>new Set(xs)\<close> spread back into an array: the first occurrence of each value, in order.\<close>

definition uniq :: "'a list \<Rightarrow> 'a list" where
  "uniq xs = rev (remdups (rev xs))"

lemma set_uniq [simp]: "set (uniq xs) = set xs"
  by (simp add: uniq_def)

lemma distinct_uniq [simp]: "distinct (uniq xs)"
  by (simp add: uniq_def)

lemma uniq_distinct: "distinct xs \<Longrightarrow> uniq xs = xs"
  by (simp add: uniq_def distinct_remdups_id)

lemma uniq_snoc: "uniq (xs @ [x]) = (if x \<in> set xs then uniq xs else uniq xs @ [x])"
  by (simp add: uniq_def)

lemma filter_update_map:
  "(\<And>x. p (f x) = p x) \<Longrightarrow> filter p (map f xs) = map f (filter p xs)"
  by (simp add: filter_map comp_def)

section \<open>Sorting with a comparator\<close>

text \<open>
  \<open>xs.sort(cmp)\<close> is stable: of two elements the comparator does not order, the one that came
  first stays first. For a consistent comparator the result is the stable insertion sort below;
  the contract \<open>comparator\<close> is what "consistent" means, on the elements the array can hold.
\<close>

primrec sort_insert :: "('a \<Rightarrow> 'a \<Rightarrow> rat) \<Rightarrow> 'a \<Rightarrow> 'a list \<Rightarrow> 'a list" where
  "sort_insert cmp x [] = [x]"
| "sort_insert cmp x (y # ys) = (if cmp x y \<le> 0 then x # y # ys else y # sort_insert cmp x ys)"

definition js_sort :: "('a \<Rightarrow> 'a \<Rightarrow> rat) \<Rightarrow> 'a list \<Rightarrow> 'a list" where
  "js_sort cmp xs = foldr (sort_insert cmp) xs []"

lemma mset_sort_insert [simp]: "mset (sort_insert cmp x xs) = add_mset x (mset xs)"
  by (induction xs) auto

lemma mset_js_sort [simp]: "mset (js_sort cmp xs) = mset xs"
  unfolding js_sort_def by (induction xs) auto

lemma set_js_sort [simp]: "set (js_sort cmp xs) = set xs"
  using mset_js_sort [of cmp xs] by (metis set_mset_mset)

lemma length_js_sort [simp]: "length (js_sort cmp xs) = length xs"
  using mset_js_sort [of cmp xs] by (metis size_mset)

lemma distinct_js_sort [simp]: "distinct (js_sort cmp xs) = distinct xs"
  using mset_js_sort [of cmp xs] mset_eq_imp_distinct_iff by blast

locale comparator =
  fixes cmp :: "'a \<Rightarrow> 'a \<Rightarrow> rat"
    and A :: "'a set"
  assumes cmp_total: "x \<in> A \<Longrightarrow> y \<in> A \<Longrightarrow> \<not> cmp x y \<le> 0 \<Longrightarrow> cmp y x \<le> 0"
    and cmp_trans: "x \<in> A \<Longrightarrow> y \<in> A \<Longrightarrow> z \<in> A \<Longrightarrow> cmp x y \<le> 0 \<Longrightarrow> cmp y z \<le> 0 \<Longrightarrow> cmp x z \<le> 0"
begin

lemma sorted_sort_insert:
  assumes "insert x (set xs) \<subseteq> A" and "sorted_wrt (\<lambda>a b. cmp a b \<le> 0) xs"
  shows "sorted_wrt (\<lambda>a b. cmp a b \<le> 0) (sort_insert cmp x xs)"
  using assms
proof (induction xs)
  case Nil
  then show ?case by simp
next
  case (Cons y ys)
  have set_eq: "set (sort_insert cmp x ys) = insert x (set ys)"
    using mset_sort_insert [of cmp x ys] by (metis set_mset_add_mset_insert set_mset_mset)
  show ?case
  proof (cases "cmp x y \<le> 0")
    case True
    with Cons.prems show ?thesis by (auto intro: cmp_trans)
  next
    case False
    with Cons.prems have "cmp y x \<le> 0" by (intro cmp_total) auto
    with False Cons show ?thesis by (auto simp: set_eq)
  qed
qed

lemma sorted_js_sort:
  "set xs \<subseteq> A \<Longrightarrow> sorted_wrt (\<lambda>a b. cmp a b \<le> 0) (js_sort cmp xs)"
proof (induction xs)
  case Nil
  then show ?case by (simp add: js_sort_def)
next
  case (Cons x xs)
  then have "sorted_wrt (\<lambda>a b. cmp a b \<le> 0) (js_sort cmp xs)" by simp
  moreover have "insert x (set (js_sort cmp xs)) \<subseteq> A" using Cons.prems by simp
  ultimately have "sorted_wrt (\<lambda>a b. cmp a b \<le> 0) (sort_insert cmp x (js_sort cmp xs))"
    by (intro sorted_sort_insert)
  then show ?case by (simp add: js_sort_def)
qed

end

text \<open>Rounding a quotient down.\<close>

lemma floor_rat_div: "0 < k \<Longrightarrow> \<lfloor>(x :: rat) / of_int k\<rfloor> = \<lfloor>x\<rfloor> div k"
proof (rule floor_unique)
  assume k: "0 < k"
  define n q where "n = \<lfloor>x\<rfloor>" and "q = n div k"
  have x: "of_int n \<le> x" "x < of_int (n + 1)" by (simp_all add: n_def) linarith
  have "k * q \<le> n" "n + 1 \<le> k * (q + 1)"
    using k mult_div_mod_eq [of k n] pos_mod_sign [of k n] pos_mod_bound [of k n] unfolding q_def distrib_left by linarith+
  then have "of_int (k * q) \<le> x" "x < of_int (k * (q + 1))"
    using x by (meson of_int_le_iff order_trans) (meson x of_int_le_iff less_le_trans \<open>n + 1 \<le> k * (q + 1)\<close>)
  with k show "of_int (\<lfloor>x\<rfloor> div k) \<le> x / of_int k" "x / of_int k < of_int (\<lfloor>x\<rfloor> div k) + 1"
    by (simp_all add: n_def [symmetric] q_def [symmetric] field_simps)
qed

lemma floor_rat_rest: "0 < k \<Longrightarrow> \<lfloor>(x :: rat) - of_int k * of_int \<lfloor>x / of_int k\<rfloor>\<rfloor> = \<lfloor>x\<rfloor> mod k"
  by (simp add: floor_rat_div flip: of_int_mult) (simp add: minus_mult_div_eq_mod)

end
