(* ===== verification/JsValues.thy ===== *)
theory JsValues
  imports Prelude
begin

text \<open>
  JavaScript strings and numbers as the dashboard uses them: \<open>split\<close>, \<open>join\<close>,
  \<open>includes\<close>, \<open>startsWith\<close>, \<open>trim\<close>, \<open>replaceAll\<close>, \<open>lastIndexOf\<close>, \<open>padStart\<close>, the
  conversions \<open>String(n)\<close> and \<open>Number(s)\<close>, the number values \<open>NaN\<close> and \<open>Infinity\<close>, and
  the code points of a UTF-8 string.
\<close>

section \<open>Strings\<close>

text \<open>\<open>s.split(c)\<close> for a one-character separator; the empty string splits into \<open>[""]\<close>.\<close>

fun split_on :: "char \<Rightarrow> string \<Rightarrow> string list" where
  "split_on c [] = [[]]"
| "split_on c (x # xs) =
    (if x = c then [] # split_on c xs
     else (case split_on c xs of [] \<Rightarrow> [[x]] | w # ws \<Rightarrow> (x # w) # ws))"

fun join :: "string \<Rightarrow> string list \<Rightarrow> string" where
  "join sep [] = []"
| "join sep [x] = x"
| "join sep (x # y # xs) = x @ sep @ join sep (y # xs)"

lemma split_on_nonempty [simp]: "split_on c s \<noteq> []"
  by (induction s) (auto split: list.split)

lemma split_on_no_sep: "c \<notin> set s \<Longrightarrow> split_on c s = [s]"
  by (induction s) auto

lemma split_on_append_sep:
  "c \<notin> set w \<Longrightarrow> split_on c (w @ c # s) = w # split_on c s"
  by (induction w) auto

lemma split_on_join:
  assumes "xs \<noteq> []" and "\<forall>x\<in>set xs. c \<notin> set x"
  shows "split_on c (join [c] xs) = xs"
  using assms by (induction "[c]" xs rule: join.induct)
    (auto simp: split_on_no_sep split_on_append_sep)

lemma set_join: "set (join sep xs) \<subseteq> set sep \<union> (\<Union>x\<in>set xs. set x)"
  by (induction sep xs rule: join.induct) auto

text \<open>\<open>s.includes(p)\<close>\<close>

fun str_includes :: "string \<Rightarrow> string \<Rightarrow> bool" where
  "str_includes [] p = (p = [])"
| "str_includes (c # s) p = (prefix p (c # s) \<or> str_includes s p)"

lemma str_includes_sublist: "str_includes s p \<longleftrightarrow> sublist p s"
  by (induction s) (auto simp: sublist_Cons_right)

lemma str_includes_Nil [simp]: "str_includes s []"
  by (simp add: str_includes_sublist)

lemma str_includes_self [simp]: "str_includes s s"
  by (simp add: str_includes_sublist)

text \<open>\<open>s.slice(0, s.indexOf(c))\<close> when \<open>c\<close> occurs, and \<open>s.lastIndexOf(c)\<close> (\<open>-1\<close> if absent).\<close>

definition before_char :: "char \<Rightarrow> string \<Rightarrow> string" where
  "before_char c s = takeWhile (\<lambda>x. x \<noteq> c) s"

fun last_index_of :: "char \<Rightarrow> string \<Rightarrow> int" where
  "last_index_of c [] = -1"
| "last_index_of c (x # xs) =
    (let i = last_index_of c xs in if 0 \<le> i then i + 1 else if x = c then 0 else -1)"

lemma last_index_of_range: "-1 \<le> last_index_of c s \<and> last_index_of c s < int (length s)"
  by (induction s) (auto simp: Let_def)

lemma last_index_of_absent: "c \<notin> set s \<Longrightarrow> last_index_of c s = -1"
  by (induction s) (auto simp: Let_def)

lemma last_index_of_append:
  "c \<notin> set b \<Longrightarrow> last_index_of c (a @ c # b) = int (length a)"
  by (induction a) (auto simp: Let_def last_index_of_absent)

text \<open>\<open>s.replaceAll(p, r)\<close> for a non-empty pattern: left to right, without overlaps.\<close>

function replace_all :: "string \<Rightarrow> string \<Rightarrow> string \<Rightarrow> string" where
  "replace_all p r [] = []"
| "replace_all p r (c # s) =
    (if p \<noteq> [] \<and> prefix p (c # s) then r @ replace_all p r (drop (length p) (c # s))
     else c # replace_all p r s)"
  by pat_completeness auto
termination
  by (relation "measure (\<lambda>(p, r, s). length s)") (auto simp: neq_Nil_conv)

lemma replace_all_absent: "p \<noteq> [] \<Longrightarrow> \<not> str_includes s p \<Longrightarrow> replace_all p r s = s"
  by (induction s) auto

text \<open>\<open>s.padStart(n, c)\<close>\<close>

definition pad_start :: "nat \<Rightarrow> char \<Rightarrow> string \<Rightarrow> string" where
  "pad_start n c s = replicate (n - length s) c @ s"

lemma length_pad_start: "length (pad_start n c s) = max n (length s)"
  by (simp add: pad_start_def)

text \<open>
  \<open>s.trim()\<close>: the white space and line terminators of ECMAScript, by their UTF-8 encodings.
\<close>

definition white_space :: "string list" where
  "white_space =
    [[CHR 0x09], [CHR 0x0A], [CHR 0x0B], [CHR 0x0C], [CHR 0x0D], [CHR 0x20],
     [CHR 0xC2, CHR 0xA0], [CHR 0xE1, CHR 0x9A, CHR 0x80],
     [CHR 0xE2, CHR 0x80, CHR 0x80], [CHR 0xE2, CHR 0x80, CHR 0x81], [CHR 0xE2, CHR 0x80, CHR 0x82],
     [CHR 0xE2, CHR 0x80, CHR 0x83], [CHR 0xE2, CHR 0x80, CHR 0x84], [CHR 0xE2, CHR 0x80, CHR 0x85],
     [CHR 0xE2, CHR 0x80, CHR 0x86], [CHR 0xE2, CHR 0x80, CHR 0x87], [CHR 0xE2, CHR 0x80, CHR 0x88],
     [CHR 0xE2, CHR 0x80, CHR 0x89], [CHR 0xE2, CHR 0x80, CHR 0x8A], [CHR 0xE2, CHR 0x80, CHR 0xA8],
     [CHR 0xE2, CHR 0x80, CHR 0xA9], [CHR 0xE2, CHR 0x80, CHR 0xAF], [CHR 0xE2, CHR 0x81, CHR 0x9F],
     [CHR 0xE3, CHR 0x80, CHR 0x80], [CHR 0xEF, CHR 0xBB, CHR 0xBF]]"

function strip_left :: "string list \<Rightarrow> string \<Rightarrow> string" where
  "strip_left ws s =
    (case find (\<lambda>w. w \<noteq> [] \<and> prefix w s) ws of
       None \<Rightarrow> s
     | Some w \<Rightarrow> strip_left ws (drop (length w) s))"
  by pat_completeness auto
termination
proof (relation "measure (\<lambda>(ws, s). length s)")
  fix ws :: "string list" and s w
  assume "find (\<lambda>w. w \<noteq> [] \<and> prefix w s) ws = Some w"
  then have "w \<noteq> []" "prefix w s" by (auto simp: find_Some_iff)
  then show "((ws, drop (length w) s), ws, s) \<in> measure (\<lambda>(ws, s). length s)"
    by (cases s) (auto simp: neq_Nil_conv)
qed simp

declare strip_left.simps [simp del]

definition trim :: "string \<Rightarrow> string" where
  "trim s = rev (strip_left (map rev white_space) (rev (strip_left white_space s)))"

lemma strip_left_stop: "\<forall>w\<in>set ws. w \<noteq> [] \<longrightarrow> \<not> prefix w s \<Longrightarrow> strip_left ws s = s"
  by (subst strip_left.simps) (auto simp: find_Some_iff split: option.split)

lemma strip_left_suffix: "suffix (strip_left ws s) s"
proof (induction ws s rule: strip_left.induct)
  case (1 ws s)
  show ?case
  proof (cases "find (\<lambda>w. w \<noteq> [] \<and> prefix w s) ws")
    case None
    then show ?thesis by (subst strip_left.simps) simp
  next
    case (Some w)
    with 1 have "suffix (strip_left ws (drop (length w) s)) (drop (length w) s)" by simp
    then have "suffix (strip_left ws (drop (length w) s)) s"
      using suffix_drop suffix_order.trans by blast
    with Some show ?thesis by (subst strip_left.simps) simp
  qed
qed

text \<open>\<open>s.replace(p, r)\<close> with a string pattern: the first occurrence.\<close>

fun replace_str :: "string \<Rightarrow> string \<Rightarrow> string \<Rightarrow> string" where
  "replace_str p r [] = []"
| "replace_str p r (c # s) = (if prefix p (c # s) then r @ drop (length p) (c # s) else c # replace_str p r s)"

section \<open>Decimal printing\<close>

definition digit_char :: "nat \<Rightarrow> char" where
  "digit_char d = char_of (48 + d)"

lemma digit_char_eval [simp]:
  "digit_char 0 = CHR ''0''" "digit_char 1 = CHR ''1''" "digit_char (Suc 0) = CHR ''1''"
  "digit_char 2 = CHR ''2''" "digit_char 3 = CHR ''3''" "digit_char 4 = CHR ''4''"
  "digit_char 5 = CHR ''5''" "digit_char 6 = CHR ''6''" "digit_char 7 = CHR ''7''"
  "digit_char 8 = CHR ''8''" "digit_char 9 = CHR ''9''"
  by code_simp+

definition is_digit :: "char \<Rightarrow> bool" where
  "is_digit c \<longleftrightarrow> of_char c \<ge> (48::nat) \<and> of_char c \<le> (57::nat)"

definition digit_val :: "char \<Rightarrow> nat" where
  "digit_val c = of_char c - 48"

fun show_nat :: "nat \<Rightarrow> string" where
  "show_nat n = (if n < 10 then [digit_char n] else show_nat (n div 10) @ [digit_char (n mod 10)])"

declare show_nat.simps [simp del]

definition show_int :: "int \<Rightarrow> string" where
  "show_int i = (if i < 0 then CHR ''-'' # show_nat (nat (- i)) else show_nat (nat i))"

definition dec_val :: "string \<Rightarrow> nat" where
  "dec_val s = foldl (\<lambda>a c. 10 * a + digit_val c) 0 s"

lemma digit_char_props [simp]:
  assumes "d < 10"
  shows "is_digit (digit_char d)" "digit_val (digit_char d) = d"
  using assms by (auto simp: is_digit_def digit_char_def digit_val_def)

lemma show_nat_digits: "c \<in> set (show_nat n) \<Longrightarrow> is_digit c"
proof (induction n rule: show_nat.induct)
  case (1 n)
  then show ?case by (subst (asm) (2) show_nat.simps) (auto split: if_splits)
qed

lemma show_nat_nonempty [simp]: "show_nat n \<noteq> []"
  by (subst show_nat.simps) simp

lemma dec_val_show_nat [simp]: "dec_val (show_nat n) = n"
proof (induction n rule: show_nat.induct)
  case (1 n)
  show ?case
  proof (cases "n < 10")
    case True
    then show ?thesis by (subst show_nat.simps) (simp add: dec_val_def)
  next
    case False
    with 1 have "dec_val (show_nat (n div 10)) = n div 10" by simp
    with False show ?thesis by (subst show_nat.simps) (simp add: dec_val_def)
  qed
qed

lemma show_nat_inject [simp]: "show_nat m = show_nat n \<longleftrightarrow> m = n"
  by (metis dec_val_show_nat)

lemma length_show_nat_less: "n < 10 ^ k \<Longrightarrow> 0 < k \<Longrightarrow> length (show_nat n) \<le> k"
proof (induction k arbitrary: n)
  case 0
  then show ?case by simp
next
  case (Suc k)
  show ?case
  proof (cases "n < 10")
    case True
    then show ?thesis by (subst show_nat.simps) simp
  next
    case False
    from Suc.prems have "n div 10 < 10 ^ k" by (simp add: less_mult_imp_div_less mult.commute)
    with False Suc.IH [of "n div 10"] have "length (show_nat (n div 10)) \<le> k"
      by (cases k) auto
    with False show ?thesis by (subst show_nat.simps) simp
  qed
qed

lemma dec_val_append: "dec_val (s @ t) = dec_val s * 10 ^ length t + dec_val t"
proof (induction t rule: rev_induct)
  case Nil
  then show ?case by (simp add: dec_val_def)
next
  case (snoc c t)
  have "dec_val (s @ t @ [c]) = 10 * dec_val (s @ t) + digit_val c"
    and "dec_val (t @ [c]) = 10 * dec_val t + digit_val c" by (simp_all add: dec_val_def)
  with snoc show ?case by (simp add: algebra_simps)
qed

lemma dec_val_replicate_zero [simp]: "dec_val (replicate n CHR ''0'') = 0"
  by (induction n) (simp_all add: dec_val_def digit_val_def)

lemma dec_val_pad_start [simp]: "dec_val (pad_start k CHR ''0'' s) = dec_val s"
  by (simp add: pad_start_def dec_val_append)

section \<open>Numbers with NaN and the infinities\<close>

datatype jsnum = Fin rat | PInf | NInf | NaN

text \<open>
  \<open>js_eq\<close> is \<open>===\<close> (\<open>NaN\<close> equals nothing), \<open>js_less\<close> is \<open><\<close> (false whenever an operand is
  \<open>NaN\<close>), \<open>js_minus\<close> is subtraction.
\<close>

definition js_eq :: "jsnum \<Rightarrow> jsnum \<Rightarrow> bool" where
  "js_eq a b \<longleftrightarrow> a \<noteq> NaN \<and> a = b"

fun js_less :: "jsnum \<Rightarrow> jsnum \<Rightarrow> bool" where
  "js_less (Fin x) (Fin y) = (x < y)"
| "js_less NaN b = False"
| "js_less a NaN = False"
| "js_less PInf b = False"
| "js_less a PInf = True"
| "js_less b NInf = False"
| "js_less NInf b = True"

fun js_minus :: "jsnum \<Rightarrow> jsnum \<Rightarrow> jsnum" where
  "js_minus (Fin x) (Fin y) = Fin (x - y)"
| "js_minus NaN b = NaN"
| "js_minus a NaN = NaN"
| "js_minus PInf PInf = NaN"
| "js_minus NInf NInf = NaN"
| "js_minus PInf b = PInf"
| "js_minus NInf b = NInf"
| "js_minus a PInf = NInf"
| "js_minus a NInf = PInf"

fun js_uminus :: "jsnum \<Rightarrow> jsnum" where
  "js_uminus (Fin x) = Fin (- x)"
| "js_uminus PInf = NInf"
| "js_uminus NInf = PInf"
| "js_uminus NaN = NaN"

text \<open>
  \<open>Number(s)\<close>: surrounding white space is dropped, the empty string is 0, \<open>0x\<close>, \<open>0o\<close> and
  \<open>0b\<close> start integer literals without a sign, otherwise an optionally signed decimal literal
  or \<open>Infinity\<close>; anything else is \<open>NaN\<close>.
\<close>

definition radix_digit :: "nat \<Rightarrow> char \<Rightarrow> nat option" where
  "radix_digit b c = (let n = of_char c :: nat;
     v = (if 48 \<le> n \<and> n \<le> 57 then n - 48 else if 97 \<le> n \<and> n \<le> 102 then n - 87
          else if 65 \<le> n \<and> n \<le> 70 then n - 55 else 99)
   in if v < b then Some v else None)"

fun radix_val :: "nat \<Rightarrow> nat \<Rightarrow> string \<Rightarrow> nat option" where
  "radix_val b a [] = Some a"
| "radix_val b a (c # s) =
    (case radix_digit b c of None \<Rightarrow> None | Some d \<Rightarrow> radix_val b (b * a + d) s)"

definition radix_literal :: "nat \<Rightarrow> string \<Rightarrow> jsnum" where
  "radix_literal b s =
    (if s = [] then NaN else case radix_val b 0 s of None \<Rightarrow> NaN | Some n \<Rightarrow> Fin (of_nat n))"

definition exponent_part :: "string \<Rightarrow> int option" where
  "exponent_part s = (case s of
      [] \<Rightarrow> Some 0
    | c # r \<Rightarrow>
       if c \<noteq> CHR ''e'' \<and> c \<noteq> CHR ''E'' then None
       else (let neg = (r \<noteq> [] \<and> hd r = CHR ''-'');
                 ds = (if r \<noteq> [] \<and> (hd r = CHR ''-'' \<or> hd r = CHR ''+'') then tl r else r)
             in if ds \<noteq> [] \<and> list_all is_digit ds
                then Some (if neg then - int (dec_val ds) else int (dec_val ds)) else None))"

definition scale10 :: "int \<Rightarrow> rat \<Rightarrow> rat" where
  "scale10 e x = (if 0 \<le> e then x * 10 ^ nat e else x / 10 ^ nat (- e))"

definition unsigned_literal :: "string \<Rightarrow> jsnum" where
  "unsigned_literal s =
    (if s = ''Infinity'' then PInf
     else (let ip = takeWhile is_digit s; r = dropWhile is_digit s;
               dotted = (r \<noteq> [] \<and> hd r = CHR ''.'');
               fp = (if dotted then takeWhile is_digit (tl r) else []);
               r2 = (if dotted then dropWhile is_digit (tl r) else r)
           in if ip = [] \<and> fp = [] then NaN
              else case exponent_part r2 of
                     None \<Rightarrow> NaN
                   | Some e \<Rightarrow> Fin (scale10 e (of_nat (dec_val (ip @ fp)) / 10 ^ length fp))))"

definition js_Number :: "string \<Rightarrow> jsnum" where
  "js_Number str =
    (let s = trim str in
     if s = [] then Fin 0
     else if prefix ''0x'' s \<or> prefix ''0X'' s then radix_literal 16 (drop 2 s)
     else if prefix ''0o'' s \<or> prefix ''0O'' s then radix_literal 8 (drop 2 s)
     else if prefix ''0b'' s \<or> prefix ''0B'' s then radix_literal 2 (drop 2 s)
     else if hd s = CHR ''-'' then js_uminus (unsigned_literal (tl s))
     else if hd s = CHR ''+'' then unsigned_literal (tl s)
     else unsigned_literal s)"

lemma white_space_chars: "w \<in> set white_space \<Longrightarrow> w \<noteq> [] \<and> (\<forall>c\<in>set w. \<not> is_digit c)"
  unfolding white_space_def by (auto simp: is_digit_def)

lemma strip_left_digits:
  assumes "\<forall>c\<in>set s. is_digit c" and "\<forall>w\<in>set ws. w \<noteq> [] \<and> (\<forall>c\<in>set w. \<not> is_digit c)"
  shows "strip_left ws s = s"
proof (rule strip_left_stop, intro ballI impI notI)
  fix w assume "w \<in> set ws" "w \<noteq> []" "prefix w s"
  then have "hd w \<in> set w" "set w \<subseteq> set s" by (auto dest!: set_mono_prefix)
  with assms \<open>w \<in> set ws\<close> show False by blast
qed

lemma trim_digits: "\<forall>c\<in>set s. is_digit c \<Longrightarrow> trim s = s"
  unfolding trim_def
  by (subst strip_left_digits, simp, use white_space_chars in blast)
     (subst strip_left_digits, use white_space_chars in auto)

lemma js_Number_digits:
  assumes "\<forall>c\<in>set s. is_digit c" and "s \<noteq> []"
  shows "js_Number s = Fin (of_nat (dec_val s))"
proof -
  have "x \<noteq> CHR ''x'' \<and> x \<noteq> CHR ''X'' \<and> x \<noteq> CHR ''o'' \<and> x \<noteq> CHR ''O'' \<and> x \<noteq> CHR ''b''
      \<and> x \<noteq> CHR ''B'' \<and> x \<noteq> CHR ''-'' \<and> x \<noteq> CHR ''+'' \<and> x \<noteq> CHR ''I''" if "x \<in> set s" for x
    using assms that by (auto simp: is_digit_def)
  note no = this
  have pre: "\<not> prefix ''0x'' s" "\<not> prefix ''0X'' s" "\<not> prefix ''0o'' s" "\<not> prefix ''0O'' s"
    "\<not> prefix ''0b'' s" "\<not> prefix ''0B'' s"
    by (use no [of "CHR ''x''"] no [of "CHR ''X''"] no [of "CHR ''o''"] no [of "CHR ''O''"]
      no [of "CHR ''b''"] no [of "CHR ''B''"] in \<open>auto dest!: set_mono_prefix\<close>)
  have hd: "hd s \<noteq> CHR ''-''" "hd s \<noteq> CHR ''+''" "s \<noteq> ''Infinity''"
    using no [of "hd s"] assms(2) by auto
  have sp: "takeWhile is_digit s = s" "dropWhile is_digit s = []"
    using assms by (auto simp: takeWhile_eq_all_conv dropWhile_eq_Nil_conv)
  have "unsigned_literal s = Fin (of_nat (dec_val s))"
    using hd assms(2) by (simp add: unsigned_literal_def sp exponent_part_def scale10_def)
  then show ?thesis
    using pre hd assms by (simp add: js_Number_def trim_digits)
qed

lemma js_Number_show_nat [simp]: "js_Number (show_nat n) = Fin (of_nat n)"
  by (simp add: js_Number_digits show_nat_digits)

section \<open>Rounding\<close>

text \<open>
  The value printed by \<open>x.toFixed(d)\<close>: the multiple of \<open>10^-d\<close> closest to \<open>x\<close>, the one of
  larger magnitude when two are equally close.
\<close>

definition to_fixed :: "nat \<Rightarrow> rat \<Rightarrow> rat" where
  "to_fixed d x =
    (let r = of_int \<lfloor>\<bar>x\<bar> * 10 ^ d + 1 / 2\<rfloor> / 10 ^ d in if x < 0 then - r else r)"

lemma to_fixed_error: "\<bar>to_fixed d x - x\<bar> \<le> 1 / (2 * 10 ^ d)"
proof -
  define n where "n = (of_int \<lfloor>\<bar>x\<bar> * 10 ^ d + 1 / 2\<rfloor> :: rat)"
  have "n \<le> \<bar>x\<bar> * 10 ^ d + 1 / 2" "\<bar>x\<bar> * 10 ^ d + 1 / 2 < n + 1"
    unfolding n_def by linarith+
  then have b: "\<bar>n - \<bar>x\<bar> * 10 ^ d\<bar> \<le> 1 / 2" by linarith
  have "n / 10 ^ d - \<bar>x\<bar> = (n - \<bar>x\<bar> * 10 ^ d) / 10 ^ d" by (simp add: diff_divide_distrib)
  then have "\<bar>n / 10 ^ d - \<bar>x\<bar>\<bar> = \<bar>n - \<bar>x\<bar> * 10 ^ d\<bar> / 10 ^ d" by simp
  also have "\<dots> \<le> (1 / 2) / 10 ^ d" using b by (intro divide_right_mono) auto
  finally have "\<bar>n / 10 ^ d - \<bar>x\<bar>\<bar> \<le> 1 / (2 * 10 ^ d)" by simp
  then show ?thesis
    unfolding to_fixed_def Let_def n_def [symmetric] by (auto simp: abs_if split: if_splits)
qed

text \<open>The remainder \<open>a % b\<close> of integers takes the sign of \<open>a\<close>.\<close>

definition js_rem :: "int \<Rightarrow> int \<Rightarrow> int" where
  "js_rem a b = sgn a * (\<bar>a\<bar> mod \<bar>b\<bar>)"

lemma js_rem_nonneg: "0 \<le> a \<Longrightarrow> 0 < b \<Longrightarrow> js_rem a b = a mod b"
  by (cases "a = 0") (simp_all add: js_rem_def)

section \<open>Code points\<close>

text \<open>
  \<open>for (const c of s)\<close> visits code points. A well-formed UTF-8 string is decoded; a byte that
  starts no complete sequence is passed through on its own.
\<close>

definition cont_byte :: "char \<Rightarrow> bool" where
  "cont_byte c \<longleftrightarrow> of_char c div (64::nat) = 2"

definition cbits :: "char \<Rightarrow> nat" where
  "cbits c = of_char c mod 64"

fun code_points :: "string \<Rightarrow> nat list" where
  "code_points [] = []"
| "code_points (a # b # c # d # s) =
    (let n = of_char a in
     if 240 \<le> n \<and> n < 248 \<and> cont_byte b \<and> cont_byte c \<and> cont_byte d
     then ((n mod 8) * 262144 + cbits b * 4096 + cbits c * 64 + cbits d) # code_points s
     else if 224 \<le> n \<and> n < 240 \<and> cont_byte b \<and> cont_byte c
     then ((n mod 16) * 4096 + cbits b * 64 + cbits c) # code_points (d # s)
     else if 192 \<le> n \<and> n < 224 \<and> cont_byte b
     then ((n mod 32) * 64 + cbits b) # code_points (c # d # s)
     else n # code_points (b # c # d # s))"
| "code_points [a, b, c] =
    (let n = of_char a in
     if 224 \<le> n \<and> n < 240 \<and> cont_byte b \<and> cont_byte c
     then [(n mod 16) * 4096 + cbits b * 64 + cbits c]
     else if 192 \<le> n \<and> n < 224 \<and> cont_byte b
     then ((n mod 32) * 64 + cbits b) # code_points [c]
     else n # code_points [b, c])"
| "code_points [a, b] =
    (let n = of_char a in
     if 192 \<le> n \<and> n < 224 \<and> cont_byte b then [(n mod 32) * 64 + cbits b]
     else n # code_points [b])"
| "code_points [a] = [of_char a]"

definition utf8_encode :: "nat \<Rightarrow> string" where
  "utf8_encode n =
    (if n < 128 then [char_of n]
     else if n < 2048 then [char_of (192 + n div 64), char_of (128 + n mod 64)]
     else if n < 65536
     then [char_of (224 + n div 4096), char_of (128 + n div 64 mod 64), char_of (128 + n mod 64)]
     else [char_of (240 + n div 262144), char_of (128 + n div 4096 mod 64),
           char_of (128 + n div 64 mod 64), char_of (128 + n mod 64)])"

end
