(* ===== verification/Types.thy ===== *)
theory Types
  imports JsValues
begin

text \<open>
  The data model: \<^verbatim>\<open>lib/enums.ts\<close> as datatypes and the interfaces of
  \<^verbatim>\<open>types.d.ts\<close> the modelled code reads as records. Field names carry a prefix of their
  record; an optional field \<open>x?: T\<close> is an \<open>option\<close> (\<open>None\<close> is \<open>undefined\<close>), a
  \<open>Record<string, T>\<close> an insertion-ordered dictionary. \<open>si_cpu\<close> is optional although the
  interface declares it: a system that never reported has no \<open>cpu\<close> in its \<open>info\<close>, which
  \<open>validateSystemInfo\<close> checks; likewise the byte rates of an extra filesystem, which older
  agents do not send and the charts replace by the megabyte values. Of PocketBase's \<open>RecordModel\<close> only
  \<open>id\<close> is kept, the one field of it that the code reads.
\<close>

section \<open>Enumerations\<close>

datatype Os = Linux | Darwin | Windows | FreeBSD

datatype ChartType = CT_Memory | CT_Disk | CT_Network | CT_CPU

datatype Unit = Bytes | Bits | Celsius | Fahrenheit

datatype MeterState = Good | Warn | Crit

datatype SystemStatus = Up | Down | Pending | Paused

datatype BatteryState = Bat_Unknown | Bat_Empty | Bat_Full | Bat_Charging | Bat_Discharging | Bat_Idle

datatype HourFormat = H12 | H24

datatype ContainerHealth = Health_None | Health_Starting | Health_Healthy | Health_Unhealthy

definition ContainerHealthLabels :: "string list" where
  "ContainerHealthLabels = [''None'', ''Starting'', ''Healthy'', ''Unhealthy'']"

datatype ConnectionType = SSH | WebSocket

definition connectionTypeLabels :: "string list" where
  "connectionTypeLabels = ['''', ''SSH'', ''WebSocket'']"

datatype ServiceStatus =
  Svc_Active | Svc_Inactive | Svc_Failed | Svc_Activating | Svc_Deactivating | Svc_Reloading

definition ServiceStatusLabels :: "string list" where
  "ServiceStatusLabels =
    [''Active'', ''Inactive'', ''Failed'', ''Activating'', ''Deactivating'', ''Reloading'']"

datatype ServiceSubState = Sub_Dead | Sub_Running | Sub_Exited | Sub_Failed | Sub_Unknown

definition ServiceSubStateLabels :: "string list" where
  "ServiceSubStateLabels = [''Dead'', ''Running'', ''Exited'', ''Failed'', ''Unknown'']"

text \<open>
  The enumerations are numeric in TypeScript (0, 1, \<dots>; \<open>ConnectionType\<close> starts at 1); these
  are the numbers the code uses as array indices or compares.
\<close>

fun os_code :: "Os \<Rightarrow> nat" where
  "os_code Linux = 0" | "os_code Darwin = 1" | "os_code Windows = 2" | "os_code FreeBSD = 3"

fun meter_code :: "MeterState \<Rightarrow> nat" where
  "meter_code Good = 0" | "meter_code Warn = 1" | "meter_code Crit = 2"

fun connection_code :: "ConnectionType \<Rightarrow> nat" where
  "connection_code SSH = 1" | "connection_code WebSocket = 2"

fun service_status_code :: "ServiceStatus \<Rightarrow> nat" where
  "service_status_code Svc_Active = 0" | "service_status_code Svc_Inactive = 1"
| "service_status_code Svc_Failed = 2" | "service_status_code Svc_Activating = 3"
| "service_status_code Svc_Deactivating = 4" | "service_status_code Svc_Reloading = 5"

fun service_sub_code :: "ServiceSubState \<Rightarrow> nat" where
  "service_sub_code Sub_Dead = 0" | "service_sub_code Sub_Running = 1"
| "service_sub_code Sub_Exited = 2" | "service_sub_code Sub_Failed = 3"
| "service_sub_code Sub_Unknown = 4"

fun battery_code :: "BatteryState \<Rightarrow> nat" where
  "battery_code Bat_Unknown = 0" | "battery_code Bat_Empty = 1" | "battery_code Bat_Full = 2"
| "battery_code Bat_Charging = 3" | "battery_code Bat_Discharging = 4" | "battery_code Bat_Idle = 5"

text \<open>Meter states are ordered as their numbers are.\<close>

instantiation MeterState :: linorder
begin

definition less_eq_MeterState :: "MeterState \<Rightarrow> MeterState \<Rightarrow> bool" where
  "less_eq_MeterState a b \<longleftrightarrow> meter_code a \<le> meter_code b"

definition less_MeterState :: "MeterState \<Rightarrow> MeterState \<Rightarrow> bool" where
  "less_MeterState a b \<longleftrightarrow> meter_code a < meter_code b"

instance
proof
  fix a b :: MeterState
  show "a \<le> b \<Longrightarrow> b \<le> a \<Longrightarrow> a = b"
    by (cases a; cases b) (auto simp: less_eq_MeterState_def)
qed (auto simp: less_eq_MeterState_def less_MeterState_def)

end

section \<open>Records\<close>

record FingerprintRecord =
  fp_id :: string
  fp_system :: string
  fp_fingerprint :: string
  fp_token :: string
  fp_system_name :: string

record SystemInfo =
  si_h :: string
  si_k :: "string option"
  si_cpu :: "rat option"
  si_t :: "int option"
  si_c :: int
  si_m :: string
  si_l1 :: "rat option"
  si_l5 :: "rat option"
  si_l15 :: "rat option"
  si_la :: "(rat \<times> rat \<times> rat) option"
  si_o :: "string option"
  si_u :: rat
  si_mp :: rat
  si_dp :: rat
  si_bat :: "(rat \<times> BatteryState) option"
  si_b :: rat
  si_bb :: "rat option"
  si_v :: string
  si_p :: "bool option"
  si_g :: "rat option"
  si_dt :: "rat option"
  si_os :: "Os option"
  si_ct :: "ConnectionType option"
  si_efs :: "(string, rat) dict option"
  si_sv :: "(int \<times> int) option"
  si_pu :: "int option"
  si_pus :: "int option"
  si_rb :: "bool option"

record SystemRecord =
  sys_id :: string
  sys_name :: string
  sys_host :: string
  sys_status :: SystemStatus
  sys_port :: string
  sys_info :: SystemInfo
  sys_v :: string
  sys_updated :: string

record PackageUpdate =
  pu_n :: string
  pu_cv :: "string option"
  pu_av :: "string option"
  pu_hd :: "bool option"
  pu_sec :: "bool option"

record GPUData =
  gpu_n :: string
  gpu_mu :: "rat option"
  gpu_mt :: "rat option"
  gpu_u :: rat
  gpu_p :: "rat option"
  gpu_pp :: "rat option"
  gpu_e :: "(string, rat) dict option"

record ExtraFsStats =
  fs_d :: rat
  fs_du :: rat
  fs_r :: rat
  fs_w :: rat
  fs_rm :: rat
  fs_wm :: rat
  fs_rb :: "rat option"
  fs_wb :: "rat option"
  fs_rbm :: "rat option"
  fs_wbm :: "rat option"

record SystemStats =
  st_cpu :: rat
  st_cpum :: "rat option"
  st_cpub :: "rat list option"
  st_cpus :: "rat list option"
  st_l1 :: "rat option"
  st_l5 :: "rat option"
  st_l15 :: "rat option"
  st_la :: "(rat \<times> rat \<times> rat) option"
  st_m :: rat
  st_mu :: rat
  st_mp :: rat
  st_mb :: rat
  st_mm :: "rat option"
  st_mz :: "rat option"
  st_s :: rat
  st_su :: rat
  st_d :: rat
  st_du :: rat
  st_dp :: rat
  st_dr :: rat
  st_dw :: rat
  st_drm :: "rat option"
  st_dwm :: "rat option"
  st_dio :: "(rat \<times> rat) option"
  st_diom :: "(rat \<times> rat) option"
  st_ns :: rat
  st_nr :: rat
  st_b :: "(rat \<times> rat) option"
  st_nsm :: "rat option"
  st_nrm :: "rat option"
  st_bm :: "(rat \<times> rat) option"
  st_t :: "(string, rat) dict option"
  st_efs :: "(string, ExtraFsStats) dict option"
  st_g :: "(string, GPUData) dict option"
  st_bat :: "(rat \<times> BatteryState) option"
  st_ni :: "(string, rat \<times> rat \<times> rat \<times> rat) dict option"

record ContainerStats =
  cs_n :: string
  cs_c :: rat
  cs_m :: rat
  cs_ns :: "rat option"
  cs_nr :: "rat option"
  cs_b :: "(rat \<times> rat) option"

record AlertRecord =
  al_id :: string
  al_system :: string
  al_name :: string
  al_triggered :: bool
  al_value :: rat
  al_min :: int

record AlertsHistoryRecord =
  ah_id :: string
  ah_alert :: string
  ah_user :: string
  ah_system :: string
  ah_name :: string
  ah_val :: rat
  ah_created :: string
  ah_resolved :: "string option"
  ah_system_name :: "string option"

datatype QuietHoursType = OneTime | Daily

record QuietHoursRecord =
  qh_id :: string
  qh_user :: string
  qh_system :: string
  qh_type :: QuietHoursType
  qh_start :: string
  qh_end :: string
  qh_system_name :: "string option"

record ContainerRecord =
  cr_id :: string
  cr_system :: string
  cr_name :: string
  cr_image :: string
  cr_cpu :: rat
  cr_memory :: rat
  cr_net :: rat
  cr_health :: nat
  cr_status :: string
  cr_updated :: int

datatype ChartTimes = T_1m | T_1h | T_12h | T_24h | T_1w | T_30d

record QuickLink =
  ql_id :: string
  ql_name :: string
  ql_localUrl :: string
  ql_domainUrl :: string
  ql_category :: "string option"

record ExternalLink =
  el_id :: string
  el_label :: string
  el_url :: string
  el_icon :: string
  el_category :: "string option"

record UserSettings =
  us_chartTime :: "ChartTimes option"
  us_emails :: "string list option"
  us_webhooks :: "string list option"
  us_unitTemp :: "Unit option"
  us_unitNet :: "Unit option"
  us_unitDisk :: "Unit option"
  us_colorWarn :: "rat option"
  us_colorCrit :: "rat option"
  us_hourFormat :: "HourFormat option"
  us_layoutWidth :: "int option"
  us_quickLinks :: "QuickLink list option"
  us_externalLinks :: "ExternalLink list option"

record SemVer =
  sv_major :: jsnum
  sv_minor :: jsnum
  sv_patch :: jsnum

record SmartAttribute =
  sa_id :: "int option"
  sa_n :: string
  sa_v :: rat
  sa_w :: "rat option"
  sa_t :: "rat option"
  sa_rv :: "rat option"
  sa_rs :: "string option"
  sa_wf :: "string option"

record SmartDeviceRecord =
  sd_id :: string
  sd_system :: string
  sd_name :: string
  sd_model :: string
  sd_state :: string
  sd_capacity :: rat
  sd_temp :: rat
  sd_firmware :: string
  sd_serial :: string
  sd_type :: string
  sd_hours :: rat
  sd_cycles :: rat
  sd_attributes :: "SmartAttribute list"
  sd_updated :: string

record SystemDetailsRecord =
  det_system :: string
  det_hostname :: string
  det_kernel :: string
  det_cores :: int
  det_threads :: int
  det_cpu :: string
  det_os :: Os
  det_os_name :: string
  det_memory :: rat
  det_podman :: bool

record SystemdRecord =
  sds_id :: string
  sds_system :: string
  sds_name :: string
  sds_state :: ServiceStatus
  sds_sub :: ServiceSubState
  sds_cpu :: rat
  sds_cpuPeak :: rat
  sds_memory :: rat
  sds_memPeak :: rat
  sds_updated :: int

text \<open>A PocketBase realtime message: the action and the record.\<close>

datatype PbAction = Create | Update | Delete

end
