(* ===== verification/Utils.thy ===== *)
theory Utils
  imports Types
begin

text \<open>
  \<^verbatim>\<open>lib/utils.ts\<close>: formatting of bytes, temperatures, durations and versions, the chart
  time table, browser storage, and the wrappers \<open>debounce\<close> and \<open>runOnce\<close>.

  Parameters stand for what the browser or a package computes: \<open>Intl\<close> formatters,
  \<open>Date.parse\<close> (\<open>None\<close> is an invalid date), \<open>JSON\<close>, \<open>crypto\<close>, d3-time's interval
  arithmetic, and Lingui's plural rules.
\<close>

section \<open>Clipboard and time formatters\<close>

text \<open>
  \<open>copyToClipboard\<close>: on success a toast of 1500 ms is shown, on failure the content goes to
  the \<open>$copyContent\<close> store (whose dialog shows it). The result is the toast's duration and
  description, if any, and the new value of the store.
\<close>

definition copyToClipboard :: "bool \<Rightarrow> string \<Rightarrow> string \<Rightarrow> (int \<times> string) option \<times> string" where
  "copyToClipboard writeOk content copyContent =
    (if writeOk then (Some (1500, ''Copied to clipboard''), copyContent) else (None, content))"

text \<open>
  The three hour formatters, each with the \<open>hour12\<close> option it was created with (\<open>None\<close> is the
  locale's default, which \<open>resolvedOptions\<close> resolves to \<open>dflt\<close>).
\<close>

record Formatters =
  fm_hourWithMinutes :: "bool option"
  fm_shortDate :: "bool option"
  fm_hourWithSeconds :: "bool option"

definition init_formatters :: Formatters where
  "init_formatters =
    \<lparr>fm_hourWithMinutes = None, fm_shortDate = None, fm_hourWithSeconds = None\<rparr>"

definition resolved_hour12 :: "bool \<Rightarrow> bool option \<Rightarrow> bool" where
  "resolved_hour12 dflt h = (case h of None \<Rightarrow> dflt | Some b \<Rightarrow> b)"

definition currentHour12 :: "bool \<Rightarrow> Formatters \<Rightarrow> bool" where
  "currentHour12 dflt f = resolved_hour12 dflt (fm_shortDate f)"

definition on_hourFormat :: "bool \<Rightarrow> HourFormat option \<Rightarrow> Formatters \<Rightarrow> Formatters" where
  "on_hourFormat dflt hourFormat f =
    (case hourFormat of
       None \<Rightarrow> f
     | Some h \<Rightarrow>
        (let newHour12 = (h = H12) in
         if currentHour12 dflt f \<noteq> newHour12
         then \<lparr>fm_hourWithMinutes = Some newHour12, fm_shortDate = Some newHour12,
               fm_hourWithSeconds = Some newHour12\<rparr>
         else f))"

text \<open>The formatters always agree, and after a change they use the requested format.\<close>

definition formatters_agree :: "Formatters \<Rightarrow> bool" where
  "formatters_agree f \<longleftrightarrow>
    fm_hourWithMinutes f = fm_shortDate f \<and> fm_hourWithSeconds f = fm_shortDate f"

lemma formatters_agree_fold: "formatters_agree (foldl (\<lambda>f h. on_hourFormat dflt h f) init_formatters hs)"
proof (induction hs rule: rev_induct)
  case Nil
  then show ?case by (simp add: formatters_agree_def init_formatters_def)
next
  case (snoc h hs)
  then show ?case
    by (auto simp: formatters_agree_def on_hourFormat_def Let_def split: option.split)
qed

section \<open>Favicon\<close>

text \<open>
  \<open>updateFavicon\<close> keeps the last count and redraws only on a change. The drawing is the
  static markup \<open>head\<close> and \<open>tail\<close> around \<open>${downCount > 0 && badge}\<close>, which for a count of
  0 is the text \<open>false\<close>.
\<close>

definition favicon_badge :: "int \<Rightarrow> string" where
  \<open>favicon_badge downCount =
    (if downCount > 0
     then [CHR 0x0A, CHR 0x09, CHR 0x09] @ ''<circle cx="40" cy="50" r="22" fill="#f00"/>''
          @ [CHR 0x0A] @ ''  '' @ [CHR 0x09]
          @ ''<text x="40" y="60" font-size="34" text-anchor="middle" fill="#fff" font-family="Arial" font-weight="bold">''
          @ show_int downCount @ ''</text>'' @ [CHR 0x0A, CHR 0x09]
     else ''false'')\<close>

definition updateFavicon ::
  "string \<Rightarrow> string \<Rightarrow> int \<Rightarrow> int \<Rightarrow> int \<times> string option" where
  "updateFavicon head tail prevDownCount downCount =
    (if downCount = prevDownCount then (prevDownCount, None)
     else (downCount, Some (head @ favicon_badge downCount @ tail)))"

section \<open>Chart time ranges\<close>

datatype D3Interval = TimeMinute | TimeHour | TimeDay

record ChartTimeEntry =
  ct_type :: string
  ct_expectedInterval :: int
  ct_ticks :: "nat option"
  ct_offset :: "D3Interval \<times> int"
  ct_minVersion :: "string option"

fun chartTimeData :: "ChartTimes \<Rightarrow> ChartTimeEntry" where
  "chartTimeData T_1m = \<lparr>ct_type = ''1m'', ct_expectedInterval = 2000, ct_ticks = Some 3,
     ct_offset = (TimeMinute, -1), ct_minVersion = Some ''0.13.0''\<rparr>"
| "chartTimeData T_1h = \<lparr>ct_type = ''1m'', ct_expectedInterval = 60000, ct_ticks = None,
     ct_offset = (TimeHour, -1), ct_minVersion = None\<rparr>"
| "chartTimeData T_12h = \<lparr>ct_type = ''10m'', ct_expectedInterval = 60000 * 10, ct_ticks = Some 12,
     ct_offset = (TimeHour, -12), ct_minVersion = None\<rparr>"
| "chartTimeData T_24h = \<lparr>ct_type = ''20m'', ct_expectedInterval = 60000 * 20, ct_ticks = None,
     ct_offset = (TimeHour, -24), ct_minVersion = None\<rparr>"
| "chartTimeData T_1w = \<lparr>ct_type = ''120m'', ct_expectedInterval = 60000 * 120, ct_ticks = Some 7,
     ct_offset = (TimeDay, -7), ct_minVersion = None\<rparr>"
| "chartTimeData T_30d = \<lparr>ct_type = ''480m'', ct_expectedInterval = 60000 * 480, ct_ticks = Some 30,
     ct_offset = (TimeDay, -30), ct_minVersion = None\<rparr>"

text \<open>\<open>getOffset(endTime)\<close>, with d3's \<open>interval.offset(date, step)\<close> as a parameter.\<close>

definition getOffset :: "(D3Interval \<Rightarrow> int \<Rightarrow> int \<Rightarrow> int) \<Rightarrow> ChartTimes \<Rightarrow> int \<Rightarrow> int" where
  "getOffset offset ct endTime = offset (fst (ct_offset (chartTimeData ct))) endTime (snd (ct_offset (chartTimeData ct)))"

lemma expectedInterval_pos: "0 < ct_expectedInterval (chartTimeData ct)"
  by (cases ct) auto

section \<open>Decimals\<close>

definition toFixedFloat :: "rat \<Rightarrow> nat \<Rightarrow> rat" where
  "toFixedFloat num digits = to_fixed digits (if digits = 0 then of_int \<lceil>num\<rceil> else num)"

text \<open>
  \<open>decimalString\<close> with its cache of \<open>Intl.NumberFormat\<close> objects: \<open>mk digits\<close> is the formatter
  with that many fraction digits.
\<close>

definition decimalString ::
  "(nat \<Rightarrow> rat \<Rightarrow> string) \<Rightarrow> (nat, rat \<Rightarrow> string) dict \<Rightarrow> rat \<Rightarrow> nat
   \<Rightarrow> string \<times> (nat, rat \<Rightarrow> string) dict" where
  "decimalString mk cache num digits =
    (if digits = 0 then (show_int \<lceil>num\<rceil>, cache)
     else (case dget cache digits of
             Some formatter \<Rightarrow> (formatter num, cache)
           | None \<Rightarrow> (mk digits num, dset digits (mk digits) cache)))"

lemma decimalString_cache:
  assumes "\<And>d f. dget cache d = Some f \<Longrightarrow> f = mk d"
  shows "fst (decimalString mk cache num digits) =
           (if digits = 0 then show_int \<lceil>num\<rceil> else mk digits num)"
    and "dget (snd (decimalString mk cache num digits)) d = Some f \<Longrightarrow> f = mk d"
  using assms by (auto simp: decimalString_def split: if_splits option.splits)

lemma to_fixed_0_int: "to_fixed 0 (of_int i) = of_int i"
proof -
  have "\<lfloor>rat_of_int \<bar>i\<bar> + 1 / 2\<rfloor> = \<bar>i\<bar>" by linarith
  then show ?thesis by (auto simp: to_fixed_def Let_def simp flip: of_int_abs)
qed

lemma toFixedFloat_0: "toFixedFloat num 0 = of_int \<lceil>num\<rceil>"
  by (simp add: toFixedFloat_def to_fixed_0_int)

section \<open>Browser storage\<close>

text \<open>
  A stored value is a string; the empty string is falsy and counts as absent. \<open>parse\<close> and
  \<open>stringify\<close> are \<open>JSON.parse\<close> and \<open>JSON.stringify\<close>.
\<close>

definition getStorageValue ::
  "(string \<Rightarrow> 'a) \<Rightarrow> string \<Rightarrow> 'a \<Rightarrow> (string, string) dict \<Rightarrow> 'a" where
  "getStorageValue parse key defaultValue storage =
    (case dget storage key of
       None \<Rightarrow> defaultValue
     | Some saved \<Rightarrow> if saved = [] then defaultValue else parse saved)"

text \<open>\<open>useBrowserStorage\<close>: the initial state of the hook and the effect after each change.\<close>

definition browserStorage_init ::
  "(string \<Rightarrow> 'a) \<Rightarrow> string \<Rightarrow> 'a \<Rightarrow> (string, string) dict \<Rightarrow> 'a" where
  "browserStorage_init parse key defaultValue storage =
    getStorageValue parse (''besz-'' @ key) defaultValue storage"

definition browserStorage_effect ::
  "('a \<Rightarrow> string) \<Rightarrow> string \<Rightarrow> 'a \<Rightarrow> (string, string) dict \<Rightarrow> (string, string) dict" where
  "browserStorage_effect stringify key v storage = dset (''besz-'' @ key) (stringify v) storage"

section \<open>Units\<close>

text \<open>\<open>Unit.Bytes\<close> is 0, so a unit of \<open>Bytes\<close> is falsy in \<open>!unit\<close> and \<open>||\<close>.\<close>

definition unit_or :: "Unit option \<Rightarrow> Unit \<Rightarrow> Unit" where
  "unit_or u d = (case u of None \<Rightarrow> d | Some v \<Rightarrow> if v = Bytes then d else v)"

definition formatTemperature :: "UserSettings \<Rightarrow> rat \<Rightarrow> Unit option \<Rightarrow> rat \<times> string" where
  "formatTemperature settings celsius unit =
    (let u = unit_or unit (unit_or (us_unitTemp settings) Celsius)
     in if u = Fahrenheit then (celsius * (18 / 10) + 32, [CHR 0xC2, CHR 0xB0] @ ''F'')
        else (celsius, [CHR 0xC2, CHR 0xB0] @ ''C''))"

definition formatBytes :: "rat \<Rightarrow> bool \<Rightarrow> Unit \<Rightarrow> bool \<Rightarrow> rat \<times> string" where
  "formatBytes size0 perSecond unit isMegabytes =
    (let size = (if isMegabytes then size0 * (1024 * 1024) else size0) in
     if unit = Bits then
       (let bits = size * 8; suffix = (if perSecond then ''ps'' else '''') in
        if bits < 1000 then (bits, ''b'' @ suffix)
        else if bits < 1000000 then (bits / 1000, ''Kb'' @ suffix)
        else if bits < 1000000000 then (bits / 1000000, ''Mb'' @ suffix)
        else if bits < 1000000000000 then (bits / 1000000000, ''Gb'' @ suffix)
        else (bits / 1000000000000, ''Tb'' @ suffix))
     else
       (let suffix = (if perSecond then ''/s'' else '''') in
        if size < 100 then (size, ''B'' @ suffix)
        else if size < 1000 * 1024 then (size / 1024, ''KB'' @ suffix)
        else if size < 1000 * 1024 ^ 2 then (size / 1024 ^ 2, ''MB'' @ suffix)
        else if size < 1000 * 1024 ^ 3 then (size / 1024 ^ 3, ''GB'' @ suffix)
        else (size / 1024 ^ 4, ''TB'' @ suffix)))"

section \<open>Hosts and tokens\<close>

definition getHostDisplayValue :: "SystemRecord \<Rightarrow> string" where
  "getHostDisplayValue system =
    drop (nat (last_index_of CHR ''/'' (sys_host system) + 1)) (sys_host system)"

text \<open>
  \<open>generateToken\<close>: \<open>crypto.randomUUID()\<close> (\<open>None\<close> when it throws, in an insecure context),
  otherwise two random hexadecimal numbers, each with its first \<open>.\<close> replaced, joined by \<open>-\<close>.
\<close>

fun replace_first :: "char \<Rightarrow> char \<Rightarrow> string \<Rightarrow> string" where
  "replace_first a b [] = []"
| "replace_first a b (c # s) = (if c = a then b # s else c # replace_first a b s)"

definition generateToken :: "string option \<Rightarrow> string \<Rightarrow> string \<Rightarrow> string" where
  "generateToken uuid r1 r2 =
    (case uuid of
       Some u \<Rightarrow> u
     | None \<Rightarrow> join ''-'' [replace_first CHR ''.'' CHR ''-'' r1, replace_first CHR ''.'' CHR ''-'' r2])"

definition getHubURL :: "string option \<Rightarrow> string \<Rightarrow> string" where
  "getHubURL hubUrl origin = (case hubUrl of None \<Rightarrow> origin | Some u \<Rightarrow> if u = [] then origin else u)"

type_synonym tokenMap = "(string, string) dict"

section \<open>Durations\<close>

text \<open>
  \<open>formatDuration\<close>: the hours, minutes and seconds shown, and the string. \<open>parse\<close> is
  \<open>Date.parse\<close>; with an invalid date every part is \<open>NaN\<close>, hence falsy, and the result is the
  empty string.
\<close>

definition duration_round :: "int \<Rightarrow> int \<Rightarrow> int \<Rightarrow> int \<times> int \<times> int" where
  "duration_round hours0 minutes0 seconds0 =
    (let (minutes, seconds) = (if seconds0 \<ge> 58 then (minutes0 + 1, 0) else (minutes0, seconds0))
     in if minutes \<ge> 60 then (hours0 + 1, 0, seconds) else (hours0, minutes, seconds))"

definition duration_parts :: "int \<Rightarrow> int \<times> int \<times> int" where
  "duration_parts diffMs =
    (let totalSeconds = diffMs div 1000
     in duration_round (totalSeconds div 3600) (totalSeconds mod 3600 div 60) (totalSeconds mod 60))"

definition unit_part :: "int \<Rightarrow> char \<Rightarrow> string list" where
  "unit_part n u = (if n \<noteq> 0 then [show_int n @ [u]] else [])"

definition formatDuration ::
  "(string \<Rightarrow> int option) \<Rightarrow> string option \<Rightarrow> string option \<Rightarrow> string" where
  "formatDuration parse createdDate resolvedDate =
    (case (createdDate, resolvedDate) of
       (Some c, Some r) \<Rightarrow>
         if c = [] \<or> r = [] then []
         else (case (parse c, parse r) of
                 (Some created, Some resolved) \<Rightarrow>
                   (let diffMs = resolved - created in
                    if diffMs < 0 then []
                    else (let (hours, minutes, seconds) = duration_parts diffMs in
                          if hours > 0
                          then join '' '' (unit_part hours CHR ''h'' @ unit_part minutes CHR ''m'')
                          else join '' '' (unit_part hours CHR ''h'' @ unit_part minutes CHR ''m''
                                           @ unit_part seconds CHR ''s'')))
               | _ \<Rightarrow> [])
     | _ \<Rightarrow> [])"

section \<open>Semantic versions\<close>

definition parseSemVer :: "string \<Rightarrow> SemVer" where
  "parseSemVer semVer =
    (let s = (if CHR ''-'' \<in> set semVer then before_char CHR ''-'' semVer else semVer);
         parts = map js_Number (split_on CHR ''.'' s);
         part = (\<lambda>i. case nth_opt parts i of Some n \<Rightarrow> n | None \<Rightarrow> Fin 0)
     in \<lparr>sv_major = part 0, sv_minor = part 1, sv_patch = part 2\<rparr>)"

definition compareSemVer :: "SemVer \<Rightarrow> SemVer \<Rightarrow> jsnum" where
  "compareSemVer a b =
    (if \<not> js_eq (sv_major a) (sv_major b) then js_minus (sv_major a) (sv_major b)
     else if \<not> js_eq (sv_minor a) (sv_minor b) then js_minus (sv_minor a) (sv_minor b)
     else js_minus (sv_patch a) (sv_patch b))"

section \<open>Meters\<close>

definition getMeterState :: "UserSettings \<Rightarrow> rat \<Rightarrow> MeterState" where
  "getMeterState settings v =
    (let colorWarn = (case us_colorWarn settings of Some w \<Rightarrow> w | None \<Rightarrow> 65);
         colorCrit = (case us_colorCrit settings of Some c \<Rightarrow> c | None \<Rightarrow> 90)
     in if v \<ge> colorCrit then Crit else if v \<ge> colorWarn then Warn else Good)"

section \<open>Debounce\<close>

text \<open>
  The closure's state is the pending timer: when it is due and the arguments it was set with.
  A call clears it and sets a new one; the event loop runs a timer that is due.
\<close>

type_synonym 'a timer = "(int \<times> 'a) option"

definition debounce_call :: "int \<Rightarrow> int \<Rightarrow> 'a \<Rightarrow> 'a timer \<Rightarrow> 'a timer" where
  "debounce_call wait now args timeout = Some (now + wait, args)"

definition timer_elapse :: "int \<Rightarrow> 'a timer \<Rightarrow> 'a timer \<times> (int \<times> 'a) list" where
  "timer_elapse now timeout =
    (case timeout of
       None \<Rightarrow> (None, [])
     | Some (due, args) \<Rightarrow> if due \<le> now then (None, [(due, args)]) else (timeout, []))"

text \<open>
  A sequence of calls at the given times, the timer running between them when it is due, and in
  the end: the invocations of the wrapped function with the times they happen.
\<close>

fun debounce_run :: "int \<Rightarrow> 'a timer \<Rightarrow> (int \<times> 'a) list \<Rightarrow> (int \<times> 'a) list" where
  "debounce_run wait timeout [] = (case timeout of None \<Rightarrow> [] | Some x \<Rightarrow> [x])"
| "debounce_run wait timeout ((now, args) # calls) =
    (let (timeout', fired) = timer_elapse now timeout
     in fired @ debounce_run wait (debounce_call wait now args timeout') calls)"

section \<open>Run once\<close>

text \<open>
  The cache entry of a wrapped function: whether it is done and its result. A call may throw
  (\<open>Inl\<close>), which leaves the entry undone. The second component says whether the wrapped
  function was invoked.
\<close>

record 'r OnceState =
  once_done :: bool
  once_result :: "'r option"

definition runOnce ::
  "('a \<Rightarrow> 'e + 'r) \<Rightarrow> 'r OnceState option \<Rightarrow> 'a \<Rightarrow> ('e + 'r option) \<times> bool \<times> 'r OnceState option" where
  "runOnce fn cached args =
    (let state = (case cached of None \<Rightarrow> \<lparr>once_done = False, once_result = None\<rparr> | Some s \<Rightarrow> s) in
     if \<not> once_done state
     then (case fn args of
             Inl e \<Rightarrow> (Inl e, True, Some state)
           | Inr r \<Rightarrow> (Inr (Some r), True, Some \<lparr>once_done = True, once_result = Some r\<rparr>))
     else (Inr (once_result state), False, Some state))"

fun runOnce_calls ::
  "('a \<Rightarrow> 'e + 'r) \<Rightarrow> 'r OnceState option \<Rightarrow> 'a list \<Rightarrow> (('e + 'r option) \<times> bool) list" where
  "runOnce_calls fn cached [] = []"
| "runOnce_calls fn cached (a # as) =
    (let (res, called, cached') = runOnce fn cached a in (res, called) # runOnce_calls fn cached' as)"

section \<open>Visual width\<close>

definition char_width :: "nat \<Rightarrow> rat" where
  "char_width code =
    (if (code \<ge> 0x1100 \<and> code \<le> 0x115f) \<or> (code \<ge> 0xac00 \<and> code \<le> 0xd7af) then 18 / 10
     else if (code \<ge> 0x2e80 \<and> code \<le> 0x9fff) \<or> (code \<ge> 0xf900 \<and> code \<le> 0xfaff)
           \<or> (code \<ge> 0xfe30 \<and> code \<le> 0xfe6f) \<or> (code \<ge> 0xff00 \<and> code \<le> 0xff60)
           \<or> (code \<ge> 0xffe0 \<and> code \<le> 0xffe6) \<or> code > 0xffff
          then 2 else 1)"

definition getVisualStringWidth :: "string \<Rightarrow> rat" where
  "getVisualStringWidth str = foldl (\<lambda>width code. width + char_width code) 0 (code_points str)"

section \<open>Seconds\<close>

datatype SecondsUnit = U_hour | U_minute | U_day

text \<open>\<open>plural\<close> is Lingui's, \<open>toLocale\<close> is \<open>count.toLocaleString()\<close>.\<close>

definition secondsToString ::
  "(int \<Rightarrow> string \<Rightarrow> string \<Rightarrow> string) \<Rightarrow> (int \<Rightarrow> string) \<Rightarrow> rat \<Rightarrow> SecondsUnit \<Rightarrow> string" where
  "secondsToString plural toLocale seconds unit =
    (let count = \<lfloor>seconds / (case unit of U_hour \<Rightarrow> 3600 | U_minute \<Rightarrow> 60 | U_day \<Rightarrow> 86400)\<rfloor>;
         countString = toLocale count
     in case unit of
          U_minute \<Rightarrow> plural count (countString @ '' minute'') (countString @ '' minutes'')
        | U_hour \<Rightarrow> plural count (countString @ '' hour'') (countString @ '' hours'')
        | U_day \<Rightarrow> plural count (countString @ '' day'') (countString @ '' days''))"

section \<open>Properties of the helpers\<close>

lemma formatBytes_scale:
  fixes size0 :: rat
  assumes "formatBytes size0 perSecond unit isMegabytes = (v, u)"
  defines "n \<equiv> (if isMegabytes then size0 * (1024 * 1024) else size0)"
  shows "\<exists>k\<le>4. v * (if unit = Bits then 1000 else 1024) ^ k = (if unit = Bits then n * 8 else n)
    \<and> u = [[], ''K'', ''M'', ''G'', ''T''] ! k
           @ (if unit = Bits then ''b'' @ (if perSecond then ''ps'' else [])
              else ''B'' @ (if perSecond then ''/s'' else []))
    \<and> (k < 4 \<longrightarrow> v < 1000) \<and> (0 < k \<longrightarrow> (if unit = Bits then 1 else 100 / 1024) \<le> v)"
proof -
  have eq: "(v, u) = formatBytes size0 perSecond unit isMegabytes" by (simp add: assms)
  show ?thesis
  proof (cases "unit = Bits")
    case True
    consider "n * 8 < 1000" | "1000 \<le> n * 8" "n * 8 < 1000000"
      | "1000000 \<le> n * 8" "n * 8 < 1000000000"
      | "1000000000 \<le> n * 8" "n * 8 < 1000000000000" | "1000000000000 \<le> n * 8"
      by linarith
    then show ?thesis
    proof cases
      case 1 then show ?thesis using eq True by (intro exI [of _ 0]) (auto simp: formatBytes_def n_def [symmetric])
    next
      case 2 then show ?thesis using eq True by (intro exI [of _ 1]) (auto simp: formatBytes_def n_def [symmetric])
    next
      case 3 then show ?thesis using eq True by (intro exI [of _ 2]) (auto simp: formatBytes_def n_def [symmetric])
    next
      case 4 then show ?thesis using eq True by (intro exI [of _ 3]) (auto simp: formatBytes_def n_def [symmetric])
    next
      case 5 then show ?thesis using eq True by (intro exI [of _ 4]) (auto simp: formatBytes_def n_def [symmetric])
    qed
  next
    case False
    consider "n < 100" | "100 \<le> n" "n < 1000 * 1024"
      | "1000 * 1024 \<le> n" "n < 1000 * 1024 ^ 2"
      | "1000 * 1024 ^ 2 \<le> n" "n < 1000 * 1024 ^ 3" | "1000 * 1024 ^ 3 \<le> n"
      by linarith
    then show ?thesis
    proof cases
      case 1 then show ?thesis using eq False by (intro exI [of _ 0]) (auto simp: formatBytes_def n_def [symmetric])
    next
      case 2 then show ?thesis using eq False by (intro exI [of _ 1]) (auto simp: formatBytes_def n_def [symmetric])
    next
      case 3 then show ?thesis using eq False by (intro exI [of _ 2]) (auto simp: formatBytes_def n_def [symmetric])
    next
      case 4 then show ?thesis using eq False by (intro exI [of _ 3]) (auto simp: formatBytes_def n_def [symmetric])
    next
      case 5 then show ?thesis using eq False by (intro exI [of _ 4]) (auto simp: formatBytes_def n_def [symmetric])
    qed
  qed
qed

text \<open>Versions as \<open>major.minor.patch\<close> with an optional pre-release after \<open>-\<close>.\<close>

definition semver_string :: "nat \<Rightarrow> nat \<Rightarrow> nat \<Rightarrow> string option \<Rightarrow> string" where
  "semver_string a b c pre =
    join ''.'' [show_nat a, show_nat b, show_nat c]
    @ (case pre of None \<Rightarrow> [] | Some p \<Rightarrow> CHR ''-'' # p)"

definition semver :: "rat \<Rightarrow> rat \<Rightarrow> rat \<Rightarrow> SemVer" where
  "semver a b c = \<lparr>sv_major = Fin a, sv_minor = Fin b, sv_patch = Fin c\<rparr>"

lemma show_nat_no_char: "\<not> is_digit c \<Longrightarrow> c \<notin> set (show_nat n)"
  using show_nat_digits by blast

lemma parseSemVer_show: "parseSemVer (semver_string a b c pre) = semver (of_nat a) (of_nat b) (of_nat c)"
proof -
  let ?v = "join ''.'' [show_nat a, show_nat b, show_nat c]"
  have dash: "CHR ''-'' \<notin> set (show_nat n)" and dot: "CHR ''.'' \<notin> set (show_nat n)" for n
    by (simp_all add: show_nat_no_char is_digit_def)
  have nodash: "\<forall>x\<in>set ?v. x \<noteq> CHR ''-''" using dash by auto
  have "before_char CHR ''-'' (?v @ CHR ''-'' # p) = ?v" for p
    using nodash unfolding before_char_def by (subst takeWhile_append2) auto
  moreover have "split_on CHR ''.'' ?v = [show_nat a, show_nat b, show_nat c]"
    by (rule split_on_join) (use dot in auto)
  ultimately show ?thesis
    using nodash by (cases pre) (auto simp: parseSemVer_def semver_string_def semver_def Let_def)
qed

lemma compareSemVer_semver:
  "compareSemVer (semver a b c) (semver a' b' c') =
     Fin (if a \<noteq> a' then a - a' else if b \<noteq> b' then b - b' else c - c')"
  by (simp add: compareSemVer_def semver_def js_eq_def)

text \<open>A comparator result in \<open>sort\<close>: \<open>NaN\<close> counts as 0.\<close>

fun sort_result :: "jsnum \<Rightarrow> rat" where
  "sort_result (Fin r) = r" | "sort_result PInf = 1" | "sort_result NInf = -1" | "sort_result NaN = 0"

definition finite_version :: "SemVer \<Rightarrow> bool" where
  "finite_version v \<longleftrightarrow> (\<exists>a b c. v = semver a b c)"

interpretation semver_order: comparator "\<lambda>a b. sort_result (compareSemVer a b)" "{v. finite_version v}"
  by unfold_locales (auto simp: finite_version_def compareSemVer_semver split: if_splits)

text \<open>Debounce: the invocations, computed from the times of neighbouring calls alone.\<close>

fun settled :: "int \<Rightarrow> (int \<times> 'a) list \<Rightarrow> (int \<times> 'a) list" where
  "settled wait [] = []"
| "settled wait [(t, a)] = [(t + wait, a)]"
| "settled wait ((t, a) # (t', a') # calls) =
    (if t + wait \<le> t' then [(t + wait, a)] else []) @ settled wait ((t', a') # calls)"

lemma debounce_run_pending: "debounce_run wait (Some (t + wait, a)) calls = settled wait ((t, a) # calls)"
proof (induction calls arbitrary: t a)
  case Nil
  then show ?case by simp
next
  case (Cons x calls)
  obtain t' a' where "x = (t', a')" by fastforce
  then show ?case using Cons.IH [of t' a']
    by (simp add: timer_elapse_def debounce_call_def)
qed

lemma debounce_run_settled: "debounce_run wait None calls = settled wait calls"
proof (cases calls)
  case (Cons x cs)
  obtain t a where "x = (t, a)" by fastforce
  with Cons show ?thesis
    by (simp add: timer_elapse_def debounce_call_def debounce_run_pending)
qed simp

lemma settled_burst:
  "calls \<noteq> [] \<Longrightarrow> successively (\<lambda>x y. fst y < fst x + wait) calls
   \<Longrightarrow> settled wait calls = [(fst (last calls) + wait, snd (last calls))]"
  by (induction wait calls rule: settled.induct) auto

lemma settled_spaced:
  "successively (\<lambda>x y. fst x + wait \<le> fst y) calls
   \<Longrightarrow> settled wait calls = map (\<lambda>(t, a). (t + wait, a)) calls"
  by (induction wait calls rule: settled.induct) auto

text \<open>Run once: before the first success every call is invoked, afterwards none is.\<close>

lemma runOnce_done:
  "runOnce_calls fn (Some \<lparr>once_done = True, once_result = Some r\<rparr>) as = map (\<lambda>_. (Inr (Some r), False)) as"
  by (induction as) (auto simp: runOnce_def)

lemma runOnce_failing:
  assumes "\<forall>a\<in>set as. \<exists>e. fn a = Inl e" and "cached = None \<or> cached = Some \<lparr>once_done = False, once_result = None\<rparr>"
    and "fn b = Inr r"
  shows "runOnce_calls fn cached (as @ b # bs) =
    map (\<lambda>a. (Inl (projl (fn a)), True)) as @ (Inr (Some r), True) # map (\<lambda>_. (Inr (Some r), False)) bs"
  using assms
proof (induction as arbitrary: cached)
  case Nil
  then show ?case by (auto simp: runOnce_def Let_def runOnce_done)
next
  case (Cons a as)
  from Cons.prems obtain e where "fn a = Inl e" by auto
  with Cons show ?case by (auto simp: runOnce_def Let_def)
qed

lemma duration_round_bounds:
  assumes "0 \<le> h0" "0 \<le> m0" "m0 < 60" "0 \<le> s0" "s0 < 60"
    and "duration_round h0 m0 s0 = (h, m, s)"
  shows "0 \<le> h \<and> 0 \<le> m \<and> m < 60 \<and> 0 \<le> s \<and> s < 58
    \<and> 3600 * h0 + 60 * m0 + s0 \<le> 3600 * h + 60 * m + s
    \<and> 3600 * h + 60 * m + s \<le> 3600 * h0 + 60 * m0 + s0 + 2"
  using assms by (auto simp: duration_round_def split: if_splits)

text \<open>
  The duration that is shown: from 58 seconds on it is rounded up to the minute, otherwise the seconds are dropped from one
  hour on.
\<close>

definition shown_duration :: "int \<Rightarrow> int" where
  "shown_duration t = (if t mod 60 \<ge> 58 then t - t mod 60 + 60 else if t \<ge> 3600 then t - t mod 60 else t)"

lemma shown_duration_close:
  assumes "0 \<le> t"
  shows "shown_duration t \<le> t + 2" "t < shown_duration t + 58" "t < 3600 \<Longrightarrow> t \<le> shown_duration t"
  using pos_mod_bound [of 60 t] pos_mod_sign [of 60 t] by (auto simp: shown_duration_def)

lemma duration_parts_shown:
  assumes "0 \<le> ms" and parts: "duration_parts ms = (h, m, s)"
  shows "0 \<le> h \<and> 0 \<le> m \<and> m < 60 \<and> 0 \<le> s \<and> s < 58
    \<and> 3600 * h + 60 * m + (if h > 0 then 0 else s) = shown_duration (ms div 1000)"
proof -
  define t where "t = ms div 1000"
  have t: "0 \<le> t" using assms by (simp add: t_def)
  have "t mod 3600 mod 60 = t mod 60" by (simp add: mod_mod_cancel)
  then have sp: "3600 * (t div 3600) + 60 * (t mod 3600 div 60) + t mod 60 = t"
    using mult_div_mod_eq [of 3600 t] mult_div_mod_eq [of 60 "t mod 3600"] by linarith
  have "t mod 3600 < 3600" by simp
  then have b: "t mod 3600 div 60 < 60" by linarith
  have b2: "0 \<le> t div 3600" "0 \<le> t mod 3600 div 60" "0 \<le> t mod 60" "t mod 60 < 60"
    using t by (simp_all add: pos_imp_zdiv_nonneg_iff)
  have r: "duration_round (t div 3600) (t mod 3600 div 60) (t mod 60) = (h, m, s)"
    using parts unfolding t_def duration_parts_def Let_def .
  have "3600 * h + 60 * m + (if h > 0 then 0 else s) = shown_duration t"
  proof (cases "t mod 60 \<ge> 58")
    case True
    then have "3600 * h + 60 * m = t - t mod 60 + 60" "s = 0" using r sp b by (auto simp: duration_round_def split: if_splits)
    with True show ?thesis by (simp add: shown_duration_def)
  next
    case False
    then have "h = t div 3600" "3600 * h + 60 * m = t - t mod 60" "s = t mod 60"
      using r sp b by (auto simp: duration_round_def split: if_splits)
    moreover have "t div 3600 > 0 \<longleftrightarrow> t \<ge> 3600" by linarith
    ultimately show ?thesis using False by (simp add: shown_duration_def)
  qed
  with duration_round_bounds [OF b2(1,2) b b2(3,4) r] show ?thesis unfolding t_def by blast
qed

lemma getHostDisplayValue_split:
  "(CHR ''/'' \<notin> set (sys_host s) \<and> getHostDisplayValue s = sys_host s)
   \<or> (\<exists>dir. sys_host s = dir @ CHR ''/'' # getHostDisplayValue s \<and> CHR ''/'' \<notin> set (getHostDisplayValue s))"
proof (cases "CHR ''/'' \<in> set (sys_host s)")
  case False
  then show ?thesis by (simp add: getHostDisplayValue_def last_index_of_absent)
next
  case True
  then obtain a b where "sys_host s = a @ CHR ''/'' # b" "CHR ''/'' \<notin> set b"
    using split_list_last by metis
  then show ?thesis by (auto simp: getHostDisplayValue_def last_index_of_append nat_add_distrib)
qed

lemma foldl_char_width: "foldl (\<lambda>w c. w + char_width c) w0 cs = w0 + sum_list (map char_width cs)"
  by (induction cs arbitrary: w0) auto

lemma getVisualStringWidth_bounds:
  "of_nat (length (code_points s)) \<le> getVisualStringWidth s"
  "getVisualStringWidth s \<le> 2 * of_nat (length (code_points s))"
proof -
  have b: "1 \<le> char_width c" "char_width c \<le> 2" for c by (auto simp: char_width_def)
  have "of_nat (length cs) \<le> sum_list (map char_width cs) \<and> sum_list (map char_width cs) \<le> 2 * of_nat (length cs)" for cs
  proof (induction cs)
    case (Cons c cs)
    then show ?case using b [of c] by simp
  qed simp
  then show "of_nat (length (code_points s)) \<le> getVisualStringWidth s"
    "getVisualStringWidth s \<le> 2 * of_nat (length (code_points s))"
    by (simp_all add: getVisualStringWidth_def foldl_char_width)
qed

lemma getMeterState_mono: "v \<le> w \<Longrightarrow> getMeterState settings v \<le> getMeterState settings w"
  by (auto simp: getMeterState_def Let_def less_eq_MeterState_def split: option.splits)

lemma storage_roundtrip:
  assumes "parse (stringify v) = v" and "stringify v \<noteq> []"
  shows "browserStorage_init parse key d (browserStorage_effect stringify key v st) = v"
  using assms by (simp add: browserStorage_init_def browserStorage_effect_def getStorageValue_def)

section \<open>Properties\<close>

text \<open>
  C33. \<open>formatBytes\<close> loses nothing and picks a readable unit: the value times the unit's factor
  (1000 per step for bits, 1024 for bytes) is the given amount, below the largest unit the value
  shown is less than 1000, and a unit above the base unit is only used when the value is at
  least 1 (bits) or 100/1024 (bytes).
\<close>

theorem formatBytes_exact:
  assumes "formatBytes amount perSecond unit isMegabytes = (v, u)"
  defines "n \<equiv> (if isMegabytes then amount * (1024 * 1024) else amount)"
  shows "\<exists>k\<le>4. v * (if unit = Bits then 1000 else 1024) ^ k = (if unit = Bits then n * 8 else n)
    \<and> u = [[], ''K'', ''M'', ''G'', ''T''] ! k
           @ (if unit = Bits then ''b'' @ (if perSecond then ''ps'' else [])
              else ''B'' @ (if perSecond then ''/s'' else []))
    \<and> (k < 4 \<longrightarrow> v < 1000) \<and> (0 < k \<longrightarrow> (if unit = Bits then 1 else 100 / 1024) \<le> v)"
  unfolding n_def by (rule formatBytes_scale [OF assms(1)])

theorem formatBytes_exact_witness:
  "formatBytes 3 True Bytes True = (3, ''MB/s'')
   \<and> (\<exists>k\<le>4. (3::rat) * 1024 ^ k = 3 * (1024 * 1024) \<and> ''MB/s'' = [[], ''K'', ''M'', ''G'', ''T''] ! k @ ''B/s'')"
proof -
  have e: "formatBytes 3 True Bytes True = (3, ''MB/s'')" by (simp add: formatBytes_def)
  from formatBytes_exact [OF this] show ?thesis unfolding e by auto
qed

text \<open>
  C32. \<open>parseSemVer\<close> reads back every printed version, ignoring a pre-release suffix, and
  \<open>compareSemVer\<close> on the parsed versions is the lexicographic order of the numeric triples: it is
  negative, zero or positive exactly when the first triple is smaller, equal or larger.
\<close>

theorem semver_compare_parsed:
  "\<exists>d. compareSemVer (parseSemVer (semver_string a b c pre)) (parseSemVer (semver_string a' b' c' pre')) = Fin d
     \<and> (d < 0 \<longleftrightarrow> a < a' \<or> (a = a' \<and> (b < b' \<or> (b = b' \<and> c < c'))))
     \<and> (d = 0 \<longleftrightarrow> a = a' \<and> b = b' \<and> c = c')"
  by (auto simp: parseSemVer_show compareSemVer_semver)

text \<open>
  A debounced function runs exactly for the calls that are not followed by another call
  within the waiting time, in order, each once and \<open>wait\<close> after the call; in particular a burst
  of calls runs only the last one.
\<close>

theorem debounce_runs_settled:
  "debounce_run wait None calls = settled wait calls
   \<and> (calls \<noteq> [] \<and> successively (\<lambda>x y. fst y < fst x + wait) calls
      \<longrightarrow> debounce_run wait None calls = [(fst (last calls) + wait, snd (last calls))])"
  by (simp add: debounce_run_settled settled_burst)

theorem debounce_runs_settled_witness:
  "debounce_run 100 None [(0, ''a''), (50, ''b''), (149, ''c'')] = [(249, ''c'')]"
  using debounce_runs_settled [of 100 "[(0, ''a''), (50, ''b''), (149, ''c'')]"] by simp

text \<open>
  \<open>runOnce\<close> invokes the wrapped function until its first success and never again: every call
  that throws propagates the error and is retried, the first success is returned, and all later
  calls return that same result without invoking the function.
\<close>

theorem runOnce_first_success:
  assumes "\<forall>a\<in>set as. \<exists>e. fn a = Inl e" and "fn b = Inr r"
  shows "runOnce_calls fn None (as @ b # bs) =
    map (\<lambda>a. (Inl (projl (fn a)), True)) as @ (Inr (Some r), True) # map (\<lambda>_. (Inr (Some r), False)) bs"
  by (rule runOnce_failing) (use assms in auto)

theorem runOnce_first_success_witness:
  "runOnce_calls (\<lambda>n. if n < (2::nat) then Inl ''err'' else Inr (n * 10)) None ([0, 1] @ 2 # [3, 0])
   = [(Inl ''err'', True), (Inl ''err'', True), (Inr (Some 20), True), (Inr (Some 20), False), (Inr (Some 20), False)]"
  by (subst runOnce_first_success) auto

text \<open>
  C34. \<open>formatDuration\<close> of two valid dates in order shows hours, minutes and seconds, with minutes and seconds in range, no
  seconds from one hour on, and the parts that are zero left out. What it shows is the whole number of seconds rounded up to the
  minute from 58 seconds on, otherwise exact below an hour and cut to the minute from there on: at most two seconds too much, never
  too little below an hour, and less than 58 seconds too little from there on. Dates in the wrong order give the empty string.
\<close>

theorem formatDuration_accurate:
  assumes "parse c = Some t0" "parse r = Some t1" "c \<noteq> []" "r \<noteq> []"
  shows "(t1 < t0 \<longrightarrow> formatDuration parse (Some c) (Some r) = [])
    \<and> (t0 \<le> t1 \<longrightarrow> (\<exists>h m s. 0 \<le> h \<and> 0 \<le> m \<and> m < 60 \<and> 0 \<le> s \<and> s < 58 \<and> (h > 0 \<longrightarrow> s = 0)
      \<and> formatDuration parse (Some c) (Some r) = join '' '' (unit_part h CHR ''h'' @ unit_part m CHR ''m'' @ unit_part s CHR ''s'')
      \<and> (let exact = (t1 - t0) div 1000; shown = 3600 * h + 60 * m + s
         in shown = (if exact mod 60 \<ge> 58 then exact - exact mod 60 + 60 else if exact \<ge> 3600 then exact - exact mod 60 else exact)
          \<and> shown \<le> exact + 2 \<and> exact < shown + 58 \<and> (exact < 3600 \<longrightarrow> exact \<le> shown))))"
proof (cases "t1 < t0")
  case True
  then show ?thesis using assms by (simp add: formatDuration_def)
next
  case False
  then have pos: "0 \<le> t1 - t0" by simp
  obtain h m s0 where hms: "duration_parts (t1 - t0) = (h, m, s0)" by (metis prod.exhaust)
  define s where "s = (if h > 0 then 0 else s0)"
  have fmt: "formatDuration parse (Some c) (Some r) = join '' '' (unit_part h CHR ''h'' @ unit_part m CHR ''m'' @ unit_part s CHR ''s'')"
    using assms False by (simp add: formatDuration_def hms s_def unit_part_def)
  have range: "0 \<le> h" "0 \<le> m" "m < 60" "0 \<le> s" "s < 58" "h > 0 \<longrightarrow> s = 0"
    and shown: "3600 * h + 60 * m + s = shown_duration ((t1 - t0) div 1000)"
    using duration_parts_shown [OF pos hms] by (auto simp: s_def)
  have "0 \<le> (t1 - t0) div 1000" using pos by simp
  note close = shown_duration_close [OF this]
  show ?thesis using False
    by (intro conjI impI exI [of _ h] exI [of _ m] exI [of _ s])
      (use fmt range close shown in \<open>simp_all add: shown shown_duration_def [symmetric] Let_def\<close>)
qed

theorem formatDuration_accurate_witness:
  "\<exists>h m s. 0 \<le> h \<and> 0 \<le> m \<and> m < 60 \<and> 0 \<le> s \<and> s < 58 \<and> (h > 0 \<longrightarrow> s = 0)
     \<and> formatDuration (\<lambda>d. if d = ''a'' then Some 0 else Some 3657500) (Some ''a'') (Some ''b'') =
          join '' '' (unit_part h CHR ''h'' @ unit_part m CHR ''m'' @ unit_part s CHR ''s'')
     \<and> 3600 * h + 60 * m + s = (3600::int)"
  using formatDuration_accurate [of "\<lambda>d. if d = ''a'' then Some 0 else Some 3657500" "''a''" 0 "''b''" 3657500]
  by (simp add: Let_def) blast

end
