(* ===== verification/Toast.thy ===== *)
theory Toast
  imports Utils
begin

text \<open>
  \<^verbatim>\<open>components/ui/use-toast.ts\<close>: the toast store, a reducer over at most \<open>TOAST_LIMIT\<close>
  toasts with a table of removal timers. The module's variables \<open>count\<close>, \<open>memoryState\<close> and
  \<open>toastTimeouts\<close> are the record \<open>ToastState\<close>; a timer is stored with the time it is due.
\<close>

definition TOAST_LIMIT :: nat where "TOAST_LIMIT = 1"

definition TOAST_REMOVE_DELAY :: int where "TOAST_REMOVE_DELAY = 1000000"

definition MAX_SAFE_INTEGER :: nat where "MAX_SAFE_INTEGER = 9007199254740991"

record ToasterToast =
  tt_id :: string
  tt_title :: "string option"
  tt_description :: "string option"
  tt_variant :: "string option"
  tt_duration :: "int option"
  tt_open :: "bool option"

text \<open>\<open>Partial<ToasterToast>\<close>: the fields present in an update.\<close>

record ToastPatch =
  tp_id :: string
  tp_title :: "string option"
  tp_description :: "string option"
  tp_variant :: "string option"
  tp_duration :: "int option"
  tp_open :: "bool option"

datatype ToastAction =
    ADD_TOAST ToasterToast
  | UPDATE_TOAST ToastPatch
  | DISMISS_TOAST "string option"
  | REMOVE_TOAST "string option"

record ToastState =
  ts_count :: nat
  ts_toasts :: "ToasterToast list"
  ts_timeouts :: "(string, int) dict"

definition init_toasts :: ToastState where
  "init_toasts = \<lparr>ts_count = 0, ts_toasts = [], ts_timeouts = []\<rparr>"

definition genId :: "ToastState \<Rightarrow> string \<times> ToastState" where
  "genId st = (let c = (ts_count st + 1) mod MAX_SAFE_INTEGER in (show_nat c, st\<lparr>ts_count := c\<rparr>))"

definition addToRemoveQueue :: "int \<Rightarrow> string \<Rightarrow> (string, int) dict \<Rightarrow> (string, int) dict" where
  "addToRemoveQueue now toastId timeouts =
    (if dhas timeouts toastId then timeouts
     else dset toastId (now + TOAST_REMOVE_DELAY) timeouts)"

definition or_else :: "'a option \<Rightarrow> 'a option \<Rightarrow> 'a option" where
  "or_else a b = (case a of None \<Rightarrow> b | Some x \<Rightarrow> Some x)"

definition patch_toast :: "ToastPatch \<Rightarrow> ToasterToast \<Rightarrow> ToasterToast" where
  "patch_toast p t = \<lparr>tt_id = tp_id p, tt_title = or_else (tp_title p) (tt_title t),
     tt_description = or_else (tp_description p) (tt_description t),
     tt_variant = or_else (tp_variant p) (tt_variant t),
     tt_duration = or_else (tp_duration p) (tt_duration t), tt_open = or_else (tp_open p) (tt_open t)\<rparr>"

definition dismiss_queue ::
  "int \<Rightarrow> string option \<Rightarrow> ToasterToast list \<Rightarrow> (string, int) dict \<Rightarrow> (string, int) dict" where
  "dismiss_queue now toastId toasts timeouts =
    (if toastId \<noteq> None \<and> toastId \<noteq> Some [] then addToRemoveQueue now (the toastId) timeouts
     else foldl (\<lambda>m t. addToRemoveQueue now (tt_id t) m) timeouts toasts)"

text \<open>
  \<open>reducer\<close>, with the side effect of its dismiss case on the timers. A dismissal of the empty id
  is falsy: it queues every toast, but closes only toasts with that id.
\<close>

fun reducer :: "int \<Rightarrow> ToastState \<Rightarrow> ToastAction \<Rightarrow> ToastState" where
  "reducer now st (ADD_TOAST t) = st\<lparr>ts_toasts := take TOAST_LIMIT (t # ts_toasts st)\<rparr>"
| "reducer now st (UPDATE_TOAST p) =
    st\<lparr>ts_toasts := map (\<lambda>t. if tt_id t = tp_id p then patch_toast p t else t) (ts_toasts st)\<rparr>"
| "reducer now st (DISMISS_TOAST toastId) =
    st\<lparr>ts_timeouts := dismiss_queue now toastId (ts_toasts st) (ts_timeouts st),
       ts_toasts := map (\<lambda>t. if Some (tt_id t) = toastId \<or> toastId = None then t\<lparr>tt_open := Some False\<rparr> else t)
                      (ts_toasts st)\<rparr>"
| "reducer now st (REMOVE_TOAST toastId) =
    (case toastId of
       None \<Rightarrow> st\<lparr>ts_toasts := []\<rparr>
     | Some k \<Rightarrow> st\<lparr>ts_toasts := filter (\<lambda>t. tt_id t \<noteq> k) (ts_toasts st)\<rparr>)"

text \<open>A removal timer that is due drops itself and dispatches \<open>REMOVE_TOAST\<close>.\<close>

definition timeout_fires :: "string \<Rightarrow> ToastState \<Rightarrow> ToastState" where
  "timeout_fires k st = reducer 0 (st\<lparr>ts_timeouts := ddel k (ts_timeouts st)\<rparr>) (REMOVE_TOAST (Some k))"

text \<open>\<open>toast(props)\<close>: a new id, and the toast added open.\<close>

definition toast ::
  "int \<Rightarrow> string option \<Rightarrow> string option \<Rightarrow> string option \<Rightarrow> int option \<Rightarrow> ToastState \<Rightarrow> string \<times> ToastState" where
  "toast now title description variant duration st =
    (let (k, st1) = genId st
     in (k, reducer now st1 (ADD_TOAST \<lparr>tt_id = k, tt_title = title, tt_description = description,
           tt_variant = variant, tt_duration = duration, tt_open = Some True\<rparr>)))"

section \<open>Behaviour\<close>

text \<open>
  The steps of the store: a toast is shown, updated through its handle (which keeps the id and
  does not close it), dismissed, or a timer fires.
\<close>

inductive toast_step :: "ToastState \<Rightarrow> ToastState \<Rightarrow> bool" where
  show_toast: "toast_step st (snd (toast now title description variant duration st))"
| update_toast: "tp_open p \<noteq> Some False \<Longrightarrow> toast_step st (reducer now st (UPDATE_TOAST p))"
| dismiss_toast: "toast_step st (reducer now st (DISMISS_TOAST toastId))"
| fire: "dhas (ts_timeouts st) k \<Longrightarrow> toast_step st (timeout_fires k st)"

inductive toast_reachable :: "ToastState \<Rightarrow> bool" where
  start: "toast_reachable init_toasts"
| step: "toast_reachable st \<Longrightarrow> toast_step st st' \<Longrightarrow> toast_reachable st'"

definition toast_inv :: "ToastState \<Rightarrow> bool" where
  "toast_inv st \<longleftrightarrow> length (ts_toasts st) \<le> TOAST_LIMIT \<and> ts_count st < MAX_SAFE_INTEGER
     \<and> (\<forall>t\<in>set (ts_toasts st). tt_open t = Some False \<longrightarrow> dhas (ts_timeouts st) (tt_id t))"

lemma addToRemoveQueue_has [simp]: "dhas (addToRemoveQueue now k m) j \<longleftrightarrow> j = k \<or> dhas m j"
  by (auto simp: addToRemoveQueue_def)

lemma addToRemoveQueue_fold [simp]:
  "dhas (foldl (\<lambda>m t. addToRemoveQueue now (tt_id t) m) m0 ts) j \<longleftrightarrow> j \<in> tt_id ` set ts \<or> dhas m0 j"
  by (induction ts arbitrary: m0) auto

lemma dismiss_queue_has:
  "dhas m j \<Longrightarrow> dhas (dismiss_queue now k ts m) j"
  "t \<in> set ts \<Longrightarrow> Some (tt_id t) = k \<or> k = None \<Longrightarrow> dhas (dismiss_queue now k ts m) (tt_id t)"
  by (auto simp: dismiss_queue_def)

lemma toast_inv_show: "toast_inv st \<Longrightarrow> toast_inv (snd (toast now ti de va du st))"
  by (simp add: toast_inv_def toast_def genId_def Let_def TOAST_LIMIT_def MAX_SAFE_INTEGER_def)

lemma toast_inv_update:
  assumes "toast_inv st" "tp_open p \<noteq> Some False"
  shows "toast_inv (reducer now st (UPDATE_TOAST p))"
proof -
  have "tt_open t = Some False" if "tt_open (patch_toast p t) = Some False" for t
    using that assms(2) by (cases "tp_open p") (simp_all add: patch_toast_def or_else_def)
  moreover have "tt_id (patch_toast p t) = tp_id p" for t by (simp add: patch_toast_def)
  ultimately show ?thesis using assms(1) by (auto simp: toast_inv_def)
qed

lemma toast_inv_dismiss: "toast_inv st \<Longrightarrow> toast_inv (reducer now st (DISMISS_TOAST k))"
  by (auto simp: toast_inv_def dismiss_queue_has)

lemma toast_inv_fire: "toast_inv st \<Longrightarrow> toast_inv (timeout_fires k st)"
  by (simp add: toast_inv_def timeout_fires_def le_trans [OF length_filter_le])

lemma toast_inv_step: "toast_step st st' \<Longrightarrow> toast_inv st \<Longrightarrow> toast_inv st'"
  by (erule toast_step.cases; hypsubst; rule toast_inv_show toast_inv_update toast_inv_dismiss toast_inv_fire; assumption)

lemma toast_inv_reachable: "toast_reachable st \<Longrightarrow> toast_inv st"
proof (induction rule: toast_reachable.induct)
  case start
  then show ?case by (simp add: toast_inv_def init_toasts_def MAX_SAFE_INTEGER_def)
next
  case (step st st')
  then show ?case by (blast intro: toast_inv_step)
qed

section \<open>Properties\<close>

text \<open>
  C14. At most one toast is ever shown, a new toast replaces the one before and is open, and every
  toast that has been closed has a removal timer pending, whose firing removes it.
\<close>

theorem toast_store_correct:
  assumes "toast_reachable st"
  shows "length (ts_toasts st) \<le> 1
    \<and> (\<forall>t\<in>set (ts_toasts st). tt_open t = Some False \<longrightarrow>
         dhas (ts_timeouts st) (tt_id t) \<and> ts_toasts (timeout_fires (tt_id t) st) = [])
    \<and> map tt_id (ts_toasts (snd (toast now title description variant duration st)))
        = [fst (toast now title description variant duration st)]"
proof -
  have inv: "toast_inv st" by (rule toast_inv_reachable [OF assms])
  then have len: "length (ts_toasts st) \<le> 1" by (simp add: toast_inv_def TOAST_LIMIT_def)
  moreover have "ts_toasts (timeout_fires (tt_id t) st) = []" if "t \<in> set (ts_toasts st)" for t
    using len that by (cases "ts_toasts st") (auto simp: timeout_fires_def)
  ultimately show ?thesis
    using inv by (auto simp: toast_inv_def toast_def genId_def Let_def TOAST_LIMIT_def)
qed

definition sample_toasts :: ToastState where
  "sample_toasts = reducer 5 (snd (toast 0 None (Some ''Copied to clipboard'') None (Some 1500) init_toasts)) (DISMISS_TOAST None)"

theorem toast_store_correct_witness:
  "ts_timeouts sample_toasts = [(''1'', 1000005)] \<and> length (ts_toasts sample_toasts) = 1
   \<and> ts_toasts (timeout_fires ''1'' sample_toasts) = []"
proof -
  have "toast_reachable sample_toasts"
    unfolding sample_toasts_def
    by (intro toast_reachable.step [OF _ toast_step.dismiss_toast]
        toast_reachable.step [OF _ toast_step.show_toast] toast_reachable.start)
  from toast_store_correct [OF this]
  have all: "\<forall>t\<in>set (ts_toasts sample_toasts). tt_open t = Some False \<longrightarrow>
      ts_toasts (timeout_fires (tt_id t) sample_toasts) = []" by blast
  have e: "ts_toasts sample_toasts = [\<lparr>tt_id = ''1'', tt_title = None,
      tt_description = Some ''Copied to clipboard'', tt_variant = None, tt_duration = Some 1500, tt_open = Some False\<rparr>]"
    "ts_timeouts sample_toasts = [(''1'', 1000005)]"
    by (simp_all add: sample_toasts_def toast_def genId_def init_toasts_def dismiss_queue_def
        addToRemoveQueue_def TOAST_LIMIT_def TOAST_REMOVE_DELAY_def MAX_SAFE_INTEGER_def
        show_nat.simps)
  from all show ?thesis unfolding e by simp
qed

end
