(* ===== verification/Calendar.thy ===== *)
theory Calendar
  imports JsValues
begin

text \<open>
  UTC dates of ECMAScript: a time is a number of milliseconds since 1970-01-01, and
  \<open>getUTCFullYear\<close>, \<open>getUTCMonth\<close>, \<open>getUTCDate\<close>, \<open>getUTCHours\<close>, \<open>getUTCMinutes\<close> and
  \<open>getUTCSeconds\<close> read it in the proleptic Gregorian calendar. The main facts are that the fields
  are in range and determine the time to the second (\<open>seconds_of_fields\<close>), that they are ordered
  lexicographically as the times are, and that fixed-width decimal strings compare as numbers.
\<close>

definition day_from_year :: "int \<Rightarrow> int" where
  "day_from_year y = 365 * (y - 1970) + (y - 1969) div 4 - (y - 1901) div 100 + (y - 1601) div 400"

definition leap_year :: "int \<Rightarrow> bool" where
  "leap_year y \<longleftrightarrow> y mod 4 = 0 \<and> (y mod 100 \<noteq> 0 \<or> y mod 400 = 0)"

definition days_in_year :: "int \<Rightarrow> int" where
  "days_in_year y = (if leap_year y then 366 else 365)"

definition year_of_day :: "int \<Rightarrow> int" where
  "year_of_day d =
    (let y = (d * 400) div 146097 + 1970
     in if d < day_from_year y then y - 1 else if day_from_year (y + 1) \<le> d then y + 1 else y)"

text \<open>The first day (from 0) of a month (from 0) within the year, and the month of a day.\<close>

definition month_start :: "bool \<Rightarrow> int \<Rightarrow> int" where
  "month_start leap m =
    (if m \<le> 0 then 0 else if m = 1 then 31
     else (if leap then 1 else 0) +
       (if m = 2 then 59 else if m = 3 then 90 else if m = 4 then 120 else if m = 5 then 151
        else if m = 6 then 181 else if m = 7 then 212 else if m = 8 then 243 else if m = 9 then 273
        else if m = 10 then 304 else if m = 11 then 334 else 365))"

definition month_of :: "bool \<Rightarrow> int \<Rightarrow> int" where
  "month_of leap d =
    (if d < month_start leap 1 then 0 else if d < month_start leap 2 then 1
     else if d < month_start leap 3 then 2 else if d < month_start leap 4 then 3
     else if d < month_start leap 5 then 4 else if d < month_start leap 6 then 5
     else if d < month_start leap 7 then 6 else if d < month_start leap 8 then 7
     else if d < month_start leap 9 then 8 else if d < month_start leap 10 then 9
     else if d < month_start leap 11 then 10 else 11)"

definition ms_day :: "int \<Rightarrow> int" where "ms_day t = t div 86400000"

definition getUTCFullYear :: "int \<Rightarrow> int" where "getUTCFullYear t = year_of_day (ms_day t)"

definition day_in_year :: "int \<Rightarrow> int" where
  "day_in_year t = ms_day t - day_from_year (getUTCFullYear t)"

definition getUTCMonth :: "int \<Rightarrow> int" where
  "getUTCMonth t = month_of (leap_year (getUTCFullYear t)) (day_in_year t)"

definition getUTCDate :: "int \<Rightarrow> int" where
  "getUTCDate t = day_in_year t - month_start (leap_year (getUTCFullYear t)) (getUTCMonth t) + 1"

definition getUTCHours :: "int \<Rightarrow> int" where "getUTCHours t = t div 3600000 mod 24"
definition getUTCMinutes :: "int \<Rightarrow> int" where "getUTCMinutes t = t div 60000 mod 60"
definition getUTCSeconds :: "int \<Rightarrow> int" where "getUTCSeconds t = t div 1000 mod 60"

section \<open>Years\<close>

lemma div_succ: "0 < n \<Longrightarrow> ((z::int) + 1) div n = z div n + (if n dvd z + 1 then 1 else 0)"
proof -
  assume n: "0 < n"
  have r: "0 \<le> z mod n" "z mod n < n" using n by simp_all
  show ?thesis
  proof (cases "z mod n + 1 = n")
    case True
    have "z + 1 = n * (z div n) + n" using True mult_div_mod_eq [of n z] by linarith
    then have e: "z + 1 = n * (z div n + 1)" by (simp add: distrib_left)
    then have "n dvd z + 1" by simp
    moreover have "(z + 1) div n = z div n + 1" using n by (simp add: e)
    ultimately show ?thesis by simp
  next
    case False
    then have lt: "z mod n + 1 < n" using r by simp
    have e: "z + 1 = n * (z div n) + (z mod n + 1)" by simp
    have "(z + 1) div n = z div n" by (rule int_div_pos_eq [OF e]) (use lt r in simp_all)
    moreover have "(z + 1) mod n = z mod n + 1" by (rule int_mod_pos_eq [OF e]) (use lt r in simp_all)
    then have "\<not> n dvd z + 1" using r by (auto simp: dvd_eq_mod_eq_0)
    ultimately show ?thesis by simp
  qed
qed

lemma dvd_shift: "(n::int) dvd k \<Longrightarrow> n dvd y - k \<longleftrightarrow> y mod n = 0"
  by (simp add: dvd_diff_left_iff mod_eq_0_iff_dvd)

lemma day_from_year_succ: "day_from_year (y + 1) = day_from_year y + days_in_year y"
proof -
  have a: "(y + 1 - 1969) div 4 = (y - 1969) div 4 + (if y mod 4 = 0 then 1 else 0)"
    using div_succ [of 4 "y - 1969"] dvd_shift [of 4 1968 y] by (simp add: algebra_simps)
  have b: "(y + 1 - 1901) div 100 = (y - 1901) div 100 + (if y mod 100 = 0 then 1 else 0)"
    using div_succ [of 100 "y - 1901"] dvd_shift [of 100 1900 y] by (simp add: algebra_simps)
  have c: "(y + 1 - 1601) div 400 = (y - 1601) div 400 + (if y mod 400 = 0 then 1 else 0)"
    using div_succ [of 400 "y - 1601"] dvd_shift [of 400 1600 y] by (simp add: algebra_simps)
  have d: "y mod 400 = 0 \<Longrightarrow> y mod 100 = 0" "y mod 100 = 0 \<Longrightarrow> y mod 4 = 0"
    by (auto simp: mod_eq_0_iff_dvd intro: dvd_trans [of 100 400 y] dvd_trans [of 4 100 y])
  show ?thesis
    unfolding day_from_year_def a b c days_in_year_def leap_year_def
    by (cases "y mod 4 = 0"; cases "y mod 100 = 0"; cases "y mod 400 = 0")
       (use d in \<open>simp_all add: algebra_simps\<close>)
qed

lemma days_in_year_pos: "365 \<le> days_in_year y \<and> days_in_year y \<le> 366"
  by (simp add: days_in_year_def)

lemma day_from_year_mono: "y < y' \<Longrightarrow> day_from_year (y + 1) \<le> day_from_year y'"
proof (induction "nat (y' - y)" arbitrary: y')
  case 0
  then show ?case by simp
next
  case (Suc n)
  show ?case
  proof (cases "y' = y + 1")
    case False
    with Suc have "day_from_year (y + 1) \<le> day_from_year (y' - 1)" by simp
    with day_from_year_succ [of "y' - 1"] days_in_year_pos [of "y' - 1"] show ?thesis by simp
  qed simp
qed

lemma div_bounds: "0 < (n::int) \<Longrightarrow> n * (z div n) \<le> z \<and> z \<le> n * (z div n) + (n - 1)"
  using mult_div_mod_eq [of n z] pos_mod_bound [of n z] pos_mod_sign [of n z] by linarith

lemma year_bounds_arith:
  fixes y a b c :: int
  assumes "4 * a \<le> y - 1969" "y - 1969 \<le> 4 * a + 3" "100 * b \<le> y - 1901" "y - 1901 \<le> 100 * b + 99"
    "400 * c \<le> y - 1601" "y - 1601 \<le> 400 * c + 399"
  shows "146097 * y - 287811690 \<le> 400 * (365 * (y - 1970) + a - b + c)"
    "400 * (365 * (y - 1970) + a - b + c) \<le> 146097 * y - 287810390"
  using assms by (simp_all add: algebra_simps)

lemma day_from_year_bounds:
  "146097 * y - 287811690 \<le> 400 * day_from_year y" "400 * day_from_year y \<le> 146097 * y - 287810390"
  using div_bounds [of 4 "y - 1969"] div_bounds [of 100 "y - 1901"] div_bounds [of 400 "y - 1601"]
  unfolding day_from_year_def by (intro year_bounds_arith; simp)+

lemma year_of_day_correct:
  "day_from_year (year_of_day d) \<le> d \<and> d < day_from_year (year_of_day d + 1)"
proof -
  define y where "y = (d * 400) div 146097 + 1970"
  have q: "146097 * y - 287811090 \<le> 400 * d" "400 * d \<le> 146097 * y - 287811090 + 146096"
    using div_bounds [of 146097 "d * 400"] unfolding y_def by (simp_all add: algebra_simps)
  have low: "day_from_year (y - 1) \<le> d"
    using day_from_year_bounds(2) [of "y - 1"] q(1) by (simp add: algebra_simps)
  have high: "d < day_from_year (y + 2)"
    using day_from_year_bounds(1) [of "y + 2"] q(2) by (simp add: algebra_simps)
  show ?thesis
    using low high unfolding year_of_day_def Let_def y_def [symmetric] by (simp add: add.commute)
qed

lemma day_in_year_range: "0 \<le> day_in_year t \<and> day_in_year t < days_in_year (getUTCFullYear t)"
  using year_of_day_correct [of "ms_day t"] day_from_year_succ [of "getUTCFullYear t"]
  by (simp add: day_in_year_def getUTCFullYear_def)

section \<open>Months\<close>

lemma month_of_range: "0 \<le> month_of leap d \<and> month_of leap d \<le> 11"
  by (simp add: month_of_def)

lemma month_of_start:
  assumes "0 \<le> d" "d < (if leap then 366 else 365)"
  shows "month_start leap (month_of leap d) \<le> d \<and> d < month_start leap (month_of leap d + 1)"
  using assms unfolding month_of_def by (auto simp: month_start_def)

lemma month_start_mono: "0 \<le> m \<Longrightarrow> m < m' \<Longrightarrow> month_start leap (m + 1) \<le> month_start leap m'"
  by (auto simp: month_start_def) presburger+

lemma month_start_length: "month_start leap (m + 1) \<le> month_start leap m + 31"
  by (auto simp: month_start_def)

lemma month_start_year: "m \<le> 11 \<Longrightarrow> month_start (leap_year y) (m + 1) \<le> days_in_year y"
  by (auto simp: month_start_def days_in_year_def)

section \<open>Fields\<close>

text \<open>The seconds since the epoch of a date given by its fields.\<close>

definition seconds_of_fields :: "int \<times> int \<times> int \<times> int \<times> int \<times> int \<Rightarrow> int" where
  "seconds_of_fields f = (case f of (y, m, d, h, mi, s) \<Rightarrow>
     (((day_from_year y + month_start (leap_year y) m + (d - 1)) * 24 + h) * 60 + mi) * 60 + s)"

definition utc_fields :: "int \<Rightarrow> int \<times> int \<times> int \<times> int \<times> int \<times> int" where
  "utc_fields t = (getUTCFullYear t, getUTCMonth t, getUTCDate t, getUTCHours t, getUTCMinutes t, getUTCSeconds t)"

definition valid_fields :: "int \<times> int \<times> int \<times> int \<times> int \<times> int \<Rightarrow> bool" where
  "valid_fields f \<longleftrightarrow> (case f of (y, m, d, h, mi, s) \<Rightarrow> 0 \<le> m \<and> m \<le> 11 \<and> 1 \<le> d
     \<and> month_start (leap_year y) m + d \<le> month_start (leap_year y) (m + 1)
     \<and> 0 \<le> h \<and> h < 24 \<and> 0 \<le> mi \<and> mi < 60 \<and> 0 \<le> s \<and> s < 60)"

lemma utc_fields_valid: "valid_fields (utc_fields t)"
  using day_in_year_range [of t] month_of_range [of "leap_year (getUTCFullYear t)" "day_in_year t"]
    month_of_start [of "day_in_year t" "leap_year (getUTCFullYear t)"]
  by (simp add: valid_fields_def utc_fields_def getUTCDate_def getUTCHours_def getUTCMinutes_def
      getUTCSeconds_def days_in_year_def) (simp add: getUTCMonth_def)

lemma valid_fields_day: "valid_fields (y, m, d, h, mi, s) \<Longrightarrow> d \<le> 31"
  using month_start_length [of "leap_year y" m] by (simp add: valid_fields_def)

lemma seconds_of_utc_fields: "seconds_of_fields (utc_fields t) = t div 1000"
proof -
  have div: "t div 60000 = t div 1000 div 60" "t div 3600000 = t div 60000 div 60"
    "t div 86400000 = t div 3600000 div 24"
    by (simp_all add: zdiv_zmult2_eq [symmetric])
  have "day_from_year (getUTCFullYear t) + month_start (leap_year (getUTCFullYear t)) (getUTCMonth t)
      + (getUTCDate t - 1) = ms_day t"
    by (simp add: getUTCDate_def day_in_year_def)
  then have "seconds_of_fields (utc_fields t) =
      ((t div 3600000 div 24 * 24 + t div 3600000 mod 24) * 60 + t div 60000 mod 60) * 60 + t div 1000 mod 60"
    unfolding seconds_of_fields_def utc_fields_def split_conv
    by (simp only: ms_day_def div(3) getUTCHours_def getUTCMinutes_def getUTCSeconds_def)
  also have "\<dots> = (t div 60000 div 60 * 60 + t div 60000 mod 60) * 60 + t div 1000 mod 60"
    by (simp only: div_mult_mod_eq div(2))
  also have "\<dots> = t div 1000" by (simp only: div_mult_mod_eq div(1))
  finally show ?thesis .
qed

text \<open>Dates compare as their fields do, from the year down to the second.\<close>

definition fields_less :: "int \<times> int \<times> int \<times> int \<times> int \<times> int \<Rightarrow> int \<times> int \<times> int \<times> int \<times> int \<times> int \<Rightarrow> bool" where
  "fields_less f f' \<longleftrightarrow> (case f of (y, m, d, h, mi, s) \<Rightarrow> case f' of (y', m', d', h', mi', s') \<Rightarrow>
     y < y' \<or> y = y' \<and> (m < m' \<or> m = m' \<and> (d < d' \<or> d = d' \<and>
       (h < h' \<or> h = h' \<and> (mi < mi' \<or> mi = mi' \<and> s < s')))))"

definition day_of_fields :: "int \<Rightarrow> int \<Rightarrow> int \<Rightarrow> int" where
  "day_of_fields y m d = day_from_year y + month_start (leap_year y) m + d"

lemma day_of_fields_less:
  assumes "valid_fields (y, m, d, h, mi, s)" "valid_fields (y', m', d', h', mi', s')"
    and "y < y' \<or> y = y' \<and> (m < m' \<or> m = m' \<and> d < d')"
  shows "day_of_fields y m d < day_of_fields y' m' d'"
proof -
  have 1: "month_start (leap_year y) m + d \<le> month_start (leap_year y) (m + 1)" "0 \<le> m" "m \<le> 11" "1 \<le> d'" "0 \<le> m'"
    using assms(1,2) by (simp_all add: valid_fields_def)
  have 2: "0 \<le> month_start l m'" for l by (simp add: month_start_def)
  consider "y < y'" | "y = y'" "m < m'" | "y = y'" "m = m'" "d < d'" using assms(3) by blast
  then show ?thesis
  proof cases
    case 1
    then have "day_from_year (y + 1) \<le> day_from_year y'" by (rule day_from_year_mono)
    with \<open>1 \<le> d'\<close> 2 [of "leap_year y'"] month_start_year [OF \<open>m \<le> 11\<close>, of y]
      day_from_year_succ [of y] \<open>month_start (leap_year y) m + d \<le> _\<close>
    show ?thesis unfolding day_of_fields_def by linarith
  next
    case 2
    with month_start_mono [OF \<open>0 \<le> m\<close>, of m' "leap_year y"] 1
    show ?thesis unfolding day_of_fields_def by simp
  next
    case 3
    then show ?thesis by (simp add: day_of_fields_def)
  qed
qed

lemma seconds_less:
  assumes "valid_fields f" "valid_fields f'" "fields_less f f'"
  shows "seconds_of_fields f < seconds_of_fields f'"
proof -
  obtain y m d h mi s where f: "f = (y, m, d, h, mi, s)" by (metis prod.exhaust)
  obtain y' m' d' h' mi' s' where f': "f' = (y', m', d', h', mi', s')" by (metis prod.exhaust)
  have r: "0 \<le> h" "h < 24" "0 \<le> mi" "mi < 60" "0 \<le> s" "s < 60"
    "0 \<le> h'" "h' < 24" "0 \<le> mi'" "mi' < 60" "0 \<le> s'" "s' < 60"
    using assms(1,2) by (simp_all add: f f' valid_fields_def)
  have sec: "seconds_of_fields f = (((day_of_fields y m d - 1) * 24 + h) * 60 + mi) * 60 + s"
    "seconds_of_fields f' = (((day_of_fields y' m' d' - 1) * 24 + h') * 60 + mi') * 60 + s'"
    by (simp_all add: f f' seconds_of_fields_def day_of_fields_def algebra_simps)
  consider "day_of_fields y m d < day_of_fields y' m' d'"
    | "day_of_fields y m d = day_of_fields y' m' d'" "h < h' \<or> h = h' \<and> (mi < mi' \<or> mi = mi' \<and> s < s')"
    using day_of_fields_less [OF assms(1,2) [unfolded f f']] assms(3)
    by (auto simp: f f' fields_less_def)
  then show ?thesis
    using r unfolding sec by cases auto
qed

lemma fields_less_linear: "fields_less f f' \<or> f = f' \<or> fields_less f' f"
  by (cases f, cases f') (auto simp: fields_less_def)

lemma utc_fields_less: "fields_less (utc_fields t) (utc_fields t') \<longleftrightarrow> t div 1000 < t' div 1000"
  using seconds_less [OF utc_fields_valid utc_fields_valid, of t t']
    seconds_less [OF utc_fields_valid utc_fields_valid, of t' t]
    fields_less_linear [of "utc_fields t" "utc_fields t'"]
  unfolding seconds_of_utc_fields by (metis less_asym less_irrefl seconds_of_utc_fields)

section \<open>Comparing strings\<close>

text \<open>\<open>a < b\<close> on strings: the first difference decides, a prefix is smaller.\<close>

fun str_less :: "string \<Rightarrow> string \<Rightarrow> bool" where
  "str_less [] [] = False"
| "str_less [] (y # ys) = True"
| "str_less (x # xs) [] = False"
| "str_less (x # xs) (y # ys) = ((of_char x :: nat) < of_char y \<or> x = y \<and> str_less xs ys)"

lemma str_less_irrefl [simp]: "\<not> str_less s s"
  by (induction s) auto

lemma str_less_append:
  "length a = length b \<Longrightarrow> str_less (a @ x) (b @ y) \<longleftrightarrow> str_less a b \<or> a = b \<and> str_less x y"
  by (induction a b rule: list_induct2) auto

lemma dec_val_Cons: "dec_val (c # s) = digit_val c * 10 ^ length s + dec_val s"
  using dec_val_append [of "[c]" s] by (simp add: dec_val_def)

lemma dec_val_less: "\<forall>c\<in>set s. is_digit c \<Longrightarrow> dec_val s < 10 ^ length s"
proof (induction s)
  case Nil
  then show ?case by (simp add: dec_val_def)
next
  case (Cons c s)
  then have c: "digit_val c \<le> 9" and s: "dec_val s < 10 ^ length s"
    by (auto simp: is_digit_def digit_val_def)
  define L where "L = (10::nat) ^ length s"
  have "digit_val c * L \<le> 9 * L" using c by simp
  then show ?case using s unfolding dec_val_Cons L_def [symmetric] length_Cons power_Suc by linarith
qed

lemma str_less_digits:
  assumes "length a = length b" "\<forall>c\<in>set a. is_digit c" "\<forall>c\<in>set b. is_digit c"
  shows "(str_less a b \<longleftrightarrow> dec_val a < dec_val b) \<and> (a = b \<longleftrightarrow> dec_val a = dec_val b)"
  using assms
proof (induction a b rule: list_induct2)
  case Nil
  then show ?case by simp
next
  case (Cons x xs y ys)
  then have IH: "(str_less xs ys \<longleftrightarrow> dec_val xs < dec_val ys) \<and> (xs = ys \<longleftrightarrow> dec_val xs = dec_val ys)"
    and bx: "dec_val xs < 10 ^ length xs" and b_y: "dec_val ys < 10 ^ length xs"
    using dec_val_less [of xs] dec_val_less [of ys] by auto
  have dx: "is_digit x" "is_digit y" using Cons.prems by auto
  have ord: "(of_char x :: nat) < of_char y \<longleftrightarrow> digit_val x < digit_val y" "x = y \<longleftrightarrow> digit_val x = digit_val y"
    using dx by (auto simp: is_digit_def digit_val_def) (metis char_of_char le_antisym nat_le_linear of_char_of diff_diff_cancel le_add_diff_inverse2)
  define L where "L = (10::nat) ^ length xs"
  have len: "length ys = length xs" using Cons.hyps by simp
  consider "digit_val x < digit_val y" | "digit_val x = digit_val y" | "digit_val y < digit_val x" by linarith
  then show ?case
  proof cases
    case 1
    then have "digit_val x * L + L \<le> digit_val y * L" by (metis Suc_leI add.commute mult_Suc mult_le_mono1)
    then have "dec_val (x # xs) < dec_val (y # ys)"
      using bx unfolding dec_val_Cons len L_def [symmetric] by linarith
    with 1 ord show ?thesis by auto
  next
    case 2
    with ord IH show ?thesis unfolding dec_val_Cons len by auto
  next
    case 3
    then have "digit_val y * L + L \<le> digit_val x * L" by (metis Suc_leI add.commute mult_Suc mult_le_mono1)
    then have "dec_val (y # ys) < dec_val (x # xs)"
      using b_y unfolding dec_val_Cons len L_def [symmetric] by linarith
    with 3 ord show ?thesis by auto
  qed
qed

end
