(* ===== verification/Stores.thy ===== *)
theory Stores
  imports Utils
begin

text \<open>
  \<^verbatim>\<open>lib/stores.ts\<close>: the shared state of the dashboard. An \<open>atom\<close> is a field of the record
  \<open>AppState\<close>; a nanostores \<open>map\<close> is a field holding an insertion-ordered dictionary.

  The map stores' \<open>setKey\<close> is code of the nanostores package. It is a parameter of the
  operations that use it: \<open>setKey k v m\<close> gives the new value of the map (\<open>v = None\<close> stands for
  \<open>undefined\<close>, which removes the key) and whether the listeners are notified. The locale
  \<open>nano_map\<close> states what the package documents about it.
\<close>

type_synonym 'v store = "(string, 'v) dict"

type_synonym 'v setKey = "string \<Rightarrow> 'v option \<Rightarrow> 'v store \<Rightarrow> 'v store \<times> bool"

locale nano_map =
  fixes setKey :: "'v setKey"
  assumes setKey_get: "dget (fst (setKey k v m)) j = (if j = k then v else dget m j)"
    and setKey_distinct: "distinct (dkeys m) \<Longrightarrow> distinct (dkeys (fst (setKey k v m)))"
    and setKey_quiet: "\<not> snd (setKey k v m) \<Longrightarrow> dget m k = v"
    and setKey_absent: "dget m k = None \<Longrightarrow> \<not> snd (setKey k None m)"
begin

lemma setKey_keys:
  "set (dkeys (fst (setKey k v m))) =
     (if v = None then set (dkeys m) - {k} else insert k (set (dkeys m)))"
proof (rule set_eqI)
  fix j
  show "j \<in> set (dkeys (fst (setKey k v m))) \<longleftrightarrow>
      j \<in> (if v = None then set (dkeys m) - {k} else insert k (set (dkeys m)))"
    unfolding dget_Some_iff_dkeys [symmetric] setKey_get
    using dget_Some_iff_dkeys [of m j] by auto
qed

lemma setKey_remove_twice:
  "\<not> snd (setKey k None (fst (setKey k None m)))"
  by (rule setKey_absent) (simp add: setKey_get)

end

text \<open>
  The documented behaviour as a function: an undefined value deletes a present key, a different
  value is stored, and only then are the listeners notified. Two records that are equal count as
  the same value here.
\<close>

definition nano_setKey :: "'v setKey" where
  "nano_setKey k v m =
    (case v of
       None \<Rightarrow> if dget m k = None then (m, False) else (ddel k m, True)
     | Some x \<Rightarrow> if dget m k = Some x then (m, False) else (dset k x m, True))"

interpretation nano_reference: nano_map nano_setKey
  by unfold_locales
    (auto simp: nano_setKey_def simp del: map_of_eq_Some_iff split: option.splits if_splits)

section \<open>The stores\<close>

datatype Direction = Ltr | Rtl

record AppState =
  st_authenticated :: bool
  st_allSystemsByName :: "SystemRecord store"
  st_allSystemsById :: "SystemRecord store"
  st_upSystems :: "SystemRecord store"
  st_downSystems :: "SystemRecord store"
  st_pausedSystems :: "SystemRecord store"
  st_alerts :: "(string, AlertRecord) dict store"
  st_publicKey :: string
  st_chartTime :: "ChartTimes option"
  st_maxValues :: bool
  st_userSettings :: UserSettings
  st_containerFilter :: string
  st_temperatureFilter :: string
  st_copyContent :: string
  st_direction :: Direction
  st_longestSystemNameLen :: rat
  st_quickLinks :: "QuickLink list"
  st_externalLinks :: "ExternalLink list"
  st_initialized :: bool
  st_prevDownCount :: int

definition empty_settings :: UserSettings where
  "empty_settings = \<lparr>us_chartTime = None, us_emails = None, us_webhooks = None, us_unitTemp = None,
     us_unitNet = None, us_unitDisk = None, us_colorWarn = None, us_colorCrit = None,
     us_hourFormat = None, us_layoutWidth = None, us_quickLinks = None, us_externalLinks = None\<rparr>"

definition default_settings :: "string option \<Rightarrow> UserSettings" where
  "default_settings email = empty_settings\<lparr>us_chartTime := Some T_1h,
     us_emails := Some [case email of None \<Rightarrow> [] | Some e \<Rightarrow> e],
     us_unitNet := Some Bytes, us_unitTemp := Some Celsius\<rparr>"

text \<open>The stores when the page loads: \<open>auth\<close> is \<open>pb.authStore.isValid\<close>, \<open>email\<close> the record's.\<close>

definition init_stores :: "bool \<Rightarrow> string option \<Rightarrow> AppState" where
  "init_stores auth email =
    \<lparr>st_authenticated = auth, st_allSystemsByName = [], st_allSystemsById = [], st_upSystems = [],
     st_downSystems = [], st_pausedSystems = [], st_alerts = [], st_publicKey = [],
     st_chartTime = Some T_1h, st_maxValues = False, st_userSettings = default_settings email,
     st_containerFilter = [], st_temperatureFilter = [], st_copyContent = [], st_direction = Ltr,
     st_longestSystemNameLen = 8, st_quickLinks = [], st_externalLinks = [],
     st_initialized = False, st_prevDownCount = 0\<rparr>"

text \<open>\<open>$systems\<close> is computed from \<open>$allSystemsById\<close>.\<close>

definition systems :: "AppState \<Rightarrow> SystemRecord list" where
  "systems st = dvals (st_allSystemsById st)"

text \<open>
  \<open>$userSettings.set\<close>: the store's listener copies \<open>chartTime\<close> to \<open>$chartTime\<close>.
\<close>

definition set_userSettings :: "UserSettings \<Rightarrow> AppState \<Rightarrow> AppState" where
  "set_userSettings s st = st\<lparr>st_userSettings := s, st_chartTime := us_chartTime s\<rparr>"

end
