(* ===== verification/Pages.thy ===== *)
theory Pages
  imports Prelude
begin

text \<open>
  Pages as event systems. A page is a state and a function that handles an event (a use of a control,
  an answer, a message); a run handles a list of events in any order. The locale \<open>event_page\<close> is the
  contract of an invariant: it holds when the page is mounted and every event keeps it; \<open>session_page\<close>
  is the same for runs of acceptable events. The extension \<open>request_page\<close> is for pages that wait: every wait a page shows belongs to a request that is under way.
\<close>

definition run :: "('e \<Rightarrow> 's \<Rightarrow> 's) \<Rightarrow> 'e list \<Rightarrow> 's \<Rightarrow> 's" where
  "run step es s = fold step es s"

lemma run_simps [simp]:
  "run step [] s = s" "run step (e # es) s = run step es (step e s)" "run step (es @ es') s = run step es' (run step es s)"
  by (simp_all add: run_def)

text \<open>
  A session is a run in which every event is acceptable in the state it meets (\<open>ok\<close>), for instance
  an answer that fits its request.
\<close>

inductive session :: "('e \<Rightarrow> 's \<Rightarrow> 's) \<Rightarrow> ('e \<Rightarrow> 's \<Rightarrow> bool) \<Rightarrow> ('s \<Rightarrow> bool) \<Rightarrow> 's \<Rightarrow> bool" for step ok mounted where
  start: "mounted s \<Longrightarrow> session step ok mounted s"
| event: "session step ok mounted s \<Longrightarrow> ok e s \<Longrightarrow> session step ok mounted (step e s)"

locale session_page =
  fixes step :: "'e \<Rightarrow> 's \<Rightarrow> 's"
    and ok :: "'e \<Rightarrow> 's \<Rightarrow> bool"
    and mounted :: "'s \<Rightarrow> bool"
    and inv :: "'s \<Rightarrow> bool"
  assumes session_mounted: "mounted s \<Longrightarrow> inv s"
    and session_step: "inv s \<Longrightarrow> ok e s \<Longrightarrow> inv (step e s)"
begin

lemma session_inv: "session step ok mounted s \<Longrightarrow> inv s"
  by (induction rule: session.induct) (auto intro: session_mounted session_step)

end

locale event_page =
  fixes step :: "'e \<Rightarrow> 's \<Rightarrow> 's"
    and mounted :: "'s \<Rightarrow> bool"
    and inv :: "'s \<Rightarrow> bool"
  assumes inv_mounted: "mounted s \<Longrightarrow> inv s"
    and inv_step: "inv s \<Longrightarrow> inv (step e s)"

sublocale event_page \<subseteq> any_session: session_page step "\<lambda>_ _. True" mounted inv
  by unfold_locales (simp_all add: inv_mounted inv_step)

lemma session_run: "session step ok mounted s \<Longrightarrow> (\<And>e s. ok e s) \<Longrightarrow> session step ok mounted (run step es s)"
  by (induction es arbitrary: s) (auto intro: session.event)

context event_page begin

lemma inv_run: "mounted s \<Longrightarrow> inv (run step es s)"
  by (rule any_session.session_inv, rule session_run) (auto intro: session.start)

end

text \<open>Requests under way are kept in lists; one that has ended is taken out by its position.\<close>

definition drop_at :: "nat \<Rightarrow> 'a list \<Rightarrow> 'a list" where
  "drop_at i xs = take i xs @ drop (Suc i) xs"

lemma set_drop_at: "set (drop_at i xs) \<subseteq> set xs"
  by (auto simp: drop_at_def dest: in_set_takeD in_set_dropD)

lemma drop_at_snoc [simp]: "drop_at (length xs) (xs @ [x]) = xs"
  by (simp add: drop_at_def)

locale request_page = event_page +
  fixes waits :: "'s \<Rightarrow> 'k \<Rightarrow> bool"
    and requests :: "'s \<Rightarrow> 'k list"
  assumes waits_requested: "inv s \<Longrightarrow> waits s k \<Longrightarrow> k \<in> set (requests s)"
begin

text \<open>Once every request has ended the page waits for nothing.\<close>

lemma idle_when_answered: "mounted s \<Longrightarrow> requests (run step es s) = [] \<Longrightarrow> \<not> waits (run step es s) k"
  using waits_requested [OF inv_run] by fastforce

end

text \<open>
  A request behind dialogs: an event that asks opens one of them, an event that confirms sends and
  closes one. The request is then sent at most as often as it was asked for, and as it was confirmed.
\<close>

locale guarded_request =
  fixes step :: "'e \<Rightarrow> 's \<Rightarrow> 's"
    and sent :: "'s \<Rightarrow> nat"
    and dialogs :: "'s \<Rightarrow> nat"
    and asks :: "'e \<Rightarrow> bool"
    and confirms :: "'e \<Rightarrow> bool"
  assumes asked: "sent (step e s) + dialogs (step e s) \<le> sent s + dialogs s + of_bool (asks e)"
    and confirmed: "sent (step e s) \<le> sent s + of_bool (confirms e)"
begin

lemma sent_asked: "sent (run step es s) \<le> sent s + dialogs s + length (filter asks es)"
proof (induction es arbitrary: s)
  case (Cons e es)
  from Cons [of "step e s"] asked [of e s] show ?case by (cases "asks e") auto
qed simp

lemma sent_confirmed: "sent (run step es s) \<le> sent s + length (filter confirms es)"
proof (induction es arbitrary: s)
  case (Cons e es)
  from Cons [of "step e s"] confirmed [of e s] show ?case by (cases "confirms e") auto
qed simp

lemma nothing_unasked:
  assumes "sent s = 0" "dialogs s = 0"
  shows "sent (run step es s) \<le> min (length (filter asks es)) (length (filter confirms es))"
  using sent_asked [of es s] sent_confirmed [of es s] assms by simp

end

end
