(* ===== verification/TimeFormats.thy ===== *)
theory TimeFormats
  imports Utils Stores Pages
begin

text \<open>
  The printing of times, \<^verbatim>\<open>lib/utils.ts\<close>, over the formatters of \<^verbatim>\<open>Utils\<close>: their fields, the functions
  that use them, and the store's listener that makes them anew when the user chooses another hour format.
  \<open>local12\<close> is the convention of the locale, \<open>intl\<close> the formatting of the browser's \<open>Intl\<close> library for the
  given fields and hour convention.
\<close>

section \<open>Formatters\<close>

datatype TimeField = Day | Month | Hour | Minute | Second

definition hourWithMinutes_fields :: "TimeField list" where "hourWithMinutes_fields = [Hour, Minute]"
definition shortDate_fields :: "TimeField list" where "shortDate_fields = [Day, Month, Hour, Minute]"
definition hourWithSeconds_fields :: "TimeField list" where "hourWithSeconds_fields = [Hour, Minute, Second]"

definition hourWithMinutes :: "(TimeField list \<Rightarrow> bool option \<Rightarrow> string \<Rightarrow> string) \<Rightarrow> Formatters \<Rightarrow> string \<Rightarrow> string" where
  "hourWithMinutes intl F timestamp = intl hourWithMinutes_fields (fm_hourWithMinutes F) timestamp"

definition formatShortDate :: "(TimeField list \<Rightarrow> bool option \<Rightarrow> string \<Rightarrow> string) \<Rightarrow> Formatters \<Rightarrow> string \<Rightarrow> string" where
  "formatShortDate intl F timestamp = intl shortDate_fields (fm_shortDate F) timestamp"

definition hourWithSeconds :: "(TimeField list \<Rightarrow> bool option \<Rightarrow> string \<Rightarrow> string) \<Rightarrow> Formatters \<Rightarrow> string \<Rightarrow> string" where
  "hourWithSeconds intl F timestamp = intl hourWithSeconds_fields (fm_hourWithSeconds F) timestamp"

definition formatDay :: "(TimeField list \<Rightarrow> bool option \<Rightarrow> string \<Rightarrow> string) \<Rightarrow> string \<Rightarrow> string" where
  "formatDay intl timestamp = intl [Day, Month] None timestamp"

text \<open>The listener of the setting, called when the setting is another than before.\<close>

definition settings_set :: "bool \<Rightarrow> UserSettings \<Rightarrow> UserSettings \<times> Formatters \<Rightarrow> UserSettings \<times> Formatters" where
  "settings_set local12 new st =
    (case st of (old, F) \<Rightarrow>
      (new, if us_hourFormat new \<noteq> us_hourFormat old then on_hourFormat local12 (us_hourFormat new) F else F))"

section \<open>Lemmas\<close>

definition formats_inv :: "bool \<Rightarrow> UserSettings \<times> Formatters \<Rightarrow> bool" where
  "formats_inv local12 st \<longleftrightarrow> formatters_agree (snd st)
     \<and> (\<forall>h. us_hourFormat (fst st) = Some h \<longrightarrow> currentHour12 local12 (snd st) = (h = H12))"

interpretation time_formats: event_page "settings_set local12" "\<lambda>st. us_hourFormat (fst st) = None \<and> snd st = init_formatters" "formats_inv local12"
  for local12
proof (unfold_locales, goal_cases)
  case (1 st)
  then show ?case by (simp add: formats_inv_def formatters_agree_def init_formatters_def)
next
  case (2 st new)
  then show ?case
    by (cases st; cases "us_hourFormat new")
      (auto simp: settings_set_def on_hourFormat_def formats_inv_def formatters_agree_def currentHour12_def resolved_hour12_def Let_def)
qed

section \<open>Properties\<close>

text \<open>
  Whatever settings the store takes, one after the other: as soon as an hour format is chosen all three
  formatters use it, and they always agree with each other.
\<close>

theorem formats_follow_setting:
  assumes "us_hourFormat s = None" "run (settings_set local12) settings (s, init_formatters) = (s', F)"
  shows "fm_hourWithMinutes F = fm_shortDate F \<and> fm_hourWithSeconds F = fm_shortDate F
    \<and> (\<forall>h. us_hourFormat s' = Some h \<longrightarrow> currentHour12 local12 F = (h = H12))"
proof -
  have "formats_inv local12 (s', F)"
    using time_formats.inv_run [of "(s, init_formatters)" local12 settings] assms by simp
  then show ?thesis by (simp add: formats_inv_def formatters_agree_def)
qed

theorem formats_follow_setting_witness:
  "currentHour12 True (snd (run (settings_set True) [empty_settings\<lparr>us_hourFormat := Some H24\<rparr>] (empty_settings, init_formatters))) = False"
proof -
  let ?r = "run (settings_set True) [empty_settings\<lparr>us_hourFormat := Some H24\<rparr>] (empty_settings, init_formatters)"
  have s: "us_hourFormat empty_settings = None" "us_hourFormat (fst ?r) = Some H24" by (simp_all add: empty_settings_def settings_set_def)
  show ?thesis using formats_follow_setting [of empty_settings True "[empty_settings\<lparr>us_hourFormat := Some H24\<rparr>]" "fst ?r" "snd ?r"] s by simp
qed

end
