(* ===== verification/Systems.thy ===== *)
theory Systems
  imports Stores
begin

text \<open>
  \<^verbatim>\<open>lib/systemsManager.ts\<close>: the systems manager keeps five stores of systems. Records arrive
  through the PocketBase subscription (create, update, delete) and through \<open>refresh\<close>; a listener
  on \<open>$allSystemsById\<close> moves each changed system to the store of its status, and keeps the
  favicon's count of down systems and the longest displayed name.

  The listener is called for every notification of \<open>$allSystemsById\<close> with the new map, the old
  map and the changed key. Notifications its own \<open>setKey\<close> calls raise are queued and delivered
  after it; \<open>deliver\<close> works the queue off. The invariant \<open>systems_inv\<close> says that the status
  stores are exactly the systems of that status.
\<close>

definition MAX_SYSTEM_NAME_LENGTH :: rat where
  "MAX_SYSTEM_NAME_LENGTH = 22"

type_synonym notification = "SystemRecord store \<times> SystemRecord store \<times> string"

section \<open>Operations\<close>

text \<open>\<open>removeFromStore\<close> on the stores without listeners: by id, and by name for the name store.\<close>

definition removeById :: "SystemRecord setKey \<Rightarrow> SystemRecord \<Rightarrow> SystemRecord store \<Rightarrow> SystemRecord store" where
  "removeById setKey system store = fst (setKey (sys_id system) None store)"

definition removeByName :: "SystemRecord setKey \<Rightarrow> SystemRecord \<Rightarrow> SystemRecord store \<Rightarrow> SystemRecord store" where
  "removeByName setKey system store = fst (setKey (sys_name system) None store)"

definition onSystemsChanged :: "SystemRecord option \<Rightarrow> AppState \<Rightarrow> AppState" where
  "onSystemsChanged changedSystem st =
    (let downSystems = dvals (st_downSystems st);
         longestName = st_longestSystemNameLen st;
         nameLen = min MAX_SYSTEM_NAME_LENGTH
                     (getVisualStringWidth (case changedSystem of None \<Rightarrow> [] | Some s \<Rightarrow> sys_name s));
         st1 = (if nameLen > longestName then st\<lparr>st_longestSystemNameLen := nameLen\<rparr> else st)
     in st1\<lparr>st_prevDownCount := fst (updateFavicon [] [] (st_prevDownCount st1) (int (length downSystems)))\<rparr>)"

text \<open>The status branches of the listener.\<close>

definition place :: "SystemRecord setKey \<Rightarrow> SystemRecord \<Rightarrow> AppState \<Rightarrow> AppState" where
  "place setKey new st =
    (case sys_status new of
       Up \<Rightarrow> st\<lparr>st_upSystems := fst (setKey (sys_id new) (Some new) (st_upSystems st)),
                st_downSystems := removeById setKey new (st_downSystems st),
                st_pausedSystems := removeById setKey new (st_pausedSystems st)\<rparr>
     | Down \<Rightarrow> st\<lparr>st_downSystems := fst (setKey (sys_id new) (Some new) (st_downSystems st)),
                st_upSystems := removeById setKey new (st_upSystems st),
                st_pausedSystems := removeById setKey new (st_pausedSystems st)\<rparr>
     | Paused \<Rightarrow> st\<lparr>st_pausedSystems := fst (setKey (sys_id new) (Some new) (st_pausedSystems st)),
                st_upSystems := removeById setKey new (st_upSystems st),
                st_downSystems := removeById setKey new (st_downSystems st)\<rparr>
     | Pending \<Rightarrow> st\<lparr>st_upSystems := removeById setKey new (st_upSystems st),
                st_downSystems := removeById setKey new (st_downSystems st),
                st_pausedSystems := removeById setKey new (st_pausedSystems st)\<rparr>)"

text \<open>
  \<open>$allSystemsById.setKey\<close>: the new value and the notification it raises, if there is a listener.
\<close>

definition byId_setKey ::
  "SystemRecord setKey \<Rightarrow> string \<Rightarrow> SystemRecord option \<Rightarrow> AppState \<Rightarrow> AppState \<times> notification list" where
  "byId_setKey setKey k v st =
    (let old = st_allSystemsById st; (new, notify) = setKey k v old
     in (st\<lparr>st_allSystemsById := new\<rparr>,
         if notify \<and> st_initialized st then [(new, old, k)] else []))"

definition listener ::
  "SystemRecord setKey \<Rightarrow> notification \<Rightarrow> AppState \<Rightarrow> AppState \<times> notification list" where
  "listener setKey n st =
    (case n of (newSystems, oldSystems, changedKey) \<Rightarrow>
      (let oldSystem = dget oldSystems changedKey;
           newSystem = dget newSystems changedKey;
           (st1, queued) =
             (case oldSystem of
                None \<Rightarrow> (st, [])
              | Some old \<Rightarrow>
                 if newSystem = None \<or> sys_id (the newSystem) = []
                 then byId_setKey setKey (sys_id old) None
                        (st\<lparr>st_upSystems := removeById setKey old (st_upSystems st),
                            st_downSystems := removeById setKey old (st_downSystems st),
                            st_pausedSystems := removeById setKey old (st_pausedSystems st)\<rparr>)
                 else (st, []))
       in case newSystem of
            None \<Rightarrow> (onSystemsChanged None st1, queued)
          | Some new \<Rightarrow> (onSystemsChanged (Some new) (place setKey new st1), queued)))"

fun deliver :: "SystemRecord setKey \<Rightarrow> nat \<Rightarrow> notification list \<Rightarrow> AppState \<Rightarrow> AppState" where
  "deliver setKey fuel [] st = st"
| "deliver setKey 0 (n # ns) st = st"
| "deliver setKey (Suc fuel) (n # ns) st =
    (let (st', queued) = listener setKey n st in deliver setKey fuel (ns @ queued) st')"

text \<open>The delivery with an exhausted fuel made visible as \<open>None\<close>.\<close>

fun delivered :: "SystemRecord setKey \<Rightarrow> nat \<Rightarrow> notification list \<Rightarrow> AppState \<Rightarrow> AppState option" where
  "delivered setKey fuel [] st = Some st"
| "delivered setKey 0 (n # ns) st = None"
| "delivered setKey (Suc fuel) (n # ns) st =
    (let (st', queued) = listener setKey n st in delivered setKey fuel (ns @ queued) st')"

text \<open>
  A \<open>setKey\<close> on \<open>$allSystemsById\<close> with the delivery of its notifications. Each notification
  beyond the first comes from deleting a key of the map, so one more than its size is enough fuel.
\<close>

definition setSystem ::
  "SystemRecord setKey \<Rightarrow> string \<Rightarrow> SystemRecord option \<Rightarrow> AppState \<Rightarrow> AppState" where
  "setSystem setKey k v st =
    (let (st', ns) = byId_setKey setKey k v st
     in deliver setKey (Suc (length (st_allSystemsById st'))) ns st')"

text \<open>\<open>init\<close> registers the listener once.\<close>

definition init :: "AppState \<Rightarrow> AppState" where
  "init st = (if st_initialized st then st else st\<lparr>st_initialized := True\<rparr>)"

text \<open>\<open>validateSystemInfo\<close> throws (\<open>False\<close>) when the record has no cpu info.\<close>

definition validateSystemInfo :: "SystemRecord \<Rightarrow> bool" where
  "validateSystemInfo system \<longleftrightarrow> si_cpu (sys_info system) \<noteq> None"

definition add :: "SystemRecord setKey \<Rightarrow> SystemRecord \<Rightarrow> AppState \<Rightarrow> AppState" where
  "add setKey system st =
    (if validateSystemInfo system
     then setSystem setKey (sys_id system) (Some system)
            (st\<lparr>st_allSystemsByName :=
                 fst (setKey (sys_name system) (Some system) (st_allSystemsByName st))\<rparr>)
     else st)"

text \<open>
  \<open>update\<close>: the old name's entry is removed when the name changed. For an unknown id the old name
  is \<open>undefined\<close>, and \<open>setKey(undefined, undefined)\<close> acts on the key \<open>"undefined"\<close>.
\<close>

definition update :: "SystemRecord setKey \<Rightarrow> SystemRecord \<Rightarrow> AppState \<Rightarrow> AppState" where
  "update setKey system st =
    (if validateSystemInfo system
     then (let oldName = map_option sys_name (dget (st_allSystemsById st) (sys_id system));
               key = (case oldName of None \<Rightarrow> ''undefined'' | Some n \<Rightarrow> n);
               st1 = (if oldName \<noteq> Some (sys_name system)
                      then st\<lparr>st_allSystemsByName := fst (setKey key None (st_allSystemsByName st))\<rparr>
                      else st)
           in add setKey system st1)
     else st)"

definition remove :: "SystemRecord setKey \<Rightarrow> SystemRecord \<Rightarrow> AppState \<Rightarrow> AppState" where
  "remove setKey system st =
    (let st1 = st\<lparr>st_allSystemsByName := removeByName setKey system (st_allSystemsByName st)\<rparr>;
         st2 = setSystem setKey (sys_id system) None st1
     in st2\<lparr>st_upSystems := removeById setKey system (st_upSystems st2),
            st_downSystems := removeById setKey system (st_downSystems st2),
            st_pausedSystems := removeById setKey system (st_pausedSystems st2)\<rparr>)"

fun actionFns :: "SystemRecord setKey \<Rightarrow> PbAction \<Rightarrow> SystemRecord \<Rightarrow> AppState \<Rightarrow> AppState" where
  "actionFns setKey Create = add setKey"
| "actionFns setKey Update = update setKey"
| "actionFns setKey Delete = remove setKey"

text \<open>
  \<open>fetchSystems\<close> gives the hub's list, or none on an error. \<open>refresh\<close> adds them in order; with
  none it verifies the authentication instead (the second component).
\<close>

definition fetchSystems :: "(string + SystemRecord list) \<Rightarrow> SystemRecord list" where
  "fetchSystems response = (case response of Inl e \<Rightarrow> [] | Inr records \<Rightarrow> records)"

definition refresh ::
  "SystemRecord setKey \<Rightarrow> (string + SystemRecord list) \<Rightarrow> AppState \<Rightarrow> AppState \<times> bool" where
  "refresh setKey response st =
    (let records = fetchSystems response in
     if records = [] then (st, True) else (foldl (\<lambda>s r. add setKey r s) st records, False))"

section \<open>The invariant\<close>

definition with_status :: "SystemStatus \<Rightarrow> SystemRecord store \<Rightarrow> string \<Rightarrow> SystemRecord option" where
  "with_status x m k =
    (case dget m k of None \<Rightarrow> None | Some s \<Rightarrow> if sys_status s = x then Some s else None)"

definition stores_distinct :: "AppState \<Rightarrow> bool" where
  "stores_distinct st \<longleftrightarrow> distinct (dkeys (st_allSystemsByName st)) \<and> distinct (dkeys (st_allSystemsById st))
     \<and> distinct (dkeys (st_upSystems st)) \<and> distinct (dkeys (st_downSystems st))
     \<and> distinct (dkeys (st_pausedSystems st))"

definition ids_inv :: "AppState \<Rightarrow> bool" where
  "ids_inv st \<longleftrightarrow> (\<forall>k s. dget (st_allSystemsById st) k = Some s \<longrightarrow> sys_id s = k \<and> k \<noteq> [])"

definition partition_inv :: "AppState \<Rightarrow> bool" where
  "partition_inv st \<longleftrightarrow>
     (\<forall>k. dget (st_upSystems st) k = with_status Up (st_allSystemsById st) k
        \<and> dget (st_downSystems st) k = with_status Down (st_allSystemsById st) k
        \<and> dget (st_pausedSystems st) k = with_status Paused (st_allSystemsById st) k)"

definition display_inv :: "AppState \<Rightarrow> bool" where
  "display_inv st \<longleftrightarrow> st_prevDownCount st = int (length (st_downSystems st))
     \<and> 8 \<le> st_longestSystemNameLen st \<and> st_longestSystemNameLen st \<le> 22
     \<and> (\<forall>k s. dget (st_allSystemsById st) k = Some s
           \<longrightarrow> min 22 (getVisualStringWidth (sys_name s)) \<le> st_longestSystemNameLen st)"

definition systems_inv :: "AppState \<Rightarrow> bool" where
  "systems_inv st \<longleftrightarrow>
     st_initialized st \<and> stores_distinct st \<and> ids_inv st \<and> partition_inv st \<and> display_inv st"

lemmas systems_inv_defs =
  systems_inv_def stores_distinct_def ids_inv_def partition_inv_def display_inv_def

lemma updateFavicon_count [simp]: "fst (updateFavicon h t p n) = n"
  by (simp add: updateFavicon_def)

lemma onSystemsChanged_simps [simp]:
  "st_allSystemsById (onSystemsChanged c st) = st_allSystemsById st"
  "st_allSystemsByName (onSystemsChanged c st) = st_allSystemsByName st"
  "st_upSystems (onSystemsChanged c st) = st_upSystems st"
  "st_downSystems (onSystemsChanged c st) = st_downSystems st"
  "st_pausedSystems (onSystemsChanged c st) = st_pausedSystems st"
  "st_initialized (onSystemsChanged c st) = st_initialized st"
  "st_prevDownCount (onSystemsChanged c st) = int (length (st_downSystems st))"
  "st_longestSystemNameLen (onSystemsChanged c st) =
     max (st_longestSystemNameLen st)
       (min 22 (getVisualStringWidth (case c of None \<Rightarrow> [] | Some s \<Rightarrow> sys_name s)))"
  by (auto simp: onSystemsChanged_def Let_def MAX_SYSTEM_NAME_LENGTH_def max_def split: option.splits)

locale systems_store = nano_map setKey for setKey :: "SystemRecord setKey"
begin

lemma removeById_get [simp]:
  "dget (removeById setKey s m) j = (if j = sys_id s then None else dget m j)"
  by (simp add: removeById_def setKey_get)

lemma removeById_distinct [simp]: "distinct (dkeys m) \<Longrightarrow> distinct (dkeys (removeById setKey s m))"
  by (simp add: removeById_def setKey_distinct)

lemma place_simps [simp]:
  "st_allSystemsById (place setKey s st) = st_allSystemsById st"
  "st_allSystemsByName (place setKey s st) = st_allSystemsByName st"
  "st_initialized (place setKey s st) = st_initialized st"
  "st_longestSystemNameLen (place setKey s st) = st_longestSystemNameLen st"
  by (simp_all add: place_def split: SystemStatus.split)

lemma place_get [simp]:
  "dget (st_upSystems (place setKey s st)) j =
     (if j = sys_id s then (if sys_status s = Up then Some s else None) else dget (st_upSystems st) j)"
  "dget (st_downSystems (place setKey s st)) j =
     (if j = sys_id s then (if sys_status s = Down then Some s else None) else dget (st_downSystems st) j)"
  "dget (st_pausedSystems (place setKey s st)) j =
     (if j = sys_id s then (if sys_status s = Paused then Some s else None) else dget (st_pausedSystems st) j)"
  by (simp_all add: place_def setKey_get split: SystemStatus.split)

lemma place_distinct:
  "stores_distinct st \<Longrightarrow> stores_distinct (place setKey s st)"
  by (auto simp: stores_distinct_def place_def setKey_distinct split: SystemStatus.split)

text \<open>What a \<open>setKey\<close> on \<open>$allSystemsById\<close> does in the end, with and without a notification.\<close>

lemma setSystem_quiet:
  assumes "\<not> snd (setKey k v (st_allSystemsById st))"
  shows "setSystem setKey k v st =
    st\<lparr>st_allSystemsById := fst (setKey k v (st_allSystemsById st))\<rparr>"
  using assms by (simp add: setSystem_def byId_setKey_def Let_def case_prod_beta)

lemma setSystem_store:
  assumes "snd (setKey (sys_id s) (Some s) (st_allSystemsById st))" "st_initialized st" "sys_id s \<noteq> []"
  shows "setSystem setKey (sys_id s) (Some s) st = onSystemsChanged (Some s) (place setKey s
     (st\<lparr>st_allSystemsById := fst (setKey (sys_id s) (Some s) (st_allSystemsById st))\<rparr>))"
proof -
  obtain new where new: "setKey (sys_id s) (Some s) (st_allSystemsById st) = (new, True)"
    using assms(1) by (metis prod.collapse)
  then have "dget new (sys_id s) = Some s"
    using setKey_get [of "sys_id s" "Some s" "st_allSystemsById st" "sys_id s"] by simp
  with new assms show ?thesis
    by (simp add: setSystem_def byId_setKey_def listener_def Let_def split: option.split)
qed

lemma setSystem_delete:
  assumes "snd (setKey k None (st_allSystemsById st))" "st_initialized st" "ids_inv st"
  shows "\<exists>old. dget (st_allSystemsById st) k = Some old \<and> sys_id old = k \<and>
    setSystem setKey k None st = onSystemsChanged None
      (st\<lparr>st_upSystems := removeById setKey old (st_upSystems st),
          st_downSystems := removeById setKey old (st_downSystems st),
          st_pausedSystems := removeById setKey old (st_pausedSystems st),
          st_allSystemsById := fst (setKey k None (fst (setKey k None (st_allSystemsById st))))\<rparr>)"
proof -
  obtain new where new: "setKey k None (st_allSystemsById st) = (new, True)"
    using assms(1) by (metis prod.collapse)
  have "dget (st_allSystemsById st) k \<noteq> None" using assms(1) setKey_absent by blast
  then obtain old where old: "dget (st_allSystemsById st) k = Some old" by blast
  then have id: "sys_id old = k" using assms(3) by (simp add: ids_inv_def)
  have gone: "dget new k = None"
    using new setKey_get [of k None "st_allSystemsById st" k] by simp
  then have quiet: "\<not> snd (setKey k None new)" by (rule setKey_absent)
  obtain new2 where new2: "setKey k None new = (new2, False)"
    using quiet by (metis prod.collapse)
  have "setSystem setKey k None st = onSystemsChanged None
      (st\<lparr>st_upSystems := removeById setKey old (st_upSystems st),
          st_downSystems := removeById setKey old (st_downSystems st),
          st_pausedSystems := removeById setKey old (st_pausedSystems st),
          st_allSystemsById := new2\<rparr>)"
    using assms(2) id old gone
    by (simp add: setSystem_def byId_setKey_def listener_def Let_def new new2
        del: map_of_eq_None_iff)
  with old id show ?thesis by (simp add: new new2 del: map_of_eq_None_iff)
qed

lemma setKey_quiet_get:
  assumes "\<not> snd (setKey k v m)"
  shows "dget (fst (setKey k v m)) = dget m"
  using setKey_quiet [OF assms] by (auto simp: setKey_get)

lemma inv_same_byId:
  assumes "systems_inv st" "dget m = dget (st_allSystemsById st)" "distinct (dkeys m)"
  shows "systems_inv (st\<lparr>st_allSystemsById := m\<rparr>)"
  using assms by (simp add: systems_inv_defs with_status_def)

lemma inv_names: "systems_inv st \<Longrightarrow> distinct (dkeys (st_allSystemsByName st))"
  by (simp add: systems_inv_def stores_distinct_def)

lemma inv_byName:
  assumes "systems_inv st" "distinct (dkeys m)"
  shows "systems_inv (st\<lparr>st_allSystemsByName := m\<rparr>)"
  using assms by (simp add: systems_inv_defs)

lemma setSystem_store_inv:
  assumes inv: "systems_inv st" and id: "sys_id s \<noteq> []"
  shows "systems_inv (setSystem setKey (sys_id s) (Some s) st)"
proof (cases "snd (setKey (sys_id s) (Some s) (st_allSystemsById st))")
  case False
  have "distinct (dkeys (st_allSystemsById st))" using inv by (simp add: systems_inv_defs)
  with False inv show ?thesis
    by (simp add: setSystem_quiet inv_same_byId setKey_quiet_get setKey_distinct)
next
  case True
  let ?st = "st\<lparr>st_allSystemsById := fst (setKey (sys_id s) (Some s) (st_allSystemsById st))\<rparr>"
  have eq: "setSystem setKey (sys_id s) (Some s) st = onSystemsChanged (Some s) (place setKey s ?st)"
    using True inv id by (simp add: setSystem_store systems_inv_def)
  have "stores_distinct ?st" using inv by (simp add: systems_inv_defs setKey_distinct)
  then have "stores_distinct (place setKey s ?st)" by (rule place_distinct)
  then have "stores_distinct (onSystemsChanged (Some s) (place setKey s ?st))"
    by (simp add: stores_distinct_def)
  moreover have "ids_inv (onSystemsChanged (Some s) (place setKey s ?st))"
    using inv id by (simp add: systems_inv_def ids_inv_def setKey_get)
  moreover have "partition_inv (onSystemsChanged (Some s) (place setKey s ?st))"
    using inv by (simp add: systems_inv_def partition_inv_def with_status_def setKey_get)
  moreover have "display_inv (onSystemsChanged (Some s) (place setKey s ?st))"
    using inv by (auto simp: systems_inv_def display_inv_def setKey_get le_max_iff_disj split: if_splits)
  moreover have "st_initialized (onSystemsChanged (Some s) (place setKey s ?st))"
    using inv by (simp add: systems_inv_def)
  ultimately show ?thesis by (simp add: eq systems_inv_def)
qed

lemma setSystem_store_get:
  assumes "systems_inv st" "sys_id s \<noteq> []"
  shows "dget (st_allSystemsById (setSystem setKey (sys_id s) (Some s) st)) j =
     (if j = sys_id s then Some s else dget (st_allSystemsById st) j)"
    and "st_allSystemsByName (setSystem setKey (sys_id s) (Some s) st) = st_allSystemsByName st"
proof -
  have init: "st_initialized st" using assms by (simp add: systems_inv_def)
  show "dget (st_allSystemsById (setSystem setKey (sys_id s) (Some s) st)) j =
     (if j = sys_id s then Some s else dget (st_allSystemsById st) j)"
    and "st_allSystemsByName (setSystem setKey (sys_id s) (Some s) st) = st_allSystemsByName st"
    using setSystem_quiet [of "sys_id s" "Some s" st] setSystem_store [of s st] init assms(2)
    by (cases "snd (setKey (sys_id s) (Some s) (st_allSystemsById st))"; simp add: setKey_get)+
qed

lemma setSystem_delete_inv:
  assumes inv: "systems_inv st"
  shows "systems_inv (setSystem setKey k None st)"
    and "dget (st_allSystemsById (setSystem setKey k None st)) j =
           (if j = k then None else dget (st_allSystemsById st) j)"
    and "st_allSystemsByName (setSystem setKey k None st) = st_allSystemsByName st"
proof -
  have d: "distinct (dkeys (st_allSystemsById st))" and init: "st_initialized st" and ids: "ids_inv st"
    using inv by (simp_all add: systems_inv_defs)
  have "systems_inv (setSystem setKey k None st)
    \<and> dget (st_allSystemsById (setSystem setKey k None st)) j =
        (if j = k then None else dget (st_allSystemsById st) j)
    \<and> st_allSystemsByName (setSystem setKey k None st) = st_allSystemsByName st"
  proof (cases "snd (setKey k None (st_allSystemsById st))")
    case False
    with inv d show ?thesis
      by (simp add: setSystem_quiet inv_same_byId setKey_quiet_get setKey_distinct setKey_get
          del: map_of_eq_None_iff) (metis False setKey_quiet)
  next
    case True
    from setSystem_delete [OF True init ids] obtain old where old:
      "dget (st_allSystemsById st) k = Some old" "sys_id old = k"
      "setSystem setKey k None st = onSystemsChanged None
        (st\<lparr>st_upSystems := removeById setKey old (st_upSystems st),
            st_downSystems := removeById setKey old (st_downSystems st),
            st_pausedSystems := removeById setKey old (st_pausedSystems st),
            st_allSystemsById := fst (setKey k None (fst (setKey k None (st_allSystemsById st))))\<rparr>)"
      by blast
    have w: "getVisualStringWidth [] = 0" by (simp add: getVisualStringWidth_def)
    show ?thesis using inv unfolding old(3)
      by (simp add: systems_inv_defs old(2) setKey_get setKey_distinct with_status_def w
          le_max_iff_disj del: map_of_eq_None_iff)
  qed
  then show "systems_inv (setSystem setKey k None st)"
    and "dget (st_allSystemsById (setSystem setKey k None st)) j =
           (if j = k then None else dget (st_allSystemsById st) j)"
    and "st_allSystemsByName (setSystem setKey k None st) = st_allSystemsByName st" by blast+
qed

lemma add_inv: "systems_inv st \<Longrightarrow> sys_id s \<noteq> [] \<Longrightarrow> systems_inv (add setKey s st)"
  unfolding add_def
  by (auto intro!: setSystem_store_inv inv_byName setKey_distinct inv_names)

lemma update_inv: "systems_inv st \<Longrightarrow> sys_id s \<noteq> [] \<Longrightarrow> systems_inv (update setKey s st)"
  unfolding update_def Let_def
  by (auto intro!: add_inv inv_byName setKey_distinct inv_names)

lemma refresh_inv:
  assumes "systems_inv st" "\<forall>s\<in>set (fetchSystems response). sys_id s \<noteq> []"
  shows "systems_inv (fst (refresh setKey response st))"
proof -
  have "systems_inv (foldl (\<lambda>s r. add setKey r s) st rs)" if "\<forall>s\<in>set rs. sys_id s \<noteq> []" for rs
    using that assms(1) by (induction rs arbitrary: st) (auto intro: add_inv)
  with assms show ?thesis by (simp add: refresh_def Let_def)
qed

lemma remove_down_length:
  assumes "systems_inv st" "dget (st_allSystemsById st) (sys_id s) = None"
  shows "length (removeById setKey s (st_downSystems st)) = length (st_downSystems st)"
proof -
  have d: "distinct (dkeys (st_downSystems st))" using assms by (simp add: systems_inv_defs)
  have none: "dget (st_downSystems st) (sys_id s) = None"
    using assms by (simp add: systems_inv_def partition_inv_def with_status_def)
  have "set (dkeys (removeById setKey s (st_downSystems st))) = set (dkeys (st_downSystems st)) - {sys_id s}"
    unfolding removeById_def setKey_keys by simp
  also have "\<dots> = set (dkeys (st_downSystems st))"
    using none dget_Some_iff_dkeys [of "st_downSystems st" "sys_id s"] by simp
  finally show ?thesis
    using d by (metis length_map distinct_card removeById_distinct)
qed

lemma remove_inv:
  assumes inv: "systems_inv st"
  shows "systems_inv (remove setKey s st)"
    and "dget (st_allSystemsById (remove setKey s st)) j =
           (if j = sys_id s then None else dget (st_allSystemsById st) j)"
proof -
  define st1 where "st1 = st\<lparr>st_allSystemsByName := removeByName setKey s (st_allSystemsByName st)\<rparr>"
  define st2 where "st2 = setSystem setKey (sys_id s) None st1"
  have inv1: "systems_inv st1"
    unfolding st1_def removeByName_def using inv by (intro inv_byName setKey_distinct inv_names)
  have inv2: "systems_inv st2" unfolding st2_def by (rule setSystem_delete_inv(1) [OF inv1])
  have gone: "dget (st_allSystemsById st2) (sys_id s) = None"
    unfolding st2_def using setSystem_delete_inv(2) [OF inv1, of "sys_id s" "sys_id s"] by simp
  have eq: "remove setKey s st = st2\<lparr>st_upSystems := removeById setKey s (st_upSystems st2),
      st_downSystems := removeById setKey s (st_downSystems st2),
      st_pausedSystems := removeById setKey s (st_pausedSystems st2)\<rparr>"
    by (simp add: remove_def st2_def st1_def Let_def)
  show "systems_inv (remove setKey s st)"
    unfolding eq using inv2 gone remove_down_length [OF inv2 gone]
    by (simp add: systems_inv_def ids_inv_def partition_inv_def display_inv_def stores_distinct_def
        with_status_def del: map_of_eq_None_iff)
  show "dget (st_allSystemsById (remove setKey s st)) j =
      (if j = sys_id s then None else dget (st_allSystemsById st) j)"
    unfolding eq st2_def using setSystem_delete_inv(2) [OF inv1] by (simp add: st1_def)
qed

lemma add_lookup:
  assumes "systems_inv st" "sys_id s \<noteq> []" "validateSystemInfo s"
  shows "dget (st_allSystemsById (add setKey s st)) j =
           (if j = sys_id s then Some s else dget (st_allSystemsById st) j)"
    and "dget (st_allSystemsByName (add setKey s st)) n =
           (if n = sys_name s then Some s else dget (st_allSystemsByName st) n)"
proof -
  have "systems_inv (st\<lparr>st_allSystemsByName := fst (setKey (sys_name s) (Some s) (st_allSystemsByName st))\<rparr>)"
    using assms(1) by (intro inv_byName setKey_distinct inv_names)
  note g = setSystem_store_get [OF this assms(2)]
  show "dget (st_allSystemsById (add setKey s st)) j =
           (if j = sys_id s then Some s else dget (st_allSystemsById st) j)"
    and "dget (st_allSystemsByName (add setKey s st)) n =
           (if n = sys_name s then Some s else dget (st_allSystemsByName st) n)"
    using assms(3) by (simp_all add: add_def g setKey_get)
qed

lemma update_lookup:
  assumes "systems_inv st" "sys_id s \<noteq> []" "validateSystemInfo s" "dget (st_allSystemsById st) (sys_id s) = Some old"
  shows "dget (st_allSystemsById (update setKey s st)) j =
           (if j = sys_id s then Some s else dget (st_allSystemsById st) j)"
    and "dget (st_allSystemsByName (update setKey s st)) n =
           (if n = sys_name s then Some s else if n = sys_name old then None
            else dget (st_allSystemsByName st) n)"
proof -
  have "systems_inv (st\<lparr>st_allSystemsByName := fst (setKey (sys_name old) None (st_allSystemsByName st))\<rparr>)"
    using assms(1) by (intro inv_byName setKey_distinct inv_names)
  note g1 = add_lookup [OF this assms(2,3)] and g2 = add_lookup [OF assms(1-3)]
  show "dget (st_allSystemsById (update setKey s st)) j =
           (if j = sys_id s then Some s else dget (st_allSystemsById st) j)"
    and "dget (st_allSystemsByName (update setKey s st)) n =
           (if n = sys_name s then Some s else if n = sys_name old then None
            else dget (st_allSystemsByName st) n)"
    using assms(3,4) by (simp_all add: update_def g1 g2 setKey_get)
qed

text \<open>
  The delivery ends: a notification is worked off in each round, and the listener raises another one
  only by deleting a key.
\<close>

abbreviation "known st \<equiv> set (dkeys (st_allSystemsById st))"

lemma known_byId_delete: "known (fst (byId_setKey setKey k None st)) = known st - {k}"
  using setKey_keys [of k None "st_allSystemsById st"] by (simp add: byId_setKey_def Let_def case_prod_beta)

lemma byId_delete_measure:
  "length (snd (byId_setKey setKey k None st)) + card (known (fst (byId_setKey setKey k None st))) \<le> card (known st)"
proof (cases "snd (byId_setKey setKey k None st) = []")
  case True
  then show ?thesis unfolding known_byId_delete by (simp add: card_mono)
next
  case False
  then have "snd (setKey k None (st_allSystemsById st))" and one: "length (snd (byId_setKey setKey k None st)) = 1"
    by (simp_all add: byId_setKey_def Let_def case_prod_beta split: if_splits)
  then have "dget (st_allSystemsById st) k \<noteq> None" using setKey_absent by blast
  then have "k \<in> known st" using dget_Some_iff_dkeys [of "st_allSystemsById st" k] by blast
  then have "Suc (card (known st - {k})) = card (known st)" by (rule card_Suc_Diff1 [OF finite_set])
  then show ?thesis unfolding known_byId_delete one by simp
qed

lemma listener_measure:
  "length (snd (listener setKey n st)) + card (known (fst (listener setKey n st))) \<le> card (known st)"
proof -
  obtain new old k where n: "n = (new, old, k)" by (cases n)
  define removed where "removed = (\<lambda>x. st\<lparr>st_upSystems := removeById setKey x (st_upSystems st),
      st_downSystems := removeById setKey x (st_downSystems st),
      st_pausedSystems := removeById setKey x (st_pausedSystems st)\<rparr>)"
  have "known (removed x) = known st" for x by (simp add: removed_def)
  then have less: "length (snd (byId_setKey setKey j None (removed x)))
      + card (known (fst (byId_setKey setKey j None (removed x)))) \<le> card (known st)" for j x
    using byId_delete_measure [of j "removed x"] by simp
  show ?thesis
    unfolding listener_def n removed_def [THEN fun_cong, symmetric] using less
    by (auto simp: Let_def case_prod_beta split: option.split)
qed

lemma delivered_Some:
  "length ns + card (known st) \<le> fuel \<Longrightarrow> delivered setKey fuel ns st \<noteq> None"
proof (induction fuel arbitrary: ns st)
  case 0
  then show ?case by simp
next
  case (Suc fuel)
  show ?case
  proof (cases ns)
    case (Cons n rest)
    then show ?thesis using Suc listener_measure [of n st] by (simp add: case_prod_beta)
  qed simp
qed

lemma deliver_delivered:
  "delivered setKey fuel ns st = Some r \<Longrightarrow> fuel \<le> fuel' \<Longrightarrow> delivered setKey fuel' ns st = Some r \<and> deliver setKey fuel' ns st = r"
proof (induction fuel arbitrary: ns st fuel')
  case 0
  then show ?case by (cases ns; cases fuel') auto
next
  case (Suc fuel)
  then show ?case by (cases ns; cases fuel') (auto simp: case_prod_beta)
qed

lemma byId_raises_one: "length (snd (byId_setKey setKey k v st)) \<le> 1"
  by (simp add: byId_setKey_def Let_def case_prod_beta)

lemma setSystem_delivered:
  assumes "byId_setKey setKey k v st = (st', ns)" "Suc (length (st_allSystemsById st')) \<le> fuel"
  shows "delivered setKey fuel ns st' = Some (setSystem setKey k v st)"
proof -
  let ?enough = "Suc (length (st_allSystemsById st'))"
  have "length ns \<le> 1" using byId_raises_one [of k v st] assms(1) by simp
  moreover have "card (known st') \<le> length (st_allSystemsById st')" by (metis card_length length_map)
  ultimately obtain r where "delivered setKey ?enough ns st' = Some r" using delivered_Some [of ns st' ?enough] by fastforce
  with assms show ?thesis using deliver_delivered [of ?enough ns st' r] by (simp add: setSystem_def)
qed

end

interpretation systems_reference: systems_store nano_setKey ..

section \<open>Reachable states\<close>

text \<open>
  The states of a session: the stores as the page creates them with the listener registered, then
  any sequence of subscription messages and refreshes. Records of the hub have non-empty ids.
\<close>

inductive reachable :: "SystemRecord setKey \<Rightarrow> AppState \<Rightarrow> bool" for setKey where
  start: "reachable setKey (init (init_stores auth email))"
| message: "reachable setKey st \<Longrightarrow> sys_id r \<noteq> [] \<Longrightarrow> reachable setKey (actionFns setKey action r st)"
| refreshed: "reachable setKey st \<Longrightarrow> \<forall>s\<in>set (fetchSystems response). sys_id s \<noteq> []
    \<Longrightarrow> reachable setKey (fst (refresh setKey response st))"

lemma init_systems_inv: "systems_inv (init (init_stores auth email))"
  by (simp add: init_def init_stores_def systems_inv_defs with_status_def)

lemma reachable_inv:
  assumes "nano_map setKey" "reachable setKey st"
  shows "systems_inv st"
proof -
  from assms(1) have sys: "systems_store setKey" by (simp add: systems_store_def)
  show ?thesis using assms(2)
  proof (induction rule: reachable.induct)
    case (start auth email)
    show ?case by (rule init_systems_inv)
  next
    case (message st r action)
    then show ?case
      using systems_store.add_inv [OF sys] systems_store.update_inv [OF sys] systems_store.remove_inv(1) [OF sys]
      by (cases action) auto
  next
    case (refreshed st response)
    then show ?case using systems_store.refresh_inv [OF sys] by blast
  qed
qed

section \<open>Properties\<close>

text \<open>
  C1. In every reachable state the up, down and paused stores are exactly the systems of
  \<open>$allSystemsById\<close> with that status: they are keyed by id, hold the current record, and no
  system is in two of them.
\<close>

theorem status_stores_partition:
  assumes "nano_map setKey" "reachable setKey st"
  shows "(\<forall>k. dget (st_upSystems st) k = with_status Up (st_allSystemsById st) k
            \<and> dget (st_downSystems st) k = with_status Down (st_allSystemsById st) k
            \<and> dget (st_pausedSystems st) k = with_status Paused (st_allSystemsById st) k)
    \<and> set (dkeys (st_upSystems st)) \<inter> set (dkeys (st_downSystems st)) = {}
    \<and> set (dkeys (st_upSystems st)) \<inter> set (dkeys (st_pausedSystems st)) = {}
    \<and> set (dkeys (st_downSystems st)) \<inter> set (dkeys (st_pausedSystems st)) = {}"
proof -
  have part: "partition_inv st" using reachable_inv [OF assms] by (simp add: systems_inv_def)
  have "k \<in> set (dkeys m) \<longleftrightarrow> dget m k \<noteq> None" for k and m :: "SystemRecord store"
    using dget_Some_iff_dkeys [of m k] by simp
  with part show ?thesis
    unfolding partition_inv_def with_status_def by (fastforce split: option.splits if_splits)
qed

definition sample_info :: SystemInfo where
  "sample_info = \<lparr>si_h = ''h'', si_k = None, si_cpu = Some 5, si_t = None, si_c = 1, si_m = ''m'',
     si_l1 = None, si_l5 = None, si_l15 = None, si_la = None, si_o = None, si_u = 10, si_mp = 1,
     si_dp = 2, si_bat = None, si_b = 0, si_bb = None, si_v = ''0.18.0'', si_p = None, si_g = None,
     si_dt = None, si_os = None, si_ct = None, si_efs = None, si_sv = None, si_pu = None,
     si_pus = None, si_rb = None\<rparr>"

definition sample_system :: "string \<Rightarrow> string \<Rightarrow> SystemStatus \<Rightarrow> SystemRecord" where
  "sample_system k name status = \<lparr>sys_id = k, sys_name = name, sys_host = ''10.0.0.1'',
     sys_status = status, sys_port = ''45876'', sys_info = sample_info, sys_v = [], sys_updated = []\<rparr>"

definition sample_session :: AppState where
  "sample_session = actionFns nano_setKey Update (sample_system ''a'' ''web'' Down)
     (actionFns nano_setKey Create (sample_system ''a'' ''web'' Up) (init (init_stores True None)))"

lemma sample_reachable: "reachable nano_setKey sample_session"
  unfolding sample_session_def
  by (intro reachable.message reachable.start) (simp_all add: sample_system_def)

lemma sample_valid: "validateSystemInfo (sample_system k n x)"
  by (simp add: validateSystemInfo_def sample_system_def sample_info_def)

lemma sample_byId:
  "dget (st_allSystemsById sample_session) k =
     (if k = ''a'' then Some (sample_system ''a'' ''web'' Down) else None)"
proof -
  let ?a = "sample_system ''a'' ''web'' Up" and ?b = "sample_system ''a'' ''web'' Down"
  let ?i = "init (init_stores True None)"
  have ids: "sys_id ?a = ''a''" "sys_id ?b = ''a''" by (simp_all add: sample_system_def)
  have inv: "systems_inv ?i" by (rule init_systems_inv)
  have one: "dget (st_allSystemsById (add nano_setKey ?a ?i)) j = (if j = ''a'' then Some ?a else None)" for j
    using systems_reference.add_lookup(1) [OF inv _ sample_valid, of "''a''" "''web''" Up] ids
    by (simp add: init_def init_stores_def)
  have "systems_inv (add nano_setKey ?a ?i)"
    using systems_reference.add_inv [OF inv, of ?a] ids by simp
  from systems_reference.update_lookup(1) [OF this _ sample_valid, of "''a''" "''web''" Down ?a k] show ?thesis
    using ids one by (simp add: sample_session_def)
qed

theorem status_stores_partition_witness:
  "dget (st_downSystems sample_session) ''a'' = Some (sample_system ''a'' ''web'' Down)
   \<and> dget (st_upSystems sample_session) ''a'' = None"
proof -
  have "with_status Down (st_allSystemsById sample_session) ''a'' = Some (sample_system ''a'' ''web'' Down)"
    and "with_status Up (st_allSystemsById sample_session) ''a'' = None"
    by (simp_all add: with_status_def sample_byId) (simp_all add: sample_system_def)
  then show ?thesis
    using status_stores_partition [OF nano_reference.nano_map_axioms sample_reachable] by metis
qed

text \<open>
  In every reachable state the favicon shows the number of down systems, and the column width
  for names lies between 8 and 22 and is enough for the (capped) width of every system's name.
\<close>

theorem display_in_step:
  assumes "nano_map setKey" "reachable setKey st"
  shows "st_prevDownCount st = int (card {k. \<exists>s. dget (st_allSystemsById st) k = Some s \<and> sys_status s = Down})
    \<and> 8 \<le> st_longestSystemNameLen st \<and> st_longestSystemNameLen st \<le> 22
    \<and> (\<forall>k s. dget (st_allSystemsById st) k = Some s
           \<longrightarrow> min 22 (getVisualStringWidth (sys_name s)) \<le> st_longestSystemNameLen st)"
proof -
  have inv: "systems_inv st" by (rule reachable_inv [OF assms])
  have "set (dkeys (st_downSystems st)) = {k. \<exists>s. dget (st_allSystemsById st) k = Some s \<and> sys_status s = Down}"
  proof (rule set_eqI)
    fix k
    have "k \<in> set (dkeys (st_downSystems st)) \<longleftrightarrow> with_status Down (st_allSystemsById st) k \<noteq> None"
      using inv dget_Some_iff_dkeys [of "st_downSystems st" k]
      by (simp add: systems_inv_def partition_inv_def)
    also have "\<dots> \<longleftrightarrow> (\<exists>s. dget (st_allSystemsById st) k = Some s \<and> sys_status s = Down)"
      by (auto simp: with_status_def simp del: not_None_eq split: option.splits)
    finally show "k \<in> set (dkeys (st_downSystems st)) \<longleftrightarrow>
        k \<in> {k. \<exists>s. dget (st_allSystemsById st) k = Some s \<and> sys_status s = Down}" by simp
  qed
  moreover have "distinct (dkeys (st_downSystems st))" using inv by (simp add: systems_inv_defs)
  then have "length (st_downSystems st) = card (set (dkeys (st_downSystems st)))"
    by (metis distinct_card length_map)
  ultimately show ?thesis using inv by (simp add: systems_inv_def display_inv_def)
qed

theorem display_in_step_witness:
  "8 \<le> st_longestSystemNameLen sample_session \<and> st_longestSystemNameLen sample_session \<le> 22
   \<and> st_prevDownCount sample_session = 1"
proof -
  have "{k. \<exists>s. dget (st_allSystemsById sample_session) k = Some s \<and> sys_status s = Down} = {''a''}"
    by (auto simp: sample_byId) (auto simp: sample_system_def split: if_splits)
  then show ?thesis
    using display_in_step [OF nano_reference.nano_map_axioms sample_reachable] by simp
qed

text \<open>
  After an update message for a known system, the system is found by its id and by its new
  name, its old name no longer finds anything if it changed, and every other id and name finds
  what it found before.
\<close>

theorem update_lookup_by_id_and_name:
  assumes "nano_map setKey" "reachable setKey st"
    and "sys_id s \<noteq> []" "validateSystemInfo s" "dget (st_allSystemsById st) (sys_id s) = Some old"
  shows "dget (st_allSystemsById (actionFns setKey Update s st)) j =
           (if j = sys_id s then Some s else dget (st_allSystemsById st) j)
    \<and> dget (st_allSystemsByName (actionFns setKey Update s st)) n =
           (if n = sys_name s then Some s else if n = sys_name old then None
            else dget (st_allSystemsByName st) n)"
proof -
  have "systems_store setKey" using assms(1) by (simp add: systems_store_def)
  from systems_store.update_lookup [OF this reachable_inv [OF assms(1,2)] assms(3-5)]
  show ?thesis by simp
qed

theorem update_lookup_by_id_and_name_witness:
  "let st = actionFns nano_setKey Update (sample_system ''a'' ''db'' Up) sample_session
   in dget (st_allSystemsByName st) ''db'' = Some (sample_system ''a'' ''db'' Up)
      \<and> dget (st_allSystemsByName st) ''web'' = None"
proof -
  have known: "dget (st_allSystemsById sample_session) (sys_id (sample_system ''a'' ''db'' Up)) =
      Some (sample_system ''a'' ''web'' Down)"
    by (simp add: sample_byId sample_system_def)
  show ?thesis
    using update_lookup_by_id_and_name [OF nano_reference.nano_map_axioms sample_reachable,
        of "sample_system ''a'' ''db'' Up" "sample_system ''a'' ''web'' Down" "''a''" "''db''"]
      update_lookup_by_id_and_name [OF nano_reference.nano_map_axioms sample_reachable,
        of "sample_system ''a'' ''db'' Up" "sample_system ''a'' ''web'' Down" "''a''" "''web''"]
      known sample_valid
    by (simp add: Let_def) (simp add: sample_system_def)
qed

text \<open>
  C8. A change of a system is always delivered completely: the listener deletes keys while it is being
  notified, which notifies it again, but one round more than there are systems works off every
  notification, and more rounds give the same state.
\<close>

theorem delivery_ends:
  assumes "nano_map setKey" "byId_setKey setKey k v st = (st', ns)" "Suc (length (st_allSystemsById st')) \<le> fuel"
  shows "delivered setKey fuel ns st' = Some (setSystem setKey k v st)"
proof -
  have "systems_store setKey" using assms(1) by (simp add: systems_store_def)
  from systems_store.setSystem_delivered [OF this assms(2,3)] show ?thesis .
qed

theorem delivery_ends_witness:
  "case byId_setKey nano_setKey ''a'' None sample_session of
     (st', ns) \<Rightarrow> ns \<noteq> [] \<and> delivered nano_setKey (length (st_allSystemsById st') + 5) ns st' =
       Some (setSystem nano_setKey ''a'' None sample_session)"
proof -
  obtain st' ns where e: "byId_setKey nano_setKey ''a'' None sample_session = (st', ns)" by fastforce
  have "st_initialized sample_session"
    using reachable_inv [OF nano_reference.nano_map_axioms sample_reachable] by (simp add: systems_inv_def)
  then have "ns \<noteq> []" using e sample_byId [of "''a''"] by (auto simp: byId_setKey_def nano_setKey_def Let_def)
  moreover have "delivered nano_setKey (length (st_allSystemsById st') + 5) ns st' =
      Some (setSystem nano_setKey ''a'' None sample_session)"
    by (rule delivery_ends [OF nano_reference.nano_map_axioms e]) simp
  ultimately show ?thesis by (simp add: e)
qed

end
