(* ===== verification/Alerts.thy ===== *)
theory Alerts
  imports Systems
begin

text \<open>
  Alerts: \<^verbatim>\<open>lib/alerts.ts\<close> (the table of alert types, the store of alerts by system and
  name, and the batching of subscription messages), \<^verbatim>\<open>components/alerts/alerts-sheet.tsx\<close>
  (which systems an edited alert is sent for) and \<^verbatim>\<open>components/active-alerts.tsx\<close>.

  Names and descriptions are Lingui message ids. \<open>setKey\<close> of the \<open>$alerts\<close> store is the
  nanostores parameter of theory \<open>Stores\<close>.
\<close>

section \<open>Alert types\<close>

record AlertInfo =
  ai_name :: string
  ai_unit :: string
  ai_desc :: string
  ai_max :: "rat option"
  ai_min :: "rat option"
  ai_step :: "rat option"
  ai_start :: "rat option"
  ai_singleDesc :: "string option"
  ai_invert :: "bool option"

definition plain_alert :: "string \<Rightarrow> string \<Rightarrow> string \<Rightarrow> AlertInfo" where
  "plain_alert name unit desc = \<lparr>ai_name = name, ai_unit = unit, ai_desc = desc, ai_max = None,
     ai_min = None, ai_step = None, ai_start = None, ai_singleDesc = None, ai_invert = None\<rparr>"

definition load_alert :: "string \<Rightarrow> string \<Rightarrow> AlertInfo" where
  "load_alert name desc = (plain_alert name [] desc)
     \<lparr>ai_max := Some 100, ai_min := Some (1 / 10), ai_start := Some 10, ai_step := Some (1 / 10)\<rparr>"

definition alertInfo :: "(string, AlertInfo) dict" where
  "alertInfo =
    [(''Status'', (plain_alert ''Status'' [] ''Triggers when status switches between up and down'')
        \<lparr>ai_singleDesc := Some ''System Down''\<rparr>),
     (''CPU'', plain_alert ''CPU Usage'' ''%'' ''Triggers when CPU usage exceeds a threshold''),
     (''Memory'', plain_alert ''Memory Usage'' ''%'' ''Triggers when memory usage exceeds a threshold''),
     (''Disk'', plain_alert ''Disk Usage'' ''%'' ''Triggers when usage of any disk exceeds a threshold''),
     (''Bandwidth'', (plain_alert ''Bandwidth'' '' MB/s'' ''Triggers when combined up/down exceeds a threshold'')
        \<lparr>ai_max := Some 125\<rparr>),
     (''GPU'', plain_alert ''GPU Usage'' ''%'' ''Triggers when GPU usage exceeds a threshold''),
     (''Temperature'', plain_alert ''Temperature'' ([CHR 0xC2, CHR 0xB0] @ ''C'')
        ''Triggers when any sensor exceeds a threshold''),
     (''LoadAvg1'', load_alert ''Load Average 1m'' ''Triggers when 1 minute load average exceeds a threshold''),
     (''LoadAvg5'', load_alert ''Load Average 5m'' ''Triggers when 5 minute load average exceeds a threshold''),
     (''LoadAvg15'', load_alert ''Load Average 15m'' ''Triggers when 15 minute load average exceeds a threshold''),
     (''Battery'', (plain_alert ''Battery'' ''%'' ''Triggers when battery charge drops below a threshold'')
        \<lparr>ai_start := Some 20, ai_invert := Some True\<rparr>)]"

definition alertKeys :: "string list" where
  "alertKeys = dkeys alertInfo"

section \<open>The alert store\<close>

type_synonym AlertMap = "(string, AlertRecord) dict store"

definition add_alert :: "(string, AlertRecord) dict setKey \<Rightarrow> AlertRecord \<Rightarrow> AlertMap \<Rightarrow> AlertMap" where
  "add_alert setKey alert alerts =
    (let systemId = al_system alert;
         systemAlerts = (case dget alerts systemId of None \<Rightarrow> [] | Some m \<Rightarrow> m);
         newAlerts = dset (al_name alert) alert systemAlerts
     in fst (setKey systemId (Some newAlerts) alerts))"

definition add_alerts :: "(string, AlertRecord) dict setKey \<Rightarrow> AlertRecord list \<Rightarrow> AlertMap \<Rightarrow> AlertMap" where
  "add_alerts setKey xs alerts = foldl (\<lambda>m a. add_alert setKey a m) alerts xs"

definition remove_alert :: "(string, AlertRecord) dict setKey \<Rightarrow> AlertRecord \<Rightarrow> AlertMap \<Rightarrow> AlertMap" where
  "remove_alert setKey alert alerts =
    (let systemId = al_system alert;
         systemAlerts = (case dget alerts systemId of None \<Rightarrow> [] | Some m \<Rightarrow> m);
         newAlerts = ddel (al_name alert) systemAlerts
     in fst (setKey systemId (Some newAlerts) alerts))"

definition remove_alerts :: "(string, AlertRecord) dict setKey \<Rightarrow> AlertRecord list \<Rightarrow> AlertMap \<Rightarrow> AlertMap" where
  "remove_alerts setKey xs alerts = foldl (\<lambda>m a. remove_alert setKey a m) alerts xs"

fun alert_actionFns :: "(string, AlertRecord) dict setKey \<Rightarrow> PbAction \<Rightarrow> AlertRecord list \<Rightarrow> AlertMap \<Rightarrow> AlertMap" where
  "alert_actionFns setKey Create = add_alerts setKey"
| "alert_actionFns setKey Update = add_alerts setKey"
| "alert_actionFns setKey Delete = remove_alerts setKey"

text \<open>
  \<open>batchUpdate\<close>: messages are collected in a map keyed by system id and alert name put together;
  50 ms after the last one the batch is applied, creations first, then updates, then deletions,
  and cleared.
\<close>

type_synonym alert_msg = "PbAction \<times> AlertRecord"

definition batch_key :: "alert_msg \<Rightarrow> string" where
  "batch_key data = al_system (snd data) @ al_name (snd data)"

definition batch_add :: "alert_msg \<Rightarrow> (string, alert_msg) dict \<Rightarrow> (string, alert_msg) dict" where
  "batch_add data batch = dset (batch_key data) data batch"

definition batch_group :: "PbAction \<Rightarrow> (string, alert_msg) dict \<Rightarrow> AlertRecord list" where
  "batch_group action batch = map snd (filter (\<lambda>d. fst d = action) (dvals batch))"

definition apply_group ::
  "(string, AlertRecord) dict setKey \<Rightarrow> (string, alert_msg) dict \<Rightarrow> PbAction \<Rightarrow> AlertMap \<Rightarrow> AlertMap" where
  "apply_group setKey batch action alerts =
    (if batch_group action batch \<noteq> [] then alert_actionFns setKey action (batch_group action batch) alerts
     else alerts)"

definition batch_flush ::
  "(string, AlertRecord) dict setKey \<Rightarrow> (string, alert_msg) dict \<Rightarrow> AlertMap \<Rightarrow> AlertMap \<times> (string, alert_msg) dict" where
  "batch_flush setKey batch alerts =
    (foldl (\<lambda>m a. apply_group setKey batch a m) alerts [Create, Update, Delete], [])"

definition alerts_refresh :: "(string, AlertRecord) dict setKey \<Rightarrow> AlertRecord list \<Rightarrow> AlertMap \<Rightarrow> AlertMap" where
  "alerts_refresh setKey records alerts = add_alerts setKey records alerts"

text \<open>Reading the store: the alert of a system with a name.\<close>

definition alert_of :: "AlertMap \<Rightarrow> string \<Rightarrow> string \<Rightarrow> AlertRecord option" where
  "alert_of alerts systemId name =
    (case dget alerts systemId of None \<Rightarrow> None | Some m \<Rightarrow> dget m name)"

section \<open>The alert sheet\<close>

text \<open>Requests to \<open>/api/beszel/user-alerts\<close>, and the debounce time both kinds share.\<close>

datatype alert_request =
    Upsert string rat int "string list"
  | DeleteAlerts string "string list"

definition alertDebounce :: int where
  "alertDebounce = 100"

record AlertContent =
  ac_checked :: bool
  ac_min :: int
  ac_value :: rat

text \<open>The initial state of an alert's controls; \<open>||\<close> falls back on 0 as well as on undefined.\<close>

definition AlertContent_init :: "AlertInfo \<Rightarrow> AlertRecord option \<Rightarrow> bool \<Rightarrow> AlertContent" where
  "AlertContent_init data alert global =
    \<lparr>ac_checked = (if global then False else alert \<noteq> None),
     ac_min = (case alert of Some a \<Rightarrow> if al_min a = 0 then 10 else al_min a | None \<Rightarrow> 10),
     ac_value =
       (let dflt = (if ai_singleDesc data \<noteq> None then 0 else case ai_start data of Some s \<Rightarrow> s | None \<Rightarrow> 80)
        in case alert of Some a \<Rightarrow> if al_value a = 0 then dflt else al_value a | None \<Rightarrow> dflt)\<rparr>"

definition has_alert :: "AlertMap \<Rightarrow> string \<Rightarrow> string \<Rightarrow> bool" where
  "has_alert alerts systemId name \<longleftrightarrow> alert_of alerts systemId name \<noteq> None"

definition getSystemIds ::
  "string \<Rightarrow> string \<Rightarrow> bool \<Rightarrow> bool \<Rightarrow> AlertMap \<Rightarrow> SystemRecord list \<Rightarrow> string list" where
  "getSystemIds alertKey systemId global overwriteExisting initialAlertsState allSystems =
    (if \<not> global then [systemId]
     else map sys_id (filter (\<lambda>s. overwriteExisting \<or> \<not> has_alert initialAlertsState (sys_id s) alertKey) allSystems))"

definition sendUpsert ::
  "string \<Rightarrow> string \<Rightarrow> bool \<Rightarrow> bool \<Rightarrow> AlertMap \<Rightarrow> SystemRecord list \<Rightarrow> int \<Rightarrow> rat \<Rightarrow> alert_request list" where
  "sendUpsert alertKey systemId global overwriteExisting initialAlertsState allSystems mins v =
    (let systems = getSystemIds alertKey systemId global overwriteExisting initialAlertsState allSystems
     in if systems \<noteq> [] then [Upsert alertKey v mins systems] else [])"

text \<open>
  The switch: checking sends an upsert; unchecking sends a deletion and, when overwriting, removes
  the alert from the copy of the alerts taken when the global tab was opened.
\<close>

definition onCheckedChange ::
  "string \<Rightarrow> string \<Rightarrow> bool \<Rightarrow> bool \<Rightarrow> SystemRecord list \<Rightarrow> bool \<Rightarrow> AlertContent \<times> AlertMap
   \<Rightarrow> (AlertContent \<times> AlertMap) \<times> alert_request list" where
  "onCheckedChange alertKey systemId global overwriteExisting allSystems newChecked st =
    (case st of (c, initial) \<Rightarrow>
      (let c' = c\<lparr>ac_checked := newChecked\<rparr> in
       if newChecked
       then ((c', initial), sendUpsert alertKey systemId global overwriteExisting initial allSystems (ac_min c) (ac_value c))
       else ((c', if overwriteExisting then map (\<lambda>(k, m). (k, ddel alertKey m)) initial else initial),
             [DeleteAlerts alertKey (getSystemIds alertKey systemId global overwriteExisting initial allSystems)])))"

definition hasSystemAlert :: "AlertMap \<Rightarrow> string \<Rightarrow> bool" where
  "hasSystemAlert alerts systemId = (case dget alerts systemId of None \<Rightarrow> False | Some m \<Rightarrow> length m > 0)"

section \<open>Active alerts\<close>

definition activeAlerts :: "AlertMap \<Rightarrow> AlertRecord list" where
  "activeAlerts alerts =
    concat (map (\<lambda>(systemId, m). filter (\<lambda>a. al_triggered a \<and> al_name a \<in> set (dkeys alertInfo)) (dvals m)) alerts)"

text \<open>
  The key the rendered list is memoised under; \<open>num\<close> is the conversion of a number to a string.
\<close>

definition alertsKey :: "(rat \<Rightarrow> string) \<Rightarrow> AlertMap \<Rightarrow> string" where
  "alertsKey num alerts =
    concat (map (\<lambda>a. al_system a @ num (al_value a) @ show_int (al_min a)) (activeAlerts alerts))"

section \<open>Lookups\<close>

locale alert_store = nano_map setKey for setKey :: "(string, AlertRecord) dict setKey"
begin

lemma alert_of_add:
  "alert_of (add_alert setKey a m) s n =
     (if s = al_system a \<and> n = al_name a then Some a else alert_of m s n)"
  by (auto simp: alert_of_def add_alert_def Let_def setKey_get simp del: map_of_eq_None_iff split: option.splits)

lemma alert_of_remove:
  "alert_of (remove_alert setKey a m) s n =
     (if s = al_system a \<and> n = al_name a then None else alert_of m s n)"
  by (auto simp: alert_of_def remove_alert_def Let_def setKey_get simp del: map_of_eq_None_iff split: option.splits)

lemma alert_of_adds:
  "alert_of (add_alerts setKey xs m) s n =
     (case find (\<lambda>a. al_system a = s \<and> al_name a = n) (rev xs) of Some a \<Rightarrow> Some a | None \<Rightarrow> alert_of m s n)"
  unfolding add_alerts_def by (induction xs rule: rev_induct) (auto simp: alert_of_add)

lemma alert_of_removes:
  "alert_of (remove_alerts setKey xs m) s n =
     (if \<exists>a\<in>set xs. al_system a = s \<and> al_name a = n then None else alert_of m s n)"
  unfolding remove_alerts_def by (induction xs rule: rev_induct) (auto simp: alert_of_remove)

text \<open>Messages applied one by one.\<close>

lemma alert_of_sequential:
  "alert_of (foldl (\<lambda>m d. alert_actionFns setKey (fst d) [snd d] m) m0 msgs) s n =
     (case find (\<lambda>d. al_system (snd d) = s \<and> al_name (snd d) = n) (rev msgs) of
        None \<Rightarrow> alert_of m0 s n
      | Some d \<Rightarrow> if fst d = Delete then None else Some (snd d))"
proof (induction msgs rule: rev_induct)
  case Nil
  then show ?case by simp
next
  case (snoc d msgs)
  then show ?case
    by (cases d, cases "fst d")
       (auto simp: add_alerts_def remove_alerts_def alert_of_add alert_of_remove)
qed

end

interpretation alert_reference: alert_store nano_setKey ..

text \<open>The batch keeps the last message of each key, in the order of the keys' first arrival.\<close>

lemma batch_get: "dget (foldl (\<lambda>b d. batch_add d b) [] msgs) k = find (\<lambda>d. batch_key d = k) (rev msgs)"
  by (induction msgs rule: rev_induct) (auto simp: batch_add_def)

lemma batch_distinct: "distinct (dkeys (foldl (\<lambda>b d. batch_add d b) [] msgs))"
  by (induction msgs rule: rev_induct) (auto simp: batch_add_def)

lemma batch_vals: "d \<in> set (dvals (foldl (\<lambda>b d. batch_add d b) [] msgs)) \<longleftrightarrow> find (\<lambda>e. batch_key e = batch_key d) (rev msgs) = Some d"
proof -
  have "d \<in> set (dvals (foldl (\<lambda>b d. batch_add d b) [] msgs)) \<longleftrightarrow>
      (\<exists>k. find (\<lambda>e. batch_key e = k) (rev msgs) = Some d)"
    using dvals_of_dget [OF batch_distinct [of msgs]] by (simp add: batch_get)
  also have "\<dots> \<longleftrightarrow> find (\<lambda>e. batch_key e = batch_key d) (rev msgs) = Some d"
    by (auto dest: find_SomeD)
  finally show ?thesis .
qed

lemma apply_group_action: "apply_group setKey b a m = alert_actionFns setKey a (batch_group a b) m"
  by (cases a) (simp_all add: apply_group_def add_alerts_def remove_alerts_def)

text \<open>
  When no two messages of a batch are confused by their keys, the group of an action holds at most
  one record for a system and name: the one of the last message, if that is its action.
\<close>

definition for_alert :: "string \<Rightarrow> string \<Rightarrow> AlertRecord \<Rightarrow> bool" where
  "for_alert s n a \<longleftrightarrow> al_system a = s \<and> al_name a = n"

lemma batch_group_mem: "x \<in> set (batch_group a b) \<longleftrightarrow> (a, x) \<in> set (dvals b)"
  unfolding batch_group_def by force

lemma batch_key_eq:
  assumes "length (al_system (snd d)) = length (al_system (snd e))"
  shows "batch_key d = batch_key e \<longleftrightarrow> al_system (snd d) = al_system (snd e) \<and> al_name (snd d) = al_name (snd e)"
  using assms by (simp add: batch_key_def)

lemma batch_group_find:
  assumes len: "\<forall>d\<in>set msgs. length (al_system (snd d)) = N"
  defines "b \<equiv> foldl (\<lambda>b d. batch_add d b) [] msgs"
  shows "find (for_alert s n) (rev (batch_group a b)) =
     (case find (\<lambda>d. for_alert s n (snd d)) (rev msgs) of
        None \<Rightarrow> None | Some d \<Rightarrow> if fst d = a then Some (snd d) else None)"
proof (cases "find (\<lambda>d. for_alert s n (snd d)) (rev msgs)")
  case None
  have "e \<in> set msgs" if "e \<in> set (dvals b)" for e
    using that find_SomeD unfolding b_def batch_vals by fastforce
  then have "\<forall>x\<in>set (batch_group a b). \<not> for_alert s n x"
    using None by (auto simp: batch_group_def find_None_iff)
  then have "find (for_alert s n) (rev (batch_group a b)) = None" by (simp add: find_None_iff)
  with None show ?thesis by (simp del: find_None_iff)
next
  case (Some d)
  have mem: "e \<in> set msgs" if "find P (rev msgs) = Some e" for e P
    using find_SomeD [OF that] by simp
  have d: "d \<in> set msgs" "for_alert s n (snd d)"
    using find_SomeD [OF Some] by simp_all
  have key: "batch_key e = batch_key d \<longleftrightarrow> for_alert s n (snd e)" if "e \<in> set msgs" for e
    using that d len batch_key_eq [of e d] by (auto simp: for_alert_def)
  have "find (\<lambda>e. batch_key e = batch_key d) (rev msgs) = find (\<lambda>e. for_alert s n (snd e)) (rev msgs)"
    by (rule find_cong) (auto simp: key)
  then have found: "find (\<lambda>e. batch_key e = batch_key d) (rev msgs) = Some d" using Some by simp
  have only: "e = d" if "e \<in> set (dvals b)" "for_alert s n (snd e)" for e
  proof -
    have e: "find (\<lambda>x. batch_key x = batch_key e) (rev msgs) = Some e"
      using that(1) unfolding b_def batch_vals .
    have "batch_key e = batch_key d" using key [OF mem [OF e]] that(2) by blast
    from e [unfolded this] found show ?thesis by (metis option.inject)
  qed
  have dv: "d \<in> set (dvals b)" unfolding b_def batch_vals by (rule found)
  show ?thesis
  proof (cases "fst d = a")
    case True
    have "find (for_alert s n) (rev (batch_group a b)) = Some (snd d)"
    proof (rule find_unique)
      show "snd d \<in> set (rev (batch_group a b))" using dv True by (auto simp: batch_group_def)
      show "for_alert s n (snd d)" by (rule d(2))
      show "\<forall>y\<in>set (rev (batch_group a b)). for_alert s n y \<longrightarrow> y = snd d"
        using only batch_group_mem [of _ a b] by (metis set_rev snd_conv)
    qed
    with Some True show ?thesis by simp
  next
    case False
    have "\<forall>x\<in>set (batch_group a b). \<not> for_alert s n x"
    proof
      fix x assume "x \<in> set (batch_group a b)"
      then have "(a, x) \<in> set (dvals b)" unfolding batch_group_mem .
      with only [of "(a, x)"] False show "\<not> for_alert s n x" by auto
    qed
    then have "find (for_alert s n) (rev (batch_group a b)) = None" by (simp add: find_None_iff)
    with Some False show ?thesis by (simp del: find_None_iff)
  qed
qed

lemma batch_flush_lookup:
  assumes setKey: "alert_store setKey"
    and len: "\<forall>d\<in>set msgs. length (al_system (snd d)) = N"
  defines "b \<equiv> foldl (\<lambda>b d. batch_add d b) [] msgs"
  shows "alert_of (fst (batch_flush setKey b m0)) s n =
     (case find (\<lambda>d. for_alert s n (snd d)) (rev msgs) of
        None \<Rightarrow> alert_of m0 s n
      | Some d \<Rightarrow> if fst d = Delete then None else Some (snd d))"
proof -
  note find = batch_group_find [OF len, folded b_def, of s n]
  have "(\<exists>x\<in>set (batch_group Delete b). for_alert s n x) \<longleftrightarrow> find (for_alert s n) (rev (batch_group Delete b)) \<noteq> None"
    by (auto simp: find_None_iff simp del: not_None_eq)
  then have del: "(\<exists>x\<in>set (batch_group Delete b). al_system x = s \<and> al_name x = n) \<longleftrightarrow>
      (case find (\<lambda>d. for_alert s n (snd d)) (rev msgs) of None \<Rightarrow> False | Some d \<Rightarrow> fst d = Delete)"
    unfolding find by (auto simp: for_alert_def split: option.splits)
  show ?thesis
    by (cases "find (\<lambda>d. for_alert s n (snd d)) (rev msgs)")
       (auto simp: batch_flush_def apply_group_action del alert_store.alert_of_adds [OF setKey]
         alert_store.alert_of_removes [OF setKey] find [unfolded for_alert_def [abs_def]]
         for_alert_def [abs_def] split: option.splits,
        metis PbAction.exhaust)
qed

section \<open>Properties\<close>

text \<open>
  C5. Batching does not lose or reorder alert changes: when the system ids of the batched messages
  have one length (PocketBase ids do), applying the batch gives every system and alert name the
  alert it would have after applying the messages one by one as they came.
\<close>

theorem batch_flush_sequential:
  assumes "nano_map setKey" and "\<forall>d\<in>set msgs. length (al_system (snd d)) = N"
  shows "alert_of (fst (batch_flush setKey (foldl (\<lambda>b d. batch_add d b) [] msgs) m0)) s n =
     alert_of (foldl (\<lambda>m d. alert_actionFns setKey (fst d) [snd d] m) m0 msgs) s n"
proof -
  have store: "alert_store setKey" using assms(1) by (simp add: alert_store_def)
  show ?thesis
    unfolding batch_flush_lookup [OF store assms(2)] alert_store.alert_of_sequential [OF store]
    by (simp add: for_alert_def)
qed

definition sample_alert :: "string \<Rightarrow> string \<Rightarrow> rat \<Rightarrow> AlertRecord" where
  "sample_alert s n v = \<lparr>al_id = ''i'', al_system = s, al_name = n, al_triggered = True, al_value = v, al_min = 10\<rparr>"

theorem batch_flush_sequential_witness:
  "alert_of (fst (batch_flush nano_setKey (foldl (\<lambda>b d. batch_add d b) []
      [(Delete, sample_alert ''a'' ''CPU'' 80), (Create, sample_alert ''a'' ''CPU'' 90)]) [])) ''a'' ''CPU''
   = Some (sample_alert ''a'' ''CPU'' 90)"
proof -
  have len: "\<forall>d\<in>set [(Delete, sample_alert ''a'' ''CPU'' 80), (Create, sample_alert ''a'' ''CPU'' 90)].
      length (al_system (snd d)) = 1" by (simp add: sample_alert_def)
  show ?thesis
    unfolding batch_flush_sequential [OF nano_reference.nano_map_axioms len]
      alert_reference.alert_of_sequential
    by (simp add: sample_alert_def)
qed

text \<open>
  The global tab without overwriting touches exactly the systems that had no such alert when
  the tab was opened; with overwriting it touches every system.
\<close>

theorem global_alert_targets:
  "k \<in> set (getSystemIds key self True ovw initial allSystems) \<longleftrightarrow>
     (\<exists>s\<in>set allSystems. sys_id s = k \<and> (ovw \<or> alert_of initial k key = None))"
  by (auto simp: getSystemIds_def has_alert_def)

text \<open>
  Unchecking an alert in the global tab while overwriting requests its deletion for every
  system, and forgets the alerts that existed when the tab was opened: checking it again covers
  every system, with or without overwriting.
\<close>

theorem forced_removal_reopens:
  "onCheckedChange key self True True allSystems False (c, initial) = ((c', initial'), reqs)
   \<Longrightarrow> reqs = [DeleteAlerts key (map sys_id allSystems)]
     \<and> getSystemIds key self True ovw initial' allSystems = map sys_id allSystems"
proof -
  assume asm: "onCheckedChange key self True True allSystems False (c, initial) = ((c', initial'), reqs)"
  then have i: "initial' = map (\<lambda>(k, m). (k, ddel key m)) initial"
    and r: "reqs = [DeleteAlerts key (map sys_id allSystems)]"
    by (auto simp: onCheckedChange_def Let_def getSystemIds_def)
  have "alert_of initial' k key = None" for k
    unfolding i alert_of_def by (induction initial) auto
  with r show ?thesis by (simp add: getSystemIds_def has_alert_def)
qed

theorem forced_removal_reopens_witness:
  "getSystemIds ''CPU'' ''a'' True False [(''a'', ddel ''CPU'' [(''CPU'', sample_alert ''a'' ''CPU'' 80)])]
     [sample_system ''a'' ''web'' Up] = [''a'']"
  using forced_removal_reopens [of "''CPU''" "''a''" "[sample_system ''a'' ''web'' Up]"
      "\<lparr>ac_checked = True, ac_min = 10, ac_value = 80\<rparr>" "[(''a'', [(''CPU'', sample_alert ''a'' ''CPU'' 80)])]"]
  by (simp add: onCheckedChange_def sample_system_def)

text \<open>
  The list of active alerts is memoised under a key that leaves out the alert's name: an
  active CPU alert and an active memory alert of the same system with the same threshold and
  duration have the same key, so replacing one by the other does not redraw the list.
\<close>

theorem activeAlerts_key_collision:
  "\<exists>m1 m2. alertsKey num m1 = alertsKey num m2 \<and> map al_name (activeAlerts m1) = [''CPU'']
     \<and> map al_name (activeAlerts m2) = [''Memory'']"
  by (rule exI [of _ "[(''a'', [(''CPU'', sample_alert ''a'' ''CPU'' 80)])]"],
      rule exI [of _ "[(''a'', [(''Memory'', sample_alert ''a'' ''Memory'' 80)])]"])
     (simp add: alertsKey_def activeAlerts_def sample_alert_def alertInfo_def)

text \<open>
  All alert types share one debounced upsert: of two alerts changed within 100 ms of each
  other only the second is sent to the hub.
\<close>

theorem upsert_shared_debounce:
  assumes "t < t'" "t' < t + alertDebounce"
  shows "debounce_run alertDebounce None [(t, Upsert n v m ss), (t', Upsert n' v' m' ss')] =
    [(t' + alertDebounce, Upsert n' v' m' ss')]"
  unfolding debounce_run_settled using assms by simp

theorem upsert_shared_debounce_witness:
  "debounce_run alertDebounce None [(0, Upsert ''CPU'' 80 10 [''a'']), (60, Upsert ''Memory'' 70 10 [''a''])] =
    [(160, Upsert ''Memory'' 70 10 [''a''])]"
  using upsert_shared_debounce [of 0 60 "''CPU''" 80 10 "[''a'']" "''Memory''" 70 10 "[''a'']"]
  by (simp add: alertDebounce_def)

end
