(* ===== verification/Api.thy ===== *)
theory Api
  imports Alerts Calendar
begin

text \<open>
  \<^verbatim>\<open>lib/api.ts\<close>: roles, logging out, loading and saving the user's settings and links, and the
  timestamps of PocketBase filters. A request to the hub is a parameter: its result, or an error
  (\<open>Inl\<close>); what the code writes to the hub is part of an operation's result.
\<close>

section \<open>Authentication\<close>

definition isAdmin :: "string option \<Rightarrow> bool" where
  "isAdmin role \<longleftrightarrow> role = Some ''admin''"

definition isReadOnlyUser :: "string option \<Rightarrow> bool" where
  "isReadOnlyUser role \<longleftrightarrow> role = Some ''readonly''"

text \<open>
  \<open>logOut\<close>: the stores are reset; \<open>$allSystemsById.set({})\<close> notifies the systems listener with an
  undefined key, which reads the entry \<open>"undefined"\<close>. The second component is the session storage.
\<close>

definition logOut ::
  "SystemRecord setKey \<Rightarrow> AppState \<times> (string, string) dict \<Rightarrow> AppState \<times> (string, string) dict" where
  "logOut setKey s =
    (case s of (st, session) \<Rightarrow>
      (let st1 = st\<lparr>st_allSystemsByName := []\<rparr>;
           old = st_allSystemsById st1;
           st2 = st1\<lparr>st_allSystemsById := []\<rparr>;
           st3 = (if st_initialized st2
                  then deliver setKey (Suc (length old)) [([], old, ''undefined'')] st2 else st2);
           st4 = set_userSettings empty_settings (st3\<lparr>st_alerts := []\<rparr>);
           st5 = st4\<lparr>st_quickLinks := [], st_externalLinks := []\<rparr>
       in (st5, dset ''lo'' ''t'' session)))"

section \<open>User settings\<close>

text \<open>The migration of quick links kept in the browser: those with ids unknown to the hub are appended.\<close>

definition mergeLinks :: "QuickLink list \<Rightarrow> QuickLink list \<Rightarrow> QuickLink list" where
  "mergeLinks serverLinks localLinks =
    serverLinks @ filter (\<lambda>l. ql_id l \<notin> set (map ql_id serverLinks)) localLinks"

text \<open>
  \<open>updateUserSettings\<close>: \<open>fetched\<close> is the stored record, \<open>created\<close> the result of creating one,
  \<open>parse\<close> reads the local links (\<open>None\<close> when \<open>JSON.parse\<close> throws), \<open>saveOk\<close> is whether the hub
  accepts the merged links. Besides the stores and the local storage the settings written to the
  hub are returned.
\<close>

definition server_links :: "UserSettings \<Rightarrow> QuickLink list" where
  "server_links s = (case us_quickLinks s of None \<Rightarrow> [] | Some l \<Rightarrow> l)"

definition migrate_links ::
  "(string \<Rightarrow> QuickLink list option) \<Rightarrow> bool \<Rightarrow> UserSettings \<Rightarrow> string
   \<Rightarrow> QuickLink list \<times> UserSettings list" where
  "migrate_links parse saveOk settings localRaw =
    (let serverLinks = server_links settings in
     case parse localRaw of
       None \<Rightarrow> (serverLinks, [])
     | Some localLinks \<Rightarrow>
        if length localLinks > 0
        then (let existingIds = set (map ql_id serverLinks);
                  newLinks = filter (\<lambda>l. ql_id l \<notin> existingIds) localLinks
              in if length newLinks > 0
                 then (if saveOk
                       then (mergeLinks serverLinks localLinks,
                             [settings\<lparr>us_quickLinks := Some (mergeLinks serverLinks localLinks)\<rparr>])
                       else (serverLinks, []))
                 else (serverLinks, []))
        else (serverLinks, []))"

definition updateUserSettings ::
  "(string + UserSettings) \<Rightarrow> (string + UserSettings) \<Rightarrow> (string \<Rightarrow> QuickLink list option) \<Rightarrow> bool
   \<Rightarrow> AppState \<times> (string, string) dict \<Rightarrow> (AppState \<times> (string, string) dict) \<times> UserSettings list" where
  "updateUserSettings fetched created parse saveOk s =
    (case s of (st, local) \<Rightarrow>
      (case fetched of
         Inr settings \<Rightarrow>
           (let st1 = set_userSettings settings st;
                st2 = st1\<lparr>st_externalLinks := (case us_externalLinks settings of None \<Rightarrow> [] | Some l \<Rightarrow> l)\<rparr>
            in case dget local ''besz-quick-links'' of
                 None \<Rightarrow> ((st2\<lparr>st_quickLinks := server_links settings\<rparr>, local), [])
               | Some localRaw \<Rightarrow>
                  if localRaw = [] then ((st2\<lparr>st_quickLinks := server_links settings\<rparr>, local), [])
                  else (let (links, writes) = migrate_links parse saveOk settings localRaw
                        in ((st2\<lparr>st_quickLinks := links\<rparr>, ddel ''besz-quick-links'' local), writes)))
       | Inl e \<Rightarrow>
           (case created of
              Inr settings \<Rightarrow>
                (((set_userSettings settings st)\<lparr>st_quickLinks := [], st_externalLinks := []\<rparr>, local), [])
            | Inl e' \<Rightarrow> ((st, local), []))))"

text \<open>
  Saving links sets the store at once, then reads the hub's settings and writes them back with the
  links replaced; an error of either request leaves the hub as it was. \<open>hub\<close> is the stored record.
\<close>

definition saveQuickLinks ::
  "QuickLink list \<Rightarrow> bool \<Rightarrow> bool \<Rightarrow> AppState \<times> UserSettings \<Rightarrow> AppState \<times> UserSettings" where
  "saveQuickLinks links fetchOk writeOk s =
    (case s of (st, hub) \<Rightarrow>
      (st\<lparr>st_quickLinks := links\<rparr>,
       if fetchOk \<and> writeOk then hub\<lparr>us_quickLinks := Some links\<rparr> else hub))"

definition saveExternalLinks ::
  "ExternalLink list \<Rightarrow> bool \<Rightarrow> bool \<Rightarrow> AppState \<times> UserSettings \<Rightarrow> AppState \<times> UserSettings" where
  "saveExternalLinks links fetchOk writeOk s =
    (case s of (st, hub) \<Rightarrow>
      (st\<lparr>st_externalLinks := links\<rparr>,
       if fetchOk \<and> writeOk then hub\<lparr>us_externalLinks := Some links\<rparr> else hub))"

section \<open>Timestamps\<close>

definition pad2 :: "int \<Rightarrow> string" where
  "pad2 n = pad_start 2 CHR ''0'' (show_int n)"

text \<open>\<open>getPbTimestamp\<close>: without a date the start of the chart's time range before \<open>now\<close>.\<close>

definition getPbTimestamp ::
  "(D3Interval \<Rightarrow> int \<Rightarrow> int \<Rightarrow> int) \<Rightarrow> int \<Rightarrow> ChartTimes \<Rightarrow> int option \<Rightarrow> string" where
  "getPbTimestamp offset now timeString date =
    (let d = (case date of Some d \<Rightarrow> d | None \<Rightarrow> getOffset offset timeString now);
         year = getUTCFullYear d; month = pad2 (getUTCMonth d + 1); day = pad2 (getUTCDate d);
         hours = pad2 (getUTCHours d); minutes = pad2 (getUTCMinutes d); seconds = pad2 (getUTCSeconds d)
     in show_int year @ ''-'' @ month @ ''-'' @ day @ '' '' @ hours @ '':'' @ minutes @ '':'' @ seconds)"

lemma pad2_digits:
  assumes "0 \<le> n" "n < 100"
  shows "length (pad2 n) = 2" "\<forall>c\<in>set (pad2 n). is_digit c" "dec_val (pad2 n) = nat n"
proof -
  have "length (show_nat (nat n)) \<le> 2" using assms by (intro length_show_nat_less) auto
  then show "length (pad2 n) = 2" using assms by (simp add: pad2_def show_int_def length_pad_start)
  show "\<forall>c\<in>set (pad2 n). is_digit c"
    using assms show_nat_digits [of _ "nat n"]
    by (auto simp: pad2_def show_int_def pad_start_def is_digit_def)
  show "dec_val (pad2 n) = nat n" using assms by (simp add: pad2_def show_int_def)
qed

lemma year_digits:
  assumes "1000 \<le> y" "y \<le> 9999"
  shows "length (show_int y) = 4" "\<forall>c\<in>set (show_int y). is_digit c" "dec_val (show_int y) = nat y"
proof -
  have "length (show_nat (nat y)) \<le> 4" using assms by (intro length_show_nat_less) auto
  moreover have "\<not> length (show_nat (nat y)) \<le> 3"
  proof
    assume "length (show_nat (nat y)) \<le> 3"
    then have "(10::nat) ^ length (show_nat (nat y)) \<le> 10 ^ 3" by (intro power_increasing) auto
    moreover have "dec_val (show_nat (nat y)) < 10 ^ length (show_nat (nat y))"
      by (rule dec_val_less) (use show_nat_digits in blast)
    ultimately have "dec_val (show_nat (nat y)) < 10 ^ 3" by (rule order.strict_trans2 [rotated])
    then show False using assms by simp
  qed
  ultimately show "length (show_int y) = 4" using assms by (simp add: show_int_def)
  show "\<forall>c\<in>set (show_int y). is_digit c" using assms show_nat_digits by (auto simp: show_int_def)
  show "dec_val (show_int y) = nat y" using assms by (simp add: show_int_def)
qed

lemma str_less_pad2:
  assumes "0 \<le> m" "m < 100" "0 \<le> n" "n < 100"
  shows "str_less (pad2 m @ x) (pad2 n @ y) \<longleftrightarrow> m < n \<or> m = n \<and> str_less x y"
  using str_less_append [of "pad2 m" "pad2 n" x y] str_less_digits [of "pad2 m" "pad2 n"]
    pad2_digits [of m] pad2_digits [of n] assms by auto

lemma str_less_year:
  assumes "1000 \<le> m" "m \<le> 9999" "1000 \<le> n" "n \<le> 9999"
  shows "str_less (show_int m @ x) (show_int n @ y) \<longleftrightarrow> m < n \<or> m = n \<and> str_less x y"
  using str_less_append [of "show_int m" "show_int n" x y] str_less_digits [of "show_int m" "show_int n"]
    year_digits [of m] year_digits [of n] assms by auto

lemma fields_range:
  "0 \<le> getUTCMonth t" "getUTCMonth t \<le> 11" "1 \<le> getUTCDate t" "getUTCDate t \<le> 31"
  "0 \<le> getUTCHours t" "getUTCHours t < 24" "0 \<le> getUTCMinutes t" "getUTCMinutes t < 60"
  "0 \<le> getUTCSeconds t" "getUTCSeconds t < 60"
  using utc_fields_valid [of t] valid_fields_day [OF utc_fields_valid [of t, unfolded utc_fields_def]]
  by (simp_all add: utc_fields_def valid_fields_def)

lemma str_less_pad2_end:
  "0 \<le> m \<Longrightarrow> m < 100 \<Longrightarrow> 0 \<le> n \<Longrightarrow> n < 100 \<Longrightarrow> str_less (pad2 m) (pad2 n) \<longleftrightarrow> m < n"
  using str_less_pad2 [of m n "[]" "[]"] by simp

lemma pbTimestamp_less:
  assumes "1000 \<le> getUTCFullYear t" "getUTCFullYear t \<le> 9999" "1000 \<le> getUTCFullYear t'" "getUTCFullYear t' \<le> 9999"
  shows "str_less (getPbTimestamp off now ct (Some t)) (getPbTimestamp off now ct (Some t')) \<longleftrightarrow> t div 1000 < t' div 1000"
proof -
  note r = fields_range [of t] fields_range [of t']
  have "str_less (getPbTimestamp off now ct (Some t)) (getPbTimestamp off now ct (Some t')) \<longleftrightarrow>
      fields_less (utc_fields t) (utc_fields t')"
    unfolding getPbTimestamp_def Let_def option.case str_less_year [OF assms]
    by (simp add: str_less_pad2 str_less_pad2_end r fields_less_def utc_fields_def add1_zle_eq
        order.strict_trans1 [OF r(2)] order.strict_trans1 [OF r(4)] order.strict_trans1 [OF r(12)]
        order.strict_trans1 [OF r(14)] order.strict_trans [OF r(6)] order.strict_trans [OF r(8)]
        order.strict_trans [OF r(10)] order.strict_trans [OF r(16)] order.strict_trans [OF r(18)]
        order.strict_trans [OF r(20)] order.trans [OF _ r(3)] order.trans [OF _ r(13)])
  then show ?thesis by (simp add: utc_fields_less)
qed

lemma migrate_links_saved:
  assumes "parse raw = Some localLinks"
  shows "migrate_links parse True settings raw =
    (mergeLinks (server_links settings) localLinks,
     if filter (\<lambda>l. ql_id l \<notin> set (map ql_id (server_links settings))) localLinks = [] then []
     else [settings\<lparr>us_quickLinks := Some (mergeLinks (server_links settings) localLinks)\<rparr>])"
  using assms by (cases "localLinks = []") (simp_all add: migrate_links_def mergeLinks_def Let_def)

lemma updateUserSettings_local:
  assumes "dget local ''besz-quick-links'' = Some raw" "raw \<noteq> []"
    and "updateUserSettings (Inr settings) created parse saveOk (st, local) = ((st', local'), writes)"
  shows "migrate_links parse saveOk settings raw = (st_quickLinks st', writes)"
    and "local' = ddel ''besz-quick-links'' local"
  using assms by (auto simp: updateUserSettings_def Let_def split: prod.splits)

section \<open>Properties\<close>

text \<open>
  C11. PocketBase filters compare timestamps as strings: for dates of four-digit years the strings
  of \<open>getPbTimestamp\<close> are ordered exactly as the dates are to the second.
\<close>

theorem getPbTimestamp_order:
  assumes "1000 \<le> getUTCFullYear t" "getUTCFullYear t \<le> 9999"
    and "1000 \<le> getUTCFullYear t'" "getUTCFullYear t' \<le> 9999"
  shows "str_less (getPbTimestamp off now ct (Some t)) (getPbTimestamp off now ct (Some t')) \<longleftrightarrow> t div 1000 < t' div 1000"
  by (rule pbTimestamp_less [OF assms])

theorem getPbTimestamp_order_witness:
  "str_less (getPbTimestamp (\<lambda>_ t n. t + n) 0 T_1h (Some 951782399999))
      (getPbTimestamp (\<lambda>_ t n. t + n) 0 T_1h (Some 951782400000))
   \<and> getUTCFullYear 951782399999 = 2000 \<and> getUTCMonth 951782399999 = 1 \<and> getUTCDate 951782399999 = 28
   \<and> getUTCMonth 951782400000 = 1 \<and> getUTCDate 951782400000 = 29"
proof -
  have y: "getUTCFullYear 951782399999 = 2000" "getUTCFullYear 951782400000 = 2000"
    by (simp_all add: getUTCFullYear_def ms_day_def year_of_day_def day_from_year_def)
  have f: "getUTCMonth 951782399999 = 1" "getUTCDate 951782399999 = 28"
    "getUTCMonth 951782400000 = 1" "getUTCDate 951782400000 = 29"
    by (simp_all add: getUTCMonth_def getUTCDate_def day_in_year_def y ms_day_def day_from_year_def
        month_of_def month_start_def leap_year_def)
  show ?thesis
    using getPbTimestamp_order [of 951782399999 951782400000 "\<lambda>_ t n. t + n" 0 T_1h] y f by simp
qed

text \<open>
  When the hub accepts the write, loading the settings migrates the quick links kept in the
  browser: the store and the hub get the hub's links followed by the local ones with new ids, no
  id appears twice, every local link's id is present, and the local copy is removed.
\<close>

theorem quick_links_migrated:
  assumes "dget local ''besz-quick-links'' = Some raw" "raw \<noteq> []" "parse raw = Some localLinks"
    and "distinct (map ql_id (server_links settings))" "distinct (map ql_id localLinks)"
    and "updateUserSettings (Inr settings) created parse True (st, local) = ((st', local'), writes)"
  shows "prefix (server_links settings) (st_quickLinks st') \<and> distinct (map ql_id (st_quickLinks st'))
    \<and> set (map ql_id localLinks) \<subseteq> set (map ql_id (st_quickLinks st'))
    \<and> dget local' ''besz-quick-links'' = None
    \<and> (\<forall>w\<in>set writes. w = settings\<lparr>us_quickLinks := Some (st_quickLinks st')\<rparr>)"
proof -
  note upd = updateUserSettings_local [OF assms(1,2,6)]
  have links: "st_quickLinks st' = mergeLinks (server_links settings) localLinks"
    and wr: "\<forall>w\<in>set writes. w = settings\<lparr>us_quickLinks := Some (st_quickLinks st')\<rparr>"
    using upd(1) unfolding migrate_links_saved [of parse, OF assms(3)] by (auto split: if_splits)
  have "distinct (map ql_id (mergeLinks (server_links settings) localLinks))"
    using assms(4,5) by (auto simp: mergeLinks_def distinct_map_filter simp del: distinct_map) (metis imageI)
  moreover have "set (map ql_id localLinks) \<subseteq> set (map ql_id (mergeLinks (server_links settings) localLinks))"
    by (auto simp: mergeLinks_def)
  ultimately show ?thesis
    using wr by (simp add: links upd(2)) (simp add: mergeLinks_def)
qed

definition sample_link :: "string \<Rightarrow> QuickLink" where
  "sample_link k = \<lparr>ql_id = k, ql_name = ''n'', ql_localUrl = [], ql_domainUrl = [], ql_category = None\<rparr>"

theorem quick_links_migrated_witness:
  "set (map ql_id [sample_link ''b'']) \<subseteq> set (map ql_id (st_quickLinks (fst (fst
     (updateUserSettings (Inr (empty_settings\<lparr>us_quickLinks := Some [sample_link ''a'']\<rparr>)) (Inl [])
        (\<lambda>_. Some [sample_link ''b'']) True (init_stores True None, [(''besz-quick-links'', ''x'')]))))))"
proof -
  let ?r = "updateUserSettings (Inr (empty_settings\<lparr>us_quickLinks := Some [sample_link ''a'']\<rparr>)) (Inl [])
    (\<lambda>_. Some [sample_link ''b'']) True (init_stores True None, [(''besz-quick-links'', ''x'')])"
  have "?r = ((fst (fst ?r), snd (fst ?r)), snd ?r)" by simp
  from quick_links_migrated [OF _ _ _ _ _ this, of "''x''" "[sample_link ''b'']"]
  show ?thesis by (simp add: server_links_def)
qed

text \<open>
  The migration is not safe against a failing write: when the hub refuses the merged links the
  store falls back to the hub's links and the local copy is removed all the same, so the new local
  links are lost.
\<close>

theorem quick_links_lost_on_failed_save:
  assumes "dget local ''besz-quick-links'' = Some raw" "raw \<noteq> []" "parse raw = Some localLinks"
    and "updateUserSettings (Inr settings) created parse False (st, local) = ((st', local'), writes)"
  shows "st_quickLinks st' = server_links settings \<and> writes = [] \<and> dget local' ''besz-quick-links'' = None"
  using updateUserSettings_local [OF assms(1,2,4)] assms(3)
  by (auto simp: migrate_links_def Let_def split: if_splits)

theorem quick_links_lost_on_failed_save_witness:
  "st_quickLinks (fst (fst (updateUserSettings (Inr empty_settings) (Inl [])
        (\<lambda>_. Some [sample_link ''b'']) False (init_stores True None, [(''besz-quick-links'', ''x'')])))) = []"
proof -
  let ?r = "updateUserSettings (Inr empty_settings) (Inl [])
    (\<lambda>_. Some [sample_link ''b'']) False (init_stores True None, [(''besz-quick-links'', ''x'')])"
  have "?r = ((fst (fst ?r), snd (fst ?r)), snd ?r)" by simp
  from quick_links_lost_on_failed_save [OF _ _ _ this, of "''x''" "[sample_link ''b'']"]
  show ?thesis by (simp add: server_links_def empty_settings_def)
qed

text \<open>
  Logging out empties the system, alert, settings and link stores, but not the status stores:
  the up, down and paused systems of the session stay in them (no system has the id
  \<open>undefined\<close>).
\<close>

theorem logOut_keeps_status_stores:
  assumes "nano_map setKey" "reachable setKey st" "dget (st_allSystemsById st) ''undefined'' = None"
    and "logOut setKey (st, session) = (st', session')"
  shows "st_allSystemsById st' = [] \<and> st_allSystemsByName st' = [] \<and> st_alerts st' = []
    \<and> st_userSettings st' = empty_settings \<and> st_quickLinks st' = [] \<and> st_externalLinks st' = []
    \<and> dget session' ''lo'' = Some ''t''
    \<and> st_upSystems st' = st_upSystems st \<and> st_downSystems st' = st_downSystems st
    \<and> st_pausedSystems st' = st_pausedSystems st"
  using assms(3,4) reachable_inv [OF assms(1,2)]
  by (auto simp: logOut_def Let_def listener_def set_userSettings_def systems_inv_def)

theorem logOut_keeps_status_stores_witness:
  "st_downSystems (fst (logOut nano_setKey (sample_session, []))) = st_downSystems sample_session
   \<and> dget (st_downSystems sample_session) ''a'' = Some (sample_system ''a'' ''web'' Down)"
proof -
  have none: "dget (st_allSystemsById sample_session) ''undefined'' = None" by (simp add: sample_byId)
  have "logOut nano_setKey (sample_session, []) =
      (fst (logOut nano_setKey (sample_session, [])), snd (logOut nano_setKey (sample_session, [])))" by simp
  from logOut_keeps_status_stores [OF nano_reference.nano_map_axioms sample_reachable none this]
  have "st_downSystems (fst (logOut nano_setKey (sample_session, []))) = st_downSystems sample_session" by blast
  moreover have "dget (st_downSystems sample_session) ''a'' = with_status Down (st_allSystemsById sample_session) ''a''"
    using reachable_inv [OF nano_reference.nano_map_axioms sample_reachable]
    by (simp add: systems_inv_def partition_inv_def)
  moreover have "with_status Down (st_allSystemsById sample_session) ''a'' = Some (sample_system ''a'' ''web'' Down)"
    unfolding with_status_def sample_byId by (simp add: sample_system_def)
  ultimately show ?thesis by simp
qed

end
