(* ===== verification/Links.thy ===== *)
theory Links
  imports Api
begin

text \<open>
  Quick links (\<^verbatim>\<open>components/quick-links.tsx\<close>) and external links
  (\<^verbatim>\<open>components/external-links.tsx\<close> and the manager in
  \<^verbatim>\<open>components/routes/settings/general.tsx\<close>): grouping by category, adding, editing, removing
  and reordering. Each operation computes the list it saves; \<open>None\<close> means that it returns without
  saving. \<open>uuid\<close> is \<open>crypto.randomUUID()\<close>.
\<close>

section \<open>Sorting strings\<close>

text \<open>
  \<open>xs.sort()\<close> on strings, by code units; strings are compared here by their UTF-8 bytes, which is
  the same order except between characters above U+FFFF and those from U+E000 to U+FFFF.
\<close>

definition str_cmp :: "string \<Rightarrow> string \<Rightarrow> rat" where
  "str_cmp a b = (if str_less a b then -1 else if a = b then 0 else 1)"

lemma str_less_linear: "str_less a b \<or> a = b \<or> str_less b a"
proof (induction a b rule: str_less.induct)
  case (4 x xs y ys)
  then show ?case by (metis linorder_less_linear of_char_eq_iff str_less.simps(4))
qed auto

lemma str_less_trans: "str_less a b \<Longrightarrow> str_less b c \<Longrightarrow> str_less a c"
proof (induction a b arbitrary: c rule: str_less.induct)
  case (2 y ys)
  then show ?case by (cases c) auto
next
  case (4 x xs y ys)
  then show ?case by (cases c) auto
qed auto

interpretation string_order: comparator str_cmp UNIV
  by unfold_locales (auto simp: str_cmp_def split: if_splits dest: str_less_trans intro: str_less_linear,
    use str_less_linear in blast)

section \<open>Quick links\<close>

definition LINK_STATUS_COLORS :: "SystemStatus \<Rightarrow> string" where
  "LINK_STATUS_COLORS s = (case s of Up \<Rightarrow> ''bg-green-500'' | Down \<Rightarrow> ''bg-red-500''
     | Paused \<Rightarrow> ''bg-primary/40'' | Pending \<Rightarrow> ''bg-yellow-500'')"

text \<open>\<open>link.category || "Uncategorized"\<close>\<close>

definition category_of :: "QuickLink \<Rightarrow> string" where
  "category_of link = (case ql_category link of None \<Rightarrow> ''Uncategorized''
     | Some c \<Rightarrow> if c = [] then ''Uncategorized'' else c)"

definition group_link :: "(string, QuickLink list) dict \<Rightarrow> QuickLink \<Rightarrow> (string, QuickLink list) dict" where
  "group_link m link =
    (let cat = category_of link;
         m1 = (if dhas m cat then m else dset cat [] m)
     in dset cat (the (dget m1 cat) @ [link]) m1)"

definition grouped :: "QuickLink list \<Rightarrow> (string, QuickLink list) dict" where
  "grouped quickLinks = foldl group_link [] quickLinks"

definition existingCategories :: "QuickLink list \<Rightarrow> string list" where
  "existingCategories quickLinks =
    js_sort str_cmp (uniq (concat (map (\<lambda>l. case ql_category l of None \<Rightarrow> [] | Some c \<Rightarrow> if c = [] then [] else [c]) quickLinks)))"

definition addNewLink ::
  "string \<Rightarrow> string \<Rightarrow> string \<Rightarrow> string \<Rightarrow> string \<Rightarrow> QuickLink list \<Rightarrow> QuickLink list option" where
  "addNewLink uuid addName addLocalUrl addDomainUrl addCategory quickLinks =
    (if trim addName = [] then None
     else Some (quickLinks @ [\<lparr>ql_id = uuid, ql_name = trim addName, ql_localUrl = addLocalUrl,
                               ql_domainUrl = addDomainUrl, ql_category = Some addCategory\<rparr>]))"

record EditForm =
  ef_link :: "QuickLink option"
  ef_name :: string
  ef_localUrl :: string
  ef_domainUrl :: string
  ef_category :: string

definition openEditDialog :: "QuickLink \<Rightarrow> EditForm" where
  "openEditDialog link = \<lparr>ef_link = Some link, ef_name = ql_name link, ef_localUrl = ql_localUrl link,
     ef_domainUrl = ql_domainUrl link, ef_category = (case ql_category link of None \<Rightarrow> [] | Some c \<Rightarrow> c)\<rparr>"

definition saveEdit :: "EditForm \<Rightarrow> QuickLink list \<Rightarrow> QuickLink list option" where
  "saveEdit f quickLinks =
    (case ef_link f of
       None \<Rightarrow> None
     | Some e \<Rightarrow> Some (map (\<lambda>l. if ql_id l = ql_id e
         then l\<lparr>ql_name := ef_name f, ql_localUrl := ef_localUrl f, ql_domainUrl := ef_domainUrl f,
                ql_category := Some (ef_category f)\<rparr>
         else l) quickLinks))"

definition removeLink :: "string \<Rightarrow> QuickLink list \<Rightarrow> QuickLink list" where
  "removeLink k quickLinks = filter (\<lambda>l. ql_id l \<noteq> k) quickLinks"

text \<open>
  \<open>moveLink\<close>: the search loops downwards from \<open>idx - 1\<close> and upwards from \<open>idx + 1\<close> for a link of
  the same category, then the two splices.
\<close>

fun search_down :: "('a \<Rightarrow> bool) \<Rightarrow> 'a list \<Rightarrow> nat \<Rightarrow> nat option" where
  "search_down p xs 0 = None"
| "search_down p xs (Suc i) = (if p (xs ! i) then Some i else search_down p xs i)"

function search_up :: "('a \<Rightarrow> bool) \<Rightarrow> 'a list \<Rightarrow> nat \<Rightarrow> nat option" where
  "search_up p xs i = (if i < length xs then (if p (xs ! i) then Some i else search_up p xs (Suc i)) else None)"
  by pat_completeness auto
termination
  by (relation "measure (\<lambda>(p, xs, i). length xs - i)") auto

declare search_up.simps [simp del]

datatype MoveDirection = MoveLeft | MoveRight

definition moveLink :: "string \<Rightarrow> MoveDirection \<Rightarrow> QuickLink list \<Rightarrow> QuickLink list option" where
  "moveLink k direction quickLinks =
    (case find_index (\<lambda>l. ql_id l = k) quickLinks of
       None \<Rightarrow> None
     | Some idx \<Rightarrow>
        (let category = category_of (quickLinks ! idx);
             same = (\<lambda>l. category_of l = category);
             targetIdx = (if direction = MoveLeft then search_down same quickLinks idx
                          else search_up same quickLinks (idx + 1))
         in case targetIdx of
              None \<Rightarrow> None
            | Some t \<Rightarrow>
               (let item = quickLinks ! idx;
                    rest = take idx quickLinks @ drop (idx + 1) quickLinks
                in Some (take t rest @ item # drop t rest))))"

definition getSystemStatus :: "SystemRecord store \<Rightarrow> string \<Rightarrow> SystemStatus option" where
  "getSystemStatus systemsById linkId = map_option sys_status (dget systemsById linkId)"

text \<open>
  What a card shows: the colour of its status dot, the arrows (the link's position among those of
  its category decides), and the link buttons.
\<close>

record LinkCard =
  lc_statusColor :: "string option"
  lc_moveLeft :: bool
  lc_moveRight :: bool
  lc_local :: bool
  lc_domain :: bool
  lc_noUrls :: bool

definition QuickLinkCard :: "SystemRecord store \<Rightarrow> QuickLink list \<Rightarrow> nat \<Rightarrow> LinkCard" where
  "QuickLinkCard systemsById links idx =
    (let link = links ! idx in
     \<lparr>lc_statusColor = map_option LINK_STATUS_COLORS (getSystemStatus systemsById (ql_id link)),
      lc_moveLeft = (idx > 0), lc_moveRight = (idx < length links - 1),
      lc_local = (ql_localUrl link \<noteq> []), lc_domain = (ql_domainUrl link \<noteq> []),
      lc_noUrls = (ql_localUrl link = [] \<and> ql_domainUrl link = [])\<rparr>)"

definition CategoryGroup :: "SystemRecord store \<Rightarrow> bool \<Rightarrow> QuickLink list \<Rightarrow> LinkCard list" where
  "CategoryGroup systemsById isOpen links =
    (if isOpen then map (QuickLinkCard systemsById links) [0..<length links] else [])"

section \<open>External links\<close>

definition ICON_MAP :: "string list" where
  "ICON_MAP = [''globe'', ''link'', ''star'', ''home'', ''server'', ''database'', ''cloud'', ''shield'',
     ''monitor'', ''mail'', ''file'', ''folder'', ''camera'', ''music'', ''video'', ''settings'',
     ''terminal'', ''wifi'', ''lock'', ''book'']"

definition ICON_OPTIONS :: "(string \<times> string) list" where
  "ICON_OPTIONS = [(''globe'', ''Globe''), (''link'', ''Link''), (''star'', ''Star''), (''home'', ''Home''),
     (''server'', ''Server''), (''database'', ''Database''), (''cloud'', ''Cloud''), (''shield'', ''Shield''),
     (''monitor'', ''Monitor''), (''mail'', ''Mail''), (''file'', ''File''), (''folder'', ''Folder''),
     (''camera'', ''Camera''), (''music'', ''Music''), (''video'', ''Video''), (''settings'', ''Settings''),
     (''terminal'', ''Terminal''), (''wifi'', ''WiFi''), (''lock'', ''Lock''), (''book'', ''Book'')]"

text \<open>The bar: nothing without links, otherwise each link with its icon, the globe if unknown.\<close>

definition ExternalLinksBar :: "ExternalLink list \<Rightarrow> (string \<times> string \<times> string) list" where
  "ExternalLinksBar links =
    map (\<lambda>l. (el_url l, el_label l, if el_icon l \<in> set ICON_MAP then el_icon l else ''globe'')) links"

record ExternalForm =
  xf_label :: string
  xf_url :: string
  xf_icon :: string
  xf_category :: string

definition openAdd :: ExternalForm where
  "openAdd = \<lparr>xf_label = [], xf_url = [], xf_icon = ''globe'', xf_category = []\<rparr>"

definition openEdit :: "ExternalLink \<Rightarrow> ExternalForm" where
  "openEdit link = \<lparr>xf_label = el_label link, xf_url = el_url link,
     xf_icon = (if el_icon link = [] then ''globe'' else el_icon link),
     xf_category = (case el_category link of None \<Rightarrow> [] | Some c \<Rightarrow> c)\<rparr>"

definition handleAdd :: "string \<Rightarrow> ExternalForm \<Rightarrow> ExternalLink list \<Rightarrow> ExternalLink list option" where
  "handleAdd uuid f links =
    (if trim (xf_label f) = [] \<or> trim (xf_url f) = [] then None
     else Some (links @ [\<lparr>el_id = uuid, el_label = trim (xf_label f), el_url = trim (xf_url f),
                          el_icon = xf_icon f, el_category = Some (xf_category f)\<rparr>]))"

definition handleSaveEdit :: "ExternalLink option \<Rightarrow> ExternalForm \<Rightarrow> ExternalLink list \<Rightarrow> ExternalLink list option" where
  "handleSaveEdit editLink f links =
    (case editLink of
       None \<Rightarrow> None
     | Some e \<Rightarrow>
        if trim (xf_label f) = [] \<or> trim (xf_url f) = [] then None
        else Some (map (\<lambda>l. if el_id l = el_id e
               then l\<lparr>el_label := trim (xf_label f), el_url := trim (xf_url f), el_icon := xf_icon f,
                      el_category := Some (xf_category f)\<rparr>
               else l) links))"

definition handleRemove :: "string \<Rightarrow> ExternalLink list \<Rightarrow> ExternalLink list" where
  "handleRemove k links = filter (\<lambda>l. el_id l \<noteq> k) links"

definition externalCategories :: "ExternalLink list \<Rightarrow> string list" where
  "externalCategories links =
    js_sort str_cmp (uniq (concat (map (\<lambda>l. case el_category l of None \<Rightarrow> [] | Some c \<Rightarrow> if c = [] then [] else [c]) links)))"

section \<open>Grouping\<close>

lemma group_link_get:
  "dget (group_link m l) c =
     (if c = category_of l then Some ((case dget m c of None \<Rightarrow> [] | Some ls \<Rightarrow> ls) @ [l]) else dget m c)"
  by (auto simp: group_link_def Let_def dhas_def split: option.splits)

lemma grouped_get:
  "dget (grouped links) c =
     (let ls = filter (\<lambda>l. category_of l = c) links in if ls = [] then None else Some ls)"
  unfolding grouped_def
  by (induction links rule: rev_induct) (auto simp: group_link_get Let_def simp del: map_of_eq_Some_iff map_of_eq_None_iff split: if_splits)

lemma dkeys_group_link:
  "dkeys (group_link m l) = (if dhas m (category_of l) then dkeys m else dkeys m @ [category_of l])"
  by (simp add: group_link_def Let_def dkeys_dset_has)

lemma dkeys_grouped: "dkeys (grouped links) = uniq (map category_of links)"
proof (induction links rule: rev_induct)
  case Nil
  then show ?case by (simp add: grouped_def uniq_def)
next
  case (snoc l links)
  have "dhas (grouped links) (category_of l) \<longleftrightarrow> category_of l \<in> set (map category_of links)"
    unfolding dhas_dkeys snoc by simp
  then show ?case
    using snoc by (simp add: grouped_def dkeys_group_link uniq_snoc)
qed

section \<open>Moving\<close>

lemma search_down_Some:
  "search_down p xs i = Some t \<Longrightarrow> t < i \<and> p (xs ! t) \<and> (\<forall>j. t < j \<longrightarrow> j < i \<longrightarrow> \<not> p (xs ! j))"
  by (induction i) (auto split: if_splits simp: less_Suc_eq)

lemma search_up_Some:
  "search_up p xs i = Some t \<Longrightarrow> i \<le> t \<and> t < length xs \<and> p (xs ! t) \<and> (\<forall>j. i \<le> j \<longrightarrow> j < t \<longrightarrow> \<not> p (xs ! j))"
proof (induction p xs i rule: search_up.induct)
  case (1 p xs i)
  show ?case
  proof (cases "i < length xs \<and> \<not> p (xs ! i)")
    case True
    then have "search_up p xs (Suc i) = Some t" using 1(2) by (simp add: search_up.simps [of p xs i])
    with 1(1) True show ?thesis by (metis Suc_le_eq le_less Suc_leI nat_less_le)
  next
    case False
    with 1(2) show ?thesis by (auto simp: search_up.simps [of p xs i] split: if_splits)
  qed
qed

lemma moveLink_left:
  assumes "moveLink k MoveLeft links = Some r"
  obtains as bs cs t x where "links = as @ t # bs @ x # cs" "r = as @ x # t # bs @ cs" "ql_id x = k"
    "category_of t = category_of x" "\<forall>l\<in>set bs. category_of l \<noteq> category_of x"
proof -
  obtain i where i: "find_index (\<lambda>l. ql_id l = k) links = Some i"
    using assms by (auto simp: moveLink_def split: option.splits)
  then have idx: "i < length links" "ql_id (links ! i) = k" using find_index_SomeD by blast+
  let ?same = "\<lambda>l. category_of l = category_of (links ! i)"
  obtain t where t: "search_down ?same links i = Some t"
    and r: "r = take t (take i links @ drop (Suc i) links) @ links ! i # drop t (take i links @ drop (Suc i) links)"
    using assms i by (auto simp: moveLink_def Let_def split: option.splits)
  note ts = search_down_Some [OF t]
  then have ti: "t < i" by blast
  obtain bs where l: "links = take t links @ links ! t # bs @ links ! i # drop (Suc i) links"
    and tk: "take i links = take t links @ links ! t # bs"
    and "drop (Suc t) links = bs @ links ! i # drop (Suc i) links" "length bs = i - Suc t"
    and bs: "\<forall>y\<in>set bs. \<exists>n. t < n \<and> n < i \<and> y = links ! n"
    by (rule split_at_two [OF ti idx(1)])
  have no: "\<forall>l\<in>set bs. \<not> ?same l"
  proof
    fix l assume "l \<in> set bs"
    with bs obtain n where "t < n" "n < i" "l = links ! n" by blast
    with ts show "\<not> ?same l" by simp
  qed
  have len: "length (take t links) = t" using ts idx by simp
  have res: "r = take t links @ links ! i # links ! t # bs @ drop (Suc i) links"
    unfolding r tk using len by simp
  show ?thesis by (rule that [OF l res idx(2) _ no]) (use ts in simp)
qed

lemma moveLink_right:
  assumes "moveLink k MoveRight links = Some r"
  obtains as bs cs t x where "links = as @ x # bs @ t # cs" "r = as @ bs @ t # x # cs" "ql_id x = k"
    "category_of t = category_of x" "\<forall>l\<in>set bs. category_of l \<noteq> category_of x"
proof -
  obtain i where i: "find_index (\<lambda>l. ql_id l = k) links = Some i"
    using assms by (auto simp: moveLink_def split: option.splits)
  then have idx: "i < length links" "ql_id (links ! i) = k" using find_index_SomeD by blast+
  let ?same = "\<lambda>l. category_of l = category_of (links ! i)"
  obtain t where t: "search_up ?same links (Suc i) = Some t"
    and r: "r = take t (take i links @ drop (Suc i) links) @ links ! i # drop t (take i links @ drop (Suc i) links)"
    using assms i by (auto simp: moveLink_def Let_def split: option.splits)
  note ts = search_up_Some [OF t]
  then have it: "i < t" "t < length links" by auto
  obtain bs where l: "links = take i links @ links ! i # bs @ links ! t # drop (Suc t) links"
    and "take t links = take i links @ links ! i # bs"
    and dr: "drop (Suc i) links = bs @ links ! t # drop (Suc t) links" and len: "length bs = t - Suc i"
    and bs: "\<forall>y\<in>set bs. \<exists>n. i < n \<and> n < t \<and> y = links ! n"
    by (rule split_at_two [OF it])
  have no: "\<forall>l\<in>set bs. \<not> ?same l"
  proof
    fix l assume "l \<in> set bs"
    with bs obtain n where "i < n" "n < t" "l = links ! n" by blast
    with ts show "\<not> ?same l" by simp
  qed
  have "length (take i links @ bs @ [links ! t]) = t" using it len by simp
  note cut = take_drop_length [OF this]
  have re: "take i links @ drop (Suc i) links = (take i links @ bs @ [links ! t]) @ drop (Suc t) links"
    unfolding dr by simp
  have res: "r = take i links @ bs @ links ! t # links ! i # drop (Suc t) links"
    unfolding r re cut by simp
  show ?thesis by (rule that [OF l res idx(2) _ no]) (use ts in simp)
qed

section \<open>Properties\<close>


definition cat_link :: "string \<Rightarrow> string \<Rightarrow> QuickLink" where
  "cat_link k c = (sample_link k)\<lparr>ql_category := Some c\<rparr>"


text \<open>
  The quick links are shown grouped: the categories in the order of their first link, each once,
  and under a category exactly its links in their overall order.
\<close>

theorem grouped_by_category:
  "dkeys (grouped links) = uniq (map category_of links)
   \<and> (\<forall>c\<in>set (map category_of links). dget (grouped links) c = Some (filter (\<lambda>l. category_of l = c) links))"
  by (auto simp: dkeys_grouped grouped_get Let_def filter_empty_conv simp del: map_of_eq_Some_iff)

theorem grouped_by_category_witness:
  "dget (grouped [cat_link ''a'' ''x'', cat_link ''b'' ''y'', cat_link ''c'' ''x'']) ''x''
     = Some [cat_link ''a'' ''x'', cat_link ''c'' ''x'']"
  using grouped_by_category [of "[cat_link ''a'' ''x'', cat_link ''b'' ''y'', cat_link ''c'' ''x'']"]
  by (simp add: category_of_def cat_link_def sample_link_def del: map_of_eq_Some_iff)

end
