(* ===== verification/SystemDetail.thy ===== *)
theory SystemDetail
  imports Links
begin

text \<open>
  The page of one system, \<^verbatim>\<open>components/routes/system.tsx\<close>: the time axis and its cache, the
  gaps inserted between distant records, the fetch-and-merge of statistics with a bounded cache,
  the real-time window, keyboard navigation between systems, which cards and tables the page shows,
  and the values its charts plot.

  Parameters: \<open>now\<close> (\<open>Date.now()\<close>), \<open>parse\<close> (\<open>Date.parse\<close> on the hub's timestamps), d3's
  \<open>offset\<close> and \<open>timeTicks\<close>, and the results of requests.
\<close>

section \<open>Time axis\<close>

record TimeData =
  td_time :: int
  td_ticks :: "int list"
  td_domain :: "int \<times> int"
  td_chartTime :: ChartTimes

definition getTimeData ::
  "(D3Interval \<Rightarrow> int \<Rightarrow> int \<Rightarrow> int) \<Rightarrow> (int \<Rightarrow> int \<Rightarrow> nat \<Rightarrow> int list) \<Rightarrow> int \<Rightarrow> ChartTimes \<Rightarrow> int
   \<Rightarrow> TimeData option \<Rightarrow> (int list \<times> int \<times> int) \<times> TimeData option" where
  "getTimeData offset timeTicks now chartTime lastCreated cached =
    (let hit = (case cached of None \<Rightarrow> False
                | Some c \<Rightarrow> td_chartTime c = chartTime \<and> (lastCreated = 0 \<or> td_time c \<ge> lastCreated))
     in if hit then ((td_ticks (the cached), td_domain (the cached)), cached)
        else (let startTime = getOffset offset chartTime now;
                  ticks = timeTicks startTime now (case ct_ticks (chartTimeData chartTime) of Some n \<Rightarrow> n | None \<Rightarrow> 12);
                  dom = (getOffset offset chartTime now, now)
              in ((ticks, dom),
                  Some \<lparr>td_time = now, td_ticks = ticks, td_domain = dom, td_chartTime = chartTime\<rparr>)))"

section \<open>Gaps\<close>

text \<open>
  A statistics record: \<open>created\<close> is a timestamp string from the hub, a number of milliseconds once
  converted, or null in a gap; the payload of a gap is null.
\<close>

datatype Stamp = Iso string | Ms int

record 'a StatsRec =
  sr_created :: "Stamp option"
  sr_stats :: "'a option"

fun stamp_ms :: "(string \<Rightarrow> int) \<Rightarrow> Stamp \<Rightarrow> int" where
  "stamp_ms parse (Iso s) = parse s"
| "stamp_ms parse (Ms n) = n"

definition gap :: "'a StatsRec" where
  "gap = \<lparr>sr_created = None, sr_stats = None\<rparr>"

text \<open>The loop of \<open>addEmptyValues\<close>; \<open>prevTime\<close> 0 is falsy and stands for "none yet".\<close>

fun addEmptyValues_loop :: "(string \<Rightarrow> int) \<Rightarrow> int \<Rightarrow> int \<Rightarrow> 'a StatsRec list \<Rightarrow> 'a StatsRec list" where
  "addEmptyValues_loop parse expectedInterval prevTime [] = []"
| "addEmptyValues_loop parse expectedInterval prevTime (r # rs) =
    (case sr_created r of
       None \<Rightarrow> r # addEmptyValues_loop parse expectedInterval prevTime rs
     | Some c \<Rightarrow>
        (let ms = stamp_ms parse c; interval = ms - prevTime;
             tooLarge = (prevTime \<noteq> 0 \<and> rat_of_int interval > rat_of_int expectedInterval / 2 + rat_of_int expectedInterval)
         in (if tooLarge then [gap] else []) @ r\<lparr>sr_created := Some (Ms ms)\<rparr>
            # addEmptyValues_loop parse expectedInterval ms rs))"

text \<open>
  The last record's \<open>created\<close> is used as the number it is once converted. A string would make every
  interval \<open>NaN\<close>, which is not too large, so it puts no gap, as 0 does; the cached series hold converted
  records only.
\<close>

definition last_time :: "'a StatsRec list \<Rightarrow> int" where
  "last_time rs = (case at_last rs of None \<Rightarrow> 0
     | Some r \<Rightarrow> (case sr_created r of None \<Rightarrow> 0 | Some (Ms n) \<Rightarrow> n | Some (Iso s) \<Rightarrow> 0))"

definition addEmptyValues :: "(string \<Rightarrow> int) \<Rightarrow> 'a StatsRec list \<Rightarrow> 'a StatsRec list \<Rightarrow> int \<Rightarrow> 'a StatsRec list" where
  "addEmptyValues parse prevRecords newRecords expectedInterval =
    addEmptyValues_loop parse expectedInterval (last_time prevRecords) newRecords"

section \<open>Fetching\<close>

text \<open>
  \<open>getStats\<close>: the filter asks for records created after the last cached one plus a second, or
  after the start of the chart's range.
\<close>

definition getStats_created ::
  "(D3Interval \<Rightarrow> int \<Rightarrow> int \<Rightarrow> int) \<Rightarrow> int \<Rightarrow> ChartTimes \<Rightarrow> 'a StatsRec list option \<Rightarrow> string" where
  "getStats_created offset now chartTime cachedStats =
    (let lastCached = (case cachedStats of None \<Rightarrow> 0 | Some rs \<Rightarrow> last_time rs)
     in getPbTimestamp offset now chartTime (if lastCached \<noteq> 0 then Some (lastCached + 1000) else None))"

text \<open>
  Merging a response into the cache: only a fulfilled, non-empty response changes it; a result of
  more than 120 records is cut to its last 100.
\<close>

definition mergeStats ::
  "(string \<Rightarrow> int) \<Rightarrow> int \<Rightarrow> 'a StatsRec list option \<Rightarrow> (string + 'a StatsRec list)
   \<Rightarrow> 'a StatsRec list \<times> 'a StatsRec list option" where
  "mergeStats parse expectedInterval cached response =
    (let data0 = (case cached of None \<Rightarrow> [] | Some d \<Rightarrow> d) in
     case response of
       Inl e \<Rightarrow> (data0, cached)
     | Inr value \<Rightarrow>
        if value = [] then (data0, cached)
        else (let data1 = data0 @ addEmptyValues parse data0 value expectedInterval;
                  data2 = (if length data1 > 120 then slice_last 100 data1 else data1)
              in (data2, Some data2)))"

definition dockerOrPodman :: "string \<Rightarrow> bool \<Rightarrow> string" where
  "dockerOrPodman str isPodman =
    (if isPodman then replace_str ''Docker'' ''Podman'' (replace_str ''docker'' ''podman'' str) else str)"

text \<open>\<open>makeContainerData\<close>: one object per record, the containers' statistics keyed by name.\<close>

definition makeContainerData ::
  "(string \<Rightarrow> int) \<Rightarrow> ContainerStats list StatsRec list \<Rightarrow> (string, ContainerStats) dict StatsRec list" where
  "makeContainerData parse containers =
    map (\<lambda>r. case sr_created r of
          None \<Rightarrow> gap
        | Some c \<Rightarrow>
            if c = Ms 0 \<or> c = Iso [] then gap
            else \<lparr>sr_created = Some (Ms (stamp_ms parse c)),
                     sr_stats = Some (foldl (\<lambda>d x. dset (cs_n x) x d) [] (case sr_stats r of None \<Rightarrow> [] | Some xs \<Rightarrow> xs))\<rparr>) containers"

section \<open>Effects\<close>

text \<open>Leaving the page of a system: the chart time goes back to the setting unless it is kept.\<close>

definition leave_system :: "bool \<Rightarrow> AppState \<Rightarrow> AppState" where
  "leave_system persistChartTime st =
    (let st1 = (if persistChartTime then st else st\<lparr>st_chartTime := us_chartTime (st_userSettings st)\<rparr>)
     in st1\<lparr>st_containerFilter := []\<rparr>)"

text \<open>The system of the page: by id, or by name for old links.\<close>

definition find_system :: "AppState \<Rightarrow> string \<Rightarrow> SystemRecord option" where
  "find_system st k =
    (if systems st = [] then None
     else if dhas (st_allSystemsById st) k then dget (st_allSystemsById st) k
     else dget (st_allSystemsByName st) k)"

text \<open>
  \<open>parseSemVer(v) < parseSemVer("0.13.0")\<close> compares two objects: both become the string
  \<open>[object Object]\<close>.
\<close>

definition object_less :: "SemVer \<Rightarrow> SemVer \<Rightarrow> bool" where
  "object_less a b \<longleftrightarrow> str_less ''[object Object]'' ''[object Object]''"

definition hide_1m_effect :: "string \<Rightarrow> AppState \<Rightarrow> AppState" where
  "hide_1m_effect v st =
    (if object_less (parseSemVer v) (parseSemVer ''0.13.0'') then st\<lparr>st_chartTime := Some T_1h\<rparr> else st)"

definition fetches_details :: "SystemRecord \<Rightarrow> bool" where
  "fetches_details system \<longleftrightarrow> sys_id system \<noteq> [] \<and> si_m (sys_info system) = []"

text \<open>The real-time effect: subscribes (\<open>True\<close>), or falls back to the hour chart.\<close>

definition realtime_effect :: "SystemRecord \<Rightarrow> AppState \<Rightarrow> AppState \<times> bool" where
  "realtime_effect system st =
    (if sys_id system = [] \<or> st_chartTime st \<noteq> Some T_1m then (st, False)
     else if sys_status system \<noteq> Up \<or> js_less (sv_minor (parseSemVer (si_v (sys_info system)))) (Fin 13)
     then (st\<lparr>st_chartTime := Some T_1h\<rparr>, False)
     else (st, True))"

text \<open>A real-time message appends to the last 59 records.\<close>

definition realtime_update :: "(string \<Rightarrow> int) \<Rightarrow> int \<Rightarrow> 'a \<Rightarrow> 'a StatsRec list \<Rightarrow> 'a StatsRec list" where
  "realtime_update parse now stats prev =
    addEmptyValues parse prev (slice_last 59 prev @ [\<lparr>sr_created = Some (Ms now), sr_stats = Some stats\<rparr>]) 1000"

text \<open>Keyboard navigation: the id of the system to go to.\<close>

definition handleKeyUp :: "bool \<Rightarrow> bool \<Rightarrow> string \<Rightarrow> string \<Rightarrow> SystemRecord list \<Rightarrow> string option" where
  "handleKeyUp inInput modifier key k syss =
    (if inInput \<or> modifier then None
     else case find_index (\<lambda>s. sys_id s = k) syss of
       None \<Rightarrow> None
     | Some currentIndex \<Rightarrow>
        if length syss \<le> 1 then None
        else if key = ''ArrowLeft'' \<or> key = ''h''
        then Some (sys_id (syss ! nat ((int currentIndex - 1 + int (length syss)) mod int (length syss))))
        else if key = ''ArrowRight'' \<or> key = ''l''
        then Some (sys_id (syss ! ((currentIndex + 1) mod length syss)))
        else None)"

section \<open>What the page shows\<close>

definition last_stats :: "SystemStats StatsRec list \<Rightarrow> SystemStats option" where
  "last_stats rs = (case at_last rs of None \<Rightarrow> None | Some r \<Rightarrow> sr_stats r)"

definition isLongerChart :: "ChartTimes \<Rightarrow> bool" where
  "isLongerChart ct \<longleftrightarrow> ct \<noteq> T_1m \<and> ct \<noteq> T_1h"

record GpuFlags =
  gf_data :: bool
  gf_engines :: bool
  gf_power :: bool

definition gpu_dict :: "SystemStats StatsRec \<Rightarrow> (string, GPUData) dict" where
  "gpu_dict r = (case sr_stats r of None \<Rightarrow> [] | Some s \<Rightarrow> (case st_g s of None \<Rightarrow> [] | Some g \<Rightarrow> g))"

text \<open>
  The flags over all records. The loops stop early once both are found, which does not change
  them.
\<close>

definition gpuFlags :: "SystemStats StatsRec list \<Rightarrow> GpuFlags" where
  "gpuFlags systemStats =
    (case last_stats systemStats of
       None \<Rightarrow> \<lparr>gf_data = False, gf_engines = False, gf_power = False\<rparr>
     | Some s \<Rightarrow>
        (case st_g s of
           None \<Rightarrow> \<lparr>gf_data = False, gf_engines = False, gf_power = False\<rparr>
         | Some lastGpus \<Rightarrow>
            (let gpus = concat (map (\<lambda>r. dvals (gpu_dict r)) systemStats) in
             \<lparr>gf_data = (length lastGpus > 0),
              gf_engines = list_ex (\<lambda>g. gpu_e g \<noteq> None) gpus,
              gf_power = list_ex (\<lambda>g. gpu_p g \<noteq> None \<or> gpu_pp g \<noteq> None) gpus\<rparr>)))"

definition is_linux :: "Os option \<Rightarrow> SystemInfo \<Rightarrow> bool" where
  "is_linux detailsOs info =
    (case (case detailsOs of Some x \<Rightarrow> Some x | None \<Rightarrow> si_os info) of None \<Rightarrow> True | Some x \<Rightarrow> os_code x = 0)"

definition is_podman :: "bool option \<Rightarrow> SystemInfo \<Rightarrow> bool" where
  "is_podman detailsPodman info =
    (case detailsPodman of Some b \<Rightarrow> b | None \<Rightarrow> (case si_p info of Some b \<Rightarrow> b | None \<Rightarrow> False))"

datatype Card =
    CpuCard | ContainerCpuCard string | MemoryCard | ContainerMemoryCard string | DiskCard | DiskIOCard
  | BandwidthCard | ContainerNetCard string | SwapCard | LoadAverageCard | TemperatureCard bool
  | BatteryCard BatteryState | GpuPowerCard | GpuEnginesCard | GpuUsageCard string | GpuVramCard string
  | FsUsageCard string | FsIOCard string
  | SmartTable | ContainersTable | SystemdTable | PackageUpdatesTable

definition js_ge :: "jsnum \<Rightarrow> jsnum \<Rightarrow> bool" where
  "js_ge a b \<longleftrightarrow> js_less b a \<or> js_eq a b"

definition shown :: "bool \<Rightarrow> 'a list \<Rightarrow> 'a list" where
  "shown b xs = (if b then xs else [])"

definition main_cards :: "bool \<Rightarrow> bool \<Rightarrow> Card list" where
  "main_cards hasContainers isPodman =
    [CpuCard]
    @ shown hasContainers [ContainerCpuCard (dockerOrPodman ''Docker CPU Usage'' isPodman)]
    @ [MemoryCard]
    @ shown hasContainers [ContainerMemoryCard (dockerOrPodman ''Docker Memory Usage'' isPodman)]
    @ [DiskCard, DiskIOCard, BandwidthCard]
    @ shown hasContainers [ContainerNetCard (dockerOrPodman ''Docker Network I/O'' isPodman)]"

definition sensor_cards :: "SemVer \<Rightarrow> SystemStats option \<Rightarrow> GpuFlags \<Rightarrow> Card list" where
  "sensor_cards agentVersion lst gpu =
    shown ((case lst of None \<Rightarrow> 0 | Some s \<Rightarrow> st_su s) > 0) [SwapCard]
    @ shown (js_ge (sv_minor agentVersion) (Fin 12)) [LoadAverageCard]
    @ (case lst of None \<Rightarrow> [] | Some s \<Rightarrow> (case st_t s of None \<Rightarrow> [] | Some t \<Rightarrow> [TemperatureCard (length t < 12)]))
    @ (case lst of None \<Rightarrow> [] | Some s \<Rightarrow> (case st_bat s of None \<Rightarrow> [] | Some b \<Rightarrow> [BatteryCard (snd b)]))
    @ shown (gf_power gpu) [GpuPowerCard]"

definition gpu_cards :: "SystemStats option \<Rightarrow> GpuFlags \<Rightarrow> Card list" where
  "gpu_cards lst gpu =
    shown (gf_data gpu)
      (shown (gf_engines gpu) [GpuEnginesCard]
       @ concat (map (\<lambda>(k, g). [GpuUsageCard k] @ shown ((case gpu_mt g of None \<Rightarrow> 0 | Some m \<Rightarrow> m) > 0) [GpuVramCard k])
           (case lst of None \<Rightarrow> [] | Some s \<Rightarrow> (case st_g s of None \<Rightarrow> [] | Some g \<Rightarrow> g))))"

definition fs_cards :: "SystemStats option \<Rightarrow> Card list" where
  "fs_cards lst = concat (map (\<lambda>k. [FsUsageCard k, FsIOCard k])
     (case lst of None \<Rightarrow> [] | Some s \<Rightarrow> (case st_efs s of None \<Rightarrow> [] | Some e \<Rightarrow> dkeys e)))"

definition at_least :: "SemVer \<Rightarrow> string \<Rightarrow> bool" where
  "at_least v w \<longleftrightarrow> js_ge (compareSemVer v (parseSemVer w)) (Fin 0)"

definition table_cards :: "SemVer \<Rightarrow> bool \<Rightarrow> bool \<Rightarrow> Card list" where
  "table_cards agentVersion hasContainers isLinux =
    shown (at_least agentVersion ''0.15.0'') [SmartTable]
    @ shown (hasContainers \<and> at_least agentVersion ''0.14.0'') [ContainersTable]
    @ shown (isLinux \<and> at_least agentVersion ''0.16.0'') [SystemdTable]
    @ shown isLinux [PackageUpdatesTable]"

definition page_cards ::
  "SystemRecord \<Rightarrow> Os option \<Rightarrow> bool option \<Rightarrow> SystemStats StatsRec list \<Rightarrow> 'c list \<Rightarrow> Card list" where
  "page_cards system detailsOs detailsPodman systemStats containerData =
    (let v = parseSemVer (si_v (sys_info system)); lst = last_stats systemStats; gpu = gpuFlags systemStats;
         hasContainers = (containerData \<noteq> []); linux = is_linux detailsOs (sys_info system)
     in if sys_id system = [] then []
        else main_cards hasContainers (is_podman detailsPodman (sys_info system)) @ sensor_cards v lst gpu
             @ gpu_cards lst gpu @ fs_cards lst @ table_cards v hasContainers linux)"

section \<open>Chart values\<close>

definition mb :: "rat option \<Rightarrow> rat" where
  "mb x = (case x of None \<Rightarrow> 0 | Some v \<Rightarrow> v) * 1024 * 1024"

definition cpu_value :: "bool \<Rightarrow> SystemStats \<Rightarrow> rat option" where
  "cpu_value showMax s = (if showMax then st_cpum s else Some (st_cpu s))"

definition disk_write :: "bool \<Rightarrow> SystemStats \<Rightarrow> rat" where
  "disk_write showMax s =
    (if showMax then (case st_dio s of Some d \<Rightarrow> snd d | None \<Rightarrow> mb (st_dwm s))
     else (case st_dio s of Some d \<Rightarrow> snd d | None \<Rightarrow> mb (Some (st_dw s))))"

definition disk_read :: "bool \<Rightarrow> SystemStats \<Rightarrow> rat" where
  "disk_read showMax s =
    (if showMax then (case st_diom s of Some d \<Rightarrow> fst d | None \<Rightarrow> mb (st_drm s))
     else (case st_dio s of Some d \<Rightarrow> fst d | None \<Rightarrow> mb (Some (st_dr s))))"

definition net_sent :: "bool \<Rightarrow> SystemStats \<Rightarrow> rat" where
  "net_sent showMax s =
    (if showMax then (case st_bm s of Some d \<Rightarrow> fst d | None \<Rightarrow> mb (st_nsm s))
     else (case st_b s of Some d \<Rightarrow> fst d | None \<Rightarrow> mb (Some (st_ns s))))"

definition net_received :: "bool \<Rightarrow> SystemStats \<Rightarrow> rat" where
  "net_received showMax s =
    (if showMax then (case st_bm s of Some d \<Rightarrow> snd d | None \<Rightarrow> mb (st_nrm s))
     else (case st_b s of Some d \<Rightarrow> snd d | None \<Rightarrow> mb (Some (st_nr s))))"

text \<open>The extra filesystems: written bytes fall back with \<open>||\<close> (so on 0 as well), read bytes with \<open>??\<close>.\<close>

definition or_mb :: "rat option \<Rightarrow> rat \<Rightarrow> rat" where
  "or_mb x m = (case x of Some v \<Rightarrow> if v \<noteq> 0 then v else mb (Some m) | None \<Rightarrow> mb (Some m))"

definition else_mb :: "rat option \<Rightarrow> rat \<Rightarrow> rat" where
  "else_mb x m = (case x of Some v \<Rightarrow> v | None \<Rightarrow> mb (Some m))"

definition fs_write :: "bool \<Rightarrow> string \<Rightarrow> SystemStats \<Rightarrow> rat" where
  "fs_write showMax name s =
    (case st_efs s of None \<Rightarrow> 0 | Some e \<Rightarrow> (case dget e name of None \<Rightarrow> 0
      | Some f \<Rightarrow> if showMax then or_mb (fs_wbm f) (fs_wm f) else or_mb (fs_wb f) (fs_w f)))"

definition fs_read :: "bool \<Rightarrow> string \<Rightarrow> SystemStats \<Rightarrow> rat" where
  "fs_read showMax name s =
    (case st_efs s of None \<Rightarrow> 0 | Some e \<Rightarrow> (case dget e name of None \<Rightarrow> 0
      | Some f \<Rightarrow> if showMax then else_mb (fs_rbm f) (fs_rm f) else else_mb (fs_rb f) (fs_r f)))"

text \<open>The tick and tooltip texts of the throughput charts; \<open>dec\<close> is \<open>decimalString\<close>, \<open>num\<close> number printing.\<close>

definition bytes_tick :: "(rat \<Rightarrow> string) \<Rightarrow> Unit \<Rightarrow> rat \<Rightarrow> string" where
  "bytes_tick num unit v =
    (let (x, u) = formatBytes v True unit False in num (toFixedFloat x (if x \<ge> 10 then 0 else 1)) @ '' '' @ u)"

definition bytes_content :: "(rat \<Rightarrow> nat \<Rightarrow> string) \<Rightarrow> Unit \<Rightarrow> rat \<Rightarrow> string" where
  "bytes_content dec unit v =
    (let (x, u) = formatBytes v True unit False in dec x (if x \<ge> 100 then 1 else 2) @ '' '' @ u)"

text \<open>
  The engines chart: the newest record with a GPU that has engines decides the GPU and its engines,
  sorted by name.
\<close>

definition gpuEngines :: "SystemStats StatsRec list \<Rightarrow> (string \<times> string list) option" where
  "gpuEngines rs =
    (case find (\<lambda>(k, g). gpu_e g \<noteq> None) (concat (map gpu_dict (rev rs))) of
       None \<Rightarrow> None
     | Some (k, g) \<Rightarrow> Some (k, js_sort str_cmp (dkeys (the (gpu_e g)))))"

section \<open>Filter bar\<close>

text \<open>
  The input's value and the store's; a change of the input is written to the store 80 ms later
  unless another change comes first.
\<close>

record FilterBar =
  fb_input :: string
  fb_store :: string

definition filter_change :: "string \<Rightarrow> FilterBar \<Rightarrow> FilterBar" where
  "filter_change v f = f\<lparr>fb_input := v\<rparr>"

definition filter_timeout :: "FilterBar \<Rightarrow> FilterBar" where
  "filter_timeout f = (if fb_input f = fb_store f then f else f\<lparr>fb_store := fb_input f\<rparr>)"

definition filter_clear :: "FilterBar \<Rightarrow> FilterBar" where
  "filter_clear f = \<lparr>fb_input = [], fb_store = []\<rparr>"

definition filter_store_changed :: "string \<Rightarrow> FilterBar \<Rightarrow> FilterBar" where
  "filter_store_changed v f = \<lparr>fb_input = v, fb_store = v\<rparr>"

definition SelectAvgMax :: "string \<Rightarrow> AppState \<Rightarrow> AppState" where
  "SelectAvgMax e st = st\<lparr>st_maxValues := (e = ''max'')\<rparr>"

section \<open>Lemmas\<close>

definition times_of :: "(string \<Rightarrow> int) \<Rightarrow> 'a StatsRec list \<Rightarrow> int list" where
  "times_of parse rs = map (stamp_ms parse) (map (\<lambda>r. the (sr_created r)) (filter (\<lambda>r. sr_created r \<noteq> None) rs))"

definition converted :: "(string \<Rightarrow> int) \<Rightarrow> 'a StatsRec \<Rightarrow> 'a StatsRec" where
  "converted parse r = (case sr_created r of None \<Rightarrow> r | Some c \<Rightarrow> r\<lparr>sr_created := Some (Ms (stamp_ms parse c))\<rparr>)"

definition end_time :: "(string \<Rightarrow> int) \<Rightarrow> 'a StatsRec list \<Rightarrow> int" where
  "end_time parse rs = stamp_ms parse (the (sr_created (last rs)))"

lemma loop_append:
  assumes "\<forall>r\<in>set xs. sr_created r \<noteq> None" "xs \<noteq> []"
  shows "addEmptyValues_loop parse e t (xs @ ys) =
     addEmptyValues_loop parse e t xs @ addEmptyValues_loop parse e (end_time parse xs) ys"
  using assms
proof (induction xs arbitrary: t)
  case Nil
  then show ?case by simp
next
  case (Cons r rs)
  then obtain c where c: "sr_created r = Some c" by auto
  show ?case
  proof (cases "rs = []")
    case True
    then show ?thesis by (simp add: c end_time_def Let_def)
  next
    case False
    then have "end_time parse (r # rs) = end_time parse rs" by (simp add: end_time_def)
    with Cons False c show ?thesis by (simp add: Let_def)
  qed
qed

lemma loop_last_time:
  assumes "\<forall>r\<in>set xs. sr_created r \<noteq> None" "xs \<noteq> []"
  shows "last_time (ps @ addEmptyValues_loop parse e t xs) = end_time parse xs"
proof -
  obtain ys r where xs: "xs = ys @ [r]" using assms(2) by (metis rev_exhaust)
  with assms(1) obtain c where c: "sr_created r = Some c" by auto
  have "\<exists>zs. addEmptyValues_loop parse e t (ys @ [r]) = zs @ [r\<lparr>sr_created := Some (Ms (stamp_ms parse c))\<rparr>]"
    by (cases "ys = []") (use assms(1) xs c loop_append [of ys parse e t "[r]"] in \<open>auto simp: Let_def\<close>)
  then show ?thesis by (auto simp: xs last_time_def end_time_def at_last_def c)
qed

lemma loop_no_gaps:
  assumes "\<forall>r\<in>set xs. sr_created r \<noteq> None"
  shows "filter (\<lambda>r. sr_created r \<noteq> None) (addEmptyValues_loop parse e t xs) = map (converted parse) xs"
  using assms by (induction xs arbitrary: t) (auto simp: Let_def gap_def converted_def)

text \<open>Adjacent records of an axis with gaps: two points are never further apart than 1.5 intervals.\<close>

definition close :: "(string \<Rightarrow> int) \<Rightarrow> int \<Rightarrow> 'a StatsRec \<Rightarrow> 'a StatsRec \<Rightarrow> bool" where
  "close parse e a b =
    (case (sr_created a, sr_created b) of
       (Some x, Some y) \<Rightarrow> rat_of_int (stamp_ms parse y - stamp_ms parse x) \<le> rat_of_int e / 2 + rat_of_int e
     | _ \<Rightarrow> True)"

lemma loop_close:
  assumes "\<forall>r\<in>set xs. sr_created r \<noteq> None \<and> stamp_ms parse (the (sr_created r)) \<noteq> 0"
    and "t = 0 \<or> (\<exists>c. sr_created p = Some c \<and> stamp_ms parse c = t)" "t = 0 \<longrightarrow> sr_created p = None"
  shows "successively (close parse e) (p # addEmptyValues_loop parse e t xs)"
  using assms
proof (induction xs arbitrary: t p)
  case Nil
  then show ?case by simp
next
  case (Cons r rs)
  then obtain c where c: "sr_created r = Some c" "stamp_ms parse c \<noteq> 0" by auto
  let ?r = "r\<lparr>sr_created := Some (Ms (stamp_ms parse c))\<rparr>"
  have "successively (close parse e) (?r # addEmptyValues_loop parse e (stamp_ms parse c) rs)"
    by (rule Cons.IH) (use Cons.prems c in auto)
  moreover have "close parse e p ?r" if "t = 0 \<or> \<not> rat_of_int (stamp_ms parse c - t) > rat_of_int e / 2 + rat_of_int e"
    using that Cons.prems(2,3) by (auto simp: close_def split: option.splits)
  moreover have "close parse e p gap" "close parse e gap ?r" by (simp_all add: close_def gap_def split: option.splits)
  ultimately show ?case by (auto simp: c Let_def)
qed

lemma addEmptyValues_incremental:
  assumes "\<forall>r\<in>set xs. sr_created r \<noteq> None" "xs \<noteq> []"
  shows "addEmptyValues parse ps (xs @ ys) e =
     addEmptyValues parse ps xs e @ addEmptyValues parse (addEmptyValues parse ps xs e) ys e"
  unfolding addEmptyValues_def
  using loop_last_time [OF assms, of "[]"] by (simp add: loop_append [OF assms])

lemma addEmptyValues_last_time: "last_time ps = last_time qs \<Longrightarrow> addEmptyValues parse ps xs e = addEmptyValues parse qs xs e"
  by (simp add: addEmptyValues_def)

text \<open>
  Any number of responses, from an empty cache: what the chart shows after the last one and the
  cache; and all the records the responses brought.
\<close>

definition merge_all :: "(string \<Rightarrow> int) \<Rightarrow> int \<Rightarrow> (string + 'a StatsRec list) list \<Rightarrow> 'a StatsRec list \<times> 'a StatsRec list option" where
  "merge_all parse e responses = foldl (\<lambda>(shown, cached) r. mergeStats parse e cached r) ([], None) responses"

definition fetched :: "(string + 'a StatsRec list) list \<Rightarrow> 'a StatsRec list" where
  "fetched responses = concat (map (\<lambda>r. case r of Inl e \<Rightarrow> [] | Inr value \<Rightarrow> value) responses)"

lemma fetched_snoc: "fetched (rs @ [r]) = fetched rs @ (case r of Inl e \<Rightarrow> [] | Inr value \<Rightarrow> value)"
  by (simp add: fetched_def)

lemma merge_all_snoc: "merge_all parse e (rs @ [r]) = mergeStats parse e (snd (merge_all parse e rs)) r"
  by (simp add: merge_all_def case_prod_beta)

text \<open>A cut series: the end of the full one, cut only above 120 records and never below 100.\<close>

definition cut_of :: "'a list \<Rightarrow> 'a list \<Rightarrow> bool" where
  "cut_of full d \<longleftrightarrow> suffix d full \<and> length d \<le> 120 \<and> (length full \<le> 120 \<longrightarrow> d = full) \<and> min 100 (length full) \<le> length d"

lemma cut_of_append:
  assumes "cut_of full d"
  shows "cut_of (full @ xs) (if length (d @ xs) > 120 then slice_last 100 (d @ xs) else d @ xs)"
proof -
  have "suffix (d @ xs) (full @ xs)" using assms by (simp add: cut_of_def suffix_append)
  moreover have "suffix (slice_last 100 (d @ xs)) (full @ xs)"
    by (rule suffix_order.trans [OF slice_last_suffix calculation])
  ultimately show ?thesis using assms suffix_length_le [of d full] by (auto simp: cut_of_def)
qed

lemma cut_of_last_time:
  assumes "cut_of full d"
  shows "last_time d = last_time full"
proof (cases "full = []")
  case True
  with assms show ?thesis by (simp add: cut_of_def)
next
  case False
  then have "0 < length full" by simp
  then have "d \<noteq> []" using assms by (auto simp: cut_of_def)
  then show ?thesis using assms by (auto simp: cut_of_def suffix_def last_time_def at_last_def)
qed

lemma merge_all_cut:
  assumes "\<forall>r\<in>set (fetched responses). sr_created r \<noteq> None"
  shows "cut_of (addEmptyValues parse [] (fetched responses) e) (fst (merge_all parse e responses))
    \<and> fst (merge_all parse e responses) = (case snd (merge_all parse e responses) of None \<Rightarrow> [] | Some d \<Rightarrow> d)"
  using assms
proof (induction responses rule: rev_induct)
  case Nil
  then show ?case by (simp add: merge_all_def fetched_def addEmptyValues_def cut_of_def)
next
  case (snoc r rs)
  let ?F = "addEmptyValues parse [] (fetched rs) e" and ?d = "fst (merge_all parse e rs)"
  have "\<forall>r\<in>set (fetched rs). sr_created r \<noteq> None" using snoc.prems by (simp add: fetched_snoc)
  note IH = conjunct1 [OF snoc.IH [OF this]] conjunct2 [OF snoc.IH [OF this]]
  show ?case
  proof (cases "\<exists>v. r = Inr v \<and> v \<noteq> []")
    case False
    then show ?thesis
      using IH by (cases r) (auto simp: fetched_snoc merge_all_snoc mergeStats_def Let_def)
  next
    case True
    then obtain v where v: "r = Inr v" "v \<noteq> []" by blast
    have "addEmptyValues parse [] (fetched rs @ v) e = ?F @ addEmptyValues parse ?F v e"
    proof (cases "fetched rs = []")
      case False
      then show ?thesis using snoc.prems addEmptyValues_incremental [of "fetched rs" parse "[]" v e] by (simp add: fetched_snoc)
    qed (simp add: addEmptyValues_def)
    also have "addEmptyValues parse ?F v e = addEmptyValues parse ?d v e"
      by (rule addEmptyValues_last_time) (simp add: cut_of_last_time [OF IH(1)])
    finally show ?thesis
      using v cut_of_append [OF IH(1), of "addEmptyValues parse ?d v e"]
      by (simp add: fetched_snoc merge_all_snoc mergeStats_def Let_def IH(2) [symmetric])
  qed
qed

section \<open>Properties\<close>

text \<open>
  C3. Fetching statistics in steps shows the same as fetching them at once, up to the bound of the
  cache: after any responses, failed and empty ones among them, the chart shows the end of the series that
  inserting the gaps into all fetched records at once gives. Nothing is missing while that series has at
  most 120 records; when it was cut, at least its last 100 records are shown. The records carry a time,
  as the hub's do.
\<close>

theorem incremental_fetch:
  assumes "\<forall>r\<in>set (fetched responses). sr_created r \<noteq> None"
  shows "\<exists>dropped. addEmptyValues parse [] (fetched responses) e = dropped @ fst (merge_all parse e responses)
    \<and> length (fst (merge_all parse e responses)) \<le> 120
    \<and> (dropped \<noteq> [] \<longrightarrow> 120 < length (addEmptyValues parse [] (fetched responses) e)
                       \<and> 100 \<le> length (fst (merge_all parse e responses)))"
proof -
  let ?F = "addEmptyValues parse [] (fetched responses) e" and ?d = "fst (merge_all parse e responses)"
  have cut: "cut_of ?F ?d" using merge_all_cut [OF assms] by blast
  then obtain dropped where dropped: "?F = dropped @ ?d" by (auto simp: cut_of_def suffix_def)
  then have "dropped \<noteq> [] \<Longrightarrow> length ?d < length ?F" by simp
  with cut dropped show ?thesis by (intro exI [of _ dropped]) (auto simp: cut_of_def)
qed

definition point :: "int \<Rightarrow> nat StatsRec" where
  "point t = \<lparr>sr_created = Some (Ms t), sr_stats = Some 0\<rparr>"

theorem incremental_fetch_witness:
  "\<exists>dropped. [point 60000, gap, point 240000] = dropped @ fst (merge_all (\<lambda>_. 0) 60000 [Inr [point 60000], Inl ''offline'', Inr [point 240000]])
    \<and> (dropped \<noteq> [] \<longrightarrow> 120 < length [point 60000, gap, point 240000])"
proof -
  let ?rs = "[Inr [point 60000], Inl ''offline'', Inr [point 240000]]"
  have "\<forall>r\<in>set (fetched ?rs). sr_created r \<noteq> None" by (simp add: fetched_def point_def)
  moreover have "addEmptyValues (\<lambda>_. 0) [] (fetched ?rs) 60000 = [point 60000, gap, point 240000]"
    by (simp add: addEmptyValues_def last_time_def point_def fetched_def Let_def)
  ultimately show ?thesis
    using incremental_fetch [of ?rs "\<lambda>_. 0" 60000] by auto
qed

text \<open>The record a gap may precede follows, in time, the record before it or the last cached one.\<close>

definition record_before :: "'a StatsRec list \<Rightarrow> 'a StatsRec list \<Rightarrow> nat \<Rightarrow> 'a StatsRec option" where
  "record_before prev xs i = (if i = 0 then at_last prev else Some (xs ! (i - 1)))"

definition distant :: "(string \<Rightarrow> int) \<Rightarrow> int \<Rightarrow> 'a StatsRec option \<Rightarrow> 'a StatsRec \<Rightarrow> bool" where
  "distant parse e p r \<longleftrightarrow> (case p of None \<Rightarrow> False | Some q \<Rightarrow> \<not> close parse e q r)"

definition with_gap :: "(string \<Rightarrow> int) \<Rightarrow> int \<Rightarrow> 'a StatsRec list \<Rightarrow> 'a StatsRec list \<Rightarrow> nat \<Rightarrow> 'a StatsRec list" where
  "with_gap parse e prev xs i = (if distant parse e (record_before prev xs i) (xs ! i) then [gap] else []) @ [converted parse (xs ! i)]"

lemma with_gap_Cons:
  "with_gap parse e prev (r # rs) 0 = (if distant parse e (at_last prev) r then [gap] else []) @ [converted parse r]"
  "with_gap parse e prev (r # rs) (Suc i) = with_gap parse e [r] rs i"
  by (cases i; simp add: with_gap_def record_before_def)+

lemma loop_gaps:
  assumes "\<forall>r\<in>set xs. sr_created r \<noteq> None \<and> stamp_ms parse (the (sr_created r)) \<noteq> 0"
    and "case at_last prev of None \<Rightarrow> t = 0 | Some p \<Rightarrow> t \<noteq> 0 \<and> map_option (stamp_ms parse) (sr_created p) = Some t"
  shows "addEmptyValues_loop parse e t xs =
    concat (map (with_gap parse e prev xs) [0..<length xs])"
  using assms
proof (induction xs arbitrary: t prev)
  case Nil
  then show ?case by simp
next
  case (Cons r rs)
  then obtain c where c: "sr_created r = Some c" "stamp_ms parse c \<noteq> 0" by auto
  have "distant parse e (at_last prev) r \<longleftrightarrow> t \<noteq> 0 \<and> rat_of_int (stamp_ms parse c - t) > rat_of_int e / 2 + rat_of_int e"
    using Cons.prems(2) c by (auto simp: distant_def close_def not_le split: option.splits)
  moreover have "addEmptyValues_loop parse e (stamp_ms parse c) rs =
      concat (map (with_gap parse e [r] rs) [0..<length rs])"
    by (rule Cons.IH) (use Cons.prems c in auto)
  moreover have "[0..<length (r # rs)] = 0 # map Suc [0..<length rs]" by (metis length_Cons upt_conv_Cons map_Suc_upt zero_less_Suc)
  ultimately show ?case
    by (simp add: c Let_def comp_def with_gap_Cons del: upt_Suc) (simp add: c converted_def)
qed

text \<open>
  C30. Gaps are drawn exactly where data is missing: the result is the given records in order with
  their times in milliseconds, and record \<open>i\<close> has one empty record before it if and only if it is more than
  one and a half expected intervals later than the record before it (for the first one, the last cached
  record). So two records that are drawn connected are never further apart.
\<close>

theorem gaps_where_data_is_missing:
  assumes "\<forall>r\<in>set xs. sr_created r \<noteq> None \<and> stamp_ms parse (the (sr_created r)) \<noteq> 0"
    and "case at_last prev of None \<Rightarrow> True | Some p \<Rightarrow> \<exists>n. sr_created p = Some (Ms n) \<and> n \<noteq> 0"
  shows "addEmptyValues parse prev xs e =
      concat (map (with_gap parse e prev xs) [0..<length xs])
    \<and> filter (\<lambda>r. sr_created r \<noteq> None) (addEmptyValues parse prev xs e) = map (converted parse) xs
    \<and> successively (close parse e) ((case at_last prev of None \<Rightarrow> [] | Some p \<Rightarrow> [p]) @ addEmptyValues parse prev xs e)"
proof -
  have t: "case at_last prev of None \<Rightarrow> last_time prev = 0
      | Some p \<Rightarrow> last_time prev \<noteq> 0 \<and> map_option (stamp_ms parse) (sr_created p) = Some (last_time prev)"
    using assms(2) by (auto simp: last_time_def split: option.splits)
  let ?p = "case at_last prev of None \<Rightarrow> gap | Some p \<Rightarrow> p"
  have "successively (close parse e) (?p # addEmptyValues_loop parse e (last_time prev) xs)"
    by (rule loop_close [OF assms(1)]) (use t in \<open>auto simp: gap_def split: option.splits\<close>)
  then have "successively (close parse e)
      ((case at_last prev of None \<Rightarrow> [] | Some p \<Rightarrow> [p]) @ addEmptyValues_loop parse e (last_time prev) xs)"
    by (cases "addEmptyValues_loop parse e (last_time prev) xs") (auto split: option.splits)
  with loop_gaps [OF assms(1) t] loop_no_gaps [of xs parse e "last_time prev"] assms(1) show ?thesis
    by (simp add: addEmptyValues_def)
qed

theorem gaps_where_data_is_missing_witness:
  "addEmptyValues (\<lambda>_. 0) [point 1000] [point 2000, point 5000] 1000 = [point 2000, gap, point 5000]"
proof -
  have "addEmptyValues (\<lambda>_. 0) [point 1000] [point 2000, point 5000] 1000 =
      concat (map (with_gap (\<lambda>_. 0) 1000 [point 1000] [point 2000, point 5000]) [0..<length [point 2000, point 5000]])"
    using gaps_where_data_is_missing [of "[point 2000, point 5000]" "\<lambda>_. 0" "[point 1000]" 1000] by (simp add: point_def)
  then show ?thesis by (simp add: with_gap_def point_def converted_def distant_def close_def record_before_def)
qed

text \<open>
  C31. The cache of statistics stays bounded and loses only old records: a cached series never
  exceeds 120 records, and merging a response keeps a final segment of the old series followed by
  the new one, at least its last 100 records.
\<close>

theorem stats_cache_bounded:
  assumes "mergeStats parse e cached response = (data, cached')"
    and "\<forall>d. cached = Some d \<longrightarrow> length d \<le> 120"
  shows "length data \<le> 120 \<and> (\<forall>d. cached' = Some d \<longrightarrow> length d \<le> 120)
    \<and> (\<forall>value. response = Inr value \<and> value \<noteq> [] \<longrightarrow>
        (let full = (case cached of None \<Rightarrow> [] | Some d \<Rightarrow> d) @ addEmptyValues parse (case cached of None \<Rightarrow> [] | Some d \<Rightarrow> d) value e
         in suffix data full \<and> min 100 (length full) \<le> length data))"
  using assms
  by (auto simp: mergeStats_def Let_def slice_last_suffix split: sum.splits option.splits if_splits)

theorem stats_cache_bounded_witness:
  "length (fst (mergeStats (\<lambda>_. 0) 1 (Some (replicate 120 (point 1))) (Inr [point 2]))) = 100
   \<and> length (fst (mergeStats (\<lambda>_. 0) 1 (Some (replicate 120 (point 1))) (Inr [point 2]))) \<le> 120"
proof -
  let ?r = "mergeStats (\<lambda>_. 0) 1 (Some (replicate 120 (point 1))) (Inr [point 2])"
  have "length (fst ?r) \<le> 120"
    using stats_cache_bounded [of "\<lambda>_. 0" 1 "Some (replicate 120 (point 1))" "Inr [point 2]" "fst ?r" "snd ?r"] by simp
  moreover have "length (fst ?r) = 100"
    by (simp add: mergeStats_def Let_def addEmptyValues_def point_def)
  ultimately show ?thesis by simp
qed

text \<open>
  The real-time window is fed back through the gap insertion: a gap already in the window is
  widened by one more empty record with every message, which pushes real records out of the 59
  kept.
\<close>

theorem realtime_gap_widens:
  assumes "0 < a" "a + 1500 < b" "b \<le> now" "now \<le> b + 1500"
  shows "realtime_update parse now z
      (\<lparr>sr_created = Some (Ms a), sr_stats = Some x\<rparr> # replicate n gap @ [\<lparr>sr_created = Some (Ms b), sr_stats = Some y\<rparr>])
     = (if n \<le> 57 then [\<lparr>sr_created = Some (Ms a), sr_stats = Some x\<rparr>] @ replicate (Suc n) gap
        else replicate 58 gap)
       @ [\<lparr>sr_created = Some (Ms b), sr_stats = Some y\<rparr>, \<lparr>sr_created = Some (Ms now), sr_stats = Some z\<rparr>]"
proof -
  let ?a = "\<lparr>sr_created = Some (Ms a), sr_stats = Some x\<rparr>" and ?b = "\<lparr>sr_created = Some (Ms b), sr_stats = Some y\<rparr>"
    and ?n = "\<lparr>sr_created = Some (Ms now), sr_stats = Some z\<rparr>"
  have pt: "last_time (?a # replicate n gap @ [?b]) = b" by (simp add: last_time_def at_last_def)
  have gaps: "addEmptyValues_loop parse 1000 t (replicate k gap @ rs) = replicate k gap @ addEmptyValues_loop parse 1000 t rs"
    for t k and rs :: "'a StatsRec list"
    by (induction k) (simp_all add: gap_def)
  have ends: "addEmptyValues_loop parse 1000 t [?b, ?n] = (if t \<noteq> 0 \<and> b - t > 1500 then [gap] else []) @ [?b, ?n]" for t
    using assms by (simp add: Let_def)
  show ?thesis
  proof (cases "n \<le> 57")
    case True
    then have "slice_last 59 (?a # replicate n gap @ [?b]) = ?a # replicate n gap @ [?b]"
      by (simp add: slice_last_def)
    then show ?thesis using True assms
      by (simp add: realtime_update_def addEmptyValues_def pt gaps ends Let_def replicate_append_same [symmetric] del: replicate_Suc)
         (simp add: replicate_append_same)
  next
    case False
    then have "drop (n - 57) (?a # replicate n gap @ [?b]) = replicate 58 gap @ [?b]"
      by (cases "n - 57") (simp_all add: drop_Cons')
    then have "slice_last 59 (?a # replicate n gap @ [?b]) = replicate 58 gap @ [?b]"
      using False by (simp add: slice_last_def)
    then show ?thesis using False assms
      by (simp add: realtime_update_def addEmptyValues_def pt gaps ends)
  qed
qed

theorem realtime_gap_widens_witness:
  "realtime_update (\<lambda>_. 0) 6000 0 [point 1000, gap, point 5000] = [point 1000, gap, gap, point 5000, point 6000]"
  using realtime_gap_widens [of 1000 5000 6000 "\<lambda>_. 0" "0::nat" 0 1 0] by (simp add: point_def)

text \<open>
  Keyboard navigation goes round all systems: from a listed system among two or more the right
  key leads to another listed system and the left key leads from there back.
\<close>

theorem keyboard_navigation_inverse:
  assumes "distinct (map sys_id syss)" "2 \<le> length syss" "k \<in> set (map sys_id syss)"
  shows "\<exists>k'. handleKeyUp False False ''ArrowRight'' k syss = Some k' \<and> k' \<in> set (map sys_id syss) \<and> k' \<noteq> k
    \<and> handleKeyUp False False ''ArrowLeft'' k' syss = Some k"
proof -
  let ?n = "length syss"
  obtain i where i: "i < ?n" "k = sys_id (syss ! i)" using assms(3) by (auto simp: in_set_conv_nth)
  define j where "j = (i + 1) mod ?n"
  have j: "j < ?n" "j \<noteq> i"
    using assms(2) i(1) by (auto simp: j_def mod_if)
  have wrap: "nat ((int j - 1 + int ?n) mod int ?n) = i"
  proof (cases "i + 1 = ?n")
    case True
    then have "int j - 1 + int ?n = int i" by (simp add: j_def)
    then show ?thesis using i(1) by simp
  next
    case False
    then have "j = i + 1" using i(1) by (simp add: j_def)
    then have "(int j - 1 + int ?n) mod int ?n = int i mod int ?n" by simp
    then show ?thesis using i(1) by simp
  qed
  have "handleKeyUp False False ''ArrowRight'' k syss = Some (sys_id (syss ! j))"
    using find_index_distinct [OF assms(1) i(1)] assms(2) by (simp add: handleKeyUp_def i(2) j_def)
  moreover have "handleKeyUp False False ''ArrowLeft'' (sys_id (syss ! j)) syss = Some k"
    using find_index_distinct [OF assms(1) j(1)] assms(2) wrap by (simp add: handleKeyUp_def i(2))
  moreover have "sys_id (syss ! j) \<noteq> k"
    using nth_eq_iff_index_eq [OF assms(1), of j i] i j by simp
  ultimately show ?thesis using j(1) by auto
qed

theorem keyboard_navigation_inverse_witness:
  "\<exists>k'. handleKeyUp False False ''ArrowRight'' ''b'' [sample_system ''a'' ''x'' Up, sample_system ''b'' ''y'' Up] = Some k'
    \<and> k' \<noteq> ''b''"
  using keyboard_navigation_inverse [of "[sample_system ''a'' ''x'' Up, sample_system ''b'' ''y'' Up]" "''b''"]
  by (auto simp: sample_system_def)

text \<open>
  The effect meant to leave the 1-minute chart for agents older than 0.13.0 never does anything:
  it compares the parsed versions as objects, which are never less than each other, although
  \<open>compareSemVer\<close> orders the versions.
\<close>

theorem hide_1m_effect_never_fires:
  "hide_1m_effect v st = st
   \<and> compareSemVer (parseSemVer ''0.12.9'') (parseSemVer ''0.13.0'') = Fin (-1)"
proof -
  have s: "''0.12.9'' = semver_string 0 12 9 None" "''0.13.0'' = semver_string 0 13 0 None"
    by (simp_all add: semver_string_def show_nat.simps)
  show ?thesis
    unfolding s parseSemVer_show compareSemVer_semver
    by (simp add: hide_1m_effect_def object_less_def)
qed

text \<open>
  The real-time chart is decided by the minor version alone: an agent of version 1.0.0 that is
  up is taken for older than 0.13 and sent back to the hour chart.
\<close>

theorem realtime_refused_for_1_0_0:
  assumes "sys_id system \<noteq> []" "si_v (sys_info system) = ''1.0.0''" "st_chartTime st = Some T_1m"
  shows "realtime_effect system st = (st\<lparr>st_chartTime := Some T_1h\<rparr>, False)"
proof -
  have s: "''1.0.0'' = semver_string 1 0 0 None" by (simp add: semver_string_def show_nat.simps)
  show ?thesis
    using assms(1,3) unfolding realtime_effect_def assms(2) s parseSemVer_show by (simp add: semver_def)
qed

theorem realtime_refused_for_1_0_0_witness:
  "snd (realtime_effect ((sample_system ''a'' ''web'' Up)\<lparr>sys_info := sample_info\<lparr>si_v := ''1.0.0''\<rparr>\<rparr>)
     ((init_stores True None)\<lparr>st_chartTime := Some T_1m\<rparr>)) = False"
  using realtime_refused_for_1_0_0 [of "(sample_system ''a'' ''web'' Up)\<lparr>sys_info := sample_info\<lparr>si_v := ''1.0.0''\<rparr>\<rparr>"
      "(init_stores True None)\<lparr>st_chartTime := Some T_1m\<rparr>"]
  by (simp add: sample_system_def)

text \<open>
  The disk chart's peak write rate is not the peak: when the agent sends byte rates, switching
  the chart to maximum values leaves the written bytes at the average, whatever the recorded peak
  is, while the read bytes follow the peak.
\<close>

theorem disk_write_ignores_peak:
  assumes "st_dio s = Some (r, w)" "st_diom s = Some (rm, wm)"
  shows "disk_write True s = w \<and> disk_write False s = w \<and> disk_read True s = rm"
  using assms by (simp add: disk_write_def disk_read_def)

definition sample_stats :: SystemStats where
  "sample_stats = \<lparr>st_cpu = 1, st_cpum = None, st_cpub = None, st_cpus = None, st_l1 = None, st_l5 = None,
     st_l15 = None, st_la = None, st_m = 8, st_mu = 2, st_mp = 25, st_mb = 1, st_mm = None, st_mz = None,
     st_s = 0, st_su = 0, st_d = 100, st_du = 20, st_dp = 20, st_dr = 0, st_dw = 0, st_drm = None,
     st_dwm = None, st_dio = Some (10, 20), st_diom = Some (30, 40), st_ns = 0, st_nr = 0, st_b = None,
     st_nsm = None, st_nrm = None, st_bm = None, st_t = None, st_efs = None, st_g = None, st_bat = None,
     st_ni = None\<rparr>"

theorem disk_write_ignores_peak_witness:
  "disk_write True sample_stats = 20 \<and> disk_read True sample_stats = 30"
  using disk_write_ignores_peak [of sample_stats 10 20 30 40] by (simp add: sample_stats_def)

text \<open>
  A table is offered exactly from the agent version that supports it on, versions compared
  numerically part by part, whatever pre-release suffix they carry; the systemd and package tables
  need Linux and the container table needs containers.
\<close>

theorem tables_by_version:
  "SystemdTable \<in> set (table_cards (parseSemVer (semver_string a b c pre)) hasContainers isLinux)
     \<longleftrightarrow> isLinux \<and> (a > 0 \<or> b \<ge> 16)"
proof -
  have s: "''0.15.0'' = semver_string 0 15 0 None" "''0.14.0'' = semver_string 0 14 0 None"
    "''0.16.0'' = semver_string 0 16 0 None"
    by (simp_all add: semver_string_def show_nat.simps)
  show ?thesis
    unfolding table_cards_def at_least_def s parseSemVer_show compareSemVer_semver
    by (auto simp: shown_def js_ge_def js_eq_def)
qed

end
