(* ===== verification/SystemPage.thy ===== *)
theory SystemPage
  imports SystemDetail
begin

text \<open>
  The page of one system as a component that outlives a change of system, the effects of
  \<open>SystemDetail\<close> in \<^verbatim>\<open>components/routes/system.tsx\<close>: the requests for statistics and details, the
  subscription to real-time metrics, and what their answers do, in any order. Requests keep the system
  and chart time they were made for; the subscription of an effect can be ended only once it has been
  confirmed.
\<close>

section \<open>State\<close>

record StatsRequest =
  rq_system :: string
  rq_time :: ChartTimes

record Subscription =
  sub_system :: string
  sub_confirmed :: bool
  sub_ended :: bool

record SystemPage =
  pg_id :: string
  pg_system :: "SystemRecord option"
  pg_chartTime :: ChartTimes
  pg_stats :: "SystemStats StatsRec list"
  pg_containers :: "(string, ContainerStats) dict StatsRec list"
  pg_details :: "SystemDetailsRecord option"
  pg_loading :: bool
  pg_ssCache :: "(string \<times> ChartTimes, SystemStats StatsRec list) dict"
  pg_csCache :: "(string \<times> ChartTimes, ContainerStats list StatsRec list) dict"
  pg_requests :: "StatsRequest list"
  pg_detailRequests :: "string list"
  pg_subs :: "Subscription list"

definition page_mounted :: "string \<Rightarrow> ChartTimes \<Rightarrow> (string \<times> ChartTimes, SystemStats StatsRec list) dict
  \<Rightarrow> (string \<times> ChartTimes, ContainerStats list StatsRec list) dict \<Rightarrow> SystemPage" where
  "page_mounted k t ss cs = \<lparr>pg_id = k, pg_system = None, pg_chartTime = t, pg_stats = [], pg_containers = [],
     pg_details = None, pg_loading = True, pg_ssCache = ss, pg_csCache = cs, pg_requests = [],
     pg_detailRequests = [], pg_subs = []\<rparr>"

section \<open>Effects\<close>

text \<open>The statistics effect, which runs when the system's record or the chart time changes.\<close>

definition stats_effect :: "SystemPage \<Rightarrow> SystemPage" where
  "stats_effect p =
    (case pg_system p of
       None \<Rightarrow> p
     | Some s \<Rightarrow>
        if sys_id s = [] \<or> pg_chartTime p = T_1m then p
        else p\<lparr>pg_loading := True, pg_requests := pg_requests p @ [\<lparr>rq_system = sys_id s, rq_time = pg_chartTime p\<rparr>]\<rparr>)"

text \<open>Its answer: both results are merged into the caches of the request's system and time, and shown.\<close>

definition stats_answer ::
  "(string \<Rightarrow> int) \<Rightarrow> StatsRequest \<Rightarrow> (string + SystemStats StatsRec list) \<Rightarrow> (string + ContainerStats list StatsRec list)
   \<Rightarrow> SystemPage \<Rightarrow> SystemPage" where
  "stats_answer parse q rs rc p =
    (let key = (rq_system q, rq_time q); e = ct_expectedInterval (chartTimeData (rq_time q));
         (ss, ssNew) = mergeStats parse e (dget (pg_ssCache p) key) rs;
         (cs, csNew) = mergeStats parse e (dget (pg_csCache p) key) rc
     in p\<lparr>pg_loading := False, pg_requests := remove1 q (pg_requests p),
          pg_ssCache := (case ssNew of None \<Rightarrow> pg_ssCache p | Some d \<Rightarrow> dset key d (pg_ssCache p)),
          pg_csCache := (case csNew of None \<Rightarrow> pg_csCache p | Some d \<Rightarrow> dset key d (pg_csCache p)),
          pg_stats := ss, pg_containers := makeContainerData parse cs\<rparr>)"

text \<open>The details: requested for every other system, unless its agent is too old to have them.\<close>

definition details_effect :: "SystemPage \<Rightarrow> SystemPage" where
  "details_effect p =
    (case pg_system p of
       None \<Rightarrow> p
     | Some s \<Rightarrow> if fetches_details s then p\<lparr>pg_detailRequests := pg_detailRequests p @ [sys_id s]\<rparr> else p)"

definition details_answer :: "string \<Rightarrow> SystemDetailsRecord \<Rightarrow> SystemPage \<Rightarrow> SystemPage" where
  "details_answer k d p = p\<lparr>pg_details := Some d, pg_detailRequests := remove1 k (pg_detailRequests p)\<rparr>"

text \<open>
  The real-time effect: leaving it calls the function that ends the subscription, which does nothing
  before the subscription is confirmed; then, if the chart shows the last minute, a new one begins.
\<close>

definition end_subscription :: "Subscription list \<Rightarrow> Subscription list" where
  "end_subscription subs =
    (case rev subs of [] \<Rightarrow> [] | s # before \<Rightarrow> rev ((if sub_confirmed s then s\<lparr>sub_ended := True\<rparr> else s) # before))"

definition subscribes :: "SystemPage \<Rightarrow> bool" where
  "subscribes p =
    (case pg_system p of
       None \<Rightarrow> False
     | Some s \<Rightarrow> sys_id s \<noteq> [] \<and> pg_chartTime p = T_1m \<and> sys_status s = Up
         \<and> \<not> js_less (sv_minor (parseSemVer (si_v (sys_info s)))) (Fin 13))"

definition subscribe_effect :: "bool \<Rightarrow> SystemPage \<Rightarrow> SystemPage" where
  "subscribe_effect was p =
    (let old = (if was then end_subscription (pg_subs p) else pg_subs p)
     in p\<lparr>pg_subs := old @ (if subscribes p
          then [\<lparr>sub_system = (case pg_system p of None \<Rightarrow> [] | Some s \<Rightarrow> sys_id s), sub_confirmed = False, sub_ended = False\<rparr>] else [])\<rparr>)"

definition confirm :: "nat \<Rightarrow> SystemPage \<Rightarrow> SystemPage" where
  "confirm i p = (if i < length (pg_subs p) then p\<lparr>pg_subs := (pg_subs p)[i := (pg_subs p ! i)\<lparr>sub_confirmed := True\<rparr>]\<rparr> else p)"

text \<open>A message of a subscription that has not been ended adds to what is shown.\<close>

definition realtime_message ::
  "(string \<Rightarrow> int) \<Rightarrow> int \<Rightarrow> Subscription \<Rightarrow> ContainerStats list \<Rightarrow> SystemStats \<Rightarrow> SystemPage \<Rightarrow> SystemPage" where
  "realtime_message parse now sub containers stats p =
    (if sub \<notin> set (pg_subs p) \<or> sub_ended sub then p
     else p\<lparr>pg_containers :=
         (if containers = [] then pg_containers p
          else addEmptyValues parse (pg_containers p)
                 (slice_last 59 (pg_containers p) @ makeContainerData parse [\<lparr>sr_created = Some (Ms now), sr_stats = Some containers\<rparr>]) 1000),
       pg_stats := realtime_update parse now stats (pg_stats p)\<rparr>)"

text \<open>Where the last minute cannot be shown the chart falls back to the hour, and its statistics are fetched.\<close>

definition realtime_fallback :: "SystemPage \<Rightarrow> SystemPage" where
  "realtime_fallback p =
    (case pg_system p of
       None \<Rightarrow> p
     | Some s \<Rightarrow> if sys_id s \<noteq> [] \<and> pg_chartTime p = T_1m \<and> \<not> subscribes p
         then stats_effect (p\<lparr>pg_chartTime := T_1h\<rparr>) else p)"

section \<open>Events\<close>

text \<open>Another page of a system: the statistics and details are cleared; the system follows when it is found.\<close>

definition page_navigate :: "string \<Rightarrow> SystemPage \<Rightarrow> SystemPage" where
  "page_navigate k p = p\<lparr>pg_id := k, pg_stats := [], pg_containers := [], pg_details := None\<rparr>"

definition page_setSystem :: "SystemRecord \<Rightarrow> SystemPage \<Rightarrow> SystemPage" where
  "page_setSystem s p =
    (let was = subscribes p; other = (map_option sys_id (pg_system p) \<noteq> Some (sys_id s));
         p1 = p\<lparr>pg_system := Some s\<rparr>;
         p2 = (if other then subscribe_effect was (details_effect p1) else p1)
     in if other then realtime_fallback (stats_effect p2) else stats_effect p2)"

definition page_setTime :: "ChartTimes \<Rightarrow> SystemPage \<Rightarrow> SystemPage" where
  "page_setTime t p =
    (if t = pg_chartTime p then p
     else realtime_fallback (stats_effect (subscribe_effect (subscribes p) (p\<lparr>pg_chartTime := t\<rparr>))))"

text \<open>
  The space below the charts for a tooltip with many sensors. The effect runs once, after the first
  render; \<open>distance\<close> is how far the temperature chart is from the bottom, when it is there.
\<close>

definition bottomSpacing :: "rat option \<Rightarrow> SystemPage \<Rightarrow> rat" where
  "bottomSpacing distance p =
    (let sensors = (case last_stats (pg_stats p) of None \<Rightarrow> 0 | Some s \<Rightarrow> (case st_t s of None \<Rightarrow> 0 | Some t \<Rightarrow> length t))
     in case distance of
          None \<Rightarrow> 0
        | Some d \<Rightarrow> if sensors < 10 \<or> pg_containers p \<noteq> [] then 0
            else (of_nat sensors - 10) * (178 / 10) - 40 - d)"

text \<open>The card around a chart: its contents are drawn once it has come into view.\<close>

record ChartCardView =
  cc_title :: string
  cc_description :: string
  cc_corner :: bool
  cc_message :: "string option"
  cc_chart :: bool

definition ChartCard :: "(string \<Rightarrow> string) \<Rightarrow> string \<Rightarrow> string \<Rightarrow> bool \<Rightarrow> bool \<Rightarrow> bool \<Rightarrow> ChartCardView" where
  "ChartCard tr title description corner noData isIntersecting =
    \<lparr>cc_title = title, cc_description = description, cc_corner = corner,
     cc_message = (if noData then Some (tr ''Waiting for enough records to display'') else None), cc_chart = isIntersecting\<rparr>"

definition dataEmpty :: "SystemPage \<Rightarrow> bool" where
  "dataEmpty p = (\<not> pg_loading p \<and> pg_stats p = [])"

section \<open>Every order of events\<close>

definition all_stats :: "('a \<Rightarrow> bool) \<Rightarrow> 'a StatsRec list \<Rightarrow> bool" where
  "all_stats P rs = (\<forall>r\<in>set rs. \<forall>x. sr_stats r = Some x \<longrightarrow> P x)"

definition answers :: "('a \<Rightarrow> bool) \<Rightarrow> (string + 'a StatsRec list) \<Rightarrow> bool" where
  "answers P resp = (case resp of Inl e \<Rightarrow> True | Inr value \<Rightarrow> all_stats P value)"

text \<open>
  \<open>of_stats\<close> and \<open>of_container\<close> say which statistics belong to a request's system and chart time; the
  hub's answers to a request hold only such records, as its filter asks.
\<close>

inductive page_reach :: "(string \<Rightarrow> int) \<Rightarrow> (StatsRequest \<Rightarrow> SystemStats \<Rightarrow> bool) \<Rightarrow> (StatsRequest \<Rightarrow> ContainerStats \<Rightarrow> bool)
  \<Rightarrow> SystemPage \<Rightarrow> bool" for parse of_stats of_container where
  mounted: "page_reach parse of_stats of_container (page_mounted k t [] [])"
| navigate: "page_reach parse of_stats of_container p \<Longrightarrow> page_reach parse of_stats of_container (page_navigate k p)"
| system: "page_reach parse of_stats of_container p \<Longrightarrow> page_reach parse of_stats of_container (page_setSystem s p)"
| time: "page_reach parse of_stats of_container p \<Longrightarrow> page_reach parse of_stats of_container (page_setTime t p)"
| answer: "page_reach parse of_stats of_container p \<Longrightarrow> q \<in> set (pg_requests p)
    \<Longrightarrow> answers (of_stats q) rs \<Longrightarrow> answers (\<lambda>cs. \<forall>c\<in>set cs. of_container q c) rc
    \<Longrightarrow> page_reach parse of_stats of_container (stats_answer parse q rs rc p)"
| details: "page_reach parse of_stats of_container p \<Longrightarrow> k \<in> set (pg_detailRequests p)
    \<Longrightarrow> page_reach parse of_stats of_container (details_answer k d p)"
| confirmed: "page_reach parse of_stats of_container p \<Longrightarrow> page_reach parse of_stats of_container (confirm i p)"
| message: "page_reach parse of_stats of_container p \<Longrightarrow> page_reach parse of_stats of_container (realtime_message parse now sub cs x p)"

section \<open>Lemmas\<close>

lemma loop_stats:
  "r \<in> set (addEmptyValues_loop parse e t rs) \<Longrightarrow> sr_stats r = Some x \<Longrightarrow> \<exists>r'\<in>set rs. sr_stats r' = Some x"
  by (induction parse e t rs rule: addEmptyValues_loop.induct) (auto simp: gap_def Let_def split: option.splits if_splits)

lemma all_stats_simps [simp]:
  "all_stats P []" "all_stats P (xs @ ys) \<longleftrightarrow> all_stats P xs \<and> all_stats P ys"
  by (auto simp: all_stats_def)

lemma all_stats_slice: "all_stats P xs \<Longrightarrow> all_stats P (slice_last n xs)"
  using set_slice_last [of n xs] by (auto simp: all_stats_def)

lemma all_stats_empty_values: "all_stats P rs \<Longrightarrow> all_stats P (addEmptyValues parse prev rs e)"
  unfolding all_stats_def addEmptyValues_def by (blast dest: loop_stats)

lemma mergeStats_all:
  assumes "mergeStats parse e cached resp = (d, new)" "\<And>c. cached = Some c \<Longrightarrow> all_stats P c" "answers P resp"
  shows "all_stats P d" "\<And>n. new = Some n \<Longrightarrow> all_stats P n"
  using assms
  by (auto simp: mergeStats_def answers_def Let_def all_stats_empty_values all_stats_slice split: option.splits sum.splits if_splits)

text \<open>A cache holds, under the key of a request, only records of that request.\<close>

definition cache_ok :: "(StatsRequest \<Rightarrow> 'a \<Rightarrow> bool) \<Rightarrow> (string \<times> ChartTimes, 'a StatsRec list) dict \<Rightarrow> bool" where
  "cache_ok P cache = (\<forall>q d. dget cache (rq_system q, rq_time q) = Some d \<longrightarrow> all_stats (P q) d)"

lemma merge_cache_ok:
  assumes "cache_ok P cache" "answers (P q) resp" "mergeStats parse e (dget cache (rq_system q, rq_time q)) resp = (d, n)"
  shows "all_stats (P q) d" "cache_ok P (case n of None \<Rightarrow> cache | Some x \<Rightarrow> dset (rq_system q, rq_time q) x cache)"
proof -
  have "all_stats (P q) c" if "dget cache (rq_system q, rq_time q) = Some c" for c
    using assms(1) that unfolding cache_ok_def by blast
  note all = mergeStats_all [OF assms(3) this assms(2)]
  show "all_stats (P q) d" by (rule all(1))
  have same: "r = q" if "rq_system r = rq_system q" "rq_time r = rq_time q" for r using that by simp
  show "cache_ok P (case n of None \<Rightarrow> cache | Some x \<Rightarrow> dset (rq_system q, rq_time q) x cache)"
    using assms(1) all(2) unfolding cache_ok_def
    by (auto simp del: map_of_eq_Some_iff dest: same split: option.splits if_splits)
qed

lemma effect_frame:
  "pg_ssCache (stats_effect p) = pg_ssCache p" "pg_csCache (stats_effect p) = pg_csCache p"
  "pg_ssCache (details_effect p) = pg_ssCache p" "pg_csCache (details_effect p) = pg_csCache p"
  "pg_ssCache (subscribe_effect was p) = pg_ssCache p" "pg_csCache (subscribe_effect was p) = pg_csCache p"
  by (simp_all add: stats_effect_def details_effect_def subscribe_effect_def Let_def split: option.split)

lemma fallback_frame:
  "pg_ssCache (realtime_fallback p) = pg_ssCache p" "pg_csCache (realtime_fallback p) = pg_csCache p"
  by (simp_all add: realtime_fallback_def effect_frame split: option.split)

lemma cache_frame:
  "pg_ssCache (page_navigate k p) = pg_ssCache p" "pg_ssCache (page_setSystem s p) = pg_ssCache p"
  "pg_ssCache (page_setTime t p) = pg_ssCache p" "pg_ssCache (details_answer k d p) = pg_ssCache p"
  "pg_ssCache (confirm i p) = pg_ssCache p" "pg_ssCache (realtime_message parse now sub cs x p) = pg_ssCache p"
  "pg_csCache (page_navigate k p) = pg_csCache p" "pg_csCache (page_setSystem s p) = pg_csCache p"
  "pg_csCache (page_setTime t p) = pg_csCache p" "pg_csCache (details_answer k d p) = pg_csCache p"
  "pg_csCache (confirm i p) = pg_csCache p" "pg_csCache (realtime_message parse now sub cs x p) = pg_csCache p"
  by (simp_all add: page_navigate_def page_setSystem_def page_setTime_def details_answer_def confirm_def realtime_message_def
      effect_frame fallback_frame Let_def)

lemma dvals_by_name: "set (dvals (foldl (\<lambda>d x. dset (f x) x d) d xs)) \<subseteq> set (dvals d) \<union> set xs"
proof (induction xs arbitrary: d)
  case (Cons x xs)
  have "set (dvals (dset (f x) x d)) \<subseteq> set (dvals d) \<union> {x}" by (induction d) (auto split: if_splits)
  with Cons [of "dset (f x) x d"] show ?case by auto
qed simp

lemma makeContainerData_all:
  assumes "all_stats (\<lambda>cs. \<forall>c\<in>set cs. P c) rs"
  shows "all_stats (\<lambda>d. \<forall>c\<in>set (dvals d). P c) (makeContainerData parse rs)"
proof -
  have "\<forall>c\<in>set (dvals d). P c" if "r \<in> set rs" "d = foldl (\<lambda>d x. dset (cs_n x) x d) [] (case sr_stats r of None \<Rightarrow> [] | Some xs \<Rightarrow> xs)" for r d
    using that assms dvals_by_name [of cs_n "[]" "case sr_stats r of None \<Rightarrow> [] | Some xs \<Rightarrow> xs"]
    by (fastforce simp: all_stats_def split: option.splits)
  then show ?thesis
    unfolding all_stats_def makeContainerData_def
    by (auto simp: gap_def split: option.splits if_splits)
qed

text \<open>What the charts show belongs to a request.\<close>

definition shows_request :: "(StatsRequest \<Rightarrow> SystemStats \<Rightarrow> bool) \<Rightarrow> (StatsRequest \<Rightarrow> ContainerStats \<Rightarrow> bool) \<Rightarrow> StatsRequest \<Rightarrow> SystemPage \<Rightarrow> bool" where
  "shows_request of_stats of_container q p \<longleftrightarrow>
    all_stats (of_stats q) (pg_stats p) \<and> all_stats (\<lambda>d. \<forall>c\<in>set (dvals d). of_container q c) (pg_containers p)"

definition caches_ok :: "(StatsRequest \<Rightarrow> SystemStats \<Rightarrow> bool) \<Rightarrow> (StatsRequest \<Rightarrow> ContainerStats \<Rightarrow> bool) \<Rightarrow> SystemPage \<Rightarrow> bool" where
  "caches_ok of_stats of_container p \<longleftrightarrow>
    cache_ok of_stats (pg_ssCache p) \<and> cache_ok (\<lambda>q cs. \<forall>c\<in>set cs. of_container q c) (pg_csCache p)"

lemma stats_answer_ok:
  assumes "caches_ok of_stats of_container p" "answers (of_stats q) rs" "answers (\<lambda>cs. \<forall>c\<in>set cs. of_container q c) rc"
  shows "caches_ok of_stats of_container (stats_answer parse q rs rc p)"
    "shows_request of_stats of_container q (stats_answer parse q rs rc p)"
proof -
  let ?k = "(rq_system q, rq_time q)" and ?e = "ct_expectedInterval (chartTimeData (rq_time q))" and ?p = "stats_answer parse q rs rc p"
  obtain d n where m: "mergeStats parse ?e (dget (pg_ssCache p) ?k) rs = (d, n)" by fastforce
  obtain d' n' where m': "mergeStats parse ?e (dget (pg_csCache p) ?k) rc = (d', n')" by fastforce
  have p: "pg_stats ?p = d" "pg_containers ?p = makeContainerData parse d'"
    "pg_ssCache ?p = (case n of None \<Rightarrow> pg_ssCache p | Some x \<Rightarrow> dset ?k x (pg_ssCache p))"
    "pg_csCache ?p = (case n' of None \<Rightarrow> pg_csCache p | Some x \<Rightarrow> dset ?k x (pg_csCache p))"
    using m m' by (simp_all add: stats_answer_def Let_def)
  note ok = assms(1) [unfolded caches_ok_def]
  note ss = merge_cache_ok [OF conjunct1 [OF ok] assms(2) m]
    and cs = merge_cache_ok [where P = "\<lambda>q cs. \<forall>c\<in>set cs. of_container q c", OF conjunct2 [OF ok] assms(3) m']
  show "caches_ok of_stats of_container ?p" unfolding caches_ok_def p using ss(2) cs(2) by blast
  show "shows_request of_stats of_container q ?p"
    unfolding shows_request_def p using ss(1) makeContainerData_all [OF cs(1)] by blast
qed

lemma page_reach_cache: "page_reach parse of_stats of_container p \<Longrightarrow> caches_ok of_stats of_container p"
proof (induction rule: page_reach.induct)
  case (mounted k t)
  show ?case by (simp add: caches_ok_def cache_ok_def page_mounted_def)
next
  case (answer p q rs rc)
  show ?case by (rule stats_answer_ok(1) [OF answer.IH answer.hyps(3,4)])
qed (simp_all add: caches_ok_def cache_frame)

lemma setSystem_requests:
  assumes "sys_id s \<noteq> []" "pg_chartTime p \<noteq> T_1m"
  shows "\<lparr>rq_system = sys_id s, rq_time = pg_chartTime p\<rparr> \<in> set (pg_requests (page_setSystem s p))"
  using assms by (simp add: page_setSystem_def stats_effect_def details_effect_def subscribe_effect_def realtime_fallback_def Let_def)

lemma first_answer_shown:
  assumes "dget (pg_ssCache p) (rq_system q, rq_time q) = None" "value \<noteq> []"
    and "length (addEmptyValues parse [] value (ct_expectedInterval (chartTimeData (rq_time q)))) \<le> 120"
  shows "pg_stats (stats_answer parse q (Inr value) rc p) = addEmptyValues parse [] value (ct_expectedInterval (chartTimeData (rq_time q)))"
  using assms by (simp add: stats_answer_def mergeStats_def Let_def split: prod.split)

section \<open>Properties\<close>

text \<open>
  C28. Statistics are kept apart: in every order of navigation, requests, answers, confirmations and
  messages the caches of the systems' and of the containers' statistics hold under a system and chart time only
  records that were fetched for them, and after an answer both the charts of the system and the container charts
  show only records of the system and chart time it was requested for.
\<close>

theorem charts_show_requested_system:
  assumes "page_reach parse of_stats of_container p"
  shows "caches_ok of_stats of_container p
    \<and> (\<forall>q rs rc. q \<in> set (pg_requests p) \<and> answers (of_stats q) rs \<and> answers (\<lambda>cs. \<forall>c\<in>set cs. of_container q c) rc
         \<longrightarrow> shows_request of_stats of_container q (stats_answer parse q rs rc p))"
  using page_reach_cache [OF assms] stats_answer_ok(2) by blast

definition sample_point :: "SystemStats StatsRec" where
  "sample_point = \<lparr>sr_created = Some (Ms 5), sr_stats = Some (sample_stats\<lparr>st_cpu := 7\<rparr>)\<rparr>"

definition sample_page :: SystemPage where
  "sample_page = page_setSystem (sample_system ''a'' ''web'' Up) (page_mounted ''a'' T_1h [] [])"

theorem charts_show_requested_system_witness:
  "sample_point \<in> set (pg_stats (stats_answer (\<lambda>_. 0) \<lparr>rq_system = ''a'', rq_time = T_1h\<rparr> (Inr [sample_point]) (Inr []) sample_page))
   \<and> shows_request (\<lambda>q x. rq_system q = ''a'' \<longrightarrow> st_cpu x = 7) (\<lambda>q c. rq_system q = ''a'') \<lparr>rq_system = ''a'', rq_time = T_1h\<rparr>
       (stats_answer (\<lambda>_. 0) \<lparr>rq_system = ''a'', rq_time = T_1h\<rparr> (Inr [sample_point]) (Inr []) sample_page)"
proof -
  let ?q = "\<lparr>rq_system = ''a'', rq_time = T_1h\<rparr>" and ?of = "\<lambda>q x. rq_system q = ''a'' \<longrightarrow> st_cpu x = 7" and ?oc = "\<lambda>q c. rq_system q = ''a''"
  have reach: "page_reach (\<lambda>_. 0) ?of ?oc sample_page"
    unfolding sample_page_def by (intro page_reach.system page_reach.mounted)
  have q: "?q \<in> set (pg_requests sample_page)"
    using setSystem_requests [of "sample_system ''a'' ''web'' Up" "page_mounted ''a'' T_1h [] []"]
    by (simp add: sample_page_def page_mounted_def sample_system_def)
  have "dget (pg_ssCache sample_page) (''a'', T_1h) = None"
    unfolding sample_page_def cache_frame by (simp add: page_mounted_def)
  moreover have "addEmptyValues (\<lambda>_. 0) [] [sample_point] e = [sample_point]" for e
    by (simp add: addEmptyValues_def last_time_def sample_point_def)
  ultimately have mem: "sample_point \<in> set (pg_stats (stats_answer (\<lambda>_. 0) ?q (Inr [sample_point]) (Inr []) sample_page))"
    by (simp add: first_answer_shown)
  have "answers (?of ?q) (Inr [sample_point])" "answers (\<lambda>cs. \<forall>c\<in>set cs. ?oc ?q c) (Inr [])"
    by (simp_all add: answers_def all_stats_def sample_point_def)
  with q mem charts_show_requested_system [OF reach] show ?thesis by blast
qed

text \<open>
  An answer that arrives late is shown nevertheless: statistics requested for one system fill the
  charts of another that is open by then, and so do its details.
\<close>

theorem late_answers_shown:
  assumes "pg_system p = Some b" "rq_system q \<noteq> sys_id b" "dget (pg_ssCache p) (rq_system q, rq_time q) = None" "value \<noteq> []"
    and "length (addEmptyValues parse [] value (ct_expectedInterval (chartTimeData (rq_time q)))) \<le> 120"
  shows "let p' = details_answer (rq_system q) d (stats_answer parse q (Inr value) rc p) in
    pg_system p' = Some b \<and> pg_details p' = Some d
    \<and> pg_stats p' = addEmptyValues parse [] value (ct_expectedInterval (chartTimeData (rq_time q)))"
  using assms by (simp add: stats_answer_def details_answer_def mergeStats_def Let_def split: prod.split)

text \<open>
  The space for long tooltips is never there: the effect that measures it runs only after the first
  render, when there are no statistics yet.
\<close>

theorem no_bottom_spacing: "bottomSpacing distance (page_mounted k t ss cs) = 0"
  by (simp add: bottomSpacing_def page_mounted_def last_stats_def split: option.split)

text \<open>
  A subscription that is left before it was confirmed is never ended: it is still there, and not
  ended, after another system was opened and it was confirmed, and its messages are added to the
  charts of that system.
\<close>

theorem unconfirmed_subscription_leaks:
  assumes "pg_system p = Some a" "sys_id b \<noteq> sys_id a" "subscribes p" "pg_subs p = [sub]"
    and "sub_system sub = sys_id a" "\<not> sub_confirmed sub" "\<not> sub_ended sub"
  shows "let p' = confirm 0 (page_setSystem b p) in
    pg_system p' = Some b \<and> sub\<lparr>sub_confirmed := True\<rparr> \<in> set (pg_subs p')
    \<and> pg_stats (realtime_message parse now (sub\<lparr>sub_confirmed := True\<rparr>) cs x p') = realtime_update parse now x (pg_stats p')"
proof -
  have sys: "pg_system (page_setSystem b p) = Some b"
    by (auto simp: page_setSystem_def realtime_fallback_def stats_effect_def subscribe_effect_def details_effect_def Let_def split: option.split)
  have "\<exists>new. pg_subs (page_setSystem b p) = sub # new"
    using assms by (auto simp: page_setSystem_def realtime_fallback_def stats_effect_def subscribe_effect_def
        details_effect_def end_subscription_def Let_def split: option.split)
  then obtain new where subs: "pg_subs (page_setSystem b p) = sub # new" ..
  then show ?thesis using sys assms(7) by (simp add: confirm_def realtime_message_def Let_def)
qed

end
