(* ===== verification/Feeds.thy ===== *)
theory Feeds
  imports Types
begin

text \<open>
  Lists kept in step with a PocketBase collection: a page loads the records once and then applies
  the create, update and delete messages of its subscription to the list in its state. The locale
  \<open>keyed_feed\<close> states what every such reducer promises, through lookups by id; \<open>scope\<close> says
  which records the page is about, \<open>upsert\<close> whether an update for an unknown record adds it. The
  client's theorem is that the list refines the abstract map from ids to records, whatever the
  order of the list.
\<close>

definition lookup_by :: "('a \<Rightarrow> 'k) \<Rightarrow> 'a list \<Rightarrow> 'k \<Rightarrow> 'a option" where
  "lookup_by key xs k = find (\<lambda>x. key x = k) xs"

lemma lookup_by_simps [simp]:
  "lookup_by key [] k = None"
  "lookup_by key (x # xs) k = (if key x = k then Some x else lookup_by key xs k)"
  by (simp_all add: lookup_by_def)

lemma lookup_by_append: "lookup_by key (xs @ ys) k = (case lookup_by key xs k of None \<Rightarrow> lookup_by key ys k | Some x \<Rightarrow> Some x)"
  by (induction xs) auto

lemma lookup_by_None: "lookup_by key xs k = None \<longleftrightarrow> k \<notin> set (map key xs)"
  by (induction xs) auto

lemma lookup_by_None_fst [simp]: "k \<notin> key ` set xs \<Longrightarrow> lookup_by key xs k = None"
  by (simp add: lookup_by_None)

lemma lookup_by_filter: "lookup_by key (filter (\<lambda>x. key x \<noteq> j) xs) k = (if k = j then None else lookup_by key xs k)"
  by (induction xs) auto

lemma lookup_by_map_update:
  "lookup_by key (map (\<lambda>x. if key x = key r then r else x) xs) k =
     (if k = key r then (if key r \<in> set (map key xs) then Some r else None) else lookup_by key xs k)"
  by (induction xs) auto

lemma map_key_update: "map key (map (\<lambda>x. if key x = key r then r else x) xs) = map key xs"
  by simp

lemma lookup_by_distinct_perm:
  assumes "distinct (map key xs)" "mset xs = mset ys"
  shows "lookup_by key xs = lookup_by key ys"
proof
  fix k
  have d: "distinct (map key ys)" using assms by (metis mset_map mset_eq_imp_distinct_iff)
  have s: "set xs = set ys" using assms(2) by (metis set_mset_mset)
  show "lookup_by key xs k = lookup_by key ys k"
  proof (cases "lookup_by key xs k")
    case None
    then have "lookup_by key ys k = None" using s unfolding lookup_by_None by simp
    with None show ?thesis by simp
  next
    case (Some x)
    then have x: "x \<in> set ys" "key x = k" using s find_SomeD [OF Some [unfolded lookup_by_def]] by auto
    have "lookup_by key ys k = Some x"
      unfolding lookup_by_def
      by (rule find_unique) (use x d in \<open>auto simp: distinct_map dest: inj_onD\<close>)
    with Some show ?thesis by simp
  qed
qed

text \<open>The abstract map a feed represents.\<close>

definition feed_spec ::
  "('a \<Rightarrow> 'k) \<Rightarrow> ('a \<Rightarrow> bool) \<Rightarrow> bool \<Rightarrow> PbAction \<times> 'a \<Rightarrow> ('k \<Rightarrow> 'a option) \<Rightarrow> ('k \<Rightarrow> 'a option)" where
  "feed_spec key scope upsert e m =
    (case e of
       (Create, r) \<Rightarrow> m(key r := (if scope r then Some r else None))
     | (Update, r) \<Rightarrow> m(key r := (if scope r \<and> (upsert \<or> m (key r) \<noteq> None) then Some r else None))
     | (Delete, r) \<Rightarrow> m(key r := None))"

text \<open>A history of messages in which a record is created only while its id is unknown.\<close>

fun fresh_creates ::
  "('a \<Rightarrow> 'k) \<Rightarrow> ('a \<Rightarrow> bool) \<Rightarrow> bool \<Rightarrow> ('k \<Rightarrow> 'a option) \<Rightarrow> (PbAction \<times> 'a) list \<Rightarrow> bool" where
  "fresh_creates key scope upsert m [] = True"
| "fresh_creates key scope upsert m (e # es) =
    ((fst e = Create \<longrightarrow> m (key (snd e)) = None) \<and> fresh_creates key scope upsert (feed_spec key scope upsert e m) es)"

locale keyed_feed =
  fixes key :: "'a \<Rightarrow> 'k"
    and scope :: "'a \<Rightarrow> bool"
    and upsert :: bool
    and feed :: "PbAction \<times> 'a \<Rightarrow> 'a list \<Rightarrow> 'a list"
  assumes feed_create: "distinct (map key xs) \<Longrightarrow> key r \<notin> set (map key xs)
      \<Longrightarrow> lookup_by key (feed (Create, r) xs) k = (if k = key r then (if scope r then Some r else None) else lookup_by key xs k)"
    and feed_update: "distinct (map key xs) \<Longrightarrow> lookup_by key (feed (Update, r) xs) k =
      (if k = key r then (if scope r \<and> (upsert \<or> key r \<in> set (map key xs)) then Some r else None) else lookup_by key xs k)"
    and feed_delete: "distinct (map key xs) \<Longrightarrow> lookup_by key (feed (Delete, r) xs) k = (if k = key r then None else lookup_by key xs k)"
    and feed_distinct: "distinct (map key xs) \<Longrightarrow> (fst e = Create \<longrightarrow> key (snd e) \<notin> set (map key xs))
      \<Longrightarrow> distinct (map key (feed e xs))"
begin

lemma feed_step:
  assumes "distinct (map key xs)" "fst e = Create \<longrightarrow> lookup_by key xs (key (snd e)) = None"
  shows "lookup_by key (feed e xs) = feed_spec key scope upsert e (lookup_by key xs)"
proof
  fix k
  obtain a r where e: "e = (a, r)" by fastforce
  show "lookup_by key (feed e xs) k = feed_spec key scope upsert e (lookup_by key xs) k"
    using assms feed_create [of xs r k] feed_update [of xs r k] feed_delete [of xs r k]
      lookup_by_None [of key xs "key r"]
    by (cases a) (auto simp: e feed_spec_def simp del: not_None_eq)
qed

lemma feed_refines:
  assumes "distinct (map key xs)" "fresh_creates key scope upsert (lookup_by key xs) es"
  shows "lookup_by key (foldl (\<lambda>xs e. feed e xs) xs es) = foldl (\<lambda>m e. feed_spec key scope upsert e m) (lookup_by key xs) es
    \<and> distinct (map key (foldl (\<lambda>xs e. feed e xs) xs es))"
  using assms
proof (induction es arbitrary: xs)
  case Nil
  then show ?case by simp
next
  case (Cons e es)
  then have step: "lookup_by key (feed e xs) = feed_spec key scope upsert e (lookup_by key xs)"
    by (intro feed_step) auto
  have "distinct (map key (feed e xs))"
    using Cons.prems lookup_by_None [of key xs "key (snd e)"] by (intro feed_distinct) auto
  then show ?case using Cons.IH [of "feed e xs"] Cons.prems(2) by (simp add: step)
qed

end

text \<open>The reducer most pages use: prepend, replace in place, remove.\<close>

fun list_feed :: "('a \<Rightarrow> 'k) \<Rightarrow> PbAction \<times> 'a \<Rightarrow> 'a list \<Rightarrow> 'a list" where
  "list_feed key (Create, r) xs = r # xs"
| "list_feed key (Update, r) xs = map (\<lambda>x. if key x = key r then r else x) xs"
| "list_feed key (Delete, r) xs = filter (\<lambda>x. key x \<noteq> key r) xs"

lemma list_feed_keyed: "keyed_feed key (\<lambda>_. True) False (list_feed key)"
proof
  fix xs and e :: "PbAction \<times> 'a"
  assume a: "distinct (map key xs)" "fst e = Create \<longrightarrow> key (snd e) \<notin> set (map key xs)"
  obtain b r where e: "e = (b, r)" by fastforce
  show "distinct (map key (list_feed key e xs))"
    using a by (cases b) (simp_all add: e map_key_update distinct_map_filter del: map_map)
qed (simp_all only: list_feed.simps lookup_by_map_update lookup_by_filter lookup_by_simps if_True simp_thms,
     auto)

end
