(* ===== verification/QuietHours.thy ===== *)
theory QuietHours
  imports Feeds Api
begin

text \<open>
  Quiet hours, \<^verbatim>\<open>components/routes/settings/quiet-hours.tsx\<close>: the list of windows kept in step
  with the hub, whether a window is active now, and the dialog that creates or edits one.

  \<open>parse\<close> is \<open>Date.parse\<close>, \<open>tz t\<close> is \<open>getTimezoneOffset()\<close> at the time \<open>t\<close> in minutes (UTC
  minus local time), \<open>toISO\<close> and \<open>fromLocal\<close> are \<open>toISOString\<close> and the reading of a local
  date-time string.
\<close>

section \<open>The list\<close>

definition quiet_hours_feed :: "PbAction \<times> QuietHoursRecord \<Rightarrow> QuietHoursRecord list \<Rightarrow> QuietHoursRecord list" where
  "quiet_hours_feed = list_feed qh_id"

interpretation quiet_hours: keyed_feed qh_id "\<lambda>_. True" False quiet_hours_feed
  unfolding quiet_hours_feed_def by (rule list_feed_keyed)

text \<open>\<open>handleDelete\<close>: the request, and the error toast when it fails.\<close>

definition handleDelete :: "(string + unit) \<Rightarrow> (string \<times> string) option" where
  "handleDelete response =
    (case response of Inr _ \<Rightarrow> None
     | Inl m \<Rightarrow> Some (''Error'', if m = [] then ''Failed to delete quiet hours.'' else m))"

text \<open>\<open>timeOnly\<close> and \<open>shortDate\<close> are the locale's formatters.\<close>

definition formatDateTime :: "(string \<Rightarrow> string) \<Rightarrow> (string \<Rightarrow> string) \<Rightarrow> QuietHoursRecord \<Rightarrow> string" where
  "formatDateTime timeOnly shortDate r =
    (if qh_type r = Daily then timeOnly (qh_start r) @ '' - '' @ timeOnly (qh_end r)
     else shortDate (qh_start r) @ '' - '' @ shortDate (qh_end r))"

section \<open>Window state\<close>

datatype WindowState = Active | Past | Inactive

text \<open>Local time of day in minutes, from the UTC time and the offset.\<close>

definition local_minutes :: "int \<Rightarrow> int \<Rightarrow> int" where
  "local_minutes offset now =
    (let l = now - offset * 60000 in getUTCHours l * 60 + getUTCMinutes l)"

definition daily_state :: "int \<Rightarrow> int \<Rightarrow> int \<Rightarrow> int \<Rightarrow> WindowState" where
  "daily_state currentMinutes startMinutes endMinutes offset =
    (let localStartMinutes = js_rem (startMinutes - offset + 1440) 1440;
         localEndMinutes = js_rem (endMinutes - offset + 1440) 1440
     in if localStartMinutes \<le> localEndMinutes
        then (if currentMinutes \<ge> localStartMinutes \<and> currentMinutes < localEndMinutes then Active else Inactive)
        else (if currentMinutes \<ge> localStartMinutes \<or> currentMinutes < localEndMinutes then Active else Inactive))"

definition getWindowState :: "(string \<Rightarrow> int) \<Rightarrow> (int \<Rightarrow> int) \<Rightarrow> int \<Rightarrow> QuietHoursRecord \<Rightarrow> WindowState" where
  "getWindowState parse tz now r =
    (let startDate = parse (qh_start r); endDate = parse (qh_end r) in
     if qh_type r = Daily
     then daily_state (local_minutes (tz now) now)
            (getUTCHours startDate * 60 + getUTCMinutes startDate)
            (getUTCHours endDate * 60 + getUTCMinutes endDate) (tz now)
     else if now \<ge> startDate \<and> now < endDate then Active
     else if now \<ge> endDate then Past else Inactive)"

section \<open>The dialog\<close>

text \<open>\<open>YYYY-MM-DDTHH:mm\<close> in local time.\<close>

definition formatDateTimeLocal :: "(int \<Rightarrow> int) \<Rightarrow> int \<Rightarrow> string" where
  "formatDateTimeLocal tz date =
    (let l = date - tz date * 60000 in
     show_int (getUTCFullYear l) @ ''-'' @ pad2 (getUTCMonth l + 1) @ ''-'' @ pad2 (getUTCDate l)
     @ ''T'' @ pad2 (getUTCHours l) @ '':'' @ pad2 (getUTCMinutes l))"

record QuietForm =
  qf_system :: string
  qf_global :: bool
  qf_type :: QuietHoursType
  qf_startDateTime :: string
  qf_endDateTime :: string
  qf_startTime :: string
  qf_endTime :: string

text \<open>
  The form when the dialog opens: from the edited record, keeping the fields of the other window
  type, or the defaults, today from noon to one. \<open>hhmm\<close> is \<open>toTimeString().slice(0, 5)\<close>,
  \<open>noon\<close> and \<open>onePm\<close> are today's.
\<close>

definition dialog_init ::
  "(string \<Rightarrow> int) \<Rightarrow> (int \<Rightarrow> int) \<Rightarrow> (int \<Rightarrow> string) \<Rightarrow> int \<Rightarrow> int \<Rightarrow> QuietHoursRecord option \<Rightarrow> QuietForm \<Rightarrow> QuietForm" where
  "dialog_init parse tz hhmm noon onePm editing f =
    (case editing of
       Some r \<Rightarrow>
         (let f1 = f\<lparr>qf_system := qh_system r, qf_global := (qh_system r = []), qf_type := qh_type r\<rparr> in
          if qh_type r = Daily
          then f1\<lparr>qf_startTime := hhmm (parse (qh_start r)),
                  qf_endTime := (if qh_end r = [] then [] else hhmm (parse (qh_end r)))\<rparr>
          else f1\<lparr>qf_startDateTime := formatDateTimeLocal tz (parse (qh_start r)),
                  qf_endDateTime := (if qh_end r = [] then [] else formatDateTimeLocal tz (parse (qh_end r)))\<rparr>)
     | None \<Rightarrow>
         \<lparr>qf_system = [], qf_global = True, qf_type = OneTime,
          qf_startDateTime = formatDateTimeLocal tz noon, qf_endDateTime = formatDateTimeLocal tz onePm,
          qf_startTime = ''12:00'', qf_endTime = ''13:00''\<rparr>)"

record QuietRequest =
  qr_id :: "string option"
  qr_user :: "string option"
  qr_system :: "string option"
  qr_type :: QuietHoursType
  qr_start :: string
  qr_end :: "string option"

text \<open>
  \<open>handleSubmit\<close>: the request it sends; an invalid date (\<open>fromLocal\<close> gives \<open>None\<close>) makes
  \<open>toISOString\<close> throw, which ends in the error toast (\<open>Inl\<close>).
\<close>

definition iso_of :: "(string \<Rightarrow> int option) \<Rightarrow> (int \<Rightarrow> string) \<Rightarrow> string \<Rightarrow> string + string" where
  "iso_of fromLocal toISO s = (case fromLocal s of None \<Rightarrow> Inl ''RangeError'' | Some t \<Rightarrow> Inr (toISO t))"

definition handleSubmit ::
  "(string \<Rightarrow> int option) \<Rightarrow> (int \<Rightarrow> string) \<Rightarrow> string option \<Rightarrow> QuietHoursRecord option \<Rightarrow> QuietForm
   \<Rightarrow> string + QuietRequest" where
  "handleSubmit fromLocal toISO user editing f =
    (let (startText, endText) =
       (if qf_type f = Daily
        then (''2000-01-01T'' @ qf_startTime f @ '':00'',
              if qf_endTime f = [] then None else Some (''2000-01-01T'' @ qf_endTime f @ '':00''))
        else (qf_startDateTime f, if qf_endDateTime f = [] then None else Some (qf_endDateTime f)))
     in case iso_of fromLocal toISO startText of
          Inl e \<Rightarrow> Inl e
        | Inr startValue \<Rightarrow>
           (case (case endText of None \<Rightarrow> Inr None | Some t \<Rightarrow>
                    (case iso_of fromLocal toISO t of Inl e \<Rightarrow> Inl e | Inr v \<Rightarrow> Inr (Some v))) of
              Inl e \<Rightarrow> Inl e
            | Inr endValue \<Rightarrow>
               Inr \<lparr>qr_id = map_option qh_id editing, qr_user = user,
                    qr_system = (if qf_global f then None else Some (qf_system f)),
                    qr_type = qf_type f, qr_start = startValue, qr_end = endValue\<rparr>))"

section \<open>Lemmas\<close>

lemma mod_diff_cyclic:
  fixes a b c n :: int
  assumes "0 < n" "0 \<le> a" "a < n" "0 \<le> b" "b < n" "0 \<le> c" "c < n"
  shows "(c - a) mod n < (b - a) mod n \<longleftrightarrow> (if a \<le> b then a \<le> c \<and> c < b else a \<le> c \<or> c < b)"
proof -
  have m: "(x - a) mod n = (if a \<le> x then x - a else x - a + n)" if "0 \<le> x" "x < n" for x
  proof (cases "a \<le> x")
    case True
    then show ?thesis using that assms by simp
  next
    case False
    have "(x - a) mod n = (x - a + n) mod n" by simp
    also have "\<dots> = x - a + n" by (rule mod_pos_pos_trivial) (use False that assms in auto)
    finally show ?thesis using False by simp
  qed
  show ?thesis unfolding m [OF assms(4,5)] m [OF assms(6,7)] using assms by auto
qed

lemma minutes_of_day: "getUTCHours t * 60 + getUTCMinutes t = t div 60000 mod 1440"
proof -
  have h: "t div 3600000 = t div 60000 div 60" by (simp add: zdiv_zmult2_eq [symmetric])
  have "t div 60000 mod (60 * 24) = 60 * (t div 60000 div 60 mod 24) + t div 60000 mod 60"
    by (rule zmod_zmult2_eq) simp
  then show ?thesis by (simp add: getUTCHours_def getUTCMinutes_def h)
qed

lemma local_minutes_eq: "local_minutes offset now = (now div 60000 - offset) mod 1440"
proof -
  have "(now - offset * 60000) div 60000 = now div 60000 - offset"
    using div_mult_self1 [of 60000 now "- offset"] by simp
  then show ?thesis by (simp add: local_minutes_def Let_def minutes_of_day)
qed

lemma daily_state_cyclic:
  assumes "offset \<le> 1440" "0 \<le> s" "0 \<le> e"
  shows "daily_state ((u - offset) mod 1440) s e offset =
    (if (u - s) mod 1440 < (e - s) mod 1440 then Active else Inactive)"
proof -
  have r: "js_rem (x - offset + 1440) 1440 = (x - offset) mod 1440" if "0 \<le> x" for x
    using that assms(1) by (simp add: js_rem_nonneg)
  have d: "((x - offset) mod 1440 - (s - offset) mod 1440) mod 1440 = (x - s) mod 1440" for x
    by (simp add: mod_diff_eq)
  show ?thesis
    unfolding daily_state_def Let_def r [OF assms(2)] r [OF assms(3)]
    using mod_diff_cyclic [of 1440 "(s - offset) mod 1440" "(e - offset) mod 1440" "(u - offset) mod 1440"]
    by (simp add: d)
qed

lemma window_state_daily:
  assumes "tz now \<le> 1440" "qh_type r = Daily"
  shows "getWindowState parse tz now r =
    (if (now div 60000 - parse (qh_start r) div 60000) mod 1440
        < (parse (qh_end r) div 60000 - parse (qh_start r) div 60000) mod 1440 then Active else Inactive)"
proof -
  let ?s = "parse (qh_start r) div 60000" and ?e = "parse (qh_end r) div 60000" and ?u = "now div 60000"
  have "getWindowState parse tz now r =
      (if (?u - ?s mod 1440) mod 1440 < (?e mod 1440 - ?s mod 1440) mod 1440 then Active else Inactive)"
    unfolding getWindowState_def Let_def minutes_of_day local_minutes_eq
    using daily_state_cyclic [OF assms(1), of "?s mod 1440" "?e mod 1440" ?u] assms(2) by simp
  moreover have "(?u - ?s mod 1440) mod 1440 = (?u - ?s) mod 1440"
    "(?e mod 1440 - ?s mod 1440) mod 1440 = (?e - ?s) mod 1440"
    by (simp_all add: mod_diff_left_eq mod_diff_right_eq)
  ultimately show ?thesis by simp
qed

section \<open>Properties\<close>

text \<open>
  Whether a daily quiet window is shown as active does not depend on the browser's time zone:
  it is active exactly when the present UTC minute of the day lies in the half-open cyclic interval
  from the window's start to its end, across midnight if need be; a one-time window is active from
  its start until before its end, past from its end on and inactive before its start.
\<close>

theorem quiet_window_state:
  assumes "tz now \<le> 1440"
  defines "minute \<equiv> \<lambda>t. t div 60000"
  shows "(qh_type r = Daily \<longrightarrow>
      (getWindowState parse tz now r = Active \<longleftrightarrow>
         (minute now - minute (parse (qh_start r))) mod 1440 < (minute (parse (qh_end r)) - minute (parse (qh_start r))) mod 1440)
      \<and> getWindowState parse tz now r \<noteq> Past)
    \<and> (qh_type r = OneTime \<longrightarrow> getWindowState parse tz now r =
        (if parse (qh_end r) \<le> now then Past else if parse (qh_start r) \<le> now then Active else Inactive))"
proof (cases "qh_type r")
  case Daily
  then show ?thesis using window_state_daily [of tz now r parse] assms(1) by (simp add: minute_def)
next
  case OneTime
  then show ?thesis by (auto simp: getWindowState_def Let_def)
qed

definition sample_window :: QuietHoursRecord where
  "sample_window = \<lparr>qh_id = ''q'', qh_user = ''u'', qh_system = [], qh_type = Daily, qh_start = ''22:30'',
     qh_end = ''06:00'', qh_system_name = None\<rparr>"

theorem quiet_window_state_witness:
  "getWindowState (\<lambda>s. if s = ''22:30'' then 1350 * 60000 else 360 * 60000) (\<lambda>_. -120) (30 * 60000) sample_window = Active"
  using quiet_window_state [of "\<lambda>_. -120" "30 * 60000" sample_window "\<lambda>s. if s = ''22:30'' then 1350 * 60000 else 360 * 60000"]
  by (simp add: sample_window_def)

end
