(* ===== verification/QuietHoursPage.thy ===== *)
theory QuietHoursPage
  imports QuietHours
begin

text \<open>
  The page of quiet hours, \<^verbatim>\<open>components/routes/settings/quiet-hours.tsx\<close>, as one component: the
  list, the dialog with its form and every action of the page.

  React runs the effect that fills the form only when \<open>editingRecord\<close> is another object than
  before, so objects have an identity here: a record that arrives from the hub is paired with a number
  of its own (\<open>QuietObject\<close>). The list, the dialog and the form live as long as the page is mounted:
  closing the dialog does not unmount the form.
\<close>

section \<open>State\<close>

type_synonym QuietObject = "nat \<times> QuietHoursRecord"

record QuietPage =
  qp_fresh :: nat
  qp_data :: "QuietObject list"
  qp_dialogOpen :: bool
  qp_editing :: "QuietObject option"
  qp_form :: QuietForm

text \<open>
  What the browser provides when the form is filled: \<open>Date.parse\<close>, the time zone,
  \<open>toTimeString().slice(0, 5)\<close>, and today's noon and one o'clock.
\<close>

record Clock =
  ck_parse :: "string \<Rightarrow> int"
  ck_tz :: "int \<Rightarrow> int"
  ck_hhmm :: "int \<Rightarrow> string"
  ck_noon :: int
  ck_onePm :: int

definition fill_form :: "Clock \<Rightarrow> QuietHoursRecord option \<Rightarrow> QuietForm \<Rightarrow> QuietForm" where
  "fill_form c = dialog_init (ck_parse c) (ck_tz c) (ck_hhmm c) (ck_noon c) (ck_onePm c)"

text \<open>The first render; the effect then runs with no record.\<close>

definition quiet_mounted :: "Clock \<Rightarrow> QuietPage" where
  "quiet_mounted c = \<lparr>qp_fresh = 0, qp_data = [], qp_dialogOpen = False, qp_editing = None,
     qp_form = fill_form c None
       \<lparr>qf_system = [], qf_global = True, qf_type = OneTime, qf_startDateTime = [], qf_endDateTime = [],
        qf_startTime = [], qf_endTime = []\<rparr>\<rparr>"

definition number_records :: "nat \<Rightarrow> QuietHoursRecord list \<Rightarrow> QuietObject list" where
  "number_records n rs = zip [n..<n + length rs] rs"

definition quiet_loaded :: "QuietHoursRecord list \<Rightarrow> QuietPage \<Rightarrow> QuietPage" where
  "quiet_loaded items p =
    p\<lparr>qp_data := number_records (qp_fresh p) items, qp_fresh := qp_fresh p + length items\<rparr>"

text \<open>A message's record is one object, wherever it is put.\<close>

definition quiet_message :: "PbAction \<times> QuietHoursRecord \<Rightarrow> QuietPage \<Rightarrow> QuietPage" where
  "quiet_message e p =
    p\<lparr>qp_data := list_feed (qh_id \<circ> snd) (fst e, (qp_fresh p, snd e)) (qp_data p), qp_fresh := qp_fresh p + 1\<rparr>"

text \<open>\<open>setEditingRecord\<close> and the effect that depends on the record's identity.\<close>

definition setEditing :: "Clock \<Rightarrow> QuietObject option \<Rightarrow> QuietPage \<Rightarrow> QuietPage" where
  "setEditing c ed p =
    (let p' = p\<lparr>qp_editing := ed\<rparr>
     in if map_option fst ed = map_option fst (qp_editing p) then p'
        else p'\<lparr>qp_form := fill_form c (map_option snd ed) (qp_form p)\<rparr>)"

definition setDialogOpen :: "bool \<Rightarrow> QuietPage \<Rightarrow> QuietPage" where
  "setDialogOpen b p = p\<lparr>qp_dialogOpen := b\<rparr>"

section \<open>Actions\<close>

definition openWindowEdit :: "Clock \<Rightarrow> QuietObject \<Rightarrow> QuietPage \<Rightarrow> QuietPage" where
  "openWindowEdit c x p = setDialogOpen True (setEditing c (Some x) p)"

definition page_closeDialog :: "Clock \<Rightarrow> QuietPage \<Rightarrow> QuietPage" where
  "page_closeDialog c p = setEditing c None (setDialogOpen False p)"

text \<open>The button that adds a window; it is the trigger of the dialog.\<close>

definition openAddDialog :: "Clock \<Rightarrow> QuietPage \<Rightarrow> QuietPage" where
  "openAddDialog c p = setDialogOpen True (setEditing c None p)"

text \<open>Escape, a click outside or the cross: the dialog reports that it is to be closed.\<close>

definition dismissDialog :: "QuietPage \<Rightarrow> QuietPage" where
  "dismissDialog p = setDialogOpen False p"

text \<open>The fields of the form. The system's select is shown on the tab of one system only.\<close>

datatype FormField = ScopeTab bool | SystemSelect string | TypeSelect QuietHoursType
  | StartDateTimeInput string | EndDateTimeInput string | StartTimeInput string | EndTimeInput string

fun field_shown :: "FormField \<Rightarrow> QuietForm \<Rightarrow> bool" where
  "field_shown (ScopeTab _) f = True"
| "field_shown (SystemSelect _) f = (\<not> qf_global f)"
| "field_shown (TypeSelect _) f = True"
| "field_shown (StartDateTimeInput _) f = (qf_type f = OneTime)"
| "field_shown (EndDateTimeInput _) f = (qf_type f = OneTime)"
| "field_shown (StartTimeInput _) f = (qf_type f \<noteq> OneTime)"
| "field_shown (EndTimeInput _) f = (qf_type f \<noteq> OneTime)"

fun change_field :: "FormField \<Rightarrow> QuietForm \<Rightarrow> QuietForm" where
  "change_field (ScopeTab g) f = f\<lparr>qf_global := g\<rparr>"
| "change_field (SystemSelect s) f = f\<lparr>qf_system := s\<rparr>"
| "change_field (TypeSelect w) f = f\<lparr>qf_type := w\<rparr>"
| "change_field (StartDateTimeInput v) f = f\<lparr>qf_startDateTime := v\<rparr>"
| "change_field (EndDateTimeInput v) f = f\<lparr>qf_endDateTime := v\<rparr>"
| "change_field (StartTimeInput v) f = f\<lparr>qf_startTime := v\<rparr>"
| "change_field (EndTimeInput v) f = f\<lparr>qf_endTime := v\<rparr>"

definition edit_field :: "FormField \<Rightarrow> QuietPage \<Rightarrow> QuietPage" where
  "edit_field x p = (if field_shown x (qp_form p) then p\<lparr>qp_form := change_field x (qp_form p)\<rparr> else p)"

definition edit_fields :: "FormField list \<Rightarrow> QuietPage \<Rightarrow> QuietPage" where
  "edit_fields fs p = foldl (\<lambda>q f. edit_field f q) p fs"

text \<open>The options of the two selects.\<close>

definition system_options :: "SystemRecord list \<Rightarrow> (string \<times> string) list" where
  "system_options ss = map (\<lambda>s. (sys_id s, sys_name s)) ss"

definition type_options :: "(string \<Rightarrow> string) \<Rightarrow> (QuietHoursType \<times> string) list" where
  "type_options tr = [(OneTime, tr ''One-time''), (Daily, tr ''Daily'')]"

text \<open>
  The constraints the browser checks before it submits: required fields and the earliest dates.
  \<open>le\<close> is the order of local date-times, \<open>midnight\<close> and \<open>now\<close> are today's midnight and the present
  time. An empty field has no earliest date.
\<close>

definition min_ok :: "(string \<Rightarrow> string \<Rightarrow> bool) \<Rightarrow> string \<Rightarrow> string \<Rightarrow> bool" where
  "min_ok le lowest v = (v = [] \<or> le lowest v)"

definition form_valid :: "(string \<Rightarrow> string \<Rightarrow> bool) \<Rightarrow> (int \<Rightarrow> int) \<Rightarrow> int \<Rightarrow> int \<Rightarrow> QuietForm \<Rightarrow> bool" where
  "form_valid le tz midnight now f =
    ((qf_global f \<or> qf_system f \<noteq> [])
     \<and> (if qf_type f = OneTime
        then qf_startDateTime f \<noteq> [] \<and> min_ok le (formatDateTimeLocal tz midnight) (qf_startDateTime f)
           \<and> qf_endDateTime f \<noteq> []
           \<and> min_ok le (if qf_startDateTime f \<noteq> [] then qf_startDateTime f else formatDateTimeLocal tz now)
                (qf_endDateTime f)
        else qf_startTime f \<noteq> [] \<and> qf_endTime f \<noteq> []))"

text \<open>
  Submitting: nothing happens while the browser finds the form invalid. Otherwise a request is sent
  (none when a date cannot be converted), the dialog closes when the hub accepts it, and any error
  gives the same toast.
\<close>

record Submitted =
  su_page :: QuietPage
  su_request :: "QuietRequest option"
  su_toast :: "(string \<times> string) option"

definition save_error :: "(string \<Rightarrow> string) \<Rightarrow> string \<times> string" where
  "save_error tr = (tr ''Error'', tr ''Failed to save settings'')"

definition page_submit ::
  "Clock \<Rightarrow> (string \<Rightarrow> int option) \<Rightarrow> (int \<Rightarrow> string) \<Rightarrow> (string \<Rightarrow> string) \<Rightarrow> string option
   \<Rightarrow> (QuietRequest \<Rightarrow> string + unit) \<Rightarrow> QuietPage \<Rightarrow> Submitted" where
  "page_submit c fromLocal toISO tr user hub p =
    (case handleSubmit fromLocal toISO user (map_option snd (qp_editing p)) (qp_form p) of
       Inl _ \<Rightarrow> \<lparr>su_page = p, su_request = None, su_toast = Some (save_error tr)\<rparr>
     | Inr req \<Rightarrow>
        (case hub req of
           Inl _ \<Rightarrow> \<lparr>su_page = p, su_request = Some req, su_toast = Some (save_error tr)\<rparr>
         | Inr _ \<Rightarrow> \<lparr>su_page = page_closeDialog c p, su_request = Some req, su_toast = None\<rparr>))"

section \<open>What is shown\<close>

datatype BadgeVariant = BadgeSuccess | BadgeDanger | BadgeDefault

fun window_badge :: "(string \<Rightarrow> string) \<Rightarrow> WindowState \<Rightarrow> string \<times> BadgeVariant" where
  "window_badge tr Active = (tr ''Active'', BadgeSuccess)"
| "window_badge tr Past = (tr ''Past'', BadgeDanger)"
| "window_badge tr Inactive = (tr ''Inactive'', BadgeDefault)"

definition window_system :: "(string \<Rightarrow> string) \<Rightarrow> QuietHoursRecord \<Rightarrow> string" where
  "window_system tr r =
    (if qh_system r \<noteq> []
     then (case qh_system_name r of None \<Rightarrow> qh_system r | Some n \<Rightarrow> if n = [] then qh_system r else n)
     else tr ''All Systems'')"

record QuietRow =
  qw_key :: string
  qw_system :: string
  qw_type :: string
  qw_schedule :: string
  qw_badge :: "string \<times> BadgeVariant"

definition quiet_row ::
  "(string \<Rightarrow> string) \<Rightarrow> (string \<Rightarrow> string) \<Rightarrow> (string \<Rightarrow> string) \<Rightarrow> (string \<Rightarrow> int) \<Rightarrow> (int \<Rightarrow> int) \<Rightarrow> int
   \<Rightarrow> QuietHoursRecord \<Rightarrow> QuietRow" where
  "quiet_row tr timeOnly shortDate parse tz now r =
    \<lparr>qw_key = qh_id r, qw_system = window_system tr r,
     qw_type = (if qh_type r = Daily then tr ''Daily'' else tr ''One-time''),
     qw_schedule = formatDateTime timeOnly shortDate r,
     qw_badge = window_badge tr (getWindowState parse tz now r)\<rparr>"

text \<open>The table, shown when there are windows, and the dialog's title and button.\<close>

definition quiet_table ::
  "(string \<Rightarrow> string) \<Rightarrow> (string \<Rightarrow> string) \<Rightarrow> (string \<Rightarrow> string) \<Rightarrow> (string \<Rightarrow> int) \<Rightarrow> (int \<Rightarrow> int) \<Rightarrow> int
   \<Rightarrow> QuietPage \<Rightarrow> (string list \<times> QuietRow list) option" where
  "quiet_table tr timeOnly shortDate parse tz now p =
    (if qp_data p = [] then None
     else Some (map tr [''System'', ''Type'', ''Schedule'', ''State'', ''Actions''],
                map (quiet_row tr timeOnly shortDate parse tz now \<circ> snd) (qp_data p)))"

definition dialog_title :: "(string \<Rightarrow> string) \<Rightarrow> QuietPage \<Rightarrow> string" where
  "dialog_title tr p = (case qp_editing p of Some _ \<Rightarrow> tr ''Edit Quiet Hours'' | None \<Rightarrow> tr ''Add Quiet Hours'')"

definition submit_label :: "(string \<Rightarrow> string) \<Rightarrow> QuietPage \<Rightarrow> string" where
  "submit_label tr p = (case qp_editing p of Some _ \<Rightarrow> tr ''Update'' | None \<Rightarrow> tr ''Create'')"

text \<open>The menu of a row: its entries edit the record and ask the hub to delete it.\<close>

datatype RowCommand = EditWindow QuietObject | DeleteWindow string

definition quiet_row_menu :: "(string \<Rightarrow> string) \<Rightarrow> QuietObject \<Rightarrow> (string \<times> RowCommand) list" where
  "quiet_row_menu tr x = [(tr ''Edit'', EditWindow x), (tr ''Delete'', DeleteWindow (qh_id (snd x)))]"

section \<open>Every use of the page\<close>

text \<open>
  What a user can do in a state: the dialog is modal, so rows and the button are reached while it is
  closed, the form while it is open.
\<close>

datatype PageAction = Loaded "QuietHoursRecord list" | Message "PbAction \<times> QuietHoursRecord"
  | ClickEdit QuietObject | ClickAdd | ClickCancel | Dismiss | EditField FormField | Saved

fun action_enabled :: "PageAction \<Rightarrow> QuietPage \<Rightarrow> bool" where
  "action_enabled (ClickEdit x) p = (\<not> qp_dialogOpen p \<and> x \<in> set (qp_data p))"
| "action_enabled ClickAdd p = (\<not> qp_dialogOpen p)"
| "action_enabled (Loaded rs) p = True"
| "action_enabled (Message e) p = True"
| "action_enabled _ p = qp_dialogOpen p"

text \<open>\<open>Saved\<close> is a submission the hub accepted.\<close>

fun page_step :: "Clock \<Rightarrow> PageAction \<Rightarrow> QuietPage \<Rightarrow> QuietPage" where
  "page_step c (Loaded rs) p = quiet_loaded rs p"
| "page_step c (Message e) p = quiet_message e p"
| "page_step c (ClickEdit x) p = openWindowEdit c x p"
| "page_step c ClickAdd p = openAddDialog c p"
| "page_step c ClickCancel p = page_closeDialog c p"
| "page_step c Dismiss p = dismissDialog p"
| "page_step c (EditField x) p = edit_field x p"
| "page_step c Saved p = page_closeDialog c p"

inductive quiet_reach :: "Clock \<Rightarrow> QuietPage \<Rightarrow> bool" for c where
  start: "quiet_reach c (quiet_mounted c)"
| step: "quiet_reach c p \<Longrightarrow> action_enabled a p \<Longrightarrow> quiet_reach c (page_step c a p)"

section \<open>Lemmas\<close>

lemmas quiet_page_defs = openWindowEdit_def page_closeDialog_def openAddDialog_def dismissDialog_def
  setEditing_def setDialogOpen_def edit_field_def quiet_message_def quiet_loaded_def Let_def

lemma list_feed_subset: "set (list_feed key (b, r) xs) \<subseteq> insert r (set xs)"
  by (cases b) auto

lemma fst_number_records [simp]: "map fst (number_records n rs) = [n..<n + length rs]"
  by (simp add: number_records_def)

text \<open>An identity stands for one record, in the list and in the dialog.\<close>

definition objects :: "QuietPage \<Rightarrow> QuietObject set" where
  "objects p = set (qp_data p) \<union> set_option (qp_editing p)"

definition identities_ok :: "QuietPage \<Rightarrow> bool" where
  "identities_ok p = ((\<forall>x\<in>objects p. fst x < qp_fresh p)
     \<and> (\<forall>x\<in>objects p. \<forall>y\<in>objects p. fst x = fst y \<longrightarrow> snd x = snd y))"

lemma identities_mono:
  assumes "identities_ok p" "objects q \<subseteq> insert (qp_fresh p, r) (objects p)" "qp_fresh q = qp_fresh p + 1"
  shows "identities_ok q"
proof -
  have new: "fst x \<noteq> qp_fresh p" if "x \<in> objects p" for x
    using assms(1) that by (auto simp: identities_ok_def)
  have lt: "fst x < qp_fresh q" if "x \<in> objects q" for x
    using assms that by (auto simp: identities_ok_def less_Suc_eq)
  have "snd x = snd y" if "x \<in> objects q" "y \<in> objects q" "fst x = fst y" for x y
  proof (cases "fst x = qp_fresh p")
    case True
    then have "x \<notin> objects p" "y \<notin> objects p" using new [of x] new [of y] that(3) by auto
    then have "x = (qp_fresh p, r)" "y = (qp_fresh p, r)" using assms(2) that(1,2) by blast+
    then show ?thesis by simp
  next
    case False
    then have "x \<noteq> (qp_fresh p, r)" "y \<noteq> (qp_fresh p, r)" using that(3) by auto
    then have "x \<in> objects p" "y \<in> objects p" using assms(2) that(1,2) by blast+
    then show ?thesis using assms(1) that(3) unfolding identities_ok_def by blast
  qed
  then show ?thesis unfolding identities_ok_def by (intro conjI ballI impI lt)
qed

lemma identities_same:
  assumes "identities_ok p" "objects q \<subseteq> objects p" "qp_fresh q = qp_fresh p"
  shows "identities_ok q"
  using assms unfolding identities_ok_def by (metis subsetD)

lemma number_records_ge: "x \<in> set (number_records n rs) \<Longrightarrow> n \<le> fst x \<and> fst x < n + length rs"
  unfolding number_records_def by (cases x) (auto dest: set_zip_leftD)

lemma number_records_unique:
  assumes "x \<in> set (number_records n rs)" "y \<in> set (number_records n rs)" "fst x = fst y"
  shows "x = y"
proof -
  have "distinct (map fst (number_records n rs))" by simp
  then have "inj_on fst (set (number_records n rs))" unfolding distinct_map by blast
  then show ?thesis using assms by (blast dest: inj_onD)
qed

lemma identities_loaded:
  assumes "identities_ok p"
  shows "identities_ok (quiet_loaded rs p)"
proof -
  let ?new = "set (number_records (qp_fresh p) rs)" and ?old = "set_option (qp_editing p)"
  have o: "objects (quiet_loaded rs p) = ?new \<union> ?old" by (simp add: objects_def quiet_loaded_def)
  have old: "fst x < qp_fresh p" if "x \<in> ?old" for x
    using assms that by (auto simp: identities_ok_def objects_def)
  have same: "snd x = snd y" if "x \<in> ?old" "y \<in> ?old" for x y using that by auto
  have lt: "fst x < qp_fresh p + length rs" if "x \<in> ?new \<union> ?old" for x
    using that number_records_ge [of x] old [of x] by fastforce
  have "snd x = snd y" if "x \<in> ?new \<union> ?old" "y \<in> ?new \<union> ?old" "fst x = fst y" for x y
  proof (cases "fst x < qp_fresh p")
    case True
    then have "x \<in> ?old" "y \<in> ?old" using that number_records_ge [of x] number_records_ge [of y] by force+
    then show ?thesis by (rule same)
  next
    case False
    then have "x \<notin> ?old" "y \<notin> ?old" unfolding that(3) using that(3) old by metis+
    then have "x \<in> ?new" "y \<in> ?new" using that(1,2) by blast+
    then have "x = y" using that(3) by (rule number_records_unique)
    then show ?thesis by simp
  qed
  moreover have "qp_fresh (quiet_loaded rs p) = qp_fresh p + length rs" by (simp add: quiet_loaded_def)
  ultimately show ?thesis unfolding identities_ok_def o
    by (intro conjI ballI impI) (simp only: lt, blast)
qed

lemma identities_step:
  assumes "identities_ok p" "action_enabled a p"
  shows "identities_ok (page_step c a p)"
proof (cases a)
  case (Loaded rs) then show ?thesis using identities_loaded [OF assms(1)] by simp
next
  case (Message e)
  then show ?thesis using list_feed_subset [of "qh_id \<circ> snd" "fst e" "(qp_fresh p, snd e)" "qp_data p"]
    by (intro identities_mono [OF assms(1), of _ "snd e"]) (auto simp: objects_def quiet_message_def)
qed (use assms in \<open>auto intro!: identities_same [OF assms(1)] simp: quiet_page_defs objects_def split: if_splits\<close>)

lemma quiet_reach_identities: "quiet_reach c p \<Longrightarrow> identities_ok p"
proof (induction rule: quiet_reach.induct)
  case start
  show ?case by (simp add: identities_ok_def objects_def quiet_mounted_def)
next
  case (step p a)
  then show ?case by (blast intro: identities_step)
qed

lemma fill_form_new [simp]: "fill_form c None f = fill_form c None g"
  by (simp add: fill_form_def dialog_init_def)

lemma edit_fields_reach:
  assumes "quiet_reach c q" "qp_dialogOpen q"
  shows "quiet_reach c (edit_fields fs q) \<and> qp_dialogOpen (edit_fields fs q)
    \<and> qp_editing (edit_fields fs q) = qp_editing q \<and> qp_data (edit_fields fs q) = qp_data q"
  using assms unfolding edit_fields_def
proof (induction fs arbitrary: q)
  case (Cons f fs)
  have "quiet_reach c (edit_field f q)"
    using quiet_reach.step [OF Cons.prems(1), of "EditField f"] Cons.prems(2) by simp
  from Cons.IH [OF this] Cons.prems(2) show ?case by (simp add: edit_field_def)
qed simp

lemma edit_form_filled:
  assumes "quiet_reach c p" "x \<in> set (qp_data p)" "map_option fst (qp_editing p) = Some (fst x)"
  shows "qp_editing p = Some x"
proof -
  from assms(3) obtain y where y: "qp_editing p = Some y" "fst y = fst x" by auto
  moreover have "snd y = snd x"
    using quiet_reach_identities [OF assms(1)] assms(2) y unfolding identities_ok_def objects_def
    by (metis UnI1 UnI2 option.set_intros)
  ultimately show ?thesis by (simp add: prod_eq_iff)
qed

section \<open>Properties\<close>

text \<open>The form has the values of a window: its system and scope, its type and the times of that type.\<close>

definition shows_window :: "Clock \<Rightarrow> QuietHoursRecord \<Rightarrow> QuietForm \<Rightarrow> bool" where
  "shows_window c r f \<longleftrightarrow>
    qf_system f = qh_system r \<and> (qf_global f \<longleftrightarrow> qh_system r = []) \<and> qf_type f = qh_type r
    \<and> (case qh_type r of
         Daily \<Rightarrow> qf_startTime f = ck_hhmm c (ck_parse c (qh_start r))
           \<and> qf_endTime f = (if qh_end r = [] then [] else ck_hhmm c (ck_parse c (qh_end r)))
       | OneTime \<Rightarrow> qf_startDateTime f = formatDateTimeLocal (ck_tz c) (ck_parse c (qh_start r))
           \<and> qf_endDateTime f = (if qh_end r = [] then [] else formatDateTimeLocal (ck_tz c) (ck_parse c (qh_end r))))"

lemma fill_form_shows: "shows_window c r (fill_form c (Some r) f)"
  by (cases "qh_type r") (simp_all add: shows_window_def fill_form_def dialog_init_def)

text \<open>
  C20. What opening a listed window shows, in every reachable state. With the dialog closed, its form gets the system,
  scope, type and times of that window, unless the dialog was dismissed on that very object before: then the form is the
  draft that was left. When an open dialog is cancelled or its window saved, every window opened after it shows its own
  values, whatever had been typed.
\<close>

theorem edit_shows_record:
  assumes "quiet_reach c p" "x \<in> set (qp_data p)"
  shows "if qp_dialogOpen p
    then (let q = openWindowEdit c x (page_closeDialog c p) in
      quiet_reach c q \<and> qp_editing q = Some x \<and> shows_window c (snd x) (qp_form q))
    else (let q = openWindowEdit c x p in
      quiet_reach c q \<and> qp_editing q = Some x
      \<and> (if qp_editing p = Some x then qp_form q = qp_form p else shows_window c (snd x) (qp_form q)))"
proof (cases "qp_dialogOpen p")
  case True
  have "quiet_reach c (page_closeDialog c p)" using quiet_reach.step [OF assms(1), of ClickCancel] True by simp
  from quiet_reach.step [OF this, of "ClickEdit x"] assms(2)
  have "quiet_reach c (openWindowEdit c x (page_closeDialog c p))" by (simp add: quiet_page_defs)
  with True show ?thesis using fill_form_shows [of c "snd x"] by (simp add: quiet_page_defs)
next
  case False
  have "map_option fst (Some x) \<noteq> map_option fst (qp_editing p)" if "qp_editing p \<noteq> Some x"
    using edit_form_filled [OF assms] that unfolding option.map by metis
  moreover have "quiet_reach c (openWindowEdit c x p)" using quiet_reach.step [OF assms(1), of "ClickEdit x"] False assms(2) by simp
  ultimately show ?thesis using False fill_form_shows [of c "snd x"] by (auto simp: quiet_page_defs)
qed

definition sample_clock :: Clock where
  "sample_clock = \<lparr>ck_parse = (\<lambda>_. 0), ck_tz = (\<lambda>_. 0), ck_hhmm = (\<lambda>_. ''00:00''), ck_noon = 43200000,
     ck_onePm = 46800000\<rparr>"

definition system_window :: QuietHoursRecord where
  "system_window = \<lparr>qh_id = ''q1'', qh_user = ''u'', qh_system = ''s1'', qh_type = Daily, qh_start = ''a'',
     qh_end = ''b'', qh_system_name = Some ''web''\<rparr>"

theorem edit_shows_record_witness:
  "shows_window sample_clock system_window (qp_form (openWindowEdit sample_clock (0, system_window)
     (quiet_loaded [system_window] (quiet_mounted sample_clock))))"
proof -
  let ?p = "quiet_loaded [system_window] (quiet_mounted sample_clock)"
  have "quiet_reach sample_clock ?p"
    using quiet_reach.step [OF quiet_reach.start, of "Loaded [system_window]" sample_clock] by simp
  moreover have "(0, system_window) \<in> set (qp_data ?p)"
    by (simp add: quiet_loaded_def quiet_mounted_def number_records_def)
  moreover have "qp_editing ?p = None" "\<not> qp_dialogOpen ?p" by (simp_all add: quiet_loaded_def quiet_mounted_def)
  ultimately show ?thesis
    using edit_shows_record [of sample_clock ?p "(0, system_window)"] by (simp add: Let_def)
qed

text \<open>
  A dialog that is dismissed keeps its draft: when the same window is opened again before the hub has
  sent it anew, the form still shows what was typed and not the window's values, because its identity
  has not changed; submitting then sends the draft.
\<close>

theorem dismissed_draft_returns:
  assumes "quiet_reach c p" "\<not> qp_dialogOpen p" "x \<in> set (qp_data p)"
  shows "let q = edit_fields fs (openWindowEdit c x p) in
    quiet_reach c (openWindowEdit c x (dismissDialog q))
    \<and> qp_form (openWindowEdit c x (dismissDialog q)) = qp_form q"
proof -
  let ?q = "edit_fields fs (openWindowEdit c x p)"
  have "quiet_reach c (openWindowEdit c x p)"
    using quiet_reach.step [OF assms(1), of "ClickEdit x"] assms(2,3) by simp
  from edit_fields_reach [OF this] have q: "quiet_reach c ?q" "qp_dialogOpen ?q" "qp_editing ?q = Some x" "x \<in> set (qp_data ?q)"
    using assms(3) by (simp_all add: quiet_page_defs)
  have "quiet_reach c (dismissDialog ?q)" using quiet_reach.step [OF q(1), of Dismiss] q(2) by simp
  from quiet_reach.step [OF this, of "ClickEdit x"] q show ?thesis
    by (simp add: quiet_page_defs)
qed

text \<open>
  The dialog for a new window opens with the defaults only the first time: after a window was created
  it opens with the values of that window, and after it was dismissed with the draft.
\<close>

theorem new_window_form_kept:
  assumes "qp_editing p = None"
  shows "qp_form (openAddDialog c (page_closeDialog c p)) = qp_form p
    \<and> qp_form (openAddDialog c (dismissDialog p)) = qp_form p"
  using assms by (simp add: quiet_page_defs)

text \<open>
  Saving asks the hub once and closes the dialog exactly when the hub accepts; on an error the form is
  kept and a toast is shown.
\<close>

theorem submit_outcome:
  assumes "qp_dialogOpen p"
  shows "let s = page_submit c fromLocal toISO tr user hub p in
    (qp_dialogOpen (su_page s) \<longleftrightarrow> su_toast s = Some (save_error tr))
    \<and> (qp_dialogOpen (su_page s) \<longrightarrow> su_page s = p)
    \<and> (\<not> qp_dialogOpen (su_page s) \<longleftrightarrow> (\<exists>req. su_request s = Some req \<and> hub req = Inr ()))"
  using assms by (auto simp: page_submit_def quiet_page_defs split: sum.splits)

text \<open>
  A window of one system cannot be made global. The request leaves the system out, and a hub that
  keeps the fields an update does not name keeps the window on its system.
\<close>

theorem window_stays_on_system:
  assumes "handleSubmit fromLocal toISO user (Some r) (change_field (ScopeTab True) f) = Inr req"
    and "\<And>r req. qr_system req = None \<Longrightarrow> qh_system (hub_update r req) = qh_system r"
  shows "qr_id req = Some (qh_id r) \<and> qr_system req = None \<and> qh_system (hub_update r req) = qh_system r"
proof -
  have "qr_id req = Some (qh_id r)" "qr_system req = None"
    using assms(1) by (auto simp: handleSubmit_def iso_of_def Let_def split: if_splits option.splits sum.splits)
  with assms(2) show ?thesis by simp
qed

definition system_form :: QuietForm where
  "system_form = \<lparr>qf_system = ''s1'', qf_global = False, qf_type = Daily, qf_startDateTime = [],
     qf_endDateTime = [], qf_startTime = ''22:00'', qf_endTime = ''06:00''\<rparr>"

text \<open>A hub that changes the fields it is given.\<close>

definition merge_update :: "QuietHoursRecord \<Rightarrow> QuietRequest \<Rightarrow> QuietHoursRecord" where
  "merge_update r req =
    r\<lparr>qh_system := (case qr_system req of None \<Rightarrow> qh_system r | Some s \<Rightarrow> s), qh_type := qr_type req,
      qh_start := qr_start req, qh_end := (case qr_end req of None \<Rightarrow> qh_end r | Some e \<Rightarrow> e)\<rparr>"

definition unscoped_request :: QuietRequest where
  "unscoped_request = \<lparr>qr_id = Some ''q1'', qr_user = Some ''u'', qr_system = None, qr_type = Daily,
     qr_start = ''0'', qr_end = Some ''0''\<rparr>"

theorem window_stays_on_system_witness:
  "handleSubmit (\<lambda>_. Some 0) (\<lambda>_. ''0'') (Some ''u'') (Some system_window) (change_field (ScopeTab True) system_form)
     = Inr unscoped_request
   \<and> qh_system (merge_update system_window unscoped_request) = qh_system system_window"
proof -
  have h: "handleSubmit (\<lambda>_. Some 0) (\<lambda>_. ''0'') (Some ''u'') (Some system_window)
      (change_field (ScopeTab True) system_form) = Inr unscoped_request"
    by (simp add: handleSubmit_def iso_of_def system_form_def system_window_def unscoped_request_def)
  show ?thesis using h window_stays_on_system [OF h, of merge_update] by (simp add: merge_update_def)
qed

text \<open>
  A one-time window that began before today cannot be changed: whatever else is entered, the
  browser refuses the form as long as its start stays.
\<close>

theorem begun_window_refused:
  assumes "qh_type r = OneTime" "\<not> le (formatDateTimeLocal (ck_tz c) midnight) (formatDateTimeLocal (ck_tz c) (ck_parse c (qh_start r)))"
  shows "\<not> form_valid le (ck_tz c) midnight now
      (fill_form c (Some r) f\<lparr>qf_endDateTime := e, qf_system := s, qf_global := g\<rparr>)"
  using assms by (simp add: form_valid_def min_ok_def fill_form_def dialog_init_def Let_def)

definition epoch_2000 :: int where "epoch_2000 = 946684800000"

text \<open>
  C21. A daily window as it was entered, \<open>a\<close> and \<open>b\<close> minutes after local midnight: the form converts
  the times with the offset \<open>w\<close> of 1 January 2000. While the present offset is the same, the window is
  active exactly between the times entered; under another offset it is active between times shifted by
  the difference, although the table goes on to print the times entered.
\<close>

theorem daily_window_shifts_with_offset:
  assumes "handleSubmit fromLocal toISO user ed f = Inr req" "qf_type f = Daily" "qf_endTime f \<noteq> []"
    and "fromLocal (''2000-01-01T'' @ qf_startTime f @ '':00'') = Some (epoch_2000 + (a + w) * 60000)"
    and "fromLocal (''2000-01-01T'' @ qf_endTime f @ '':00'') = Some (epoch_2000 + (b + w) * 60000)"
    and "\<And>t. parse (toISO t) = t"
    and "qh_type r = qr_type req" "qh_start r = qr_start req" "Some (qh_end r) = qr_end req" "tz now \<le> 1440"
  shows "getWindowState parse tz now r = Active \<longleftrightarrow>
    (local_minutes (tz now) now - (a + w - tz now)) mod 1440 < (b - a) mod 1440"
proof -
  have req: "qr_type req = Daily" "qr_start req = toISO (epoch_2000 + (a + w) * 60000)"
    "qr_end req = Some (toISO (epoch_2000 + (b + w) * 60000))"
    using assms(1-5) by (auto simp: handleSubmit_def iso_of_def Let_def)
  have mins: "(epoch_2000 + m * 60000) div 60000 = 15778080 + m" for m by (simp add: epoch_2000_def)
  have r: "qh_type r = Daily" "parse (qh_start r) div 60000 = 15778080 + (a + w)"
    "parse (qh_end r) div 60000 = 15778080 + (b + w)"
    using assms(6-9) req mins by simp_all
  have "getWindowState parse tz now r = Active \<longleftrightarrow>
      (now div 60000 - (15778080 + (a + w))) mod 1440 < (b - a) mod 1440"
    using window_state_daily [of tz now r parse] assms(10) r by simp
  moreover have "(now div 60000 - (15778080 + (a + w))) mod 1440 = (now div 60000 - (a + w)) mod 1440"
    unfolding mod_eq_dvd_iff by simp
  moreover have "(local_minutes (tz now) now - (a + w - tz now)) mod 1440 = (now div 60000 - (a + w)) mod 1440"
    unfolding local_minutes_eq mod_diff_left_eq by (simp add: algebra_simps)
  ultimately show ?thesis by simp
qed

definition sample_parse :: "string \<Rightarrow> int" where
  "sample_parse s = (if s \<noteq> [] \<and> hd s = CHR ''-'' then - int (dec_val (tl s)) else int (dec_val s))"

lemma sample_parse_show [simp]: "sample_parse (show_int t) = t"
proof -
  have "hd (show_nat n) \<noteq> CHR ''-''" for n
    using show_nat_digits [of "hd (show_nat n)" n] by (auto simp: is_digit_def)
  then show ?thesis by (simp add: sample_parse_def show_int_def)
qed

definition winter_time :: "string \<Rightarrow> int option" where
  "winter_time s = (if s = ''2000-01-01T22:00:00'' then Some (epoch_2000 + (1320 + - 60) * 60000)
     else if s = ''2000-01-01T06:00:00'' then Some (epoch_2000 + (360 + - 60) * 60000) else None)"

definition night_window :: QuietHoursRecord where
  "night_window = \<lparr>qh_id = ''q1'', qh_user = ''u'', qh_system = ''s1'', qh_type = Daily,
     qh_start = show_int (epoch_2000 + (1320 + - 60) * 60000), qh_end = show_int (epoch_2000 + (360 + - 60) * 60000),
     qh_system_name = None\<rparr>"

definition night_request :: QuietRequest where
  "night_request = \<lparr>qr_id = None, qr_user = Some ''u'', qr_system = Some ''s1'', qr_type = Daily,
     qr_start = qh_start night_window, qr_end = Some (qh_end night_window)\<rparr>"

text \<open>Entered as 22:00 to 06:00 one hour east of Greenwich; at 22:30 in summer time it is not active.\<close>

theorem daily_window_shifts_with_offset_witness:
  "handleSubmit winter_time show_int (Some ''u'') None system_form = Inr night_request
   \<and> local_minutes (- 120) (1230 * 60000) = 22 * 60 + 30
   \<and> getWindowState sample_parse (\<lambda>_. - 120) (1230 * 60000) night_window \<noteq> Active"
proof -
  have h: "handleSubmit winter_time show_int (Some ''u'') None system_form = Inr night_request"
    by (simp add: handleSubmit_def iso_of_def system_form_def night_request_def night_window_def winter_time_def)
  have l: "local_minutes (- 120) (1230 * 60000) = 22 * 60 + 30" by (simp add: local_minutes_eq)
  have r: "qh_type night_window = qr_type night_request" "qh_start night_window = qr_start night_request"
    "Some (qh_end night_window) = qr_end night_request"
    by (simp_all add: night_request_def, simp add: night_window_def)
  have "getWindowState sample_parse (\<lambda>_. - 120) (1230 * 60000) night_window = Active \<longleftrightarrow>
      (local_minutes (- 120) (1230 * 60000) - (1320 + - 60 - - 120)) mod 1440 < (360 - 1320) mod (1440 :: int)"
    by (rule daily_window_shifts_with_offset [OF h])
      (simp_all add: system_form_def winter_time_def r del: minus_add_distrib)
  then show ?thesis using h l by simp
qed

end
