(* ===== verification/History.thy ===== *)
theory History
  imports Feeds Alerts Calendar
begin

text \<open>
  The alert history, \<^verbatim>\<open>components/routes/settings/alerts-history-data-table.tsx\<close> and
  \<^verbatim>\<open>components/alerts-history-columns.tsx\<close>: the columns' values and orders, the list kept in step
  with the hub, its search, deleting the selected rows in batches and exporting them.
  \<open>lower\<close> is \<open>toLowerCase\<close>, \<open>shortDate\<close> is \<open>formatShortDate\<close>, \<open>num\<close> number printing.
\<close>

definition history_feed :: "PbAction \<times> AlertsHistoryRecord \<Rightarrow> AlertsHistoryRecord list \<Rightarrow> AlertsHistoryRecord list" where
  "history_feed = list_feed ah_id"

interpretation history: keyed_feed ah_id "\<lambda>_. True" False history_feed
  unfolding history_feed_def by (rule list_feed_keyed)

section \<open>Columns\<close>

definition history_system :: "AlertsHistoryRecord \<Rightarrow> string" where
  "history_system r = (case ah_system_name r of Some n \<Rightarrow> if n \<noteq> [] then n else ah_system r | None \<Rightarrow> ah_system r)"

definition history_system_filter :: "(string \<Rightarrow> string) \<Rightarrow> string \<Rightarrow> AlertsHistoryRecord \<Rightarrow> bool" where
  "history_system_filter lower filterValue r = str_includes (lower (history_system r)) (lower filterValue)"

definition history_name :: "(string \<Rightarrow> string) \<Rightarrow> AlertsHistoryRecord \<Rightarrow> string" where
  "history_name tr r =
    (case dget alertInfo (ah_name r) of
       None \<Rightarrow> ah_name r
     | Some i \<Rightarrow> (let n = replace_str ''cpu'' ''CPU'' (tr (ai_name i)) in if n \<noteq> [] then n else ah_name r))"

definition history_value :: "(string \<Rightarrow> string) \<Rightarrow> (rat \<Rightarrow> string) \<Rightarrow> AlertsHistoryRecord \<Rightarrow> string" where
  "history_value tr num r =
    (if ah_name r = ''Status'' then tr ''Down''
     else num (toFixedFloat (ah_val r) (if ah_val r < 10 then 2 else 1))
       @ (case dget alertInfo (ah_name r) of None \<Rightarrow> [] | Some i \<Rightarrow> ai_unit i))"

definition is_resolved :: "AlertsHistoryRecord \<Rightarrow> bool" where
  "is_resolved r \<longleftrightarrow> ah_resolved r \<noteq> None \<and> ah_resolved r \<noteq> Some []"

definition history_state_cmp :: "AlertsHistoryRecord \<Rightarrow> AlertsHistoryRecord \<Rightarrow> rat" where
  "history_state_cmp a b = (if is_resolved a then 1 else 0) - (if is_resolved b then 1 else 0)"

text \<open>
  The duration of a resolved alert; \<open>parse\<close> reads a date and gives \<open>None\<close> where JavaScript has an
  invalid one, whose difference is NaN and falsy like 0.
\<close>

definition history_duration :: "(string \<Rightarrow> int option) \<Rightarrow> AlertsHistoryRecord \<Rightarrow> int option" where
  "history_duration parse r =
    (if is_resolved r
     then (case (parse (the (ah_resolved r)), parse (ah_created r)) of
             (Some e, Some b) \<Rightarrow> if e - b \<noteq> 0 then Some (e - b) else None | _ \<Rightarrow> None)
     else None)"

definition history_duration_cmp :: "(string \<Rightarrow> int option) \<Rightarrow> AlertsHistoryRecord \<Rightarrow> AlertsHistoryRecord \<Rightarrow> rat" where
  "history_duration_cmp parse a b =
    (case (history_duration parse a, history_duration parse b) of
       (None, Some y) \<Rightarrow> - 1
     | (Some x, None) \<Rightarrow> 1
     | (Some x, Some y) \<Rightarrow> of_int (x - y)
     | (None, None) \<Rightarrow> 0)"

section \<open>Search, deletion and export\<close>

text \<open>The search looks at the displayed name and date, not at the record's fields.\<close>

definition history_filter ::
  "(string \<Rightarrow> string) \<Rightarrow> (string \<Rightarrow> string) \<Rightarrow> (string \<Rightarrow> string) \<Rightarrow> string \<Rightarrow> AlertsHistoryRecord \<Rightarrow> bool" where
  "history_filter tr lower shortDate filterValue r =
    (let system = (case ah_system_name r of None \<Rightarrow> [] | Some n \<Rightarrow> n); search = lower filterValue
     in str_includes (lower system) search \<or> str_includes (lower (history_name tr r)) search
        \<or> str_includes (lower (shortDate (ah_created r))) search)"

text \<open>
  \<open>handleBulkDelete\<close>: the batches sent, in order, and whether all were accepted; then the selection
  is reset, otherwise a toast says that the deletion failed and nothing further is sent. The loop's
  state is the open batch, which is sent when it holds more than 20 deletions; \<open>ok i\<close> is the answer
  to the \<open>i\<close>-th batch.
\<close>

fun bulk_delete_loop :: "(nat \<Rightarrow> bool) \<Rightarrow> nat \<Rightarrow> string list \<Rightarrow> string list \<Rightarrow> string list list \<times> bool" where
  "bulk_delete_loop ok i batch [] = (if batch \<noteq> [] then ([batch], ok i) else ([], True))"
| "bulk_delete_loop ok i batch (k # ks) =
    (let batch' = batch @ [k] in
     if length batch' > 20
     then (if ok i then (let (sent, r) = bulk_delete_loop ok (Suc i) [] ks in (batch' # sent, r)) else ([batch'], False))
     else bulk_delete_loop ok i batch' ks)"

record BulkDelete =
  bd_open :: bool
  bd_selected :: "string list"
  bd_toast :: "(string \<times> string) option"

definition handleBulkDelete :: "(string \<Rightarrow> string) \<Rightarrow> (nat \<Rightarrow> bool) \<Rightarrow> BulkDelete \<Rightarrow> string list list \<times> BulkDelete" where
  "handleBulkDelete tr ok st =
    (case bulk_delete_loop ok 0 [] (bd_selected st) of
       (sent, True) \<Rightarrow> (sent, st\<lparr>bd_open := False, bd_selected := []\<rparr>)
     | (sent, False) \<Rightarrow> (sent, st\<lparr>bd_open := False, bd_toast := Some (tr ''Error'', ''Failed to delete records.'')\<rparr>))"

definition csv_header :: "string list" where
  "csv_header = [''system'', ''name'', ''value'', ''state'', ''created'', ''resolved'', ''duration'']"

definition csv_cells ::
  "(string \<Rightarrow> string) \<Rightarrow> (string \<Rightarrow> int option) \<Rightarrow> (string \<Rightarrow> string) \<Rightarrow> (rat \<Rightarrow> string) \<Rightarrow> AlertsHistoryRecord \<Rightarrow> string list" where
  "csv_cells tr parse shortDate num r =
    (let resolved = (case ah_resolved r of None \<Rightarrow> [] | Some s \<Rightarrow> s) in
     [case ah_system_name r of None \<Rightarrow> ah_system r | Some n \<Rightarrow> if n = [] then ah_system r else n,
      case dget alertInfo (ah_name r) of None \<Rightarrow> ah_name r | Some i \<Rightarrow> if tr (ai_name i) = [] then ah_name r else tr (ai_name i),
      num (ah_val r) @ (case dget alertInfo (ah_name r) of None \<Rightarrow> [] | Some i \<Rightarrow> ai_unit i),
      if resolved \<noteq> [] then tr ''Resolved'' else tr ''Active'',
      shortDate (ah_created r),
      if resolved \<noteq> [] then shortDate resolved else [],
      if resolved \<noteq> [] then formatDuration parse (Some (ah_created r)) (Some resolved) else []])"

text \<open>\<open>handleExportCSV\<close>: nothing without selected rows; cells are joined by commas without quoting.\<close>

definition handleExportCSV ::
  "(string \<Rightarrow> string) \<Rightarrow> (string \<Rightarrow> int option) \<Rightarrow> (string \<Rightarrow> string) \<Rightarrow> (rat \<Rightarrow> string) \<Rightarrow> AlertsHistoryRecord list \<Rightarrow> string option" where
  "handleExportCSV tr parse shortDate num rows =
    (if rows = [] then None
     else Some (join [CHR 0x0A] (join '','' csv_header # map (\<lambda>r. join '','' (csv_cells tr parse shortDate num r)) rows)))"

section \<open>Lemmas\<close>

lemma history_states: "comparator history_state_cmp UNIV"
  by unfold_locales (auto simp: history_state_cmp_def)

lemma history_durations: "comparator (history_duration_cmp parse) UNIV"
  by unfold_locales (auto simp: history_duration_cmp_def split: option.splits)

interpretation by_state: comparator history_state_cmp UNIV
  by (rule history_states)

lemma bulk_delete_sent:
  assumes "bulk_delete_loop ok i batch ks = (sent, done)"
  shows "done = list_all (\<lambda>j. ok (i + j)) [0..<length sent]"
    and "(if done then concat sent = batch @ ks else prefix (concat sent) (batch @ ks) \<and> \<not> ok (i + length sent - 1) \<and> sent \<noteq> []
           \<and> list_all (\<lambda>j. ok (i + j)) [0..<length sent - 1])"
  using assms
proof (induction ok i batch ks arbitrary: sent "done" rule: bulk_delete_loop.induct)
  case (1 ok i batch)
  { case 1 then show ?case by (auto split: if_splits) }
  { case 2 then show ?case by (auto split: if_splits) }
next
  case (2 ok i batch k ks)
  have shift: "list_all (\<lambda>j. ok (i + j)) [0..<Suc n] \<longleftrightarrow> ok i \<and> list_all (\<lambda>j. ok (Suc i + j)) [0..<n]" for n
    using All_less_Suc2 [of n "\<lambda>j. ok (i + j)"] by (simp add: list_all_iff Ball_def del: upt_Suc)
  have shift': "list_all (\<lambda>j. ok (i + j)) [0..<length xs] \<longleftrightarrow> ok i \<and> list_all (\<lambda>j. ok (Suc i + j)) [0..<length xs - 1]"
    if "xs \<noteq> []" for xs :: "string list list"
    using shift [of "length xs - 1"] that by simp
  { case 1
    then show ?case using "2.IH"(1,3) shift by (auto simp: Let_def split: if_splits prod.splits) }
  { case 2
    then show ?case using "2.IH"(2,4) shift' by (auto simp: Let_def split: if_splits prod.splits) }
qed

lemma bulk_delete_sizes:
  "length batch \<le> 20 \<Longrightarrow> list_all (\<lambda>b. b \<noteq> [] \<and> length b \<le> 21) (fst (bulk_delete_loop ok i batch ks))"
  by (induction ok i batch ks rule: bulk_delete_loop.induct) (auto simp: Let_def split: prod.split)

section \<open>Properties\<close>

text \<open>
  The deletion of the selected rows goes through them once, in order, in batches that are never
  empty and hold at most 21 deletions. If every batch is accepted all rows are covered and the
  selection is reset; otherwise sending stops at the refused batch, only an initial part of the rows
  was sent, the selection stays and a toast reports the failure.
\<close>

theorem bulk_delete_batches:
  "case handleBulkDelete tr ok st of (sent, st') \<Rightarrow>
     list_all (\<lambda>b. b \<noteq> [] \<and> length b \<le> 21) sent
     \<and> (if list_all ok [0..<length sent]
        then concat sent = bd_selected st \<and> bd_selected st' = [] \<and> bd_toast st' = bd_toast st
        else prefix (concat sent) (bd_selected st) \<and> list_all ok [0..<length sent - 1] \<and> \<not> ok (length sent - 1)
             \<and> bd_selected st' = bd_selected st \<and> bd_toast st' = Some (tr ''Error'', ''Failed to delete records.''))"
proof -
  obtain sent "done" where r: "bulk_delete_loop ok 0 [] (bd_selected st) = (sent, done)" by fastforce
  from bulk_delete_sent [OF r] bulk_delete_sizes [of "[]" ok 0 "bd_selected st"] show ?thesis
    by (cases "done") (auto simp: handleBulkDelete_def r)
qed

text \<open>
  Sorting the alert history by duration puts the alerts without a duration first and the others by
  ascending duration, and loses none.
\<close>

theorem history_sorted_by_duration:
  "mset (js_sort (history_duration_cmp parse) rs) = mset rs
   \<and> sorted_wrt (\<lambda>a b. case (history_duration parse a, history_duration parse b) of
        (Some x, Some y) \<Rightarrow> x \<le> y | (Some x, None) \<Rightarrow> False | _ \<Rightarrow> True) (js_sort (history_duration_cmp parse) rs)"
proof -
  have "sorted_wrt (\<lambda>a b. history_duration_cmp parse a b \<le> 0) (js_sort (history_duration_cmp parse) rs)"
    by (rule comparator.sorted_js_sort [OF history_durations]) simp
  then have "sorted_wrt (\<lambda>a b. case (history_duration parse a, history_duration parse b) of
        (Some x, Some y) \<Rightarrow> x \<le> y | (Some x, None) \<Rightarrow> False | _ \<Rightarrow> True) (js_sort (history_duration_cmp parse) rs)"
    by (rule sorted_wrt_mono_rel [rotated]) (auto simp: history_duration_cmp_def split: option.splits)
  then show ?thesis by simp
qed

text \<open>
  The list of a page that prepends, replaces and removes records follows the hub: after the
  initial load and any sequence of messages in which records are created under new ids, looking an
  id up in the alert history gives what the messages say, and no id appears twice.
\<close>

theorem history_follows_hub:
  assumes "distinct (map ah_id xs)" "fresh_creates ah_id (\<lambda>_. True) False (lookup_by ah_id xs) es"
  shows "lookup_by ah_id (foldl (\<lambda>xs e. history_feed e xs) xs es) =
      foldl (\<lambda>m e. feed_spec ah_id (\<lambda>_. True) False e m) (lookup_by ah_id xs) es
    \<and> distinct (map ah_id (foldl (\<lambda>xs e. history_feed e xs) xs es))"
  by (rule history.feed_refines [OF assms])

definition sample_history :: "string \<Rightarrow> AlertsHistoryRecord" where
  "sample_history k = \<lparr>ah_id = k, ah_alert = ''x'', ah_user = ''u'', ah_system = ''s'', ah_name = ''CPU'',
     ah_val = 90, ah_created = ''c'', ah_resolved = None, ah_system_name = Some ''web''\<rparr>"

theorem history_follows_hub_witness:
  "lookup_by ah_id (foldl (\<lambda>xs e. history_feed e xs) [sample_history ''a''] [(Create, sample_history ''b''), (Delete, sample_history ''a'')]) ''b''
     = Some (sample_history ''b'')"
proof -
  have "fresh_creates ah_id (\<lambda>_. True) False (lookup_by ah_id [sample_history ''a''])
      [(Create, sample_history ''b''), (Delete, sample_history ''a'')]"
    by (simp add: sample_history_def)
  from history_follows_hub [OF _ this] show ?thesis
    by (simp add: feed_spec_def) (simp add: sample_history_def)
qed

end
