(* ===== verification/DataTable.thy ===== *)
theory DataTable
  imports Utils
begin

text \<open>
  The tables of the dashboard hand their records to the TanStack Table library. What the components
  rely on of that library is the contract \<open>table_engine\<close>: rows carry an id, which is the position of
  the record in the data because no table passes \<open>getRowId\<close>; filtering, sorting and paging select and
  order rows; the row selection is a set of ids. The tables' own state and callbacks are in the
  theories of the components.
\<close>

section \<open>The contract of the table library\<close>

type_synonym 'a row = "nat \<times> 'a"

text \<open>A column as the library sees it: for which records its value is defined, and its comparison.\<close>

type_synonym 'a column = "('a \<Rightarrow> bool) \<times> ('a \<Rightarrow> 'a \<Rightarrow> rat)"

type_synonym sorting = "(string \<times> bool) list"

text \<open>\<open>sortUndefined: "last"\<close>: undefined values come last in both directions.\<close>

definition order_by :: "'a column \<Rightarrow> bool \<Rightarrow> 'a \<Rightarrow> 'a \<Rightarrow> rat" where
  "order_by col desc a b =
    (if \<not> fst col a then (if fst col b then 1 else 0)
     else if \<not> fst col b then -1
     else if desc then snd col b a else snd col a b)"

record 'a TableEngine =
  te_core :: "'a list \<Rightarrow> 'a row list"
  te_filtered :: "('a \<Rightarrow> bool) \<Rightarrow> 'a row list \<Rightarrow> 'a row list"
  te_sorted :: "(string \<Rightarrow> 'a column) \<Rightarrow> sorting \<Rightarrow> 'a row list \<Rightarrow> 'a row list"
  te_page :: "nat \<Rightarrow> nat \<Rightarrow> 'a row list \<Rightarrow> 'a row list"
  te_pageCount :: "nat \<Rightarrow> nat \<Rightarrow> nat"
  te_selected :: "nat set \<Rightarrow> 'a row list \<Rightarrow> 'a row list"
  te_toggle :: "nat list \<Rightarrow> bool \<Rightarrow> nat set \<Rightarrow> nat set"

text \<open>The rows a table shows: the core rows, filtered, then sorted.\<close>

definition row_model :: "'a TableEngine \<Rightarrow> (string \<Rightarrow> 'a column) \<Rightarrow> ('a \<Rightarrow> bool) \<Rightarrow> sorting \<Rightarrow> 'a list \<Rightarrow> 'a row list" where
  "row_model E cols p sorting data = te_sorted E cols sorting (te_filtered E p (te_core E data))"

locale table_engine =
  fixes E :: "'a TableEngine"
  assumes core: "te_core E data = enumerate 0 data"
    and filtered: "te_filtered E p rows = filter (\<lambda>r. p (snd r)) rows"
    and sorted_perm: "mset (te_sorted E cols sorting rows) = mset rows"
    and sorted_none: "te_sorted E cols [] rows = rows"
    and sorted_order: "comparator (snd (cols k)) UNIV \<Longrightarrow>
      sorted_wrt (\<lambda>a b. order_by (cols k) desc (snd a) (snd b) \<le> 0) (te_sorted E cols [(k, desc)] rows)"
    and page: "te_page E i n rows = take n (drop (i * n) rows)"
    and page_count: "0 < n \<Longrightarrow> te_pageCount E n m = (m + (n - 1)) div n"
    and selected: "te_selected E S rows = filter (\<lambda>r. fst r \<in> S) rows"
    and toggled: "te_toggle E ids v S = (if v then S \<union> set ids else S - set ids)"
begin

lemma row_model_mset: "mset (map snd (row_model E cols p sorting data)) = mset (filter p data)"
proof -
  have "mset (map snd (row_model E cols p sorting data)) = image_mset snd (mset (filter (\<lambda>r. p (snd r)) (enumerate 0 data)))"
    by (simp add: row_model_def core filtered sorted_perm)
  also have "\<dots> = mset (filter p (map snd (enumerate 0 data)))"
    by (simp only: mset_map filter_map comp_def)
  finally show ?thesis by simp
qed

lemma row_model_set: "snd ` set (row_model E cols p sorting data) = {x \<in> set data. p x}"
  using row_model_mset [of cols p sorting data] by (metis list.set_map set_filter set_mset_mset)

lemma row_model_length: "length (row_model E cols p sorting data) = length (filter p data)"
  using row_model_mset [of cols p sorting data] by (metis length_map size_mset)

lemma row_model_ids: "distinct (map fst (row_model E cols p sorting data))"
proof -
  have "mset (map fst (row_model E cols p sorting data)) = mset (map fst (filter (\<lambda>r. p (snd r)) (enumerate 0 data)))"
    by (simp add: row_model_def core filtered sorted_perm)
  moreover have "distinct (map fst (filter (\<lambda>r. p (snd r)) (enumerate 0 data)))"
    using distinct_map_filter [of fst "enumerate 0 data"] by simp
  ultimately show ?thesis using mset_eq_imp_distinct_iff by blast
qed

lemma row_model_at: "(i, x) \<in> set (row_model E cols p sorting data) \<Longrightarrow> i < length data \<and> data ! i = x \<and> p x"
proof -
  assume "(i, x) \<in> set (row_model E cols p sorting data)"
  then have "(i, x) \<in># mset (filter (\<lambda>r. p (snd r)) (enumerate 0 data))"
    using sorted_perm [of cols sorting "te_filtered E p (te_core E data)"]
    by (metis core filtered row_model_def set_mset_mset)
  then show ?thesis by (auto simp: in_set_enumerate_eq)
qed

text \<open>Going through the pages shows every row once, in order.\<close>

lemma pages_cover:
  assumes "0 < n"
  shows "concat (map (\<lambda>i. te_page E i n rows) [0..<te_pageCount E n (length rows)]) = rows"
proof -
  have "concat (map (\<lambda>i. take n (drop (i * n) rows)) [0..<k]) = take (k * n) rows" for k
    by (induction k) (simp_all add: take_add [symmetric] add.commute)
  moreover have "length rows \<le> te_pageCount E n (length rows) * n"
  proof -
    have "length rows + (n - 1) < Suc (te_pageCount E n (length rows)) * n"
      using assms by (simp add: page_count dividend_less_div_times)
    then show ?thesis using assms by simp
  qed
  ultimately show ?thesis by (simp add: page)
qed

lemma selected_records: "map snd (te_selected E S (te_core E data)) = nths data S"
proof -
  have "map snd (filter (\<lambda>r. fst r \<in> S) (enumerate k data)) = nths data {i. i + k \<in> S}" for k
    by (induction data arbitrary: S k) (simp_all add: nths_Cons)
  from this [of 0] show ?thesis by (simp add: selected core)
qed

end

text \<open>Comparing by a part of the records, for instance by name.\<close>

lemma comparator_on: "comparator cmp UNIV \<Longrightarrow> comparator (\<lambda>a b. cmp (f a) (f b)) UNIV"
proof
  assume c: "comparator cmp UNIV"
  show "\<not> cmp (f x) (f y) \<le> 0 \<Longrightarrow> cmp (f y) (f x) \<le> 0" for x y
    using comparator.cmp_total [OF c] by simp
  show "cmp (f x) (f y) \<le> 0 \<Longrightarrow> cmp (f y) (f z) \<le> 0 \<Longrightarrow> cmp (f x) (f z) \<le> 0" for x y z
    using comparator.cmp_trans [OF c, of "f x" "f y" "f z"] by simp
qed

section \<open>A reference implementation\<close>

definition reference_engine :: "'a TableEngine" where
  "reference_engine = \<lparr>te_core = enumerate 0,
     te_filtered = (\<lambda>p. filter (\<lambda>r. p (snd r))),
     te_sorted = (\<lambda>cols sorting rows. case sorting of [] \<Rightarrow> rows
       | (k, desc) # _ \<Rightarrow> js_sort (\<lambda>a b. order_by (cols k) desc (snd a) (snd b)) rows),
     te_page = (\<lambda>i n rows. take n (drop (i * n) rows)),
     te_pageCount = (\<lambda>n m. (m + (n - 1)) div n),
     te_selected = (\<lambda>S. filter (\<lambda>r. fst r \<in> S)),
     te_toggle = (\<lambda>ids v S. if v then S \<union> set ids else S - set ids)\<rparr>"

lemma order_by_comparator:
  assumes "comparator (snd col) UNIV"
  shows "comparator (\<lambda>a b. order_by col desc (snd a) (snd b)) UNIV"
proof
  have total: "\<not> snd col x y \<le> 0 \<Longrightarrow> snd col y x \<le> 0" for x y
    using comparator.cmp_total [OF assms] by simp
  have trans: "snd col x y \<le> 0 \<Longrightarrow> snd col y z \<le> 0 \<Longrightarrow> snd col x z \<le> 0" for x y z
    using comparator.cmp_trans [OF assms] by blast
  show "\<not> order_by col desc (snd x) (snd y) \<le> 0 \<Longrightarrow> order_by col desc (snd y) (snd x) \<le> 0" for x y :: "'b \<times> 'a"
    using total by (auto simp: order_by_def split: if_splits)
  show "order_by col desc (snd x) (snd y) \<le> 0 \<Longrightarrow> order_by col desc (snd y) (snd z) \<le> 0
      \<Longrightarrow> order_by col desc (snd x) (snd z) \<le> 0" for x y z :: "'b \<times> 'a"
    using trans by (auto simp: order_by_def split: if_splits)
qed

interpretation reference_table: table_engine reference_engine
proof
  fix cols :: "string \<Rightarrow> 'a column" and k desc and rows :: "'a row list"
  assume "comparator (snd (cols k)) UNIV"
  from comparator.sorted_js_sort [OF order_by_comparator [OF this], of rows desc]
  show "sorted_wrt (\<lambda>a b. order_by (cols k) desc (snd a) (snd b) \<le> 0) (te_sorted reference_engine cols [(k, desc)] rows)"
    by (simp add: reference_engine_def)
qed (auto simp: reference_engine_def split: list.split)

end
