(* ===== verification/HistoryTable.thy ===== *)
theory HistoryTable
  imports History DataTable
begin

text \<open>
  The table of the alert history, \<^verbatim>\<open>components/routes/settings/alerts-history-data-table.tsx\<close>: its
  state with the row selection, the search and the pages, while the list changes with the hub's
  messages, and the deletion and export of what is selected. \<open>E\<close> is the table library.
\<close>

section \<open>State and operations\<close>

record HistoryTable =
  ht_data :: "AlertsHistoryRecord list"
  ht_sorting :: sorting
  ht_rowSelection :: "nat set"
  ht_globalFilter :: string
  ht_pageIndex :: nat
  ht_pageSize :: nat
  ht_deleteOpen :: bool
  ht_toast :: "(string \<times> string) option"

definition history_init :: HistoryTable where
  "history_init = \<lparr>ht_data = [], ht_sorting = [], ht_rowSelection = {}, ht_globalFilter = [], ht_pageIndex = 0,
     ht_pageSize = 10, ht_deleteOpen = False, ht_toast = None\<rparr>"

definition history_loaded :: "AlertsHistoryRecord list \<Rightarrow> HistoryTable \<Rightarrow> HistoryTable" where
  "history_loaded items st = st\<lparr>ht_data := items\<rparr>"

definition history_message :: "PbAction \<times> AlertsHistoryRecord \<Rightarrow> HistoryTable \<Rightarrow> HistoryTable" where
  "history_message e st = st\<lparr>ht_data := history_feed e (ht_data st)\<rparr>"

text \<open>
  The comparisons of the columns with a \<open>sortingFn\<close>; \<open>auto\<close> are the library's for the others. The
  flag \<open>invertSorting\<close> of the duration turns its comparison around.
\<close>

definition history_columns ::
  "(string \<Rightarrow> int option) \<Rightarrow> (string \<Rightarrow> AlertsHistoryRecord column) \<Rightarrow> string \<Rightarrow> AlertsHistoryRecord column" where
  "history_columns parse auto k =
    (if k = ''state'' then (\<lambda>_. True, history_state_cmp)
     else if k = ''duration'' then (\<lambda>_. True, \<lambda>a b. history_duration_cmp parse b a)
     else auto k)"

record HistoryView =
  hv_columns :: "string \<Rightarrow> AlertsHistoryRecord column"
  hv_matches :: "string \<Rightarrow> AlertsHistoryRecord \<Rightarrow> bool"

definition history_view ::
  "(string \<Rightarrow> string) \<Rightarrow> (string \<Rightarrow> string) \<Rightarrow> (string \<Rightarrow> string) \<Rightarrow> (string \<Rightarrow> int option)
    \<Rightarrow> (string \<Rightarrow> AlertsHistoryRecord column) \<Rightarrow> HistoryView" where
  "history_view tr lower shortDate parse auto =
    \<lparr>hv_columns = history_columns parse auto, hv_matches = history_filter tr lower shortDate\<rparr>"

definition history_rows :: "AlertsHistoryRecord TableEngine \<Rightarrow> HistoryView \<Rightarrow> HistoryTable \<Rightarrow> AlertsHistoryRecord row list" where
  "history_rows E V st = row_model E (hv_columns V) (hv_matches V (ht_globalFilter st)) (ht_sorting st) (ht_data st)"

definition history_page :: "AlertsHistoryRecord TableEngine \<Rightarrow> HistoryView \<Rightarrow> HistoryTable \<Rightarrow> AlertsHistoryRecord row list" where
  "history_page E V st = te_page E (ht_pageIndex st) (ht_pageSize st) (history_rows E V st)"

text \<open>The checkbox of a row and the one in the header, for the rows of the page.\<close>

definition select_row :: "AlertsHistoryRecord TableEngine \<Rightarrow> nat \<Rightarrow> bool \<Rightarrow> HistoryTable \<Rightarrow> HistoryTable" where
  "select_row E i v st = st\<lparr>ht_rowSelection := te_toggle E [i] v (ht_rowSelection st)\<rparr>"

definition select_page :: "AlertsHistoryRecord TableEngine \<Rightarrow> HistoryView \<Rightarrow> bool \<Rightarrow> HistoryTable \<Rightarrow> HistoryTable" where
  "select_page E V v st = st\<lparr>ht_rowSelection := te_toggle E (map fst (history_page E V st)) v (ht_rowSelection st)\<rparr>"

datatype Checked = Unchecked | Checked | Indeterminate

definition header_checkbox :: "AlertsHistoryRecord TableEngine \<Rightarrow> HistoryView \<Rightarrow> HistoryTable \<Rightarrow> Checked" where
  "header_checkbox E V st =
    (let page = map fst (history_page E V st) in
     if page \<noteq> [] \<and> list_all (\<lambda>i. i \<in> ht_rowSelection st) page then Checked
     else if list_ex (\<lambda>i. i \<in> ht_rowSelection st) page then Indeterminate else Unchecked)"

text \<open>The selected records, among all rows and among those the search lets through.\<close>

definition selected_rows :: "AlertsHistoryRecord TableEngine \<Rightarrow> HistoryTable \<Rightarrow> AlertsHistoryRecord list" where
  "selected_rows E st = map snd (te_selected E (ht_rowSelection st) (te_core E (ht_data st)))"

definition filtered_selected :: "AlertsHistoryRecord TableEngine \<Rightarrow> HistoryView \<Rightarrow> HistoryTable \<Rightarrow> AlertsHistoryRecord list" where
  "filtered_selected E V st =
    map snd (te_selected E (ht_rowSelection st) (te_filtered E (hv_matches V (ht_globalFilter st)) (te_core E (ht_data st))))"

definition shows_bulk_actions :: "AlertsHistoryRecord TableEngine \<Rightarrow> HistoryView \<Rightarrow> HistoryTable \<Rightarrow> bool" where
  "shows_bulk_actions E V st \<longleftrightarrow> length (filtered_selected E V st) > 0"

text \<open>\<open>n of m row(s) selected.\<close>\<close>

definition selection_text :: "AlertsHistoryRecord TableEngine \<Rightarrow> HistoryView \<Rightarrow> HistoryTable \<Rightarrow> nat \<times> nat" where
  "selection_text E V st =
    (length (filtered_selected E V st), length (te_filtered E (hv_matches V (ht_globalFilter st)) (te_core E (ht_data st))))"

text \<open>\<open>handleBulkDelete\<close> and \<open>handleExportCSV\<close> on the selection.\<close>

definition table_bulk_delete ::
  "AlertsHistoryRecord TableEngine \<Rightarrow> (string \<Rightarrow> string) \<Rightarrow> (nat \<Rightarrow> bool) \<Rightarrow> HistoryTable \<Rightarrow> string list list \<times> HistoryTable" where
  "table_bulk_delete E tr ok st =
    (let (sent, b) = handleBulkDelete tr ok \<lparr>bd_open = ht_deleteOpen st, bd_selected = map ah_id (selected_rows E st), bd_toast = ht_toast st\<rparr>
     in (sent, st\<lparr>ht_deleteOpen := bd_open b, ht_toast := bd_toast b,
                  ht_rowSelection := (if bd_selected b = [] then {} else ht_rowSelection st)\<rparr>))"

definition table_export ::
  "AlertsHistoryRecord TableEngine \<Rightarrow> (string \<Rightarrow> string) \<Rightarrow> (string \<Rightarrow> int option) \<Rightarrow> (string \<Rightarrow> string) \<Rightarrow> (rat \<Rightarrow> string)
    \<Rightarrow> HistoryTable \<Rightarrow> string option" where
  "table_export E tr parse shortDate num st = handleExportCSV tr parse shortDate num (selected_rows E st)"

text \<open>The page buttons and the choice of rows per page.\<close>

definition page_sizes :: "nat list" where
  "page_sizes = [10, 20, 50, 100, 200]"

definition history_pageCount :: "AlertsHistoryRecord TableEngine \<Rightarrow> HistoryView \<Rightarrow> HistoryTable \<Rightarrow> nat" where
  "history_pageCount E V st = te_pageCount E (ht_pageSize st) (length (history_rows E V st))"

definition first_page :: "HistoryTable \<Rightarrow> HistoryTable" where
  "first_page st = st\<lparr>ht_pageIndex := 0\<rparr>"

definition last_page :: "AlertsHistoryRecord TableEngine \<Rightarrow> HistoryView \<Rightarrow> HistoryTable \<Rightarrow> HistoryTable" where
  "last_page E V st = st\<lparr>ht_pageIndex := history_pageCount E V st - 1\<rparr>"

definition page_text :: "AlertsHistoryRecord TableEngine \<Rightarrow> HistoryView \<Rightarrow> HistoryTable \<Rightarrow> nat \<times> nat" where
  "page_text E V st = (ht_pageIndex st + 1, history_pageCount E V st)"

section \<open>Lemmas\<close>

lemma history_selected: "table_engine E \<Longrightarrow> selected_rows E st = nths (ht_data st) (ht_rowSelection st)"
  by (simp add: selected_rows_def table_engine.selected_records)

lemma sent_ids:
  assumes "table_engine E" "table_bulk_delete E tr ok st = (sent, st')" "list_all ok [0..<length sent]"
  shows "concat sent = map ah_id (nths (ht_data st) (ht_rowSelection st)) \<and> ht_rowSelection st' = {}"
proof -
  let ?b = "\<lparr>bd_open = ht_deleteOpen st, bd_selected = map ah_id (selected_rows E st), bd_toast = ht_toast st\<rparr>"
  obtain b where b: "handleBulkDelete tr ok ?b = (sent, b)"
    using assms(2) by (auto simp: table_bulk_delete_def Let_def split: prod.splits)
  obtain fin where loop: "bulk_delete_loop ok 0 [] (bd_selected ?b) = (sent, fin)"
    using b by (auto simp: handleBulkDelete_def split: prod.splits bool.splits)
  have "fin" using bulk_delete_sent(1) [OF loop] assms(3) by simp
  then have "concat sent = map ah_id (selected_rows E st)" "bd_selected b = []"
    using bulk_delete_sent(2) [OF loop] b loop by (auto simp: handleBulkDelete_def)
  then show ?thesis using assms(1,2) b by (auto simp: table_bulk_delete_def history_selected)
qed

lemma nths_single: "i < length xs \<Longrightarrow> nths xs {i} = [xs ! i]"
proof (induction xs arbitrary: i)
  case (Cons x xs)
  show ?case
  proof (cases i)
    case 0
    then show ?thesis by (simp add: nths_Cons)
  next
    case (Suc j)
    moreover have "{n. n = j} = {j}" by blast
    ultimately show ?thesis using Cons by (simp add: nths_Cons)
  qed
qed simp

text \<open>Clicks on rows: each with the row's id and the new state of its box.\<close>

definition click_rows :: "AlertsHistoryRecord TableEngine \<Rightarrow> (nat \<times> bool) list \<Rightarrow> HistoryTable \<Rightarrow> HistoryTable" where
  "click_rows E clicks st = foldl (\<lambda>st c. select_row E (fst c) (snd c) st) st clicks"

definition ticked :: "(nat \<times> bool) list \<Rightarrow> nat \<Rightarrow> bool" where
  "ticked clicks i \<longleftrightarrow> map_of (rev clicks) i = Some True"

lemma click_rows_state:
  assumes "table_engine E" "ht_rowSelection st = {}"
  shows "ht_rowSelection (click_rows E clicks st) = {i. ticked clicks i} \<and> ht_data (click_rows E clicks st) = ht_data st"
proof (induction clicks rule: rev_induct)
  case Nil
  then show ?case by (simp add: click_rows_def ticked_def assms(2))
next
  case (snoc c clicks)
  obtain i v where "c = (i, v)" by fastforce
  with snoc show ?case
    by (auto simp: click_rows_def select_row_def ticked_def table_engine.toggled [OF assms(1)])
qed

section \<open>Properties\<close>

text \<open>
  C19. What is ticked is what is deleted, as long as the list does not change: after any clicks on the
  boxes, on whatever pages and under whatever search, a deletion the hub accepts removes exactly the
  records whose box was last ticked, in the order of the list, and resets the selection.
\<close>

theorem ticked_rows_deleted:
  assumes "table_engine E" "ht_rowSelection st = {}"
    and "table_bulk_delete E tr ok (click_rows E clicks st) = (sent, st')" "list_all ok [0..<length sent]"
  shows "concat sent = map ah_id (nths (ht_data st) {i. ticked clicks i}) \<and> ht_rowSelection st' = {}"
  using sent_ids [OF assms(1,3,4)] click_rows_state [OF assms(1,2)] by simp

definition sample_history_table :: HistoryTable where
  "sample_history_table = history_init\<lparr>ht_data := [sample_history ''a'', sample_history ''b'', sample_history ''c'']\<rparr>"

theorem ticked_rows_deleted_witness:
  "concat (fst (table_bulk_delete reference_engine id (\<lambda>_. True)
     (click_rows reference_engine [(1, True), (2, True), (1, False)] sample_history_table))) = [''c'']"
proof -
  obtain sent st' where r: "table_bulk_delete reference_engine id (\<lambda>_. True)
     (click_rows reference_engine [(1, True), (2, True), (1, False)] sample_history_table) = (sent, st')" by fastforce
  have "{i. ticked [(1, True), (2, True), (1, False)] i} = {2}" by (auto simp: ticked_def)
  then show ?thesis
    using ticked_rows_deleted [OF reference_table.table_engine_axioms _ r] r
    by (simp add: sample_history_table_def history_init_def nths_single list_all_iff) (simp add: sample_history_def)
qed

text \<open>
  C40. The selection is kept by position while the list changes: when a new alert arrives between ticking
  a row and confirming, the deletion removes the record above it, or the new one, and never the
  ticked record.
\<close>

theorem selection_moves_on_create:
  assumes "table_engine E" "i < length (ht_data st)" "ht_rowSelection st = {i}"
    and "distinct (map ah_id (r # ht_data st))"
    and "table_bulk_delete E tr ok (history_message (Create, r) st) = (sent, st')" "list_all ok [0..<length sent]"
  shows "concat sent = [ah_id ((r # ht_data st) ! i)] \<and> ah_id (ht_data st ! i) \<notin> set (concat sent)"
proof -
  have d: "ht_data (history_message (Create, r) st) = r # ht_data st"
    by (simp add: history_message_def history_feed_def)
  have "concat sent = map ah_id (nths (r # ht_data st) {i})"
    using sent_ids [OF assms(1,5,6)] d assms(3) by (simp add: history_message_def)
  then have sent: "concat sent = [ah_id ((r # ht_data st) ! i)]" using assms(2) by (simp add: nths_single)
  have "map ah_id (r # ht_data st) ! i \<noteq> map ah_id (r # ht_data st) ! Suc i"
    using assms(2,4) nth_eq_iff_index_eq [OF assms(4), of i "Suc i"] by simp
  then have "ah_id ((r # ht_data st) ! i) \<noteq> ah_id (ht_data st ! i)"
    using assms(2) nth_map [of i "r # ht_data st" ah_id] nth_map [of "Suc i" "r # ht_data st" ah_id] by simp
  with sent show ?thesis by simp
qed

theorem selection_moves_on_create_witness:
  "concat (fst (table_bulk_delete reference_engine id (\<lambda>_. True)
     (history_message (Create, sample_history ''n'') (sample_history_table\<lparr>ht_rowSelection := {1}\<rparr>)))) = [''a'']"
proof -
  obtain sent st' where r: "table_bulk_delete reference_engine id (\<lambda>_. True)
     (history_message (Create, sample_history ''n'') (sample_history_table\<lparr>ht_rowSelection := {1}\<rparr>)) = (sent, st')" by fastforce
  show ?thesis
    using selection_moves_on_create [OF reference_table.table_engine_axioms _ _ _ r, of 1] r
    by (simp add: sample_history_table_def history_init_def list_all_iff) (simp add: sample_history_def)
qed

text \<open>
  Going through the pages shows every record the search lets through exactly once, whatever the
  chosen number of rows per page and the order.
\<close>

theorem pages_show_every_match:
  assumes "table_engine E" "ht_pageSize st \<in> set page_sizes"
  shows "mset (map snd (concat (map (\<lambda>i. history_page E V (st\<lparr>ht_pageIndex := i\<rparr>)) [0..<history_pageCount E V st])))
    = mset (filter (hv_matches V (ht_globalFilter st)) (ht_data st))"
proof -
  have "0 < ht_pageSize st" using assms(2) by (auto simp: page_sizes_def)
  from table_engine.pages_cover [OF assms(1) this, of "history_rows E V st"]
  have "concat (map (\<lambda>i. history_page E V (st\<lparr>ht_pageIndex := i\<rparr>)) [0..<history_pageCount E V st]) = history_rows E V st"
    by (simp add: history_page_def history_rows_def history_pageCount_def)
  then show ?thesis by (simp add: history_rows_def table_engine.row_model_mset [OF assms(1)] del: mset_map)
qed

text \<open>The deletion also takes selected records that the search hides from the page and the count.\<close>

theorem hidden_rows_deleted:
  assumes "table_engine E" "i < length (ht_data st)" "i \<in> ht_rowSelection st"
    "\<not> hv_matches V (ht_globalFilter st) (ht_data st ! i)"
  shows "ht_data st ! i \<in> set (selected_rows E st) \<and> (i, ht_data st ! i) \<notin> set (history_rows E V st)"
proof
  show "ht_data st ! i \<in> set (selected_rows E st)"
    using assms(2,3) unfolding history_selected [OF assms(1)] set_nths by blast
  show "(i, ht_data st ! i) \<notin> set (history_rows E V st)"
    using assms(4) table_engine.row_model_at [OF assms(1)] unfolding history_rows_def by blast
qed

end
