(* ===== verification/HistoryPage.thy ===== *)
theory HistoryPage
  imports HistoryTable Pages
begin

text \<open>
  The page of the alert history as a component, \<open>AlertsHistoryDataTable\<close> of
  \<^verbatim>\<open>components/routes/settings/alerts-history-data-table.tsx\<close>: every control and what it does, the dialog
  before the deletion, the buttons of the pages and what the page shows. \<open>E\<close> is the table library and
  \<open>V\<close> the table's columns and search.
\<close>

section \<open>Controls\<close>

definition can_previous :: "HistoryTable \<Rightarrow> bool" where
  "can_previous st \<longleftrightarrow> ht_pageIndex st > 0"

definition can_next :: "AlertsHistoryRecord TableEngine \<Rightarrow> HistoryView \<Rightarrow> HistoryTable \<Rightarrow> bool" where
  "can_next E V st \<longleftrightarrow> Suc (ht_pageIndex st) < history_pageCount E V st"

datatype PageButton = ToFirst | ToPrevious | ToNext | ToLast

definition page_button :: "AlertsHistoryRecord TableEngine \<Rightarrow> HistoryView \<Rightarrow> PageButton \<Rightarrow> HistoryTable \<Rightarrow> HistoryTable" where
  "page_button E V b st =
    (case b of
       ToFirst \<Rightarrow> if can_previous st then first_page st else st
     | ToPrevious \<Rightarrow> if can_previous st then st\<lparr>ht_pageIndex := ht_pageIndex st - 1\<rparr> else st
     | ToNext \<Rightarrow> if can_next E V st then st\<lparr>ht_pageIndex := Suc (ht_pageIndex st)\<rparr> else st
     | ToLast \<Rightarrow> if can_next E V st then last_page E V st else st)"

text \<open>Another number of rows per page; \<open>i\<close> is the page the library goes to.\<close>

definition set_page_size :: "nat \<Rightarrow> nat \<Rightarrow> HistoryTable \<Rightarrow> HistoryTable" where
  "set_page_size n i st = (if n \<in> set page_sizes then st\<lparr>ht_pageSize := n, ht_pageIndex := i\<rparr> else st)"

text \<open>The buttons for the selection, and the dialog in their place: rendered only while a shown row is selected.\<close>

definition dialog_shown :: "AlertsHistoryRecord TableEngine \<Rightarrow> HistoryView \<Rightarrow> HistoryTable \<Rightarrow> bool" where
  "dialog_shown E V st \<longleftrightarrow> shows_bulk_actions E V st \<and> ht_deleteOpen st"

record HistoryPage =
  hp_table :: HistoryTable
  hp_sent :: "string list list"
  hp_deletions :: nat
  hp_files :: "string list"

definition history_page_mounted :: HistoryPage where
  "history_page_mounted = \<lparr>hp_table = history_init, hp_sent = [], hp_deletions = 0, hp_files = []\<rparr>"

datatype HistoryEvent =
    TickRow nat bool | TickPage bool | SearchText string | PageClick PageButton | ChoosePageSize nat nat
  | OpenDelete | CancelDelete | ConfirmDeletion "nat list" | ExportClick
  | HistoryLoaded "AlertsHistoryRecord list" | HistoryMessage "PbAction \<times> AlertsHistoryRecord"

definition on_table :: "(HistoryTable \<Rightarrow> HistoryTable) \<Rightarrow> HistoryPage \<Rightarrow> HistoryPage" where
  "on_table g p = p\<lparr>hp_table := g (hp_table p)\<rparr>"

text \<open>Confirming: \<open>failed\<close> are the batches the hub refuses.\<close>

definition confirm_deletion :: "AlertsHistoryRecord TableEngine \<Rightarrow> HistoryView \<Rightarrow> (string \<Rightarrow> string) \<Rightarrow> nat list \<Rightarrow> HistoryPage \<Rightarrow> HistoryPage" where
  "confirm_deletion E V tr failed p =
    (if dialog_shown E V (hp_table p)
     then (let (sent, st) = table_bulk_delete E tr (\<lambda>i. i \<notin> set failed) (hp_table p)
           in p\<lparr>hp_table := st, hp_sent := hp_sent p @ sent, hp_deletions := Suc (hp_deletions p)\<rparr>)
     else p)"

definition export_click :: "AlertsHistoryRecord TableEngine \<Rightarrow> HistoryView \<Rightarrow> (AlertsHistoryRecord list \<Rightarrow> string option) \<Rightarrow> HistoryPage \<Rightarrow> HistoryPage" where
  "export_click E V csv p =
    (if shows_bulk_actions E V (hp_table p)
     then (case csv (selected_rows E (hp_table p)) of None \<Rightarrow> p | Some f \<Rightarrow> p\<lparr>hp_files := hp_files p @ [f]\<rparr>) else p)"

fun history_event :: "AlertsHistoryRecord TableEngine \<Rightarrow> HistoryView \<Rightarrow> (string \<Rightarrow> string) \<Rightarrow> (AlertsHistoryRecord list \<Rightarrow> string option)
    \<Rightarrow> HistoryEvent \<Rightarrow> HistoryPage \<Rightarrow> HistoryPage" where
  "history_event E V tr csv (TickRow i b) p = on_table (select_row E i b) p"
| "history_event E V tr csv (TickPage b) p = on_table (select_page E V b) p"
| "history_event E V tr csv (SearchText s) p = on_table (\<lambda>st. st\<lparr>ht_globalFilter := s\<rparr>) p"
| "history_event E V tr csv (PageClick b) p = on_table (page_button E V b) p"
| "history_event E V tr csv (ChoosePageSize n i) p = on_table (set_page_size n i) p"
| "history_event E V tr csv OpenDelete p =
    on_table (\<lambda>st. if shows_bulk_actions E V st then st\<lparr>ht_deleteOpen := True\<rparr> else st) p"
| "history_event E V tr csv CancelDelete p =
    on_table (\<lambda>st. if dialog_shown E V st then st\<lparr>ht_deleteOpen := False\<rparr> else st) p"
| "history_event E V tr csv (ConfirmDeletion failed) p = confirm_deletion E V tr failed p"
| "history_event E V tr csv ExportClick p = export_click E V csv p"
| "history_event E V tr csv (HistoryLoaded rs) p = on_table (history_loaded rs) p"
| "history_event E V tr csv (HistoryMessage e) p = on_table (history_message e) p"

section \<open>What is shown\<close>

record HistoryPageView =
  hw_intro :: "string list"
  hw_bulk :: "string list option"
  hw_dialog :: "string list option"
  hw_rows :: "(nat \<times> bool \<times> AlertsHistoryRecord) list"
  hw_empty :: "string option"
  hw_selected :: string
  hw_page :: string
  hw_buttons :: "(PageButton \<times> bool) list"

definition AlertsHistoryDataTable :: "AlertsHistoryRecord TableEngine \<Rightarrow> HistoryView \<Rightarrow> (string \<Rightarrow> string) \<Rightarrow> HistoryTable \<Rightarrow> HistoryPageView" where
  "AlertsHistoryDataTable E V tr st =
    (let rows = history_page E V st; (n, m) = selection_text E V st; (i, k) = page_text E V st in
     \<lparr>hw_intro = map tr [''Alert History'', ''View your 200 most recent alerts.''],
      hw_bulk = (if shows_bulk_actions E V st then Some (map tr [''Delete'', ''Export'']) else None),
      hw_dialog = (if dialog_shown E V st
        then Some (map tr [''Are you sure?'', ''This will permanently delete all selected records from the database.'', ''Cancel'', ''Continue'']) else None),
      hw_rows = map (\<lambda>(j, r). (j, j \<in> ht_rowSelection st, r)) rows,
      hw_empty = (if rows = [] then Some (tr ''No results.'') else None),
      hw_selected = tr (show_nat n @ '' of '' @ show_nat m @ '' row(s) selected.''),
      hw_page = tr (''Page '' @ show_nat i @ '' of '' @ show_nat k),
      hw_buttons = [(ToFirst, \<not> can_previous st), (ToPrevious, \<not> can_previous st), (ToNext, \<not> can_next E V st), (ToLast, \<not> can_next E V st)]\<rparr>)"

section \<open>Lemmas\<close>

lemma bulk_delete_closes: "ht_deleteOpen (snd (table_bulk_delete E tr ok st)) = False"
  by (auto simp: table_bulk_delete_def handleBulkDelete_def Let_def split: prod.split bool.split)

lemma on_table_deletions [simp]: "hp_deletions (on_table g p) = hp_deletions p"
  by (simp add: on_table_def)

lemma table_keeps_dialog:
  "ht_deleteOpen (select_row E i b st) = ht_deleteOpen st" "ht_deleteOpen (select_page E V b st) = ht_deleteOpen st"
  "ht_deleteOpen (page_button E V pb st) = ht_deleteOpen st" "ht_deleteOpen (set_page_size n i st) = ht_deleteOpen st"
  "ht_deleteOpen (history_loaded rs st) = ht_deleteOpen st" "ht_deleteOpen (history_message e st) = ht_deleteOpen st"
  by (simp_all add: select_row_def select_page_def page_button_def first_page_def last_page_def set_page_size_def
      history_loaded_def history_message_def split: PageButton.split)

lemma confirm_deletion_counts:
  "hp_deletions (confirm_deletion E V tr f p) + of_bool (ht_deleteOpen (hp_table (confirm_deletion E V tr f p)))
    \<le> hp_deletions p + of_bool (ht_deleteOpen (hp_table p))"
  using bulk_delete_closes [of E tr "\<lambda>i. i \<notin> set f" "hp_table p"]
  by (cases "table_bulk_delete E tr (\<lambda>i. i \<notin> set f) (hp_table p)") (auto simp: confirm_deletion_def dialog_shown_def)

fun is_confirm :: "HistoryEvent \<Rightarrow> bool" where
  "is_confirm (ConfirmDeletion _) = True"
| "is_confirm _ = False"

interpretation history_deletion: guarded_request "history_event E V tr csv" hp_deletions "\<lambda>p. of_bool (ht_deleteOpen (hp_table p))"
  "\<lambda>e. e = OpenDelete" is_confirm for E V tr csv
proof (unfold_locales, goal_cases)
  case (1 e p)
  show ?case
    by (cases e) (auto simp: on_table_def table_keeps_dialog export_click_def confirm_deletion_counts [simplified] split: option.split)
next
  case (2 e p)
  then show ?case by (cases e) (auto simp: export_click_def confirm_deletion_def Let_def split: option.split prod.split)
qed

section \<open>Properties\<close>

text \<open>
  Records are deleted only after the dialog: over every run the deletion is carried out at most once for
  every time the button was used and for every time it was confirmed.
\<close>

theorem history_deletions_confirmed:
  "hp_deletions (run (history_event E V tr csv) es history_page_mounted)
    \<le> min (length (filter (\<lambda>e. e = OpenDelete) es)) (length (filter is_confirm es))"
  using history_deletion.nothing_unasked [of history_page_mounted E V tr csv es] by (simp add: history_page_mounted_def history_init_def)

text \<open>The buttons stay among the pages: from a page there is they lead to a page there is.\<close>

theorem page_buttons_in_range:
  assumes "ht_pageIndex st < history_pageCount E V st"
  shows "ht_pageIndex (page_button E V b st) < history_pageCount E V (page_button E V b st)"
  using assms
  by (auto simp: page_button_def first_page_def last_page_def can_previous_def can_next_def history_pageCount_def history_rows_def
      split: PageButton.split)

text \<open>
  A dialog can come up unasked: when the selected rows go away while it is open it disappears with the
  buttons, but stays open; the next row that is ticked, whichever it is, brings it back.
\<close>

theorem dialog_returns_on_tick:
  assumes "table_engine E" "dialog_shown E V (hp_table p)" "\<not> shows_bulk_actions E V (hp_table (history_event E V tr csv e p))"
    and "e = HistoryLoaded rs \<or> e = HistoryMessage m" "(i, r) \<in> set (history_rows E V (hp_table (history_event E V tr csv e p)))"
  shows "let p' = history_event E V tr csv e p
    in \<not> dialog_shown E V (hp_table p') \<and> dialog_shown E V (hp_table (history_event E V tr csv (TickRow i True) p'))"
proof -
  let ?st = "hp_table (history_event E V tr csv e p)"
  have "ht_deleteOpen ?st" using assms(2,4) by (auto simp: on_table_def table_keeps_dialog dialog_shown_def)
  moreover have i: "i < length (ht_data ?st)" "ht_data ?st ! i = r" "hv_matches V (ht_globalFilter ?st) r"
    using table_engine.row_model_at [OF assms(1)] assms(5) unfolding history_rows_def by blast+
  have "(i, r) \<in> set (te_filtered E (hv_matches V (ht_globalFilter ?st)) (te_core E (ht_data ?st)))"
    using i by (simp add: table_engine.filtered [OF assms(1)] table_engine.core [OF assms(1)] in_set_enumerate_eq)
  then have "shows_bulk_actions E V (select_row E i True ?st)"
    by (force simp: shows_bulk_actions_def filtered_selected_def select_row_def table_engine.selected [OF assms(1)]
        table_engine.toggled [OF assms(1)] filter_empty_conv)
  ultimately show ?thesis using assms(3) by (simp add: dialog_shown_def on_table_def table_keeps_dialog Let_def)
qed

end
