(* ===== verification/Tokens.thy ===== *)
theory Tokens
  imports Feeds Links
begin

text \<open>
  Tokens and fingerprints, \<^verbatim>\<open>components/routes/settings/tokens-fingerprints.tsx\<close>: the list
  sorted by system name and kept in step with the hub, the map of tokens by system, and the
  configuration texts. \<open>cmp\<close> is \<open>localeCompare\<close>.
\<close>

definition sortFingerprints :: "(string \<Rightarrow> string \<Rightarrow> rat) \<Rightarrow> FingerprintRecord list \<Rightarrow> FingerprintRecord list" where
  "sortFingerprints cmp fs = js_sort (\<lambda>a b. cmp (fp_system_name a) (fp_system_name b)) fs"

fun fingerprint_feed ::
  "(string \<Rightarrow> string \<Rightarrow> rat) \<Rightarrow> PbAction \<times> FingerprintRecord \<Rightarrow> FingerprintRecord list \<Rightarrow> FingerprintRecord list" where
  "fingerprint_feed cmp (Create, r) fs = sortFingerprints cmp (fs @ [r])"
| "fingerprint_feed cmp (Update, r) fs = map (\<lambda>f. if fp_id f = fp_id r then r else f) fs"
| "fingerprint_feed cmp (Delete, r) fs = filter (\<lambda>f. fp_id f \<noteq> fp_id r) fs"

text \<open>The effect that records every token under its system.\<close>

definition update_tokenMap :: "FingerprintRecord list \<Rightarrow> tokenMap \<Rightarrow> tokenMap" where
  "update_tokenMap fs m = foldl (\<lambda>m f. dset (fp_system f) (fp_token f) m) m fs"

record UniversalToken =
  ut_token :: string
  ut_loading :: bool
  ut_checked :: bool
  ut_permanent :: bool

definition updateToken :: "string \<times> bool \<times> bool option \<Rightarrow> UniversalToken \<Rightarrow> UniversalToken" where
  "updateToken response st =
    (case response of (token, active, permanent) \<Rightarrow>
      \<lparr>ut_token = token, ut_loading = False, ut_checked = active, ut_permanent = (permanent = Some True)\<rparr>)"

text \<open>\<open>updateFingerprint\<close>: the fields written to the hub; \<open>fresh\<close> is \<open>generateToken()\<close>.\<close>

definition updateFingerprint :: "string \<Rightarrow> FingerprintRecord \<Rightarrow> bool \<Rightarrow> FingerprintRecord" where
  "updateFingerprint fresh f rotateToken =
    f\<lparr>fp_fingerprint := [], fp_token := (if rotateToken then fresh else fp_token f)\<rparr>"

definition envVar :: "string \<Rightarrow> string \<Rightarrow> string" where
  "envVar hubUrl token = ''HUB_URL='' @ hubUrl @ [CHR 0x0A] @ ''TOKEN='' @ token"

definition copyYaml :: "string \<Rightarrow> string \<Rightarrow> string" where
  "copyYaml hubUrl token = replace_all ''='' '': '' (envVar hubUrl token)"

section \<open>Lemmas\<close>

lemma mset_sortFingerprints [simp]: "mset (sortFingerprints cmp fs) = mset fs"
  by (simp add: sortFingerprints_def)

lemma lookup_sortFingerprints:
  "distinct (map fp_id fs) \<Longrightarrow> lookup_by fp_id (sortFingerprints cmp fs) = lookup_by fp_id fs"
  by (rule lookup_by_distinct_perm [symmetric]) simp_all

lemma fingerprint_keyed: "keyed_feed fp_id (\<lambda>_. True) False (fingerprint_feed cmp)"
proof
  fix xs :: "FingerprintRecord list" and r :: FingerprintRecord and k
  assume "distinct (map fp_id xs)" "fp_id r \<notin> set (map fp_id xs)"
  then have "distinct (map fp_id (xs @ [r]))" by simp
  then show "lookup_by fp_id (fingerprint_feed cmp (Create, r) xs) k =
      (if k = fp_id r then (if True then Some r else None) else lookup_by fp_id xs k)"
    using \<open>fp_id r \<notin> set (map fp_id xs)\<close>
    by (simp add: lookup_sortFingerprints lookup_by_append split: option.split)
next
  fix xs :: "FingerprintRecord list" and e :: "PbAction \<times> FingerprintRecord"
  assume a: "distinct (map fp_id xs)" "fst e = Create \<longrightarrow> fp_id (snd e) \<notin> set (map fp_id xs)"
  obtain b r where e: "e = (b, r)" by fastforce
  have "mset (map fp_id (sortFingerprints cmp (xs @ [r]))) = mset (map fp_id (xs @ [r]))"
    unfolding mset_map mset_sortFingerprints ..
  then have "distinct (map fp_id (sortFingerprints cmp (xs @ [r]))) = distinct (map fp_id (xs @ [r]))"
    by (rule mset_eq_imp_distinct_iff)
  then show "distinct (map fp_id (fingerprint_feed cmp e xs))"
    using a by (cases b) (simp_all add: e map_key_update distinct_map_filter del: map_map)
qed (simp_all only: fingerprint_feed.simps lookup_by_map_update lookup_by_filter, auto)

text \<open>Provided for any comparison of names; \<open>str_cmp\<close> stands for one here.\<close>

interpretation fingerprints: keyed_feed fp_id "\<lambda>_. True" False "fingerprint_feed str_cmp"
  by (rule fingerprint_keyed)

lemma update_tokenMap_get:
  "dget (update_tokenMap fs m) s =
     (case find (\<lambda>f. fp_system f = s) (rev fs) of None \<Rightarrow> dget m s | Some f \<Rightarrow> Some (fp_token f))"
  unfolding update_tokenMap_def
  by (induction fs rule: rev_induct) (auto simp del: map_of_eq_Some_iff map_of_eq_None_iff)

lemma replace_all_append_char:
  "replace_all [c] r (s @ t) = replace_all [c] r s @ replace_all [c] r t"
  by (induction s) auto

section \<open>Properties\<close>

text \<open>
  Creating a fingerprint keeps the list sorted by system name and adds exactly that record:
  when name comparison is a total preorder, the new list is a permutation of the old one with the
  record added, in order.
\<close>

theorem fingerprints_sorted_on_create:
  assumes "comparator cmp UNIV"
  shows "mset (fingerprint_feed cmp (Create, r) fs) = add_mset r (mset fs)
    \<and> sorted_wrt (\<lambda>a b. cmp (fp_system_name a) (fp_system_name b) \<le> 0) (fingerprint_feed cmp (Create, r) fs)"
proof -
  have "comparator (\<lambda>a b. cmp (fp_system_name a) (fp_system_name b)) UNIV"
    using assms unfolding comparator_def by blast
  from comparator.sorted_js_sort [OF this, of "fs @ [r]"] show ?thesis
    by (simp add: sortFingerprints_def)
qed

definition sample_fp :: "string \<Rightarrow> string \<Rightarrow> FingerprintRecord" where
  "sample_fp k n = \<lparr>fp_id = k, fp_system = k, fp_fingerprint = ''f'', fp_token = ''t'', fp_system_name = n\<rparr>"

theorem fingerprints_sorted_on_create_witness:
  "sorted_wrt (\<lambda>a b. str_cmp (fp_system_name a) (fp_system_name b) \<le> 0)
     (fingerprint_feed str_cmp (Create, sample_fp ''1'' ''a'') [sample_fp ''2'' ''b''])"
  using fingerprints_sorted_on_create [OF string_order.comparator_axioms] by blast

lemma copyYaml_plain:
  assumes "CHR ''='' \<notin> set hubUrl" "CHR ''='' \<notin> set token"
  shows "copyYaml hubUrl token = ''HUB_URL: '' @ hubUrl @ [CHR 0x0A] @ ''TOKEN: '' @ token"
proof -
  have none: "replace_all ''='' r s = s" if "CHR ''='' \<notin> set s" for r s
    using that by (induction s) auto
  show ?thesis
    unfolding copyYaml_def envVar_def replace_all_append_char none [OF assms(1)] none [OF assms(2)] by simp
qed

end
