(* ===== verification/Router.thy ===== *)
theory Router
  imports Stores
begin

text \<open>
  \<^verbatim>\<open>components/router.tsx\<close>: the routes under the base path the hub is served from, and what a
  click on a link does. The router itself is a library.
\<close>

definition routes :: "(string, string) dict" where
  "routes = [(''home'', ''/''), (''containers'', ''/containers''), (''smart'', ''/smart''), (''system'', ''/system/:id''),
     (''settings'', ''/settings/:name?''), (''forgot_password'', ''/forgot-password''), (''request_otp'', ''/request-otp'')]"

definition basePath :: "string option \<Rightarrow> string" where
  "basePath BASE_PATH = (case BASE_PATH of None \<Rightarrow> [] | Some p \<Rightarrow> p)"

definition prependBasePath :: "string \<Rightarrow> string \<Rightarrow> string" where
  "prependBasePath base path = replace_all ''//'' ''/'' (base @ path)"

definition based_routes :: "string \<Rightarrow> (string, string) dict" where
  "based_routes base = map (\<lambda>(k, p). (k, prependBasePath base p)) routes"

datatype LinkAction = OpenWindow string | Navigate string

text \<open>A click: a new window with the control or meta key, else the router and the link's own handler.\<close>

definition Link_onClick :: "bool \<Rightarrow> bool \<Rightarrow> string option \<Rightarrow> LinkAction \<times> bool" where
  "Link_onClick ctrlKey metaKey href_prop =
    (let href = (case href_prop of None \<Rightarrow> [] | Some h \<Rightarrow> h)
     in if ctrlKey \<or> metaKey then (OpenWindow href, False) else (Navigate href, True))"

section \<open>Lemmas\<close>

text \<open>No two slashes in a row.\<close>

fun no_double_slash :: "string \<Rightarrow> bool" where
  "no_double_slash (a # b # s) = (\<not> (a = CHR ''/'' \<and> b = CHR ''/'') \<and> no_double_slash (b # s))"
| "no_double_slash s = True"

lemma replace_slashes_id: "no_double_slash s \<Longrightarrow> replace_all ''//'' ''/'' s = s"
  by (induction s rule: no_double_slash.induct) (auto simp: replace_all.simps)

lemma no_double_slash_tl: "no_double_slash (c # s) \<Longrightarrow> no_double_slash s"
  by (cases s) auto

lemma replace_slashes_join:
  assumes "no_double_slash a" "no_double_slash (CHR ''/'' # p)"
  shows "replace_all ''//'' ''/'' (a @ CHR ''/'' # p) = (if a \<noteq> [] \<and> last a = CHR ''/'' then a @ p else a @ CHR ''/'' # p)"
  using assms(1)
proof (induction a)
  case Nil
  then show ?case using replace_slashes_id [OF assms(2)] by (simp del: replace_all.simps)
next
  case (Cons c a)
  note p = no_double_slash_tl [OF assms(2)]
  show ?case
  proof (cases a)
    case Nil
    then show ?thesis using assms(2) replace_slashes_id [of p] p replace_slashes_id [OF assms(2)]
      by (auto simp: replace_all.simps)
  next
    case (Cons d b)
    then show ?thesis using Cons.IH Cons.prems by (auto simp: replace_all.simps)
  qed
qed

lemma no_double_slash_append:
  "no_double_slash a \<Longrightarrow> no_double_slash b \<Longrightarrow> (a \<noteq> [] \<Longrightarrow> b \<noteq> [] \<Longrightarrow> last a = CHR ''/'' \<Longrightarrow> hd b \<noteq> CHR ''/'') \<Longrightarrow> no_double_slash (a @ b)"
  by (induction a rule: no_double_slash.induct) (auto, cases b, auto)

lemma prependBasePath_eq:
  assumes "no_double_slash base" "no_double_slash (CHR ''/'' # p)"
  shows "prependBasePath base (CHR ''/'' # p) = (if base \<noteq> [] \<and> last base = CHR ''/'' then base @ p else base @ CHR ''/'' # p)"
  unfolding prependBasePath_def by (rule replace_slashes_join [OF assms])

lemma no_double_slash_prepend:
  assumes "no_double_slash base" "no_double_slash (CHR ''/'' # p)"
  shows "no_double_slash (prependBasePath base (CHR ''/'' # p))"
proof -
  have "p \<noteq> [] \<Longrightarrow> hd p \<noteq> CHR ''/''" using assms(2) by (cases p) auto
  then show ?thesis
    using assms no_double_slash_tl [OF assms(2)]
    by (auto simp: prependBasePath_eq intro!: no_double_slash_append)
qed

lemma routes_paths: "(k, path) \<in> set routes \<Longrightarrow> \<exists>p. path = CHR ''/'' # p \<and> no_double_slash path"
  unfolding routes_def by auto

section \<open>Properties\<close>

text \<open>
  Under a base path without double slashes, with or without a slash at its end, every route is the
  base path followed by the route with a single slash between them; no route has a double slash, and
  different pages keep different routes.
\<close>

theorem routes_under_base_path:
  assumes "no_double_slash base" "(k, path) \<in> set routes"
  shows "dget (based_routes base) k \<noteq> None
    \<and> no_double_slash (prependBasePath base path)
    \<and> prependBasePath base path = (if base \<noteq> [] \<and> last base = CHR ''/'' then base @ tl path else base @ path)
    \<and> (\<forall>(k', path')\<in>set routes. prependBasePath base path' = prependBasePath base path \<longrightarrow> path' = path)"
proof (intro conjI)
  obtain p where p: "path = CHR ''/'' # p" "no_double_slash path" using routes_paths [OF assms(2)] by blast
  show "no_double_slash (prependBasePath base path)" using no_double_slash_prepend [OF assms(1)] p by simp
  show eq: "prependBasePath base path = (if base \<noteq> [] \<and> last base = CHR ''/'' then base @ tl path else base @ path)"
    using prependBasePath_eq [OF assms(1)] p by simp
  show "dget (based_routes base) k \<noteq> None"
  proof -
    have "dkeys (based_routes base) = dkeys routes" by (simp add: based_routes_def split_beta)
    moreover have "k \<in> set (dkeys routes)" using assms(2) by force
    ultimately show ?thesis using dget_Some_iff_dkeys [of "based_routes base" k] by simp
  qed
  show "\<forall>(k', path')\<in>set routes. prependBasePath base path' = prependBasePath base path \<longrightarrow> path' = path"
  proof safe
    fix k' path' assume *: "(k', path') \<in> set routes" "prependBasePath base path' = prependBasePath base path"
    then obtain p' where p': "path' = CHR ''/'' # p'" "no_double_slash path'" using routes_paths by blast
    with * p eq prependBasePath_eq [OF assms(1), of p'] show "path' = path" by (simp split: if_splits)
  qed
qed

theorem routes_under_base_path_witness: "prependBasePath ''/beszel/'' ''/smart'' = ''/beszel/smart''"
  using routes_under_base_path [of "''/beszel/''" "''smart''" "''/smart''"] by (simp add: routes_def del: replace_all.simps)

end
