(* ===== verification/AddSystem.thy ===== *)
theory AddSystem
  imports Links Router Pages
begin

text \<open>
  Adding and editing a system, \<^verbatim>\<open>components/add-system.tsx\<close>, and the texts to install its
  agent, \<^verbatim>\<open>components/install-dropdowns.tsx\<close>. \<open>nextSystemToken\<close>, a variable of the module,
  \<open>tokenMap\<close> and the hub's tables are part of the state, and so are the submissions under way: a submission sends two
  requests one after the other, and the dialog, which closes at once, can be used again before they are answered.
\<close>

section \<open>Install commands\<close>

definition getScriptUrl :: "string \<Rightarrow> string" where
  "getScriptUrl path = ''https://get.beszel.dev'' @ path"

definition AGENT_IMAGE :: string where "AGENT_IMAGE = ''henrygd/beszel-agent''"

definition port_or_default :: "string option \<Rightarrow> string" where
  "port_or_default port = (case port of None \<Rightarrow> ''45876'' | Some p \<Rightarrow> p)"

definition nl :: string where "nl = [CHR 0x0A]"

text \<open>The text of each command, with the hub's URL as an argument.\<close>

definition dockerCompose :: "string option \<Rightarrow> string \<Rightarrow> string \<Rightarrow> string \<Rightarrow> string" where
  "dockerCompose port publicKey token hubURL =
    join nl
     [''services:'',
      ''  beszel-agent:'',
      ''    image: '' @ AGENT_IMAGE,
      ''    container_name: beszel-agent'',
      ''    restart: unless-stopped'',
      ''    network_mode: host'',
      ''    volumes:'',
      ''      - /var/run/docker.sock:/var/run/docker.sock:ro'',
      ''      - ./beszel_agent_data:/var/lib/beszel-agent'',
      ''      # monitor other disks / partitions by mounting a folder in /extra-filesystems'',
      ''      # - /mnt/disk/.beszel:/extra-filesystems/sda1:ro'',
      ''    environment:'',
      ''      LISTEN: '' @ port_or_default port,
      ''      KEY: '' @ [CHR 0x27] @ publicKey @ [CHR 0x27],
      ''      TOKEN: '' @ token,
      ''      HUB_URL: '' @ hubURL]"

definition quoted :: "string \<Rightarrow> string" where "quoted s = [CHR 0x22] @ s @ [CHR 0x22]"

definition dockerRun :: "string option \<Rightarrow> string \<Rightarrow> string \<Rightarrow> string \<Rightarrow> string" where
  "dockerRun port publicKey token hubURL =
    ''docker run -d --name beszel-agent --network host --restart unless-stopped -v /var/run/docker.sock:/var/run/docker.sock:ro -v ./beszel_agent_data:/var/lib/beszel-agent -e KEY=''
    @ quoted publicKey @ '' -e LISTEN='' @ port_or_default port @ '' -e TOKEN='' @ quoted token @ '' -e HUB_URL='' @ quoted hubURL @ '' '' @ AGENT_IMAGE"

definition agent_arguments :: "string option \<Rightarrow> string \<Rightarrow> string \<Rightarrow> string \<Rightarrow> string" where
  "agent_arguments port publicKey token hubURL =
    ''-p '' @ port_or_default port @ '' -k '' @ quoted publicKey @ '' -t '' @ quoted token @ '' -url '' @ quoted hubURL"

definition linuxCommand :: "string option \<Rightarrow> string \<Rightarrow> string \<Rightarrow> bool \<Rightarrow> string \<Rightarrow> string" where
  "linuxCommand port publicKey token brew hubURL =
    ''curl -sL '' @ (if brew then getScriptUrl ''/brew'' else hubURL @ ''/install-agent.sh'')
    @ '' -o /tmp/install-agent.sh && chmod +x /tmp/install-agent.sh && /tmp/install-agent.sh '' @ agent_arguments port publicKey token hubURL"

definition windowsCommand :: "string option \<Rightarrow> string \<Rightarrow> string \<Rightarrow> string \<Rightarrow> string" where
  "windowsCommand port publicKey token hubURL =
    ''& iwr -useb '' @ getScriptUrl [] @ '' -OutFile '' @ quoted (''$env:TEMP'' @ [CHR 0x5C] @ ''install-agent.ps1'')
    @ ''; & Powershell -ExecutionPolicy Bypass -File '' @ quoted (''$env:TEMP'' @ [CHR 0x5C] @ ''install-agent.ps1'')
    @ '' -Key '' @ quoted publicKey @ '' -Port '' @ port_or_default port @ '' -Token '' @ quoted token @ '' -Url '' @ quoted hubURL"

section \<open>The dialog\<close>

text \<open>The hub's tables as far as the dialog writes them.\<close>

record SystemRow =
  row_id :: string
  row_name :: string
  row_host :: string
  row_port :: string
  row_users :: string
  row_status :: "SystemStatus option"

record HubTables =
  ht_systems :: "SystemRow list"
  ht_fingerprints :: "(string \<times> string) list"

record SystemForm =
  sf_name :: string
  sf_host :: string
  sf_port :: string
  sf_addToQuickLinks :: bool
  sf_local :: string
  sf_domain :: string
  sf_category :: string

text \<open>A submission under way: its form, the token shown when it was made, and the id of its system once it was created.\<close>

record Submission =
  sm_form :: SystemForm
  sm_token :: string
  sm_system :: "string option"

record DialogState =
  ds_nextSystemToken :: "string option"
  ds_tokenMap :: tokenMap
  ds_token :: string
  ds_hub :: HubTables
  ds_quickLinks :: "QuickLink list"
  ds_page :: "string option"
  ds_open :: bool
  ds_submissions :: "Submission list"

text \<open>
  The effect that fills in the token: a new system gets the module's next token, made with
  \<open>gen\<close> when there is none; an existing one its own, from the map or from the hub (\<open>fetched\<close>,
  \<open>None\<close> when the request fails).
\<close>

definition token_effect :: "string \<Rightarrow> string option \<Rightarrow> string option \<Rightarrow> DialogState \<Rightarrow> DialogState" where
  "token_effect gen system fetched ds =
    (case system of
       None \<Rightarrow>
         (let t = (case ds_nextSystemToken ds of Some t \<Rightarrow> if t = [] then gen else t | None \<Rightarrow> gen)
          in ds\<lparr>ds_nextSystemToken := Some t, ds_token := t\<rparr>)
     | Some sid \<Rightarrow>
         (case dget (ds_tokenMap ds) sid of
            Some t \<Rightarrow> ds\<lparr>ds_token := t\<rparr>
          | None \<Rightarrow> (case fetched of None \<Rightarrow> ds | Some t \<Rightarrow> ds\<lparr>ds_tokenMap := dset sid t (ds_tokenMap ds), ds_token := t\<rparr>)))"

definition form_row :: "string \<Rightarrow> string \<Rightarrow> SystemStatus option \<Rightarrow> SystemForm \<Rightarrow> SystemRow" where
  "form_row k user status f = \<lparr>row_id = k, row_name = sf_name f, row_host = sf_host f, row_port = sf_port f,
     row_users = user, row_status = status\<rparr>"

text \<open>
  Submitting an edit closes the dialog, updates the row and marks it pending.
\<close>

definition handleSubmit_edit :: "string \<Rightarrow> bool \<Rightarrow> string \<Rightarrow> string \<Rightarrow> SystemForm \<Rightarrow> DialogState \<Rightarrow> DialogState" where
  "handleSubmit_edit base ok user sid f ds =
    (if ok
     then ds\<lparr>ds_hub := (ds_hub ds)\<lparr>ht_systems :=
               map (\<lambda>r. if row_id r = sid then form_row sid user (Some Pending) f else r) (ht_systems (ds_hub ds))\<rparr>,
             ds_page := Some base, ds_open := False\<rparr>
     else ds\<lparr>ds_open := False\<rparr>)"

text \<open>
  Submitting a new system closes the dialog and asks the hub to create it. Then, with the id the hub gave (\<open>None\<close> when it
  refused), the fingerprint is stored with the token of the submission; then the quick link is added and the next token is
  forgotten. A failing request ends the submission there. The store takes the quick link at once, whatever becomes of the
  request that saves it (\<open>saveQuickLinks\<close>).
\<close>

definition submit_add :: "SystemForm \<Rightarrow> DialogState \<Rightarrow> DialogState" where
  "submit_add f ds = ds\<lparr>ds_open := False, ds_submissions := ds_submissions ds @ [\<lparr>sm_form = f, sm_token = ds_token ds, sm_system = None\<rparr>]\<rparr>"

definition system_created :: "string \<Rightarrow> nat \<Rightarrow> string option \<Rightarrow> DialogState \<Rightarrow> DialogState" where
  "system_created user i created ds =
    (if i \<ge> length (ds_submissions ds) \<or> sm_system (ds_submissions ds ! i) \<noteq> None then ds
     else case created of
       None \<Rightarrow> ds\<lparr>ds_submissions := drop_at i (ds_submissions ds)\<rparr>
     | Some sid \<Rightarrow>
         ds\<lparr>ds_hub := (ds_hub ds)\<lparr>ht_systems := ht_systems (ds_hub ds) @ [form_row sid user None (sm_form (ds_submissions ds ! i))]\<rparr>,
            ds_submissions := (ds_submissions ds)[i := (ds_submissions ds ! i)\<lparr>sm_system := Some sid\<rparr>]\<rparr>)"

definition new_link :: "string \<Rightarrow> SystemForm \<Rightarrow> QuickLink list" where
  "new_link sid f =
    (if sf_addToQuickLinks f
     then [\<lparr>ql_id = sid, ql_name = sf_name f, ql_localUrl = sf_local f, ql_domainUrl = sf_domain f, ql_category = Some (sf_category f)\<rparr>]
     else [])"

definition fingerprint_stored :: "string \<Rightarrow> nat \<Rightarrow> bool \<Rightarrow> DialogState \<Rightarrow> DialogState" where
  "fingerprint_stored base i ok ds =
    (if i \<ge> length (ds_submissions ds) then ds
     else let m = ds_submissions ds ! i; ds1 = ds\<lparr>ds_submissions := drop_at i (ds_submissions ds)\<rparr> in
       case sm_system m of
         None \<Rightarrow> ds
       | Some sid \<Rightarrow>
           if \<not> ok then ds1
           else ds1\<lparr>ds_hub := (ds_hub ds1)\<lparr>ht_fingerprints := ht_fingerprints (ds_hub ds1) @ [(sid, sm_token m)]\<rparr>,
                    ds_quickLinks := ds_quickLinks ds1 @ new_link sid (sm_form m),
                    ds_nextSystemToken := None, ds_page := Some base\<rparr>)"

text \<open>The whole of a submission when nothing else happens before it is answered.\<close>

definition handleSubmit_add :: "string \<Rightarrow> string option \<Rightarrow> bool \<Rightarrow> string \<Rightarrow> SystemForm \<Rightarrow> DialogState \<Rightarrow> DialogState" where
  "handleSubmit_add base created fpOk user f ds =
    (let i = length (ds_submissions ds) in fingerprint_stored base i fpOk (system_created user i created (submit_add f ds)))"

text \<open>
  Events of the dialog for a new system. It is opened and closed; it is rendered again, for whatever reason; the form is
  submitted while it is open; answers come. Opening and rendering run the effect with \<open>gen\<close> the token that
  \<open>generateToken\<close> would make.
\<close>

datatype DialogEvent = OpenDialog string | RenderDialog string | CloseDialog | SubmitDialog SystemForm
  | CreateAnswer nat "string option" | FingerprintAnswer nat bool

fun dialog_event :: "string \<Rightarrow> string \<Rightarrow> DialogEvent \<Rightarrow> DialogState \<Rightarrow> DialogState" where
  "dialog_event base user (OpenDialog gen) ds = token_effect gen None None (ds\<lparr>ds_open := True\<rparr>)"
| "dialog_event base user (RenderDialog gen) ds = token_effect gen None None ds"
| "dialog_event base user CloseDialog ds = ds\<lparr>ds_open := False\<rparr>"
| "dialog_event base user (SubmitDialog f) ds = (if ds_open ds then submit_add f ds else ds)"
| "dialog_event base user (CreateAnswer i created) ds = system_created user i created ds"
| "dialog_event base user (FingerprintAnswer i ok) ds = fingerprint_stored base i ok ds"

definition isUnixSocket :: "string \<Rightarrow> bool" where
  "isUnixSocket hostValue = prefix ''/'' hostValue"

text \<open>The address the install texts listen on.\<close>

definition listen_address :: "string \<Rightarrow> string option \<Rightarrow> string option" where
  "listen_address hostValue port = (if isUnixSocket hostValue then Some hostValue else port)"

section \<open>Lemmas\<close>

lemma handleSubmit_add_eq:
  "handleSubmit_add base created fpOk user f ds =
    (case created of
       None \<Rightarrow> ds\<lparr>ds_open := False\<rparr>
     | Some sid \<Rightarrow>
         (let ds1 = ds\<lparr>ds_open := False, ds_hub := (ds_hub ds)\<lparr>ht_systems := ht_systems (ds_hub ds) @ [form_row sid user None f]\<rparr>\<rparr>
          in if \<not> fpOk then ds1
             else ds1\<lparr>ds_hub := (ds_hub ds1)\<lparr>ht_fingerprints := ht_fingerprints (ds_hub ds1) @ [(sid, ds_token ds)]\<rparr>,
                      ds_quickLinks := ds_quickLinks ds1 @ new_link sid f, ds_nextSystemToken := None, ds_page := Some base\<rparr>))"
  by (cases ds; cases created)
    (simp_all add: handleSubmit_add_def submit_add_def system_created_def fingerprint_stored_def nth_append Let_def)

definition fp_tokens :: "DialogState \<Rightarrow> string list" where
  "fp_tokens ds = map snd (ht_fingerprints (ds_hub ds))"

text \<open>
  Submissions one after another: the generated tokens are new and the dialog is opened only when no submission is under way.
\<close>

definition new_token :: "string \<Rightarrow> DialogState \<Rightarrow> bool" where
  "new_token g ds \<longleftrightarrow> g \<noteq> [] \<and> g \<notin> set (fp_tokens ds)"

definition one_submission :: "DialogEvent \<Rightarrow> DialogState \<Rightarrow> bool" where
  "one_submission e ds =
    (case e of OpenDialog g \<Rightarrow> new_token g ds \<and> ds_submissions ds = [] | RenderDialog g \<Rightarrow> new_token g ds | _ \<Rightarrow> True)"

definition dialog_start :: "DialogState \<Rightarrow> bool" where
  "dialog_start ds \<longleftrightarrow> distinct (fp_tokens ds) \<and> ds_nextSystemToken ds = None \<and> \<not> ds_open ds \<and> ds_submissions ds = []"

definition tokens_inv :: "DialogState \<Rightarrow> bool" where
  "tokens_inv ds \<longleftrightarrow> distinct (fp_tokens ds)
     \<and> (\<forall>t. ds_nextSystemToken ds = Some t \<longrightarrow> t \<noteq> [] \<and> t \<notin> set (fp_tokens ds))
     \<and> (ds_open ds \<longrightarrow> ds_nextSystemToken ds = Some (ds_token ds) \<and> ds_submissions ds = [])
     \<and> (ds_submissions ds = [] \<or> (\<exists>m. ds_submissions ds = [m] \<and> ds_nextSystemToken ds = Some (sm_token m)))"

lemma token_effect_new:
  "ds_nextSystemToken (token_effect gen None r ds) = Some (ds_token (token_effect gen None r ds))"
  "ds_token (token_effect gen None r ds) =
     (case ds_nextSystemToken ds of Some t \<Rightarrow> if t = [] then gen else t | None \<Rightarrow> gen)"
  "ds_hub (token_effect gen None r ds) = ds_hub ds" "ds_open (token_effect gen None r ds) = ds_open ds"
  "ds_submissions (token_effect gen None r ds) = ds_submissions ds"
  by (simp_all add: token_effect_def Let_def)

lemma fp_tokens_effect [simp]: "fp_tokens (token_effect gen None r ds) = fp_tokens ds" "fp_tokens (ds\<lparr>ds_open := b\<rparr>) = fp_tokens ds"
  by (simp_all add: fp_tokens_def token_effect_new)

lemma tokens_inv_effect:
  assumes "tokens_inv ds" "new_token g ds" "b \<longrightarrow> ds_open ds \<or> ds_submissions ds = []"
  shows "tokens_inv (token_effect g None None (ds\<lparr>ds_open := b\<rparr>))"
proof (cases "ds_nextSystemToken ds")
  case None
  then have "ds_submissions ds = []" using assms(1) by (auto simp: tokens_inv_def)
  with None assms show ?thesis by (auto simp: tokens_inv_def token_effect_new new_token_def)
next
  case (Some t)
  then have "t \<noteq> []" "t \<notin> set (fp_tokens ds)" using assms(1) by (auto simp: tokens_inv_def)
  with Some assms show ?thesis by (auto simp: tokens_inv_def token_effect_new)
qed

lemma tokens_inv_created: "tokens_inv ds \<Longrightarrow> tokens_inv (system_created user i created ds)"
  by (cases i) (auto simp: tokens_inv_def system_created_def fp_tokens_def drop_at_def split: option.split)

lemma tokens_inv_stored: "tokens_inv ds \<Longrightarrow> tokens_inv (fingerprint_stored base i ok ds)"
  by (cases i) (auto simp: tokens_inv_def fingerprint_stored_def fp_tokens_def drop_at_def Let_def split: option.split, force)

lemma tokens_inv_submit: "tokens_inv ds \<Longrightarrow> ds_open ds \<Longrightarrow> tokens_inv (submit_add f ds)"
  by (auto simp: tokens_inv_def submit_add_def fp_tokens_def)

interpretation add_dialog: session_page "dialog_event base user" one_submission dialog_start tokens_inv for base user
proof (unfold_locales, goal_cases)
  case (1 ds)
  then show ?case by (simp add: tokens_inv_def dialog_start_def)
next
  case (2 ds e)
  show ?case
  proof (cases e)
    case (OpenDialog g)
    with 2 show ?thesis using tokens_inv_effect [of ds g True] by (simp add: one_submission_def)
  next
    case (RenderDialog g)
    with 2 show ?thesis using tokens_inv_effect [of ds g "ds_open ds"] by (simp add: one_submission_def)
  next
    case CloseDialog
    with 2 show ?thesis by (auto simp: tokens_inv_def)
  qed (use 2 in \<open>simp_all add: tokens_inv_submit tokens_inv_created tokens_inv_stored\<close>)
qed

section \<open>Properties\<close>

text \<open>
  C27. Systems added one after another get tokens of their own: in every session in which the dialog is opened only when no
  submission is under way and the generator makes new tokens, however often it is opened, rendered, closed and submitted and whatever
  requests fail, no two fingerprints have the same token, and the token that an open dialog shows is not in use. A token is kept over
  a failure and shown by the next dialog; after a success the next dialog shows a new one.
\<close>

theorem system_tokens_distinct:
  assumes "session (dialog_event base user) one_submission dialog_start ds"
  shows "distinct (fp_tokens ds) \<and> (ds_open ds \<longrightarrow> ds_token ds \<notin> set (fp_tokens ds))
    \<and> (\<forall>m g. ds_submissions ds = [m] \<longrightarrow>
         (let shown = (\<lambda>ds'. ds_token (dialog_event base user (OpenDialog g) ds')) in
          (sm_system m = None \<longrightarrow> shown (dialog_event base user (CreateAnswer 0 None) ds) = sm_token m)
          \<and> (sm_system m \<noteq> None \<longrightarrow> shown (dialog_event base user (FingerprintAnswer 0 False) ds) = sm_token m
               \<and> shown (dialog_event base user (FingerprintAnswer 0 True) ds) = g)))"
proof -
  have inv: "tokens_inv ds" by (rule add_dialog.session_inv [OF assms])
  moreover have "ds_nextSystemToken ds = Some (sm_token m)" "sm_token m \<noteq> []" if "ds_submissions ds = [m]" for m
    using inv that by (auto simp: tokens_inv_def)
  ultimately show ?thesis
    by (auto simp: tokens_inv_def token_effect_new system_created_def fingerprint_stored_def Let_def)
qed

definition sample_dialog :: DialogState where
  "sample_dialog = \<lparr>ds_nextSystemToken = None, ds_tokenMap = [], ds_token = [],
     ds_hub = \<lparr>ht_systems = [], ht_fingerprints = []\<rparr>, ds_quickLinks = [], ds_page = None, ds_open = False, ds_submissions = []\<rparr>"

definition sample_form :: SystemForm where
  "sample_form = \<lparr>sf_name = ''web'', sf_host = ''h'', sf_port = ''45876'', sf_addToQuickLinks = False, sf_local = [], sf_domain = [], sf_category = []\<rparr>"

definition sample_additions :: DialogState where
  "sample_additions = run (dialog_event ''/'' ''u'')
     [OpenDialog ''t1'', SubmitDialog sample_form, CreateAnswer 0 (Some ''a''), FingerprintAnswer 0 False,
      OpenDialog ''t2'', SubmitDialog sample_form, CreateAnswer 0 (Some ''b''), FingerprintAnswer 0 True,
      OpenDialog ''t3'', SubmitDialog sample_form, CreateAnswer 0 (Some ''c''), FingerprintAnswer 0 True] sample_dialog"

lemmas dialog_defs = token_effect_def submit_add_def system_created_def fingerprint_stored_def new_link_def drop_at_def fp_tokens_def Let_def

theorem system_tokens_distinct_witness:
  "fp_tokens sample_additions = [''t1'', ''t3''] \<and> distinct (fp_tokens sample_additions)"
proof -
  have "session (dialog_event ''/'' ''u'') one_submission dialog_start sample_additions"
    unfolding sample_additions_def run_simps
    by (intro session.event, rule session.start)
      (simp_all add: dialog_start_def one_submission_def new_token_def sample_dialog_def sample_form_def dialog_defs)
  moreover have "fp_tokens sample_additions = [''t1'', ''t3'']"
    by (simp add: sample_additions_def sample_dialog_def sample_form_def dialog_defs)
  ultimately show ?thesis using system_tokens_distinct [of "''/''" "''u''" sample_additions] by blast
qed

text \<open>
  Systems added while another is being added share its token: when the dialog is opened again and submitted before the first
  submission is answered, both systems are stored with the same token.
\<close>

theorem overlapping_submissions_share_token:
  assumes "ds_nextSystemToken ds = None" "ds_submissions ds = []" "g \<noteq> []"
  shows "let ds' = run (dialog_event base user) [OpenDialog g, SubmitDialog f, OpenDialog g', SubmitDialog f',
      CreateAnswer 0 (Some a), FingerprintAnswer 0 True, CreateAnswer 0 (Some b), FingerprintAnswer 0 True] ds
    in ht_fingerprints (ds_hub ds') = ht_fingerprints (ds_hub ds) @ [(a, g), (b, g)]"
  using assms by (simp add: dialog_defs)

text \<open>
  If the fingerprint cannot be stored, the system is left behind without one, and submitting the
  form again creates a second system of the same name.
\<close>

theorem failed_fingerprint_leaves_system:
  "let once = handleSubmit_add base (Some a) False user f ds; twice = handleSubmit_add base (Some b) True user f once
   in ht_fingerprints (ds_hub once) = ht_fingerprints (ds_hub ds)
    \<and> map row_name (ht_systems (ds_hub twice)) = map row_name (ht_systems (ds_hub ds)) @ [sf_name f, sf_name f]
    \<and> ht_fingerprints (ds_hub twice) = ht_fingerprints (ds_hub ds) @ [(b, ds_token ds)]"
  by (simp add: handleSubmit_add_eq Let_def form_row_def)

end
