(* ===== verification/TokenPage.thy ===== *)
theory TokenPage
  imports Tokens AddSystem Api
begin

text \<open>
  The universal token: the section of \<^verbatim>\<open>components/routes/settings/tokens-fingerprints.tsx\<close> that
  switches it, together with the hub's side of the request, the handler \<open>getUniversalToken\<close> of
  \<^verbatim>\<open>src/internal/hub/hub.go\<close> over the map of \<^verbatim>\<open>src/internal/hub/expirymap/expirymap.go\<close> and
  the check of a connecting agent in \<^verbatim>\<open>src/internal/hub/agent_connect.go\<close>; and the rest of that
  page, the menus and the table of fingerprints.

  Go's iteration over a map has no fixed order: \<open>he_order\<close> is the order one iteration happens to
  take. Times are in seconds.
\<close>

section \<open>The hub\<close>

text \<open>Token, user and time of expiry.\<close>

type_synonym ExpiryMap = "(string, string \<times> int) dict"

record HubEnv =
  he_order :: "ExpiryMap \<Rightarrow> ExpiryMap"
  he_now :: int
  he_fresh :: string
  he_saves :: bool
  he_deletes :: bool

definition em_Set :: "int \<Rightarrow> string \<Rightarrow> string \<Rightarrow> int \<Rightarrow> ExpiryMap \<Rightarrow> ExpiryMap" where
  "em_Set now key v ttl m = dset key (v, now + ttl) m"

definition em_GetOk :: "int \<Rightarrow> string \<Rightarrow> ExpiryMap \<Rightarrow> string option \<times> ExpiryMap" where
  "em_GetOk now key m =
    (case dget m key of
       None \<Rightarrow> (None, m)
     | Some (v, expires) \<Rightarrow> if expires < now then (None, ddel key m) else (Some v, m))"

definition em_GetByValue :: "HubEnv \<Rightarrow> string \<Rightarrow> ExpiryMap \<Rightarrow> string option \<times> ExpiryMap" where
  "em_GetByValue env v m =
    (case find (\<lambda>(key, u, expires). u = v) (he_order env m) of
       None \<Rightarrow> (None, m)
     | Some (key, u, expires) \<Rightarrow> if expires < he_now env then (None, ddel key m) else (Some key, m))"

definition em_RemovebyValue :: "HubEnv \<Rightarrow> string \<Rightarrow> ExpiryMap \<Rightarrow> ExpiryMap" where
  "em_RemovebyValue env v m =
    (case find (\<lambda>(key, u, expires). u = v) (he_order env m) of
       None \<Rightarrow> m
     | Some (key, u, expires) \<Rightarrow> ddel key m)"

definition em_cleanup :: "int \<Rightarrow> ExpiryMap \<Rightarrow> ExpiryMap" where
  "em_cleanup now m = filter (\<lambda>(key, u, expires). \<not> expires < now) m"

text \<open>The map and the collection \<open>universal_tokens\<close>, which has one record per user.\<close>

record TokenHub =
  th_map :: ExpiryMap
  th_permanent :: "(string, string) dict"

definition deletePermanent :: "HubEnv \<Rightarrow> string \<Rightarrow> TokenHub \<Rightarrow> TokenHub" where
  "deletePermanent env user h =
    (if he_deletes env then h\<lparr>th_permanent := ddel user (th_permanent h)\<rparr> else h)"

record TokenRequest =
  tq_token :: string
  tq_enable :: string
  tq_permanent :: string

type_synonym TokenResponse = "string \<times> bool \<times> bool option"

definition enableToken :: "HubEnv \<Rightarrow> string \<Rightarrow> TokenRequest \<Rightarrow> TokenHub \<Rightarrow> TokenHub \<times> (string + TokenResponse)" where
  "enableToken env user q h =
    (let token = (if tq_token q = [] then he_fresh env else tq_token q) in
     if tq_permanent q = ''1''
     then (let h' = h\<lparr>th_map := em_RemovebyValue env user (th_map h)\<rparr>
           in if he_saves env
              then (h'\<lparr>th_permanent := dset user token (th_permanent h')\<rparr>, Inr (token, True, Some True))
              else (h', Inl ''save failed''))
     else (let h' = deletePermanent env user h
           in (h'\<lparr>th_map := em_Set (he_now env) token user 3600 (th_map h')\<rparr>, Inr (token, True, Some False))))"

definition readToken :: "HubEnv \<Rightarrow> string \<Rightarrow> string \<Rightarrow> TokenHub \<Rightarrow> TokenHub \<times> TokenResponse" where
  "readToken env user token h =
    (case dget (th_permanent h) user of
       Some dbToken \<Rightarrow>
         (if token = [] \<or> token = dbToken then (h, dbToken, True, Some True) else (h, token, False, Some False))
     | None \<Rightarrow>
         (let (found, m) = (if token = [] then em_GetByValue env user (th_map h) else (None, th_map h))
          in case found of
               Some t \<Rightarrow> (h\<lparr>th_map := m\<rparr>, t, True, Some False)
             | None \<Rightarrow>
                (let t = (if token = [] then he_fresh env else token);
                     (activeUser, m') = em_GetOk (he_now env) t m
                 in (h\<lparr>th_map := m'\<rparr>, t, activeUser = Some user, Some False))))"

definition getUniversalToken ::
  "HubEnv \<Rightarrow> string \<Rightarrow> TokenRequest \<Rightarrow> TokenHub \<Rightarrow> TokenHub \<times> (string + TokenResponse)" where
  "getUniversalToken env user q h =
    (if tq_enable q = ''0''
     then (deletePermanent env user (h\<lparr>th_map := em_RemovebyValue env user (th_map h)\<rparr>),
           Inr (tq_token q, False, Some False))
     else if tq_enable q = ''1'' then enableToken env user q h
     else (case readToken env user (tq_token q) h of (h', r) \<Rightarrow> (h', Inr r)))"

text \<open>Whose universal token an agent presents, if it is one.\<close>

definition universal_user :: "int \<Rightarrow> string \<Rightarrow> TokenHub \<Rightarrow> string option" where
  "universal_user now token h =
    (case fst (em_GetOk now token (th_map h)) of
       Some u \<Rightarrow> Some u
     | None \<Rightarrow>
        (case find (\<lambda>(u, t). t = token) (th_permanent h) of
           Some (u, t) \<Rightarrow> if u \<noteq> [] then Some u else None
         | None \<Rightarrow> None))"

section \<open>The section of the page\<close>

definition token_mounted :: UniversalToken where
  "token_mounted = \<lparr>ut_token = [], ut_loading = True, ut_checked = False, ut_permanent = False\<rparr>"

definition token_request :: "UniversalToken \<Rightarrow> int \<Rightarrow> int \<Rightarrow> TokenRequest" where
  "token_request st enable permanent =
    \<lparr>tq_token = ut_token st, tq_enable = show_int enable, tq_permanent = show_int permanent\<rparr>"

text \<open>
  What the user can do: the switch and the menu are shown once the first answer has come, the tabs
  while the token is enabled. \<open>Mount\<close> is the first request of the section.
\<close>

datatype TokenAction = Mount | Toggle | Persist bool

fun action_request :: "TokenAction \<Rightarrow> UniversalToken \<Rightarrow> TokenRequest option" where
  "action_request Mount st = Some (token_request st (-1) (-1))"
| "action_request Toggle st =
    (if ut_loading st then None
     else Some (token_request st (if \<not> ut_checked st then 1 else 0) (if ut_permanent st then 1 else 0)))"
| "action_request (Persist p) st =
    (if ut_loading st \<or> \<not> ut_checked st then None else Some (token_request st 1 (if p then 1 else 0)))"

text \<open>An action with its answer; a rejected request changes nothing on the page.\<close>

definition token_step ::
  "HubEnv \<Rightarrow> string \<Rightarrow> TokenAction \<Rightarrow> UniversalToken \<times> TokenHub \<Rightarrow> UniversalToken \<times> TokenHub" where
  "token_step env user a s =
    (let st = (if a = Mount then token_mounted else fst s) in
     case action_request a st of
       None \<Rightarrow> (st, snd s)
     | Some q \<Rightarrow>
        (case getUniversalToken env user q (snd s) of
           (h, Inl _) \<Rightarrow> (st, h)
         | (h, Inr r) \<Rightarrow> (updateToken r st, h)))"

datatype TokenView = TokenView bool string bool "string option"

text \<open>What is shown: the switch, the token, whether the menu can be opened, and the chosen tab.\<close>

definition token_view :: "UniversalToken \<Rightarrow> TokenView option" where
  "token_view st =
    (if ut_loading st then None
     else Some (TokenView (ut_checked st) (ut_token st) (ut_checked st)
       (if ut_checked st then Some (if ut_permanent st then ''permanent'' else ''ephemeral'') else None)))"

section \<open>Menus and table\<close>

datatype MenuEntry = CopyText string string | OpenUrl string string

definition universal_menu :: "(string \<Rightarrow> string) \<Rightarrow> string \<Rightarrow> string \<Rightarrow> string \<Rightarrow> MenuEntry list" where
  "universal_menu tr hubURL publicKey token =
    (let port = Some ''45876'' in
     [CopyText (tr ''Copy docker compose'') (dockerCompose port publicKey token hubURL),
      CopyText (tr ''Copy docker run'') (dockerRun port publicKey token hubURL),
      CopyText (tr ''Copy Linux command'') (linuxCommand port publicKey token False hubURL),
      CopyText (tr ''Homebrew command'') (linuxCommand port publicKey token True hubURL),
      CopyText (tr ''Windows command'') (windowsCommand port publicKey token hubURL),
      CopyText (tr ''FreeBSD command'') (linuxCommand port publicKey token False hubURL),
      OpenUrl (tr ''Manual setup instructions'') ''https://beszel.dev/guide/agent-installation#binary''])"

datatype FingerprintCommand = CopyConfig string | WriteFingerprint bool

definition fingerprint_menu :: "(string \<Rightarrow> string) \<Rightarrow> string \<Rightarrow> FingerprintRecord \<Rightarrow> (string \<times> FingerprintCommand) list" where
  "fingerprint_menu tr hubURL f =
    [(tr ''Copy YAML'', CopyConfig (copyYaml hubURL (fp_token f))),
     (tr ''Copy env'', CopyConfig (envVar hubURL (fp_token f))),
     (tr ''Rotate token'', WriteFingerprint True)]
    @ (if fp_fingerprint f \<noteq> [] then [(tr ''Delete fingerprint'', WriteFingerprint False)] else [])"

text \<open>The table: headings, and the cells of each record; the menus are left out for read-only users.\<close>

record FingerprintRow =
  fr_key :: string
  fr_cells :: "string list"
  fr_menu :: "(string \<times> FingerprintCommand) list option"

definition fingerprint_table ::
  "(string \<Rightarrow> string) \<Rightarrow> string \<Rightarrow> string option \<Rightarrow> FingerprintRecord list \<Rightarrow> string list \<times> FingerprintRow list" where
  "fingerprint_table tr hubURL role fs =
    (map tr ([''System'', ''Token'', ''Fingerprint''] @ (if isReadOnlyUser role then [] else [''Actions''])),
     map (\<lambda>f. \<lparr>fr_key = fp_id f, fr_cells = [fp_system_name f, fp_token f, fp_fingerprint f],
               fr_menu = (if isReadOnlyUser role then None else Some (fingerprint_menu tr hubURL f))\<rparr>) fs)"

section \<open>Ownership of tokens\<close>

definition owns :: "TokenHub \<Rightarrow> string \<Rightarrow> string \<Rightarrow> bool" where
  "owns h u t = ((\<exists>e. dget (th_map h) t = Some (u, e)) \<or> dget (th_permanent h) u = Some t)"

text \<open>A token has one owner, a user one token, and none is both ephemeral and permanent.\<close>

definition hub_ok :: "TokenHub \<Rightarrow> bool" where
  "hub_ok h = (distinct (dkeys (th_map h)) \<and> distinct (dkeys (th_permanent h))
     \<and> (\<forall>u u' t. owns h u t \<longrightarrow> owns h u' t \<longrightarrow> u = u')
     \<and> (\<forall>u t t'. owns h u t \<longrightarrow> owns h u t' \<longrightarrow> t = t')
     \<and> (\<forall>u t e. dget (th_map h) t = Some (u, e) \<longrightarrow> dget (th_permanent h) u = None)
     \<and> (\<forall>u t. owns h u t \<longrightarrow> t \<noteq> [] \<and> u \<noteq> []))"

definition env_ok :: "HubEnv \<Rightarrow> TokenHub \<Rightarrow> bool" where
  "env_ok env h = ((\<forall>m. mset (he_order env m) = mset m) \<and> he_saves env \<and> he_deletes env
     \<and> he_fresh env \<noteq> [] \<and> (\<forall>u. \<not> owns h u (he_fresh env)))"

text \<open>
  One page of a user beside the rest of the system: the hub may change for other users as long as it
  keeps this user's tokens, and expired entries may be cleaned up at any time.
\<close>

inductive token_reach :: "string \<Rightarrow> UniversalToken \<times> TokenHub \<Rightarrow> bool" for user where
  start: "hub_ok h \<Longrightarrow> user \<noteq> [] \<Longrightarrow> token_reach user (token_mounted, h)"
| step: "token_reach user s \<Longrightarrow> env_ok env (snd s) \<Longrightarrow> token_reach user (token_step env user a s)"
| others: "token_reach user (st, h) \<Longrightarrow> hub_ok h' \<Longrightarrow> (\<And>t. owns h' user t = owns h user t)
    \<Longrightarrow> (\<And>u. owns h' u (ut_token st) \<Longrightarrow> u = user) \<Longrightarrow> token_reach user (st, h')"
| cleaned: "token_reach user (st, h) \<Longrightarrow> token_reach user (st, h\<lparr>th_map := em_cleanup now (th_map h)\<rparr>)"

definition page_owns :: "string \<Rightarrow> UniversalToken \<times> TokenHub \<Rightarrow> bool" where
  "page_owns user s = (hub_ok (snd s) \<and> user \<noteq> [] \<and>
     (\<not> ut_loading (fst s) \<longrightarrow> ut_token (fst s) \<noteq> []
        \<and> (\<forall>t. owns (snd s) user t \<longrightarrow> t = ut_token (fst s))
        \<and> (\<forall>u. owns (snd s) u (ut_token (fst s)) \<longrightarrow> u = user)))"

section \<open>Lemmas\<close>

declare map_of_eq_Some_iff [simp del]

lemma hub_okI:
  assumes "distinct (dkeys (th_map h))" "distinct (dkeys (th_permanent h))"
    and "\<And>u u' t. owns h u t \<Longrightarrow> owns h u' t \<Longrightarrow> u = u'" "\<And>u t t'. owns h u t \<Longrightarrow> owns h u t' \<Longrightarrow> t = t'"
    and "\<And>u t e. dget (th_map h) t = Some (u, e) \<Longrightarrow> dget (th_permanent h) u = None"
    and "\<And>u t. owns h u t \<Longrightarrow> t \<noteq> [] \<and> u \<noteq> []"
  shows "hub_ok h"
  unfolding hub_ok_def using assms by blast

lemma hub_okD:
  assumes "hub_ok h"
  shows "distinct (dkeys (th_map h))" "distinct (dkeys (th_permanent h))"
    and "\<And>u u' t. owns h u t \<Longrightarrow> owns h u' t \<Longrightarrow> u = u'" "\<And>u t t'. owns h u t \<Longrightarrow> owns h u t' \<Longrightarrow> t = t'"
    and "\<And>u t e. dget (th_map h) t = Some (u, e) \<Longrightarrow> dget (th_permanent h) u = None"
    and "\<And>u t. owns h u t \<Longrightarrow> t \<noteq> [] \<and> u \<noteq> []"
  using assms unfolding hub_ok_def by blast+

lemma owns_map: "dget (th_map h) t = Some (u, e) \<Longrightarrow> owns h u t"
  unfolding owns_def by blast

lemma owns_permanent: "dget (th_permanent h) u = Some t \<Longrightarrow> owns h u t"
  unfolding owns_def by blast

lemma find_perm_None: "mset ys = mset xs \<Longrightarrow> find P ys = None \<longleftrightarrow> (\<forall>x\<in>set xs. \<not> P x)"
  unfolding find_None_iff by (metis set_mset_mset)

lemma find_perm_Some: "mset ys = mset xs \<Longrightarrow> find P ys = Some x \<Longrightarrow> x \<in> set xs \<and> P x"
  by (metis find_Some_iff nth_mem set_mset_mset)

lemma owner_found:
  assumes "env_ok env h" "distinct (dkeys m)"
  obtains (none) "find (\<lambda>(key, u, expires). u = user) (he_order env m) = None" "\<And>k e. dget m k \<noteq> Some (user, e)"
  | (one) k e where "find (\<lambda>(key, u, expires). u = user) (he_order env m) = Some (k, user, e)" "dget m k = Some (user, e)"
proof (cases "find (\<lambda>(key, u, expires). u = user) (he_order env m)")
  case None
  have perm: "mset (he_order env m) = mset m" using assms(1) by (simp add: env_ok_def)
  have "dget m k \<noteq> Some (user, e)" for k e
    using None map_of_SomeD [of m k "(user, e)"] unfolding find_perm_None [OF perm] by blast
  with None show ?thesis by (rule none)
next
  case (Some x)
  have perm: "mset (he_order env m) = mset m" using assms(1) by (simp add: env_ok_def)
  obtain k u e where x: "x = (k, u, e)" by (cases x) auto
  from find_perm_Some [OF perm Some] x have m: "(k, user, e) \<in> set m" "u = user" by auto
  then show ?thesis using one Some x assms(2) by (simp add: map_of_is_SomeI)
qed

text \<open>Under unique ownership, removing by value removes all of a user's entries.\<close>

lemma remove_by_value:
  assumes "env_ok env h'" "hub_ok h"
  shows "dget (em_RemovebyValue env user (th_map h)) k =
      (case dget (th_map h) k of Some (u, e) \<Rightarrow> if u = user then None else Some (u, e) | None \<Rightarrow> None)"
    and "distinct (dkeys (em_RemovebyValue env user (th_map h)))"
proof -
  have d: "distinct (dkeys (th_map h))" using assms(2) by (simp add: hub_ok_def)
  have uniq: "j = j'" if "dget (th_map h) j = Some (user, e)" "dget (th_map h) j' = Some (user, e')" for j j' e e'
    using assms(2) that unfolding hub_ok_def owns_def by blast
  show "dget (em_RemovebyValue env user (th_map h)) k =
      (case dget (th_map h) k of Some (u, e) \<Rightarrow> if u = user then None else Some (u, e) | None \<Rightarrow> None)"
  proof (cases rule: owner_found [OF assms(1) d, of user, case_names none one])
    case none
    then show ?thesis by (auto simp: em_RemovebyValue_def split: option.split)
  next
    case (one j e)
    then have r: "em_RemovebyValue env user (th_map h) = ddel j (th_map h)" by (simp add: em_RemovebyValue_def)
    show ?thesis
    proof (cases "dget (th_map h) k")
      case (Some ue)
      then show ?thesis using uniq [OF one(2), of k "snd ue"] one(2) by (cases ue) (auto simp: r)
    qed (simp add: r)
  qed
  show "distinct (dkeys (em_RemovebyValue env user (th_map h)))"
    using d by (auto simp: em_RemovebyValue_def split: option.split)
qed

lemma universal_user_iff:
  assumes "hub_ok h"
  shows "universal_user now t h = Some u \<longleftrightarrow>
    (\<exists>e. dget (th_map h) t = Some (u, e) \<and> \<not> e < now) \<or> dget (th_permanent h) u = Some t"
proof -
  have dp: "distinct (dkeys (th_permanent h))" using assms by (simp add: hub_ok_def)
  have inp: "(u', t) \<in> set (th_permanent h) \<longleftrightarrow> dget (th_permanent h) u' = Some t" for u'
    using dp by (metis map_of_SomeD map_of_is_SomeI)
  have own: "u' = u" if "dget (th_permanent h) u = Some t" "dget (th_permanent h) u' = Some t" for u u'
    using assms that unfolding hub_ok_def owns_def by blast
  have ne: "u' \<noteq> []" if "dget (th_permanent h) u' = Some t" for u'
    using assms that unfolding hub_ok_def owns_def by blast
  have excl: "dget (th_permanent h) u' \<noteq> Some t" if "dget (th_map h) t = Some (v, e)" for u' v e
    using assms that unfolding hub_ok_def owns_def by (metis option.distinct(1))
  show ?thesis
  proof (cases "find (\<lambda>(u, s). s = t) (th_permanent h)")
    case None
    then have "\<not> (u', t) \<in> set (th_permanent h)" for u' unfolding find_None_iff by auto
    with None show ?thesis
      unfolding inp by (auto simp: universal_user_def em_GetOk_def split: option.split)
  next
    case (Some x)
    then have x: "x \<in> set (th_permanent h)" "snd x = t"
      unfolding find_Some_iff by (auto simp: case_prod_beta)
    obtain v where v: "x = (v, t)" using x(2) by (metis prod.collapse)
    then have p: "dget (th_permanent h) v = Some t" using x inp by simp
    have "dget (th_map h) t = None" using excl [of _ _ v] p by (cases "dget (th_map h) t") auto
    with Some v p own [of v u] ne [OF p] show ?thesis
      by (auto simp: universal_user_def em_GetOk_def)
  qed
qed

lemma cleanup_get:
  assumes "distinct (dkeys m)"
  shows "dget (em_cleanup now m) k =
      (case dget m k of Some (u, e) \<Rightarrow> if e < now then None else Some (u, e) | None \<Rightarrow> None)"
    and "distinct (dkeys (em_cleanup now m))"
proof -
  show "distinct (dkeys (em_cleanup now m))" using assms by (simp add: em_cleanup_def distinct_map_filter)
  show "dget (em_cleanup now m) k =
      (case dget m k of Some (u, e) \<Rightarrow> if e < now then None else Some (u, e) | None \<Rightarrow> None)"
    unfolding em_cleanup_def using assms
  proof (induction m)
    case (Cons x m)
    have "dget m (fst x) = None" using Cons.prems by (simp add: map_of_eq_None_iff)
    with Cons show ?case by (cases x) (auto split: option.split)
  qed simp
qed

text \<open>A hub that keeps, of each token, only what was there.\<close>

lemma hub_ok_shrink:
  assumes "hub_ok h" "distinct (dkeys (th_map h'))" "distinct (dkeys (th_permanent h'))"
    and "\<And>t ue. dget (th_map h') t = Some ue \<Longrightarrow> dget (th_map h) t = Some ue"
    and "\<And>u t. dget (th_permanent h') u = Some t \<Longrightarrow> dget (th_permanent h) u = Some t"
  shows "hub_ok h'" "\<And>u t. owns h' u t \<Longrightarrow> owns h u t"
proof -
  show o: "\<And>u t. owns h' u t \<Longrightarrow> owns h u t" using assms(4,5) unfolding owns_def by blast
  have "dget (th_permanent h') u = None" if "dget (th_map h') t = Some (u, e)" for u t e
    using hub_okD(5) [OF assms(1) assms(4) [OF that]] assms(5) [of u] by (cases "dget (th_permanent h') u") auto
  then show "hub_ok h'"
    using hub_okD(3,4,6) [OF assms(1)] o by (intro hub_okI [OF assms(2,3)]) blast+
qed

text \<open>A user takes a token nobody else has, having no other.\<close>

lemma hub_ok_grow:
  assumes "hub_ok h" "user \<noteq> []" "t \<noteq> []" "\<And>s. owns h user s \<Longrightarrow> s = t" "\<And>u. owns h u t \<Longrightarrow> u = user"
  shows "dget (th_permanent h) user = None \<Longrightarrow> hub_ok (h\<lparr>th_map := dset t (user, e) (th_map h)\<rparr>)"
    and "(\<And>s e. dget (th_map h) s \<noteq> Some (user, e)) \<Longrightarrow> hub_ok (h\<lparr>th_permanent := dset user t (th_permanent h)\<rparr>)"
proof -
  let ?m = "h\<lparr>th_map := dset t (user, e) (th_map h)\<rparr>" and ?p = "h\<lparr>th_permanent := dset user t (th_permanent h)\<rparr>"
  have o1: "owns ?m u s \<longleftrightarrow> owns h u s \<or> (u = user \<and> s = t)" for u s
    using assms(5) [of u] unfolding owns_def by auto
  have o2: "owns ?p u s \<longleftrightarrow> owns h u s \<or> (u = user \<and> s = t)" for u s
    using assms(4) [of s] unfolding owns_def by auto
  note old = hub_okD(3,4,6) [OF assms(1)] assms(2-5)
  show "hub_ok ?m" if "dget (th_permanent h) user = None"
  proof (rule hub_okI, unfold o1)
    show "dget (th_permanent ?m) u = None" if "dget (th_map ?m) s = Some (u, e')" for u s e'
      using that \<open>dget (th_permanent h) user = None\<close> hub_okD(5) [OF assms(1), of s u e'] by (auto split: if_splits)
  qed (use hub_okD(1,2) [OF assms(1)] in simp, use hub_okD(1,2) [OF assms(1)] in simp, (use old in blast)+)
  show "hub_ok ?p" if "\<And>s e. dget (th_map h) s \<noteq> Some (user, e)"
  proof (rule hub_okI, unfold o2)
    show "dget (th_permanent ?p) u = None" if "dget (th_map ?p) s = Some (u, e')" for u s e'
      using that \<open>\<And>s e. dget (th_map h) s \<noteq> Some (user, e)\<close> hub_okD(5) [OF assms(1), of s u e'] by auto
  qed (use hub_okD(1,2) [OF assms(1)] in simp, use hub_okD(1,2) [OF assms(1)] in simp, (use old in blast)+)
qed

text \<open>Disabling, and the two halves of it.\<close>

lemma remove_entries:
  assumes "env_ok env h'" "hub_ok h"
  shows "hub_ok (h\<lparr>th_map := em_RemovebyValue env user (th_map h)\<rparr>)"
    and "owns (h\<lparr>th_map := em_RemovebyValue env user (th_map h)\<rparr>) u t \<Longrightarrow> owns h u t"
    and "dget (em_RemovebyValue env user (th_map h)) t \<noteq> Some (user, e)"
proof -
  let ?h = "h\<lparr>th_map := em_RemovebyValue env user (th_map h)\<rparr>"
  have less: "dget (th_map h) t = Some ue" if "dget (th_map ?h) t = Some ue" for t ue
    using that remove_by_value(1) [OF assms, of user t] by (auto split: option.splits if_splits)
  have d: "distinct (dkeys (th_map ?h))" "distinct (dkeys (th_permanent ?h))"
    using remove_by_value(2) [OF assms] hub_okD(2) [OF assms(2)] by simp_all
  show "hub_ok ?h" by (rule hub_ok_shrink(1) [OF assms(2) d]) (use less in auto)
  show "owns ?h u t \<Longrightarrow> owns h u t" by (rule hub_ok_shrink(2) [OF assms(2) d]) (use less in auto)
  show "dget (em_RemovebyValue env user (th_map h)) t \<noteq> Some (user, e)"
    using remove_by_value(1) [OF assms, of user t] by (auto split: option.splits if_splits)
qed

lemma delete_permanent:
  assumes "env_ok env h'" "hub_ok h"
  shows "hub_ok (deletePermanent env user h)"
    and "owns (deletePermanent env user h) u t \<Longrightarrow> owns h u t"
    and "dget (th_permanent (deletePermanent env user h)) user = None"
proof -
  let ?h = "deletePermanent env user h"
  have h: "?h = h\<lparr>th_permanent := ddel user (th_permanent h)\<rparr>"
    using assms(1) by (simp add: deletePermanent_def env_ok_def)
  have d: "distinct (dkeys (th_map ?h))" "distinct (dkeys (th_permanent ?h))"
    using hub_okD(1,2) [OF assms(2)] by (simp_all add: h)
  show "hub_ok ?h" by (rule hub_ok_shrink(1) [OF assms(2) d]) (auto simp: h split: if_splits)
  show "owns ?h u t \<Longrightarrow> owns h u t"
    by (rule hub_ok_shrink(2) [OF assms(2) d]) (auto simp: h split: if_splits)
  show "dget (th_permanent ?h) user = None" by (simp add: h)
qed

text \<open>What an answer says holds on the hub.\<close>

definition answer_ok :: "HubEnv \<Rightarrow> string \<Rightarrow> TokenHub \<Rightarrow> TokenResponse \<Rightarrow> bool" where
  "answer_ok env user h r =
    (case r of (t, active, permanent) \<Rightarrow>
       hub_ok h \<and> t \<noteq> [] \<and> (\<forall>s. owns h user s \<longrightarrow> s = t) \<and> (\<forall>u. owns h u t \<longrightarrow> u = user)
       \<and> (active \<longleftrightarrow> universal_user (he_now env) t h = Some user)
       \<and> (permanent = Some True \<longleftrightarrow> dget (th_permanent h) user = Some t))"

lemma answer_okI:
  assumes "hub_ok h" "t \<noteq> []" "\<And>s. owns h user s \<Longrightarrow> s = t" "\<And>u. owns h u t \<Longrightarrow> u = user"
    and "active \<longleftrightarrow> universal_user (he_now env) t h = Some user"
    and "permanent = Some True \<longleftrightarrow> dget (th_permanent h) user = Some t"
  shows "answer_ok env user h (t, active, permanent)"
  unfolding answer_ok_def prod.case using assms by blast

lemma answer_disable:
  assumes "env_ok env h" "hub_ok h" "t \<noteq> []" "\<And>u. owns h u t \<Longrightarrow> u = user"
  defines "h' \<equiv> deletePermanent env user (h\<lparr>th_map := em_RemovebyValue env user (th_map h)\<rparr>)"
  shows "answer_ok env user h' (t, False, Some False)" "\<not> owns h' user s"
proof -
  note r = remove_entries [OF assms(1,2), of user]
  note d = delete_permanent [OF assms(1) r(1), of user]
  have m: "th_map h' = em_RemovebyValue env user (th_map h)"
    by (simp add: h'_def deletePermanent_def)
  have ok: "hub_ok h'" unfolding h'_def by (rule d(1))
  have less: "owns h u s" if "owns h' u s" for u s using that r(2) d(2) unfolding h'_def by blast
  have none: "\<not> owns h' user s" for s
    using r(3) d(3) unfolding owns_def m by (auto simp: h'_def)
  then show "\<not> owns h' user s" .
  have "universal_user (he_now env) t h' \<noteq> Some user"
    using none [of t] unfolding universal_user_iff [OF ok] owns_def by blast
  moreover have "dget (th_permanent h') user \<noteq> Some t" using none [of t] unfolding owns_def by blast
  ultimately show "answer_ok env user h' (t, False, Some False)"
    using none less assms(4) by (intro answer_okI [OF ok assms(3)]) auto
qed

lemma answer_permanent:
  assumes "env_ok env h" "hub_ok h" "user \<noteq> []" "t \<noteq> []" "\<And>s. owns h user s \<Longrightarrow> s = t" "\<And>u. owns h u t \<Longrightarrow> u = user"
  defines "h1 \<equiv> h\<lparr>th_map := em_RemovebyValue env user (th_map h)\<rparr>"
  shows "answer_ok env user (h1\<lparr>th_permanent := dset user t (th_permanent h1)\<rparr>) (t, True, Some True)"
proof -
  let ?h = "h1\<lparr>th_permanent := dset user t (th_permanent h1)\<rparr>"
  note r = remove_entries [OF assms(1,2), of user, folded h1_def]
  have nm: "dget (th_map h1) s \<noteq> Some (user, e)" for s e using r(3) by (simp add: h1_def)
  have ok: "hub_ok ?h"
    by (rule hub_ok_grow(2) [OF r(1) assms(3,4)]) (use r(2) assms(5,6) nm in blast)+
  have o: "owns ?h u s \<Longrightarrow> owns h1 u s \<or> (u = user \<and> s = t)" for u s
    unfolding owns_def by (auto split: if_splits)
  have "universal_user (he_now env) t ?h = Some user" unfolding universal_user_iff [OF ok] by simp
  then show ?thesis
    by (intro answer_okI [OF ok assms(4)]) (blast dest: o r(2) intro: assms(5,6), blast dest: o r(2) intro: assms(5,6), simp_all)
qed

lemma answer_ephemeral:
  assumes "env_ok env h" "hub_ok h" "user \<noteq> []" "t \<noteq> []" "\<And>s. owns h user s \<Longrightarrow> s = t" "\<And>u. owns h u t \<Longrightarrow> u = user"
  defines "h1 \<equiv> deletePermanent env user h"
  shows "answer_ok env user (h1\<lparr>th_map := em_Set (he_now env) t user 3600 (th_map h1)\<rparr>) (t, True, Some False)"
proof -
  let ?h = "h1\<lparr>th_map := dset t (user, he_now env + 3600) (th_map h1)\<rparr>"
  note d = delete_permanent [OF assms(1,2), of user, folded h1_def]
  have ok: "hub_ok ?h"
    by (rule hub_ok_grow(1) [OF d(1) assms(3,4)]) (use d(2,3) assms(5,6) in blast)+
  have o: "owns ?h u s \<Longrightarrow> owns h1 u s \<or> (u = user \<and> s = t)" for u s
    unfolding owns_def by (auto split: if_splits)
  have "universal_user (he_now env) t ?h = Some user" unfolding universal_user_iff [OF ok] by simp
  then show ?thesis unfolding em_Set_def using d(3)
    by (intro answer_okI [OF ok assms(4)]) (blast dest: o d(2) intro: assms(5,6), blast dest: o d(2) intro: assms(5,6), simp_all)
qed

lemma answer_read:
  assumes "env_ok env h" "hub_ok h" "user \<noteq> []" "readToken env user [] h = (h', r)"
  shows "answer_ok env user h' r"
proof (cases "dget (th_permanent h) user")
  case (Some t)
  then have r: "h' = h" "r = (t, True, Some True)" using assms(4) by (simp_all add: readToken_def)
  have "universal_user (he_now env) t h = Some user" unfolding universal_user_iff [OF assms(2)] using Some by simp
  then show ?thesis using Some assms(2) hub_okD(3,4,6) [OF assms(2)] owns_permanent [OF Some]
    unfolding answer_ok_def r by auto
next
  case None
  note fresh = assms(1) [unfolded env_ok_def]
  have nofresh: "dget m (he_fresh env) = None" if "\<And>k ue. dget m k = Some ue \<Longrightarrow> dget (th_map h) k = Some ue" for m
    using fresh that owns_map [of h "he_fresh env"] by (cases "dget m (he_fresh env)") fastforce+
  have absent: "answer_ok env user (h\<lparr>th_map := m\<rparr>) (he_fresh env, False, Some False)"
    if "distinct (dkeys m)" "\<And>k ue. dget m k = Some ue \<Longrightarrow> dget (th_map h) k = Some ue"
      "\<And>k e. dget m k \<noteq> Some (user, e)" for m
  proof -
    have ok: "hub_ok (h\<lparr>th_map := m\<rparr>)" and less: "\<And>u t. owns (h\<lparr>th_map := m\<rparr>) u t \<Longrightarrow> owns h u t"
      using hub_ok_shrink [OF assms(2), of "h\<lparr>th_map := m\<rparr>"] that(1,2) hub_okD(2) [OF assms(2)] by auto
    have none: "\<not> owns (h\<lparr>th_map := m\<rparr>) user s" for s using that(3) None unfolding owns_def by simp
    have "universal_user (he_now env) (he_fresh env) (h\<lparr>th_map := m\<rparr>) \<noteq> Some user"
      using none [of "he_fresh env"] unfolding universal_user_iff [OF ok] owns_def by blast
    moreover have "\<not> owns (h\<lparr>th_map := m\<rparr>) u (he_fresh env)" for u using fresh less by blast
    ultimately show ?thesis using fresh none None by (intro answer_okI [OF ok]) auto
  qed
  have d: "distinct (dkeys (th_map h))" by (rule hub_okD(1) [OF assms(2)])
  show ?thesis
  proof (cases rule: owner_found [OF assms(1) d, of user, case_names none one])
    case none
    then have "h' = h\<lparr>th_map := th_map h\<rparr>" "r = (he_fresh env, False, Some False)"
      using assms(4) None nofresh [of "th_map h"] by (auto simp: readToken_def em_GetByValue_def em_GetOk_def)
    then show ?thesis using absent [OF d] none(2) by simp
  next
    case (one k e)
    have own: "owns h user k" using one(2) by (rule owns_map)
    show ?thesis
    proof (cases "e < he_now env")
      case True
      have less: "dget (ddel k (th_map h)) j = Some ue \<Longrightarrow> dget (th_map h) j = Some ue" for j ue
        by (simp split: if_splits)
      have "h' = h\<lparr>th_map := ddel k (th_map h)\<rparr>" "r = (he_fresh env, False, Some False)"
        using assms(4) None one True nofresh [of "th_map h"]
        by (auto simp: readToken_def em_GetByValue_def em_GetOk_def Let_def split: if_splits)
      moreover have "dget (ddel k (th_map h)) j \<noteq> Some (user, e')" for j e'
        using hub_okD(4) [OF assms(2) own] owns_map [of h j user e'] by auto
      ultimately show ?thesis using absent [of "ddel k (th_map h)"] d less by blast
    next
      case False
      then have r: "h' = h" "r = (k, True, Some False)"
        using assms(4) None one by (auto simp: readToken_def em_GetByValue_def)
      show ?thesis using False one(2) None own assms(2) hub_okD(3,4,6) [OF assms(2)]
        unfolding answer_ok_def r by (auto simp: universal_user_iff [OF assms(2)])
    qed
  qed
qed

lemma show_int_small [simp]: "show_int 1 = ''1''" "show_int 0 = ''0''" "show_int (-1) = ''-1''"
  by code_simp+

text \<open>The answer to any action of a page that is in step with the hub.\<close>

lemma action_answered:
  assumes "page_owns user s" "env_ok env (snd s)" "action_request a (if a = Mount then token_mounted else fst s) = Some q"
  obtains h r where "getUniversalToken env user q (snd s) = (h, Inr r)" "answer_ok env user h r"
proof -
  have ok: "hub_ok (snd s)" "user \<noteq> []" using assms(1) by (simp_all add: page_owns_def)
  have saves: "he_saves env" using assms(2) by (simp add: env_ok_def)
  show ?thesis
  proof (cases "a = Mount")
    case True
    obtain h r where r: "readToken env user [] (snd s) = (h, r)" by (metis surj_pair)
    have "getUniversalToken env user q (snd s) = (h, Inr r)"
      using assms(3) True r by (auto simp: getUniversalToken_def token_request_def token_mounted_def)
    then show ?thesis using that answer_read [OF assms(2) ok r] by blast
  next
    case False
    let ?t = "ut_token (fst s)"
    have nl: "\<not> ut_loading (fst s)" using assms(3) False by (cases a) (auto split: if_splits)
    have own: "?t \<noteq> []" "\<And>x. owns (snd s) user x \<Longrightarrow> x = ?t" "\<And>u. owns (snd s) u ?t \<Longrightarrow> u = user"
      using assms(1) nl unfolding page_owns_def by blast+
    have q: "tq_token q = ?t" "tq_enable q = ''0'' \<or> tq_enable q = ''1''"
      using assms(3) False by (cases a; auto simp: token_request_def split: if_splits)+
    show ?thesis
    proof (cases "tq_enable q = ''0''")
      case True
      show ?thesis
        by (rule that [OF _ answer_disable(1) [OF assms(2) ok(1) own(1,3)]]) (simp_all add: getUniversalToken_def True q)
    next
      case e: False
      with q have e1: "tq_enable q = ''1''" by blast
      show ?thesis
      proof (cases "tq_permanent q = ''1''")
        case True
        show ?thesis
          by (rule that [OF _ answer_permanent [OF assms(2) ok own]])
            (simp_all add: getUniversalToken_def enableToken_def Let_def e1 True q own(1) saves)
      next
        case False
        show ?thesis
          by (rule that [OF _ answer_ephemeral [OF assms(2) ok own]])
            (simp_all add: getUniversalToken_def enableToken_def Let_def e1 False q own(1))
      qed
    qed
  qed
qed

lemma page_owns_step:
  assumes "page_owns user s" "env_ok env (snd s)"
  shows "page_owns user (token_step env user a s)"
proof (cases "action_request a (if a = Mount then token_mounted else fst s)")
  case None
  then have "a \<noteq> Mount" by auto
  with None assms(1) show ?thesis by (simp add: token_step_def)
next
  case (Some q)
  obtain h r where r: "getUniversalToken env user q (snd s) = (h, Inr r)" "answer_ok env user h r"
    by (rule action_answered [OF assms Some])
  obtain t b p where "r = (t, b, p)" by (cases r) auto
  then have s': "ut_token (fst (token_step env user a s)) = t" "snd (token_step env user a s) = h"
    using r(1) Some by (simp_all add: token_step_def Let_def updateToken_def)
  have "user \<noteq> []" using assms(1) by (simp add: page_owns_def)
  then show ?thesis
    using r(2) unfolding \<open>r = _\<close> answer_ok_def prod.case page_owns_def s' by blast
qed

lemma token_reach_owns: "token_reach user s \<Longrightarrow> page_owns user s"
proof (induction rule: token_reach.induct)
  case (start h)
  then show ?case by (simp add: page_owns_def token_mounted_def)
next
  case (step s env a)
  then show ?case by (blast intro: page_owns_step)
next
  case (others st h h')
  then show ?case unfolding page_owns_def fst_conv snd_conv by blast
next
  case (cleaned st h now)
  let ?h = "h\<lparr>th_map := em_cleanup now (th_map h)\<rparr>"
  have ok: "hub_ok h" using cleaned.IH by (simp add: page_owns_def)
  note c = cleanup_get [OF hub_okD(1) [OF ok], of now]
  have "hub_ok ?h" "owns ?h u t \<Longrightarrow> owns h u t" for u t
    by (rule hub_ok_shrink [OF ok]; use c hub_okD(2) [OF ok] in \<open>auto split: option.splits if_splits\<close>)+
  then show ?case using cleaned.IH unfolding page_owns_def fst_conv snd_conv by blast
qed

section \<open>Properties\<close>

text \<open>
  C6. The section shows the truth: whatever the user has done on the page, and whatever other users and
  the clean-up have done in between, after the answer to an action the switch is on exactly when the
  hub would let an agent register under this user with the token shown, the permanent tab is chosen
  exactly when that token is stored, and no other token is accepted for the user; the switch and the
  tabs have had the effect asked for. So after switching off, no token is accepted for the user.
\<close>

theorem universal_token_shown:
  assumes "token_reach user s" "env_ok env (snd s)" "a = Mount \<or> action_request a (fst s) \<noteq> None"
  defines "s' \<equiv> token_step env user a s"
  shows "\<not> ut_loading (fst s')
    \<and> (ut_checked (fst s') \<longleftrightarrow> universal_user (he_now env) (ut_token (fst s')) (snd s') = Some user)
    \<and> (ut_permanent (fst s') \<longleftrightarrow> dget (th_permanent (snd s')) user = Some (ut_token (fst s')))
    \<and> (\<forall>t. universal_user (he_now env) t (snd s') = Some user \<longrightarrow> t = ut_token (fst s'))
    \<and> (a = Toggle \<longrightarrow> ut_checked (fst s') \<noteq> ut_checked (fst s))
    \<and> (\<forall>p. a = Persist p \<longrightarrow> ut_checked (fst s') \<and> ut_permanent (fst s') = p)"
proof -
  note inv = token_reach_owns [OF assms(1)]
  obtain q where q: "action_request a (if a = Mount then token_mounted else fst s) = Some q"
    using assms(3) by (cases "a = Mount") auto
  obtain h r where r: "getUniversalToken env user q (snd s) = (h, Inr r)" "answer_ok env user h r"
    by (rule action_answered [OF inv assms(2) q])
  obtain t b p where t: "r = (t, b, p)" by (cases r) auto
  have s': "s' = (\<lparr>ut_token = t, ut_loading = False, ut_checked = b, ut_permanent = (p = Some True)\<rparr>, h)"
    using q r t by (simp add: s'_def token_step_def Let_def updateToken_def)
  have ans: "hub_ok h" "\<And>s. owns h user s \<Longrightarrow> s = t" "b \<longleftrightarrow> universal_user (he_now env) t h = Some user"
    "p = Some True \<longleftrightarrow> dget (th_permanent h) user = Some t"
    using r(2) unfolding t answer_ok_def prod.case by blast+
  have "x = t" if "universal_user (he_now env) x h = Some user" for x
    using that ans(2) [of x] unfolding universal_user_iff [OF ans(1)] owns_def by blast
  moreover have "b \<noteq> ut_checked (fst s)" if "a = Toggle"
    using q r(1) that unfolding t
    by (auto simp: getUniversalToken_def enableToken_def token_request_def Let_def split: if_splits)
  moreover have "b \<and> (p = Some True) = p'" if "a = Persist p'" for p'
    using q r(1) that unfolding t
    by (auto simp: getUniversalToken_def enableToken_def token_request_def Let_def split: if_splits)
  ultimately show ?thesis unfolding s' using ans(3,4) by simp
qed

definition sample_env :: "string \<Rightarrow> HubEnv" where
  "sample_env t = \<lparr>he_order = (\<lambda>m. m), he_now = 0, he_fresh = t, he_saves = True, he_deletes = True\<rparr>"

definition empty_hub :: TokenHub where "empty_hub = \<lparr>th_map = [], th_permanent = []\<rparr>"

lemma empty_hub_ok: "hub_ok empty_hub" "env_ok (sample_env (c # t)) empty_hub"
  by (simp_all add: hub_ok_def owns_def env_ok_def empty_hub_def sample_env_def)

theorem universal_token_shown_witness:
  "ut_token (fst (token_step (sample_env ''t1'') ''u'' Mount (token_mounted, empty_hub))) = ''t1''
   \<and> universal_user 0 ''t1'' (snd (token_step (sample_env ''t1'') ''u'' Mount (token_mounted, empty_hub))) \<noteq> Some ''u''"
proof -
  let ?s = "token_step (sample_env ''t1'') ''u'' Mount (token_mounted, empty_hub)"
  have reach: "token_reach ''u'' (token_mounted, empty_hub)"
    by (rule token_reach.start) (simp_all add: empty_hub_ok)
  have s: "ut_token (fst ?s) = ''t1'' \<and> \<not> ut_checked (fst ?s)" by code_simp
  have now: "he_now (sample_env ''t1'') = 0" by (simp add: sample_env_def)
  show ?thesis
    using universal_token_shown [OF reach, of "sample_env ''t1''" Mount] s empty_hub_ok(2) [of _ "''1''"] now by simp
qed

text \<open>
  C38. With two tokens of a user in the map, as two pages opened before either was enabled leave them,
  disabling does not disable: whichever order the hub's iteration takes, it answers that the token is
  inactive and goes on to accept agents under one of the two.
\<close>

theorem disable_leaves_second_token:
  assumes "tq_enable q = ''0''"
    and "dget (th_map h) ta = Some (user, ea)" "\<not> ea < he_now env"
    and "dget (th_map h) tb = Some (user, eb)" "\<not> eb < he_now env" "ta \<noteq> tb"
  shows "let (h', r) = getUniversalToken env user q h in
    r = Inr (tq_token q, False, Some False)
    \<and> (universal_user (he_now env) ta h' = Some user \<or> universal_user (he_now env) tb h' = Some user)"
proof -
  let ?m = "em_RemovebyValue env user (th_map h)"
  have "\<exists>k. ?m = ddel k (th_map h) \<or> ?m = th_map h"
    by (auto simp: em_RemovebyValue_def split: option.split)
  then have "dget ?m ta = Some (user, ea) \<or> dget ?m tb = Some (user, eb)" using assms(2,4,6) by auto
  moreover have "th_map (fst (getUniversalToken env user q h)) = ?m"
    using assms(1) by (simp add: getUniversalToken_def deletePermanent_def)
  ultimately show ?thesis using assms(1,3,5)
    by (auto simp: getUniversalToken_def universal_user_def em_GetOk_def)
qed

definition two_pages :: TokenHub where
  "two_pages = snd (token_step (sample_env ''t2'') ''u'' Toggle
     (fst (token_step (sample_env ''t2'') ''u'' Mount (token_mounted, empty_hub)),
      snd (token_step (sample_env ''t1'') ''u'' Toggle (token_step (sample_env ''t1'') ''u'' Mount (token_mounted, empty_hub)))))"

theorem disable_leaves_second_token_witness:
  "th_map two_pages = [(''t1'', ''u'', 3600), (''t2'', ''u'', 3600)]
   \<and> (let (h', r) = getUniversalToken (sample_env ''t3'') ''u''
           \<lparr>tq_token = ''t2'', tq_enable = ''0'', tq_permanent = ''0''\<rparr> two_pages
       in r = Inr (''t2'', False, Some False)
          \<and> (universal_user 0 ''t1'' h' = Some ''u'' \<or> universal_user 0 ''t2'' h' = Some ''u''))"
proof -
  have m: "th_map two_pages = [(''t1'', ''u'', 3600), (''t2'', ''u'', 3600)]" by code_simp
  show ?thesis
    using m disable_leaves_second_token [where q = "\<lparr>tq_token = ''t2'', tq_enable = ''0'', tq_permanent = ''0''\<rparr>"
        and env = "sample_env ''t3''" and h = two_pages and ta = "''t1''" and tb = "''t2''" and user = "''u''"]
    by (simp add: sample_env_def)
qed

end
