(* ===== verification/AlertsSheet.thy ===== *)
theory AlertsSheet
  imports Alerts
begin

text \<open>
  The alert sheet, \<^verbatim>\<open>components/alerts/alerts-sheet.tsx\<close>, as a component: the tabs, the copy of
  the alerts kept for the global tab, the controls of every alert type, and the debounced requests;
  together with the hub's handlers of those requests, \<^verbatim>\<open>src/internal/alerts/alerts_api.go\<close>.

  The controls of the tab that is not chosen are unmounted, so choosing a tab makes new ones. A slider
  reports every value it passes and, when it is released, the last one if it differs from the value it
  started with.
\<close>

section \<open>The sheet\<close>

datatype SheetTab = SystemTab | GlobalTab

record AlertSheet =
  as_overwrite :: bool
  as_tab :: SheetTab
  as_initial :: AlertMap
  as_contents :: "(string, AlertContent) dict"

definition sheet_contents :: "bool \<Rightarrow> string \<Rightarrow> AlertMap \<Rightarrow> (string, AlertContent) dict" where
  "sheet_contents global systemId alerts =
    map (\<lambda>(key, info). (key, AlertContent_init info (alert_of alerts systemId key) global)) alertInfo"

definition sheet_mounted :: "string \<Rightarrow> AlertMap \<Rightarrow> AlertSheet" where
  "sheet_mounted systemId alerts =
    \<lparr>as_overwrite = False, as_tab = SystemTab, as_initial = alerts, as_contents = sheet_contents False systemId alerts\<rparr>"

text \<open>
  Choosing another tab: the memoised copy is taken anew from the store (\<open>alerts\<close>), and the controls
  are those of the new tab.
\<close>

definition setCurrentTab :: "string \<Rightarrow> AlertMap \<Rightarrow> SheetTab \<Rightarrow> AlertSheet \<Rightarrow> AlertSheet" where
  "setCurrentTab systemId alerts tab st =
    (if tab = as_tab st then st
     else st\<lparr>as_tab := tab, as_initial := alerts, as_contents := sheet_contents (tab = GlobalTab) systemId alerts\<rparr>)"

definition setOverwriteExisting :: "bool \<Rightarrow> AlertSheet \<Rightarrow> AlertSheet" where
  "setOverwriteExisting b st = st\<lparr>as_overwrite := b\<rparr>"

section \<open>Controls of an alert type\<close>

datatype ContentAction = Switch bool | SlideValue "rat list" | SlideMin "int list"

text \<open>The sliders are shown while the alert is on, that of the value for types with a threshold.\<close>

fun control_shown :: "AlertInfo \<Rightarrow> AlertContent \<Rightarrow> ContentAction \<Rightarrow> bool" where
  "control_shown info c (Switch b) = (b \<noteq> ac_checked c)"
| "control_shown info c (SlideValue vs) = (ac_checked c \<and> ai_singleDesc info = None \<and> vs \<noteq> [])"
| "control_shown info c (SlideMin ms) = (ac_checked c \<and> ms \<noteq> [])"

fun content_step ::
  "string \<Rightarrow> string \<Rightarrow> bool \<Rightarrow> bool \<Rightarrow> SystemRecord list \<Rightarrow> ContentAction \<Rightarrow> AlertContent \<times> AlertMap
   \<Rightarrow> (AlertContent \<times> AlertMap) \<times> alert_request list" where
  "content_step key systemId global ovw allSystems (Switch b) s =
     onCheckedChange key systemId global ovw allSystems b s"
| "content_step key systemId global ovw allSystems (SlideValue vs) (c, initial) =
     ((c\<lparr>ac_value := last vs\<rparr>, initial),
      if last vs \<noteq> ac_value c then sendUpsert key systemId global ovw initial allSystems (ac_min c) (last vs) else [])"
| "content_step key systemId global ovw allSystems (SlideMin ms) (c, initial) =
     ((c\<lparr>ac_min := last ms\<rparr>, initial),
      if last ms \<noteq> ac_min c then sendUpsert key systemId global ovw initial allSystems (last ms) (ac_value c) else [])"

definition slider_range :: "AlertInfo \<Rightarrow> rat \<times> rat \<times> rat" where
  "slider_range info =
    (case ai_step info of None \<Rightarrow> 1 | Some s \<Rightarrow> s, case ai_min info of None \<Rightarrow> 1 | Some m \<Rightarrow> m,
     case ai_max info of None \<Rightarrow> 99 | Some m \<Rightarrow> m)"

text \<open>A control of the sheet: nothing happens when it is not shown.\<close>

definition sheet_step ::
  "string \<Rightarrow> SystemRecord list \<Rightarrow> string \<Rightarrow> ContentAction \<Rightarrow> AlertSheet \<Rightarrow> AlertSheet \<times> alert_request list" where
  "sheet_step systemId allSystems key a st =
    (case (dget alertInfo key, dget (as_contents st) key) of
       (Some info, Some c) \<Rightarrow>
         (if control_shown info c a
          then (case content_step key systemId (as_tab st = GlobalTab) (as_tab st = GlobalTab \<and> as_overwrite st)
                       allSystems a (c, as_initial st) of
                  ((c', initial'), calls) \<Rightarrow>
                    (st\<lparr>as_contents := dset key c' (as_contents st), as_initial := initial'\<rparr>, calls))
          else (st, []))
     | _ \<Rightarrow> (st, []))"

text \<open>The texts of the controls; \<open>num\<close> prints numbers, \<open>plural\<close> chooses the form of a unit.\<close>

definition value_text :: "(string \<Rightarrow> string) \<Rightarrow> (rat \<Rightarrow> string) \<Rightarrow> AlertInfo \<Rightarrow> AlertContent \<Rightarrow> string" where
  "value_text tr num info c =
    (if ai_invert info = Some True then tr ''Average drops below'' else tr ''Average exceeds'')
    @ '' '' @ num (ac_value c) @ ai_unit info"

definition minutes_text :: "(string \<Rightarrow> string) \<Rightarrow> (int \<Rightarrow> string) \<Rightarrow> (int \<Rightarrow> string) \<Rightarrow> AlertInfo \<Rightarrow> AlertContent \<Rightarrow> string" where
  "minutes_text tr num plural info c =
    (case ai_singleDesc info of None \<Rightarrow> [] | Some d \<Rightarrow> tr d @ '' '')
    @ tr ''For'' @ '' '' @ num (ac_min c) @ '' '' @ plural (ac_min c)"

record ContentView =
  cv_name :: string
  cv_desc :: "string option"
  cv_value :: "(string \<times> rat \<times> rat \<times> rat) option"
  cv_minutes :: "(string \<times> int \<times> int) option"

definition content_view ::
  "(string \<Rightarrow> string) \<Rightarrow> (rat \<Rightarrow> string) \<Rightarrow> (int \<Rightarrow> string) \<Rightarrow> (int \<Rightarrow> string) \<Rightarrow> AlertInfo \<Rightarrow> AlertContent \<Rightarrow> ContentView" where
  "content_view tr num inum plural info c =
    \<lparr>cv_name = tr (ai_name info),
     cv_desc = (if ac_checked c then None else Some (tr (ai_desc info))),
     cv_value = (if ac_checked c \<and> ai_singleDesc info = None
       then Some (value_text tr num info c, slider_range info) else None),
     cv_minutes = (if ac_checked c then Some (minutes_text tr inum plural info c, 1, 60) else None)\<rparr>"

section \<open>Requests\<close>

text \<open>
  A use of the controls one after another, each at its time and with the systems of that time: the
  sheet in the end and the calls of the two debounced functions.
\<close>

record SheetUse =
  us_time :: int
  us_systems :: "SystemRecord list"
  us_key :: string
  us_action :: ContentAction

fun sheet_run :: "string \<Rightarrow> AlertSheet \<Rightarrow> SheetUse list \<Rightarrow> AlertSheet \<times> (int \<times> alert_request) list" where
  "sheet_run systemId st [] = (st, [])"
| "sheet_run systemId st (u # us) =
    (let (st', calls) = sheet_step systemId (us_systems u) (us_key u) (us_action u) st;
         (st'', later) = sheet_run systemId st' us
     in (st'', map (\<lambda>r. (us_time u, r)) calls @ later))"

fun is_upsert :: "alert_request \<Rightarrow> bool" where
  "is_upsert (Upsert n v m ss) = True"
| "is_upsert (DeleteAlerts n ss) = False"

text \<open>\<open>upsertAlerts\<close> and \<open>deleteAlerts\<close> have a timer each; the requests in the order they are sent.\<close>

definition sent_requests :: "(int \<times> alert_request) list \<Rightarrow> (int \<times> alert_request) list" where
  "sent_requests calls =
    sort_key fst
      (debounce_run alertDebounce None (filter (is_upsert \<circ> snd) calls)
       @ debounce_run alertDebounce None (filter (Not \<circ> is_upsert \<circ> snd) calls))"

section \<open>The hub\<close>

text \<open>
  The alerts of the user by system and name. Both handlers refuse a request without name or systems;
  their loops run in a transaction, so an error of the database (\<open>ok\<close> is false) changes nothing.
\<close>

type_synonym AlertTable = "(string \<times> string, int \<times> rat) dict"

definition UpsertUserAlerts :: "bool \<Rightarrow> string \<Rightarrow> rat \<Rightarrow> int \<Rightarrow> string list \<Rightarrow> AlertTable \<Rightarrow> AlertTable \<times> bool" where
  "UpsertUserAlerts ok name v mins ss h =
    (if name = [] \<or> ss = [] \<or> \<not> ok then (h, False)
     else (foldl (\<lambda>h s. dset (s, name) (mins, v) h) h ss, True))"

definition DeleteUserAlerts :: "bool \<Rightarrow> string \<Rightarrow> string list \<Rightarrow> AlertTable \<Rightarrow> AlertTable \<times> bool" where
  "DeleteUserAlerts ok name ss h =
    (if name = [] \<or> ss = [] \<or> \<not> ok then (h, False)
     else (foldl (\<lambda>h s. ddel (s, name) h) h ss, True))"

fun serve_request :: "bool \<Rightarrow> alert_request \<Rightarrow> AlertTable \<Rightarrow> AlertTable \<times> bool" where
  "serve_request ok (Upsert n v m ss) h = UpsertUserAlerts ok n v m ss h"
| "serve_request ok (DeleteAlerts n ss) h = DeleteUserAlerts ok n ss h"

text \<open>The toast of a request that fails.\<close>

definition failedUpdateToast :: "(string \<Rightarrow> string) \<Rightarrow> bool \<Rightarrow> (string \<times> string) option" where
  "failedUpdateToast tr success =
    (if success then None else Some (tr ''Failed to update alert'', tr ''Please check logs for more details.''))"

definition serve_all :: "(int \<times> alert_request) list \<Rightarrow> AlertTable \<Rightarrow> AlertTable" where
  "serve_all rs h = foldl (\<lambda>h r. fst (serve_request True (snd r) h)) h rs"

section \<open>Lemmas\<close>

text \<open>The alert a control stands for, as the hub should have it.\<close>

definition shown_alert :: "AlertContent \<Rightarrow> (int \<times> rat) option" where
  "shown_alert c = (if ac_checked c then Some (ac_min c, ac_value c) else None)"

text \<open>What a request leaves on the hub for an alert it names.\<close>

fun request_leaves :: "alert_request \<Rightarrow> (int \<times> rat) option" where
  "request_leaves (Upsert n v m ss) = Some (m, v)"
| "request_leaves (DeleteAlerts n ss) = None"

fun request_for :: "string \<Rightarrow> string \<Rightarrow> alert_request \<Rightarrow> bool" where
  "request_for s n (Upsert n' v m ss) = (n' = n \<and> ss = [s])"
| "request_for s n (DeleteAlerts n' ss) = (n' = n \<and> ss = [s])"

lemma content_step_single:
  assumes "control_shown info c a" "content_step key sid False False all a (c, initial) = ((c', initial'), calls)"
  shows "initial' = initial \<and> (calls = [] \<and> shown_alert c' = shown_alert c
      \<or> (\<exists>r. calls = [r] \<and> request_for sid key r \<and> request_leaves r = shown_alert c'))"
  using assms
  by (cases a) (auto simp: onCheckedChange_def sendUpsert_def getSystemIds_def shown_alert_def Let_def split: if_splits)

lemma sheet_run_single:
  assumes "as_tab st = SystemTab" "dget (as_contents st) key = Some c" "\<forall>u\<in>set us. us_key u = key"
    and "sheet_run sid st us = (st', calls)"
  shows "\<exists>c'. dget (as_contents st') key = Some c' \<and> (\<forall>x\<in>set calls. request_for sid key (snd x))
    \<and> (if calls = [] then shown_alert c' = shown_alert c else request_leaves (snd (last calls)) = shown_alert c')
    \<and> set (map fst calls) \<subseteq> set (map us_time us)
    \<and> (sorted_wrt (<) (map us_time us) \<longrightarrow> sorted_wrt (<) (map fst calls))"
  using assms
proof (induction us arbitrary: st c st' calls)
  case Nil
  then show ?case by auto
next
  case (Cons u us)
  obtain st1 cs where step: "sheet_step sid (us_systems u) key (us_action u) st = (st1, cs)" by fastforce
  obtain later where rest: "sheet_run sid st1 us = (st', later)" and calls: "calls = map (\<lambda>r. (us_time u, r)) cs @ later"
    using Cons.prems(3,4) step by (auto split: prod.splits)
  have st1: "as_tab st1 = SystemTab \<and> (\<exists>c1. dget (as_contents st1) key = Some c1
      \<and> (cs = [] \<and> shown_alert c1 = shown_alert c
         \<or> (\<exists>r. cs = [r] \<and> request_for sid key r \<and> request_leaves r = shown_alert c1)))"
  proof (cases "\<exists>info. dget alertInfo key = Some info \<and> control_shown info c (us_action u)")
    case False
    then have "st1 = st" "cs = []" using step Cons.prems(2) by (auto simp: sheet_step_def split: option.splits)
    then show ?thesis using Cons.prems(1,2) by simp
  next
    case True
    then obtain info where info: "dget alertInfo key = Some info" "control_shown info c (us_action u)" by blast
    obtain c1 i1 where s: "content_step key sid False False (us_systems u) (us_action u) (c, as_initial st) = ((c1, i1), cs)"
      and st1: "st1 = st\<lparr>as_contents := dset key c1 (as_contents st), as_initial := i1\<rparr>"
      using step info Cons.prems(1,2) by (auto simp: sheet_step_def split: prod.splits)
    from content_step_single [OF info(2) s] show ?thesis using st1 Cons.prems(1) by auto
  qed
  then obtain c1 where c1: "as_tab st1 = SystemTab" "dget (as_contents st1) key = Some c1"
    "cs = [] \<and> shown_alert c1 = shown_alert c
       \<or> (\<exists>r. cs = [r] \<and> request_for sid key r \<and> request_leaves r = shown_alert c1)" by blast
  have "\<forall>u\<in>set us. us_key u = key" using Cons.prems(3) by simp
  from Cons.IH [OF c1(1,2) this rest] obtain c' where IH: "dget (as_contents st') key = Some c'"
    "\<forall>x\<in>set later. request_for sid key (snd x)"
    "if later = [] then shown_alert c' = shown_alert c1 else request_leaves (snd (last later)) = shown_alert c'"
    "set (map fst later) \<subseteq> set (map us_time us)"
    "sorted_wrt (<) (map us_time us) \<longrightarrow> sorted_wrt (<) (map fst later)" by blast
  from c1(3) show ?case
  proof (elim disjE exE conjE)
    assume "cs = []" "shown_alert c1 = shown_alert c"
    then show ?thesis using IH calls by (intro exI [of _ c']) auto
  next
    fix r assume r: "cs = [r]" "request_for sid key r" "request_leaves r = shown_alert c1"
    then show ?thesis using IH calls by (intro exI [of _ c']) (auto split: if_splits)
  qed
qed

lemma settled_nonempty: "calls \<noteq> [] \<Longrightarrow> settled w calls \<noteq> []"
  by (induction w calls rule: settled.induct) auto

lemma settled_mem: "x \<in> set (settled w calls) \<Longrightarrow> (fst x - w, snd x) \<in> set calls"
  by (induction w calls rule: settled.induct) (auto split: if_splits)

lemma settled_last: "calls \<noteq> [] \<Longrightarrow> (fst (last calls) + w, snd (last calls)) \<in> set (settled w calls)"
  by (induction w calls rule: settled.induct) auto

lemma last_sort_key:
  fixes f :: "'a \<Rightarrow> int"
  assumes "x \<in> set xs" "\<And>y. y \<in> set xs \<Longrightarrow> y \<noteq> x \<Longrightarrow> f y < f x"
  shows "last (sort_key f xs) = x"
proof (rule ccontr)
  let ?ys = "sort_key f xs"
  have ne: "?ys \<noteq> []" using assms(1) by (metis empty_iff set_empty set_sort)
  have s: "sorted (map f ?ys)" by simp
  have x: "x \<in> set ?ys" using assms(1) by simp
  have "f x \<le> f (last ?ys)"
  proof -
    obtain i where i: "i < length ?ys" "?ys ! i = x" using x by (metis in_set_conv_nth)
    have "map f ?ys ! i \<le> map f ?ys ! (length ?ys - 1)" by (rule sorted_nth_mono [OF s]) (use i in auto)
    then show ?thesis using i ne by (simp add: last_conv_nth)
  qed
  moreover assume "last ?ys \<noteq> x"
  moreover have "last ?ys \<in> set xs" using ne last_in_set [of ?ys] by simp
  ultimately show False using assms(2) by fastforce
qed

text \<open>The last call is sent, and it is sent last.\<close>

lemma sent_requests_last:
  assumes "calls \<noteq> []" "sorted_wrt (<) (map fst calls)"
  shows "sent_requests calls \<noteq> [] \<and> snd (last (sent_requests calls)) = snd (last calls)"
proof -
  let ?U = "filter (is_upsert \<circ> snd) calls" and ?D = "filter (Not \<circ> is_upsert \<circ> snd) calls"
  let ?x = "(fst (last calls) + alertDebounce, snd (last calls))"
  let ?xs = "settled alertDebounce ?U @ settled alertDebounce ?D"
  obtain cs l where calls: "calls = cs @ [l]" using assms(1) by (metis append_butlast_last_id)
  have mem: "?x \<in> set ?xs"
  proof (cases "is_upsert (snd l)")
    case True
    then have "?U \<noteq> []" "last ?U = l" by (simp_all add: calls)
    then show ?thesis using settled_last [of ?U alertDebounce] by (simp add: calls)
  next
    case False
    then have "?D \<noteq> []" "last ?D = l" by (simp_all add: calls)
    then show ?thesis using settled_last [of ?D alertDebounce] by (simp add: calls)
  qed
  have "fst y < fst ?x" if "y \<in> set ?xs" "y \<noteq> ?x" for y
  proof -
    have "(fst y - alertDebounce, snd y) \<in> set calls"
      using that(1) settled_mem [of y alertDebounce ?U] settled_mem [of y alertDebounce ?D] by auto
    moreover have "(fst y - alertDebounce, snd y) \<noteq> l" using that(2) by (auto simp: calls prod_eq_iff)
    ultimately have "(fst y - alertDebounce, snd y) \<in> set cs" by (auto simp: calls)
    then have "fst y - alertDebounce < fst l"
      using assms(2) by (auto simp: calls sorted_wrt_append dest!: bspec)
    then show ?thesis by (simp add: calls)
  qed
  from last_sort_key [where f = fst, OF mem this] have "last (sent_requests calls) = ?x"
    by (simp add: sent_requests_def debounce_run_settled)
  moreover have "sent_requests calls \<noteq> []"
    using mem unfolding sent_requests_def debounce_run_settled by (metis empty_iff set_empty set_sort)
  ultimately show ?thesis by simp
qed

lemma sent_requests_mem:
  assumes "x \<in> set (sent_requests calls)"
  shows "snd x \<in> snd ` set calls"
proof -
  have "(fst x - alertDebounce, snd x) \<in> set calls"
    using assms settled_mem [of x alertDebounce "filter (is_upsert \<circ> snd) calls"]
      settled_mem [of x alertDebounce "filter (Not \<circ> is_upsert \<circ> snd) calls"]
    unfolding sent_requests_def debounce_run_settled by auto
  then have "snd (fst x - alertDebounce, snd x) \<in> snd ` set calls" by (rule imageI)
  then show ?thesis by simp
qed

lemma serve_request_for:
  "request_for s n r \<Longrightarrow> n \<noteq> [] \<Longrightarrow> dget (fst (serve_request True r h)) (s, n) = request_leaves r"
  by (cases r) (auto simp: UpsertUserAlerts_def DeleteUserAlerts_def)

lemma serve_all_last:
  assumes "\<forall>x\<in>set rs. request_for s n (snd x)" "n \<noteq> []" "rs \<noteq> []"
  shows "dget (serve_all rs h) (s, n) = request_leaves (snd (last rs))"
  using assms unfolding serve_all_def
  by (induction rs rule: rev_induct) (auto simp: serve_request_for)

fun request_systems :: "alert_request \<Rightarrow> string list" where
  "request_systems (Upsert n v m ss) = ss"
| "request_systems (DeleteAlerts n ss) = ss"

fun request_name :: "alert_request \<Rightarrow> string" where
  "request_name (Upsert n v m ss) = n"
| "request_name (DeleteAlerts n ss) = n"

lemma content_step_spares:
  assumes "content_step key sid True False all a (c, initial) = ((c', initial'), calls)"
  shows "initial' = initial \<and> (\<forall>r\<in>set calls. request_name r = key \<and> (\<forall>s\<in>set (request_systems r). alert_of initial s key = None))"
  using assms
  by (cases a) (auto simp: onCheckedChange_def sendUpsert_def getSystemIds_def has_alert_def Let_def split: if_splits)

lemma sheet_step_spares:
  assumes "as_tab st = GlobalTab" "\<not> as_overwrite st" "sheet_step sid all key a st = (st', calls)"
  shows "as_tab st' = GlobalTab \<and> \<not> as_overwrite st' \<and> as_initial st' = as_initial st
    \<and> (\<forall>r\<in>set calls. \<forall>s\<in>set (request_systems r). alert_of (as_initial st) s (request_name r) = None)"
  using assms content_step_spares [of key sid all a _ "as_initial st"]
  by (fastforce simp: sheet_step_def split: option.splits prod.splits if_splits)

lemma alertInfo_keys: "dget alertInfo key = Some info \<Longrightarrow> key \<noteq> []"
  by (auto simp: alertInfo_def split: if_splits)

lemma sheet_contents_get:
  "dget (sheet_contents global sid alerts) key =
     map_option (\<lambda>info. AlertContent_init info (alert_of alerts sid key) global) (dget alertInfo key)"
proof -
  have "dget (map (\<lambda>(k, i). (k, F k i)) xs) key = map_option (F key) (dget xs key)" for F :: "string \<Rightarrow> AlertInfo \<Rightarrow> AlertContent" and xs
    by (induction xs) auto
  then show ?thesis by (simp add: sheet_contents_def)
qed

text \<open>Values the sliders can have.\<close>

definition in_range :: "AlertInfo \<Rightarrow> int \<Rightarrow> rat \<Rightarrow> bool" where
  "in_range info mins v =
    (case slider_range info of (step, lowest, highest) \<Rightarrow>
       1 \<le> mins \<and> mins \<le> 60 \<and> (ai_singleDesc info = None \<longrightarrow> lowest \<le> v \<and> v \<le> highest))"

fun slider_action :: "AlertInfo \<Rightarrow> ContentAction \<Rightarrow> bool" where
  "slider_action info (Switch b) = True"
| "slider_action info (SlideValue vs) = (case slider_range info of (step, lowest, highest) \<Rightarrow> \<forall>v\<in>set vs. lowest \<le> v \<and> v \<le> highest)"
| "slider_action info (SlideMin ms) = (\<forall>m\<in>set ms. 1 \<le> m \<and> m \<le> 60)"

definition upsert_typed :: "alert_request \<Rightarrow> bool" where
  "upsert_typed r =
    (case r of
       Upsert n v m ss \<Rightarrow> ss \<noteq> [] \<and> (case dget alertInfo n of None \<Rightarrow> False | Some info \<Rightarrow> in_range info m v)
     | DeleteAlerts n ss \<Rightarrow> dget alertInfo n \<noteq> None)"

text \<open>What the hub is asked: typed, and on the tab of a system about that system alone.\<close>

definition fits :: "string \<Rightarrow> bool \<Rightarrow> alert_request \<Rightarrow> bool" where
  "fits systemId global r \<longleftrightarrow> upsert_typed r \<and> (global \<or> request_systems r = [systemId])"

definition sheet_typed :: "AlertSheet \<Rightarrow> bool" where
  "sheet_typed st = (\<forall>key info c. dget alertInfo key = Some info \<longrightarrow> dget (as_contents st) key = Some c
     \<longrightarrow> in_range info (ac_min c) (ac_value c))"

lemma alertInfo_defaults:
  assumes "dget alertInfo key = Some info"
  shows "in_range info 10 (if ai_singleDesc info \<noteq> None then 0 else case ai_start info of Some s \<Rightarrow> s | None \<Rightarrow> 80)"
  using assms
  by (auto simp: alertInfo_def in_range_def slider_range_def plain_alert_def load_alert_def split: if_splits)

lemma init_in_range:
  assumes "dget alertInfo key = Some info" "\<And>a. al = Some a \<Longrightarrow> in_range info (al_min a) (al_value a)"
  shows "in_range info (ac_min (AlertContent_init info al g)) (ac_value (AlertContent_init info al g))"
  using alertInfo_defaults [OF assms(1)] assms(2)
  by (cases al) (auto simp: AlertContent_init_def in_range_def split: prod.splits)

lemma content_step_typed:
  assumes "dget alertInfo key = Some info" "in_range info (ac_min c) (ac_value c)" "slider_action info a" "control_shown info c a"
    and "content_step key sid g ovw all a (c, initial) = ((c', initial'), calls)"
  shows "in_range info (ac_min c') (ac_value c') \<and> (\<forall>r\<in>set calls. fits sid g r)"
  using assms
  by (cases a) (auto simp: onCheckedChange_def sendUpsert_def getSystemIds_def fits_def upsert_typed_def in_range_def Let_def
      dest: last_in_set split: if_splits prod.splits)

lemma sheet_step_typed:
  assumes "sheet_typed st" "sheet_step sid all key a st = (st', calls)"
    and "\<And>info. dget alertInfo key = Some info \<Longrightarrow> slider_action info a"
  shows "sheet_typed st' \<and> as_tab st' = as_tab st \<and> (\<forall>r\<in>set calls. fits sid (as_tab st = GlobalTab) r)"
proof (cases "\<exists>info c. dget alertInfo key = Some info \<and> dget (as_contents st) key = Some c \<and> control_shown info c a")
  case False
  then have "st' = st" "calls = []" using assms(2) by (auto simp: sheet_step_def split: option.splits)
  then show ?thesis using assms(1) by simp
next
  case True
  then obtain info c where ic: "dget alertInfo key = Some info" "dget (as_contents st) key = Some c" "control_shown info c a"
    by blast
  obtain ovw c1 i1 where s: "content_step key sid (as_tab st = GlobalTab) ovw all a (c, as_initial st) = ((c1, i1), calls)"
    and st': "st' = st\<lparr>as_contents := dset key c1 (as_contents st), as_initial := i1\<rparr>"
    using assms(2) ic by (auto simp: sheet_step_def split: prod.splits)
  have "in_range info (ac_min c) (ac_value c)" using assms(1) ic(1,2) unfolding sheet_typed_def by blast
  from content_step_typed [OF ic(1) this assms(3) [OF ic(1)] ic(3) s] show ?thesis
    using assms(1) ic(1) unfolding st' sheet_typed_def by auto
qed

lemma sheet_run_typed:
  assumes "sheet_typed st" "sheet_run sid st us = (st', calls)"
    and "\<And>u info. u \<in> set us \<Longrightarrow> dget alertInfo (us_key u) = Some info \<Longrightarrow> slider_action info (us_action u)"
  shows "\<forall>x\<in>set calls. fits sid (as_tab st = GlobalTab) (snd x)"
  using assms
proof (induction us arbitrary: st calls)
  case (Cons u us)
  obtain st1 cs where step: "sheet_step sid (us_systems u) (us_key u) (us_action u) st = (st1, cs)" by fastforce
  obtain later where rest: "sheet_run sid st1 us = (st', later)" "calls = map (\<lambda>r. (us_time u, r)) cs @ later"
    using Cons.prems(2) step by (auto split: prod.splits)
  have "slider_action info (us_action u)" if "dget alertInfo (us_key u) = Some info" for info
    using Cons.prems(3) [of u] that by simp
  note s = sheet_step_typed [OF Cons.prems(1) step this]
  have "\<forall>x\<in>set later. fits sid (as_tab st1 = GlobalTab) (snd x)"
    using Cons.IH [OF _ rest(1)] s Cons.prems(3) by (meson list.set_intros(2))
  with s show ?case unfolding rest(2) by auto
qed simp

section \<open>Properties\<close>

text \<open>
  C7. What the sheet of a system shows is what the hub has: however fast the controls of an alert type
  are used, once the debounced requests have been sent and served the hub's alert is on exactly when
  the switch is, with the minutes and the threshold shown.
\<close>

theorem sheet_matches_hub:
  assumes "dget alertInfo key = Some info" "sheet_run sid (sheet_mounted sid alerts) us = (st', calls)"
    and "\<forall>u\<in>set us. us_key u = key" "sorted_wrt (<) (map us_time us)"
    and "dget h (sid, key) = map_option (\<lambda>a. (al_min a, al_value a)) (alert_of alerts sid key)"
    and "\<And>a. alert_of alerts sid key = Some a \<Longrightarrow> al_min a \<noteq> 0 \<and> (al_value a \<noteq> 0 \<or> ai_singleDesc info \<noteq> None)"
  shows "\<exists>c. dget (as_contents st') key = Some c
    \<and> dget (serve_all (sent_requests calls) h) (sid, key) = shown_alert c"
proof -
  let ?c = "AlertContent_init info (alert_of alerts sid key) False"
  have c: "dget (as_contents (sheet_mounted sid alerts)) key = Some ?c"
    using assms(1) by (simp add: sheet_mounted_def sheet_contents_get)
  have start: "dget h (sid, key) = shown_alert ?c"
    using assms(5,6) by (cases "alert_of alerts sid key") (auto simp: AlertContent_init_def shown_alert_def)
  have "as_tab (sheet_mounted sid alerts) = SystemTab" by (simp add: sheet_mounted_def)
  from sheet_run_single [OF this c assms(3,2)] assms(4) obtain c' where c': "dget (as_contents st') key = Some c'"
    "\<forall>x\<in>set calls. request_for sid key (snd x)"
    "if calls = [] then shown_alert c' = shown_alert ?c else request_leaves (snd (last calls)) = shown_alert c'"
    "sorted_wrt (<) (map fst calls)" by blast
  have "dget (serve_all (sent_requests calls) h) (sid, key) = shown_alert c'"
  proof (cases "calls = []")
    case True
    then show ?thesis using c'(3) start by (simp add: sent_requests_def serve_all_def)
  next
    case False
    have all: "\<forall>x\<in>set (sent_requests calls). request_for sid key (snd x)"
      using sent_requests_mem c'(2) by fastforce
    show ?thesis
      using serve_all_last [OF all alertInfo_keys [OF assms(1)]] sent_requests_last [OF False c'(4)] c'(3) False by simp
  qed
  with c'(1) show ?thesis by blast
qed

definition quick_uses :: "SheetUse list" where
  "quick_uses =
    [\<lparr>us_time = 0, us_systems = [], us_key = ''CPU'', us_action = Switch True\<rparr>,
     \<lparr>us_time = 40, us_systems = [], us_key = ''CPU'', us_action = Switch False\<rparr>,
     \<lparr>us_time = 80, us_systems = [], us_key = ''CPU'', us_action = Switch True\<rparr>,
     \<lparr>us_time = 300, us_systems = [], us_key = ''CPU'', us_action = SlideValue [81, 85, 90]\<rparr>]"

theorem sheet_matches_hub_witness:
  "\<exists>c. dget (as_contents (fst (sheet_run ''a'' (sheet_mounted ''a'' []) quick_uses))) ''CPU'' = Some c
     \<and> dget (serve_all (sent_requests (snd (sheet_run ''a'' (sheet_mounted ''a'' []) quick_uses))) []) (''a'', ''CPU'') = shown_alert c"
proof -
  have i: "dget alertInfo ''CPU'' = Some (plain_alert ''CPU Usage'' ''%'' ''Triggers when CPU usage exceeds a threshold'')"
    by (simp add: alertInfo_def)
  show ?thesis
    by (rule sheet_matches_hub [OF i prod.collapse [symmetric]]) (simp_all add: quick_uses_def alert_of_def)
qed

text \<open>
  Without overwriting, the tab of all systems spares what existed: no request of any use of it names
  a system that had an alert of that type when the tab was opened.
\<close>

theorem global_spares_existing:
  assumes "as_tab st = GlobalTab" "\<not> as_overwrite st" "sheet_run sid st us = (st', calls)" "(t, r) \<in> set calls"
    and "s \<in> set (request_systems r)"
  shows "alert_of (as_initial st) s (request_name r) = None"
proof -
  have "\<forall>x\<in>set calls. \<forall>s\<in>set (request_systems (snd x)). alert_of (as_initial st) s (request_name (snd x)) = None"
    using assms(1-3)
  proof (induction us arbitrary: st calls)
    case (Cons u us)
    obtain st1 cs where step: "sheet_step sid (us_systems u) (us_key u) (us_action u) st = (st1, cs)" by fastforce
    obtain later where rest: "sheet_run sid st1 us = (st', later)" "calls = map (\<lambda>r. (us_time u, r)) cs @ later"
      using Cons.prems(3) step by (auto split: prod.splits)
    note s = sheet_step_spares [OF Cons.prems(1,2) step]
    from s Cons.IH [OF _ _ rest(1)] show ?case unfolding rest(2) by auto
  qed simp
  with assms(4,5) show ?thesis by fastforce
qed

definition spared_sheet :: AlertSheet where
  "spared_sheet = setCurrentTab ''a'' [(''a'', [(''CPU'', sample_alert ''a'' ''CPU'' 80)])] GlobalTab
     (sheet_mounted ''a'' [(''a'', [(''CPU'', sample_alert ''a'' ''CPU'' 80)])])"

text \<open>
  When every system has the alert already, switching it on for all systems without overwriting sends
  nothing, and switching it off again asks the hub to delete it for no system, which the hub refuses:
  the user is told that updating the alert failed.
\<close>

theorem global_switch_without_targets:
  assumes "as_tab st = GlobalTab" "\<not> as_overwrite st" "dget alertInfo key = Some info"
    and "dget (as_contents st) key = Some c" "\<not> ac_checked c"
    and "\<forall>s\<in>set all. alert_of (as_initial st) (sys_id s) key \<noteq> None"
  shows "let (st1, calls1) = sheet_step sid all key (Switch True) st;
             (st2, calls2) = sheet_step sid all key (Switch False) st1 in
    calls1 = [] \<and> calls2 = [DeleteAlerts key []]
    \<and> failedUpdateToast tr (snd (serve_request ok (DeleteAlerts key []) h)) \<noteq> None"
proof -
  have none: "filter (\<lambda>s. \<not> has_alert (as_initial st) (sys_id s) key) all = []"
    using assms(6) by (simp add: filter_empty_conv has_alert_def)
  have s1: "sheet_step sid all key (Switch True) st =
      (st\<lparr>as_contents := dset key (c\<lparr>ac_checked := True\<rparr>) (as_contents st)\<rparr>, [])"
    using assms(1-5) none
    by (simp add: sheet_step_def onCheckedChange_def sendUpsert_def getSystemIds_def Let_def)
  show ?thesis using assms(1-3) none unfolding s1
    by (simp add: sheet_step_def onCheckedChange_def getSystemIds_def Let_def DeleteUserAlerts_def failedUpdateToast_def)
qed

theorem global_switch_without_targets_witness:
  "let (st1, calls1) = sheet_step ''a'' [sample_system ''a'' ''web'' Up] ''CPU'' (Switch True) spared_sheet;
       (st2, calls2) = sheet_step ''a'' [sample_system ''a'' ''web'' Up] ''CPU'' (Switch False) st1 in
    calls1 = [] \<and> calls2 = [DeleteAlerts ''CPU'' []]
    \<and> failedUpdateToast (\<lambda>s. s) (snd (serve_request True (DeleteAlerts ''CPU'' []) [])) \<noteq> None"
proof -
  have i: "dget alertInfo ''CPU'' = Some (plain_alert ''CPU Usage'' ''%'' ''Triggers when CPU usage exceeds a threshold'')"
    by (simp add: alertInfo_def)
  have c: "dget (as_contents spared_sheet) ''CPU'' = Some \<lparr>ac_checked = False, ac_min = 10, ac_value = 80\<rparr>"
    by (simp add: spared_sheet_def setCurrentTab_def sheet_mounted_def sheet_contents_get i alert_of_def
        AlertContent_init_def plain_alert_def sample_alert_def)
  show ?thesis
    by (rule global_switch_without_targets [OF _ _ i c])
      (simp_all add: spared_sheet_def setCurrentTab_def sheet_mounted_def alert_of_def sample_system_def)
qed

lemma served_iff_systems: "upsert_typed r \<Longrightarrow> snd (serve_request True r h) = (request_systems r \<noteq> [])"
  by (cases r) (auto simp: upsert_typed_def UpsertUserAlerts_def DeleteUserAlerts_def dest: alertInfo_keys split: option.splits)

text \<open>
  C12. Every request fits the hub's types: with stored alerts and sliders in their ranges, an upsert names
  an alert type, at least one system, between 1 and 60 minutes, which the hub's eight bits hold, and a
  threshold within the range of the type; a deletion names an alert type. On the tab of a system a request is
  about exactly that system. A hub whose database works serves a request unless it names no system, which only
  a deletion on the tab of all systems can do.
\<close>

theorem alert_requests_typed:
  assumes "\<And>key info a. dget alertInfo key = Some info \<Longrightarrow> alert_of alerts sid key = Some a \<Longrightarrow> in_range info (al_min a) (al_value a)"
    and "\<And>u info. u \<in> set us \<Longrightarrow> dget alertInfo (us_key u) = Some info \<Longrightarrow> slider_action info (us_action u)"
    and "sheet_run sid (setOverwriteExisting ovw (setCurrentTab sid alerts tab (sheet_mounted sid alerts))) us = (st', calls)"
    and "(t, r) \<in> set calls"
  shows "upsert_typed r \<and> (tab = SystemTab \<longrightarrow> request_systems r = [sid])
    \<and> (\<forall>h. \<not> snd (serve_request True r h) \<longleftrightarrow> tab = GlobalTab \<and> r = DeleteAlerts (request_name r) [])"
proof -
  let ?st = "setOverwriteExisting ovw (setCurrentTab sid alerts tab (sheet_mounted sid alerts))"
  have "sheet_typed ?st"
    using init_in_range assms(1)
    by (auto simp: sheet_typed_def setOverwriteExisting_def setCurrentTab_def sheet_mounted_def sheet_contents_get)
  moreover have "as_tab ?st = tab" by (simp add: setOverwriteExisting_def setCurrentTab_def sheet_mounted_def)
  ultimately have f: "fits sid (tab = GlobalTab) r" using sheet_run_typed [OF _ assms(3,2)] assms(4) by fastforce
  then have "tab = SystemTab \<Longrightarrow> request_systems r = [sid]" by (simp add: fits_def)
  moreover have "request_systems r = [] \<longleftrightarrow> r = DeleteAlerts (request_name r) []"
    using f by (cases r) (simp_all add: fits_def upsert_typed_def)
  ultimately show ?thesis
    using f served_iff_systems by (cases tab) (auto simp: fits_def)
qed

theorem alert_requests_typed_witness:
  "(300, Upsert ''CPU'' 90 10 [''a'']) \<in> set (snd (sheet_run ''a'' (setOverwriteExisting False
      (setCurrentTab ''a'' [] SystemTab (sheet_mounted ''a'' []))) quick_uses))
   \<and> upsert_typed (Upsert ''CPU'' 90 10 [''a'']) \<and> snd (serve_request True (Upsert ''CPU'' 90 10 [''a'']) [])"
proof -
  let ?run = "sheet_run ''a'' (setOverwriteExisting False (setCurrentTab ''a'' [] SystemTab (sheet_mounted ''a'' []))) quick_uses"
  have i: "dget alertInfo ''CPU'' = Some (plain_alert ''CPU Usage'' ''%'' ''Triggers when CPU usage exceeds a threshold'')"
    by (simp add: alertInfo_def)
  have m: "(300, Upsert ''CPU'' 90 10 [''a'']) \<in> set (snd ?run)" by code_simp
  have u: "slider_action info (us_action u)" if "u \<in> set quick_uses" "dget alertInfo (us_key u) = Some info" for u info
    using that i by (auto simp: quick_uses_def slider_range_def plain_alert_def)
  have "upsert_typed (Upsert ''CPU'' 90 10 [''a'']) \<and> (SystemTab = SystemTab \<longrightarrow> request_systems (Upsert ''CPU'' 90 10 [''a'']) = [''a''])
      \<and> (\<forall>h. \<not> snd (serve_request True (Upsert ''CPU'' 90 10 [''a'']) h)
           \<longleftrightarrow> SystemTab = GlobalTab \<and> Upsert ''CPU'' 90 10 [''a''] = DeleteAlerts (request_name (Upsert ''CPU'' 90 10 [''a''])) [])"
    by (rule alert_requests_typed [OF _ u prod.collapse [symmetric] m]) (simp_all add: alert_of_def)
  with m show ?thesis by blast
qed

end
