(* ===== verification/Polling.thy ===== *)
theory Polling
  imports Feeds
begin

text \<open>
  Tables filled by polling: the containers and the systemd services are fetched again after every
  update of a system and merged into the list on the page. The hub deletes old rows late, so a merge
  keeps only rows updated within \<open>window\<close> milliseconds of the newest fetched one. The locale
  \<open>recent_merge\<close> is the contract of such a merge; its theorems are about any sequence of fetches.
\<close>

definition window :: int where "window = 70000"

text \<open>\<open>Math.max(items[0].updated, items.at(-1)?.updated ?? 0)\<close>\<close>

definition last_updated :: "('a \<Rightarrow> int) \<Rightarrow> 'a list \<Rightarrow> int" where
  "last_updated upd items = max (upd (hd items)) (case at_last items of None \<Rightarrow> 0 | Some x \<Rightarrow> upd x)"

text \<open>The rows of the response that are recent, and the rows on the page that stay beside them.\<close>

definition recent_items :: "('a \<Rightarrow> int) \<Rightarrow> 'a list \<Rightarrow> 'a list" where
  "recent_items upd items = filter (\<lambda>x. \<bar>last_updated upd items - upd x\<bar> < window) items"

definition kept_items :: "('a \<Rightarrow> 'k) \<Rightarrow> ('a \<Rightarrow> int) \<Rightarrow> 'a list \<Rightarrow> 'a list \<Rightarrow> 'a list" where
  "kept_items key upd items cur =
    filter (\<lambda>x. \<not> list_ex (\<lambda>y. key y = key x) (recent_items upd items)
                \<and> last_updated upd items - upd x < window) cur"

definition merge_items :: "('a \<Rightarrow> 'k) \<Rightarrow> ('a \<Rightarrow> int) \<Rightarrow> 'a list \<Rightarrow> 'a list \<Rightarrow> 'a list" where
  "merge_items key upd items cur = recent_items upd items @ kept_items key upd items cur"

lemma set_recent_items: "x \<in> set (recent_items upd items) \<longleftrightarrow> x \<in> set items \<and> \<bar>last_updated upd items - upd x\<bar> < window"
  by (auto simp: recent_items_def)

lemma set_kept_items:
  "x \<in> set (kept_items key upd items cur) \<longleftrightarrow>
     x \<in> set cur \<and> key x \<notin> key ` set (recent_items upd items) \<and> last_updated upd items - upd x < window"
  by (auto simp: kept_items_def list_ex_iff image_iff)

lemma lookup_by_filter_pred:
  assumes "distinct (map key xs)"
  shows "lookup_by key (filter P xs) k = (case lookup_by key xs k of None \<Rightarrow> None | Some x \<Rightarrow> if P x then Some x else None)"
  using assms by (induction xs) auto

lemma distinct_merge_items:
  assumes "distinct (map key items)" "distinct (map key cur)"
  shows "distinct (map key (merge_items key upd items cur))"
proof -
  have "distinct (map key (recent_items upd items))" "distinct (map key (kept_items key upd items cur))"
    using assms by (simp_all add: recent_items_def kept_items_def distinct_map_filter)
  moreover have "key y \<notin> key ` set (recent_items upd items)" if "y \<in> set (kept_items key upd items cur)" for y
    using that by (simp add: set_kept_items)
  then have "key ` set (kept_items key upd items cur) \<subseteq> - (key ` set (recent_items upd items))"
    by (intro image_subsetI ComplI) simp
  ultimately show ?thesis unfolding merge_items_def map_append distinct_append set_map by blast
qed

text \<open>Reading a merged list: the recent fetched row, else the recent row of the page.\<close>

definition recent_or_none :: "('a \<Rightarrow> bool) \<Rightarrow> 'a option \<Rightarrow> 'a option" where
  "recent_or_none P r = (case r of None \<Rightarrow> None | Some x \<Rightarrow> if P x then Some x else None)"

lemma lookup_merge_items:
  assumes "distinct (map key items)" "distinct (map key cur)"
  shows "lookup_by key (merge_items key upd items cur) k =
    (case recent_or_none (\<lambda>x. \<bar>last_updated upd items - upd x\<bar> < window) (lookup_by key items k) of
       Some x \<Rightarrow> Some x
     | None \<Rightarrow> recent_or_none (\<lambda>x. last_updated upd items - upd x < window) (lookup_by key cur k))"
proof (cases "lookup_by key (recent_items upd items) k")
  case (Some x)
  then show ?thesis using assms(1)
    by (simp add: merge_items_def lookup_by_append) (simp add: recent_items_def lookup_by_filter_pred recent_or_none_def)
next
  case None
  then have k: "k \<notin> key ` set (recent_items upd items)" by (simp add: lookup_by_None)
  have "lookup_by key (kept_items key upd items cur) k =
      recent_or_none (\<lambda>x. last_updated upd items - upd x < window) (lookup_by key cur k)"
    unfolding kept_items_def lookup_by_filter_pred [OF assms(2)] recent_or_none_def
    using k by (auto simp: list_ex_iff image_iff lookup_by_def dest!: find_SomeD split: option.split)
  then show ?thesis using None assms(1)
    by (simp add: merge_items_def lookup_by_append) (simp add: recent_items_def lookup_by_filter_pred recent_or_none_def)
qed

section \<open>The contract\<close>

locale recent_merge =
  fixes key :: "'a \<Rightarrow> 'k"
    and upd :: "'a \<Rightarrow> int"
    and merge :: "'a list \<Rightarrow> 'a list \<Rightarrow> 'a list"
  assumes merge_lookup: "items \<noteq> [] \<Longrightarrow> distinct (map key items) \<Longrightarrow> distinct (map key cur) \<Longrightarrow>
      lookup_by key (merge items cur) k =
       (case recent_or_none (\<lambda>x. \<bar>last_updated upd items - upd x\<bar> < window) (lookup_by key items k) of
          Some x \<Rightarrow> Some x
        | None \<Rightarrow> recent_or_none (\<lambda>x. last_updated upd items - upd x < window) (lookup_by key cur k))"
    and merge_distinct: "distinct (map key items) \<Longrightarrow> distinct (map key cur) \<Longrightarrow> distinct (map key (merge items cur))"
begin

lemma merges_distinct:
  assumes "distinct (map key cur)" "\<And>items. items \<in> set fetches \<Longrightarrow> distinct (map key items)"
  shows "distinct (map key (foldl (\<lambda>cur items. merge items cur) cur fetches))"
  using assms by (induction fetches arbitrary: cur) (auto simp: merge_distinct)

text \<open>A row of the newest fetch that is recent is shown as fetched.\<close>

lemma merge_shows_fetched:
  assumes "distinct (map key items)" "distinct (map key cur)" "x \<in> set items" "\<bar>last_updated upd items - upd x\<bar> < window"
  shows "lookup_by key (merge items cur) (key x) = Some x"
proof -
  have "lookup_by key items (key x) = Some x"
    unfolding lookup_by_def by (rule find_unique) (use assms in \<open>auto simp: distinct_map dest: inj_onD\<close>)
  then show ?thesis using assms by (subst merge_lookup) (auto simp: recent_or_none_def)
qed

text \<open>Nothing older than the window before the newest fetched row is shown.\<close>

lemma merge_all_recent:
  assumes "items \<noteq> []" "distinct (map key items)" "distinct (map key cur)" "x \<in> set (merge items cur)"
  shows "last_updated upd items - upd x < window"
proof -
  have "distinct (map key (merge items cur))" using assms by (simp add: merge_distinct)
  then have "lookup_by key (merge items cur) (key x) = Some x"
    unfolding lookup_by_def by (rule_tac find_unique) (use assms in \<open>auto simp: distinct_map dest: inj_onD\<close>)
  then show ?thesis using assms by (subst (asm) merge_lookup) (auto simp: recent_or_none_def split: option.splits if_splits)
qed

end

end
