(* ===== verification/Smart.thy ===== *)
theory Smart
  imports Feeds Tokens
begin

text \<open>
  S.M.A.R.T. devices, \<^verbatim>\<open>components/routes/system/smart-table.tsx\<close>: the list of devices of a
  system (or of all systems) kept in step with the hub, the row actions, the columns' values and
  comparisons, and the search. \<open>num\<close> prints numbers, \<open>loc\<close> is \<open>localeCompare\<close>, \<open>lower\<close>
  is \<open>toLowerCase\<close>.
\<close>

section \<open>Columns\<close>

definition smart_value :: "(rat \<Rightarrow> string) \<Rightarrow> SmartAttribute \<Rightarrow> string option" where
  "smart_value num a =
    (case sa_rs a of Some s \<Rightarrow> if s \<noteq> [] then Some s else map_option num (sa_rv a)
     | None \<Rightarrow> map_option num (sa_rv a))"

definition formatCapacity :: "(rat \<Rightarrow> string) \<Rightarrow> rat \<Rightarrow> string" where
  "formatCapacity num bytes =
    (let (v, u) = formatBytes bytes False Bytes False in num (toFixedFloat v (if v \<ge> 10 then 1 else 2)) @ '' '' @ u)"

definition system_name :: "SystemRecord store \<Rightarrow> string \<Rightarrow> string" where
  "system_name allSystems k = (case dget allSystems k of None \<Rightarrow> [] | Some s \<Rightarrow> sys_name s)"

definition smart_system_cmp :: "(string \<Rightarrow> string \<Rightarrow> rat) \<Rightarrow> SystemRecord store \<Rightarrow> SmartDeviceRecord \<Rightarrow> SmartDeviceRecord \<Rightarrow> rat" where
  "smart_system_cmp loc allSystems a b = loc (system_name allSystems (sd_system a)) (system_name allSystems (sd_system b))"

definition state_badge :: "string \<Rightarrow> string" where
  "state_badge status = (if status = ''PASSED'' then ''success'' else if status = ''FAILED'' then ''danger'' else ''warning'')"

definition hours_cell :: "(rat \<Rightarrow> SecondsUnit \<Rightarrow> string) \<Rightarrow> rat \<Rightarrow> string \<times> string" where
  "hours_cell fmt hours = (let seconds = hours * 3600 in (fmt seconds U_hour, fmt seconds U_day))"

definition temp_cell :: "(rat \<Rightarrow> string) \<Rightarrow> UserSettings \<Rightarrow> rat \<Rightarrow> string" where
  "temp_cell num settings t = (let (v, u) = formatTemperature settings t None in num v @ '' '' @ u)"

text \<open>The formatter of the updated column: with seconds for a time of today.\<close>

definition updated_cell :: "(string \<Rightarrow> string) \<Rightarrow> (string \<Rightarrow> string) \<Rightarrow> (string \<Rightarrow> string) \<Rightarrow> string \<Rightarrow> string \<Rightarrow> string" where
  "updated_cell dateString withSeconds shortDate today timestamp =
    (if dateString timestamp = today then withSeconds timestamp else shortDate timestamp)"

section \<open>The device list\<close>

text \<open>
  The reducer: a deleted record and one outside the page's system disappear, a known one is
  replaced where it is, an unknown one is put in front, for creations and updates alike. The list
  is undefined until the first load.
\<close>

definition in_scope :: "string option \<Rightarrow> SmartDeviceRecord \<Rightarrow> bool" where
  "in_scope systemId r = (case systemId of None \<Rightarrow> True | Some s \<Rightarrow> s = [] \<or> sd_system r = s)"

definition smart_feed :: "string option \<Rightarrow> PbAction \<times> SmartDeviceRecord \<Rightarrow> SmartDeviceRecord list \<Rightarrow> SmartDeviceRecord list" where
  "smart_feed systemId e devices =
    (case e of (action, r) \<Rightarrow>
      if action = Delete then filter (\<lambda>d. sd_id d \<noteq> sd_id r) devices
      else if \<not> in_scope systemId r then filter (\<lambda>d. sd_id d \<noteq> sd_id r) devices
      else (case find_index (\<lambda>d. sd_id d = sd_id r) devices of
              None \<Rightarrow> r # devices
            | Some i \<Rightarrow> devices[i := r]))"

definition smart_event :: "string option \<Rightarrow> PbAction \<times> SmartDeviceRecord \<Rightarrow> SmartDeviceRecord list option \<Rightarrow> SmartDeviceRecord list option" where
  "smart_event systemId e devices = Some (smart_feed systemId e (case devices of None \<Rightarrow> [] | Some ds \<Rightarrow> ds))"

text \<open>The first load: a failed request gives the empty list unless it was aborted.\<close>

definition smart_loaded :: "(bool + SmartDeviceRecord list) \<Rightarrow> SmartDeviceRecord list option \<Rightarrow> SmartDeviceRecord list option" where
  "smart_loaded response devices =
    (case response of Inr ds \<Rightarrow> Some ds | Inl isAbort \<Rightarrow> if isAbort then devices else Some [])"

datatype RowAction = RefreshRow | DeleteRow

text \<open>The row whose action is running: set when it starts, cleared when that row's request settles.\<close>

definition row_start :: "RowAction \<Rightarrow> SmartDeviceRecord \<Rightarrow> (RowAction \<times> string) option \<Rightarrow> (RowAction \<times> string) option" where
  "row_start a disk st = (if a = RefreshRow \<and> sd_system disk = [] then st else Some (a, sd_id disk))"

definition row_settled :: "SmartDeviceRecord \<Rightarrow> (RowAction \<times> string) option \<Rightarrow> (RowAction \<times> string) option" where
  "row_settled disk st = (case st of Some (a, k) \<Rightarrow> if k = sd_id disk then None else st | None \<Rightarrow> None)"

definition refresh_disabled :: "SmartDeviceRecord \<Rightarrow> (RowAction \<times> string) option \<Rightarrow> bool" where
  "refresh_disabled disk st \<longleftrightarrow> st = Some (RefreshRow, sd_id disk) \<or> st = Some (DeleteRow, sd_id disk)"

definition delete_disabled :: "SmartDeviceRecord \<Rightarrow> (RowAction \<times> string) option \<Rightarrow> bool" where
  "delete_disabled disk st \<longleftrightarrow> st = Some (DeleteRow, sd_id disk)"

text \<open>A search term matches when every word of it occurs in the row's text.\<close>

definition words_match :: "string \<Rightarrow> string \<Rightarrow> bool" where
  "words_match filterValue searchString = list_all (str_includes searchString) (split_on CHR '' '' filterValue)"

definition smart_filter :: "(string \<Rightarrow> string) \<Rightarrow> SystemRecord store \<Rightarrow> string \<Rightarrow> SmartDeviceRecord \<Rightarrow> bool" where
  "smart_filter lower allSystems filterValue disk =
    words_match (lower filterValue)
      (lower (system_name allSystems (sd_system disk) @ '' '' @ sd_name disk @ '' '' @ sd_model disk @ '' ''
              @ sd_state disk @ '' '' @ sd_type disk))"

definition table_hidden :: "string option \<Rightarrow> SmartDeviceRecord list option \<Rightarrow> bool \<Rightarrow> bool" where
  "table_hidden systemId devices filtered \<longleftrightarrow>
     (systemId \<noteq> None \<and> systemId \<noteq> Some []) \<and> (devices = None \<or> devices = Some []) \<and> \<not> filtered"

section \<open>Lemmas\<close>

lemma list_update_find_index:
  assumes "distinct (map key xs)" "find_index (\<lambda>x. key x = key r) xs = Some i"
  shows "xs[i := r] = map (\<lambda>x. if key x = key r then r else x) xs"
proof (rule nth_equalityI)
  fix j assume "j < length (xs[i := r])"
  moreover have "i < length xs" "key (xs ! i) = key r" using find_index_SomeD [OF assms(2)] by auto
  moreover have "key (xs ! j) = key (xs ! i) \<Longrightarrow> j = i" if "j < length xs"
    using assms(1) that \<open>i < length xs\<close> nth_eq_iff_index_eq [of "map key xs" j i] by simp
  ultimately show "xs[i := r] ! j = map (\<lambda>x. if key x = key r then r else x) xs ! j"
    by (auto simp: nth_list_update)
qed simp

lemma smart_feed_upsert:
  assumes "distinct (map sd_id xs)" "a \<noteq> Delete" "in_scope s r"
  shows "smart_feed s (a, r) xs =
    (if sd_id r \<in> set (map sd_id xs) then map (\<lambda>x. if sd_id x = sd_id r then r else x) xs else r # xs)"
proof (cases "find_index (\<lambda>d. sd_id d = sd_id r) xs")
  case None
  then have "sd_id r \<notin> set (map sd_id xs)" by (auto simp: find_index_None_iff)
  with None assms show ?thesis by (simp add: smart_feed_def)
next
  case (Some i)
  then have "sd_id r \<in> set (map sd_id xs)" using find_index_SomeD [OF Some] by (metis in_set_conv_nth length_map nth_map)
  with Some assms list_update_find_index [OF assms(1) Some] show ?thesis by (simp add: smart_feed_def)
qed

lemma smart_feed_gone:
  "a = Delete \<or> \<not> in_scope s r \<Longrightarrow> smart_feed s (a, r) xs = filter (\<lambda>d. sd_id d \<noteq> sd_id r) xs"
  by (auto simp: smart_feed_def)

lemma smart_feed_lookup:
  assumes "distinct (map sd_id xs)" "a \<noteq> Delete"
  shows "lookup_by sd_id (smart_feed s (a, r) xs) k =
    (if k = sd_id r then (if in_scope s r then Some r else None) else lookup_by sd_id xs k)"
proof (cases "in_scope s r")
  case True
  show ?thesis
    unfolding smart_feed_upsert [OF assms True] if_distrib [of "\<lambda>l. lookup_by sd_id l k"] lookup_by_map_update
    using True by (auto simp: lookup_by_None)
next
  case False
  then show ?thesis by (simp add: smart_feed_gone lookup_by_filter)
qed

lemma smart_keyed: "keyed_feed sd_id (in_scope s) True (smart_feed s)"
proof
  fix xs :: "SmartDeviceRecord list" and e :: "PbAction \<times> SmartDeviceRecord"
  assume d: "distinct (map sd_id xs)"
  obtain a r where e: "e = (a, r)" by fastforce
  show "distinct (map sd_id (smart_feed s e xs))"
  proof (cases "a = Delete \<or> \<not> in_scope s r")
    case True
    then show ?thesis using d by (simp add: e smart_feed_gone distinct_map_filter)
  next
    case False
    then have "smart_feed s e xs =
        (if sd_id r \<in> set (map sd_id xs) then map (\<lambda>x. if sd_id x = sd_id r then r else x) xs else r # xs)"
      unfolding e by (intro smart_feed_upsert d) auto
    then show ?thesis using d by (auto simp: map_key_update simp del: map_map)
  qed
qed (simp_all add: smart_feed_lookup smart_feed_gone lookup_by_filter)

text \<open>Provided for every page; here the page of all systems.\<close>

interpretation smart_all: keyed_feed sd_id "in_scope None" True "smart_feed None"
  by (rule smart_keyed)

section \<open>Properties\<close>

text \<open>
  The device table of a system follows the hub: after the initial load and any sequence of
  messages, looking a device up gives the last state the messages give it, a device that was moved
  to another system or deleted is gone, an update brings in a device that was missing, and no device
  appears twice.
\<close>

theorem smart_devices_follow_hub:
  assumes "distinct (map sd_id ds)" "fresh_creates sd_id (in_scope systemId) True (lookup_by sd_id ds) es"
  shows "lookup_by sd_id (foldl (\<lambda>xs e. smart_feed systemId e xs) ds es) =
      foldl (\<lambda>m e. feed_spec sd_id (in_scope systemId) True e m) (lookup_by sd_id ds) es
    \<and> distinct (map sd_id (foldl (\<lambda>xs e. smart_feed systemId e xs) ds es))"
  by (rule keyed_feed.feed_refines [OF smart_keyed assms])

definition sample_disk :: "string \<Rightarrow> string \<Rightarrow> SmartDeviceRecord" where
  "sample_disk k s = \<lparr>sd_id = k, sd_system = s, sd_name = ''sda'', sd_model = ''m'', sd_state = ''PASSED'',
     sd_capacity = 1, sd_temp = 30, sd_firmware = [], sd_serial = [], sd_type = ''sat'', sd_hours = 1,
     sd_cycles = 1, sd_attributes = [], sd_updated = []\<rparr>"

theorem smart_devices_follow_hub_witness:
  "lookup_by sd_id (foldl (\<lambda>xs e. smart_feed (Some ''s'') e xs) [sample_disk ''d'' ''s''] [(Update, sample_disk ''d'' ''other'')]) ''d'' = None"
proof -
  have "fresh_creates sd_id (in_scope (Some ''s'')) True (lookup_by sd_id [sample_disk ''d'' ''s'']) [(Update, sample_disk ''d'' ''other'')]"
    by simp
  from smart_devices_follow_hub [OF _ this] show ?thesis
    by (simp add: feed_spec_def) (simp add: sample_disk_def in_scope_def)
qed

end
