(* ===== verification/Containers.thy ===== *)
theory Containers
  imports Polling Smart
begin

text \<open>
  \<^verbatim>\<open>components/containers-table/containers-table-columns.tsx\<close> and
  \<^verbatim>\<open>components/containers-table/containers-table.tsx\<close>: the list of containers, refreshed after
  the systems' updates, its columns, its orders and its search. \<open>dec\<close> is \<open>decimalString\<close>,
  \<open>loc\<close> is \<open>localeCompare\<close>, \<open>lower\<close> is \<open>toLowerCase\<close>.
\<close>

section \<open>Columns\<close>

definition unitSeconds :: "(string \<times> rat) list" where
  "unitSeconds = [(''s'', 1), (''mi'', 60), (''h'', 3600), (''d'', 86400), (''w'', 604800), (''mo'', 2592000)]"

text \<open>\<open>x * c\<close> for a positive constant \<open>c\<close>.\<close>

fun js_scale :: "rat \<Rightarrow> jsnum \<Rightarrow> jsnum" where
  "js_scale c (Fin x) = Fin (c * x)"
| "js_scale c x = x"

fun unit_value :: "jsnum \<Rightarrow> string \<Rightarrow> (string \<times> rat) list \<Rightarrow> jsnum" where
  "unit_value n unit [] = Fin 0"
| "unit_value n unit ((unitName, v) # us) = (if prefix unitName unit then js_scale v n else unit_value n unit us)"

text \<open>
  The order of the status column. With fewer than three words \<open>unit\<close> is undefined and
  \<open>unit.startsWith\<close> throws: \<open>None\<close>.
\<close>

definition getStatusValue :: "string \<Rightarrow> jsnum option" where
  "getStatusValue status =
    (let ws = split_on CHR '' '' status in
     case nth_opt ws 2 of
       None \<Rightarrow> None
     | Some unit \<Rightarrow>
         (let num = ws ! 1; numValue = (if num = ''a'' \<or> num = ''an'' then Fin 1 else js_Number num)
          in Some (unit_value numValue unit unitSeconds)))"

definition status_cmp :: "ContainerRecord \<Rightarrow> ContainerRecord \<Rightarrow> jsnum option" where
  "status_cmp a b =
    (case (getStatusValue (cr_status a), getStatusValue (cr_status b)) of
       (Some x, Some y) \<Rightarrow> Some (js_minus x y) | _ \<Rightarrow> None)"

definition container_system_cmp :: "(string \<Rightarrow> string \<Rightarrow> rat) \<Rightarrow> SystemRecord store \<Rightarrow> ContainerRecord \<Rightarrow> ContainerRecord \<Rightarrow> rat" where
  "container_system_cmp loc allSystems a b = loc (system_name allSystems (cr_system a)) (system_name allSystems (cr_system b))"

definition container_cpu_cell :: "(rat \<Rightarrow> nat \<Rightarrow> string) \<Rightarrow> rat \<Rightarrow> string" where
  "container_cpu_cell dec val = dec val (if val \<ge> 10 then 1 else 2) @ ''%''"

definition bytes_cell :: "(rat \<Rightarrow> nat \<Rightarrow> string) \<Rightarrow> rat \<times> string \<Rightarrow> string" where
  "bytes_cell dec formatted = (case formatted of (v, u) \<Rightarrow> dec v (if v \<ge> 10 then 1 else 2) @ '' '' @ u)"

definition container_memory_cell :: "(rat \<Rightarrow> nat \<Rightarrow> string) \<Rightarrow> rat \<Rightarrow> string" where
  "container_memory_cell dec val = bytes_cell dec (formatBytes val False Bytes True)"

definition container_net_cell :: "(rat \<Rightarrow> nat \<Rightarrow> string) \<Rightarrow> rat \<Rightarrow> string" where
  "container_net_cell dec val = bytes_cell dec (formatBytes val True Bytes False)"

text \<open>The label and the colour of the health badge; a code that is not one of the enumeration has no colour.\<close>

definition health_cell :: "nat \<Rightarrow> string \<times> string option" where
  "health_cell healthValue =
    ((case nth_opt ContainerHealthLabels healthValue of None \<Rightarrow> ''Unknown'' | Some l \<Rightarrow> l),
     (if healthValue = 2 then Some ''bg-green-500'' else if healthValue = 3 then Some ''bg-red-500''
      else if healthValue = 1 then Some ''bg-yellow-500'' else if healthValue = 0 then Some ''bg-zinc-500'' else None))"

section \<open>The list\<close>

text \<open>
  What a response does to the list (undefined before the first one). An empty response empties the
  requested system's share of it, or all of it.
\<close>

definition truthy_id :: "string option \<Rightarrow> bool" where
  "truthy_id systemId \<longleftrightarrow> systemId \<noteq> None \<and> systemId \<noteq> Some []"

definition containers_fetched :: "string option \<Rightarrow> ContainerRecord list \<Rightarrow> ContainerRecord list option \<Rightarrow> ContainerRecord list" where
  "containers_fetched systemId items curItems =
    (if items = [] then
       (if truthy_id systemId
        then (case curItems of None \<Rightarrow> [] | Some cur \<Rightarrow> filter (\<lambda>x. cr_system x \<noteq> the systemId) cur)
        else [])
     else merge_items cr_id cr_updated items (case curItems of None \<Rightarrow> [] | Some cur \<Rightarrow> cur))"

text \<open>
  The request a change of the systems' store causes: on a system's page the change of that system,
  on the page of all systems every change more than half a second after it was opened.
\<close>

definition containers_listen :: "int \<Rightarrow> int \<Rightarrow> string option \<Rightarrow> string \<Rightarrow> string option" where
  "containers_listen loadTime now systemId changedKey =
    (if truthy_id systemId then (if changedKey = the systemId then systemId else None)
     else if now - loadTime > 500 then Some changedKey else None)"

definition health_label :: "nat \<Rightarrow> string" where
  "health_label h = (case nth_opt ContainerHealthLabels h of None \<Rightarrow> [] | Some l \<Rightarrow> l)"

definition container_filter :: "(string \<Rightarrow> string) \<Rightarrow> SystemRecord store \<Rightarrow> string \<Rightarrow> ContainerRecord \<Rightarrow> bool" where
  "container_filter lower allSystems filterValue c =
    words_match (lower filterValue)
      (lower (system_name allSystems (cr_system c) @ '' '' @ cr_id c @ '' '' @ cr_name c @ '' ''
              @ health_label (cr_health c) @ '' '' @ cr_status c @ '' '' @ cr_image c))"

section \<open>Lemmas\<close>

lemma containers_merge: "items \<noteq> [] \<Longrightarrow> containers_fetched s items (Some cur) = merge_items cr_id cr_updated items cur"
  by (simp add: containers_fetched_def)

lemma containers_recent: "recent_merge cr_id cr_updated (\<lambda>items cur. containers_fetched s items (Some cur))"
proof
  fix items cur :: "ContainerRecord list"
  assume "distinct (map cr_id items)" "distinct (map cr_id cur)"
  then show "distinct (map cr_id (containers_fetched s items (Some cur)))"
    by (cases "items = []") (simp_all add: containers_merge distinct_merge_items containers_fetched_def distinct_map_filter)
qed (simp add: containers_merge lookup_merge_items)

interpretation containers_all: recent_merge cr_id cr_updated "\<lambda>items cur. containers_fetched None items (Some cur)"
  by (rule containers_recent)

lemma show_nat_no_space: "CHR '' '' \<notin> set (show_nat n)"
  using show_nat_digits [of _ n] by (force simp: is_digit_def)

lemma digits_not_article: "show_nat n \<noteq> ''a'' \<and> show_nat n \<noteq> ''an''"
  using show_nat_digits [of _ n] by (force simp: is_digit_def)

lemma getStatusValue_words:
  assumes "CHR '' '' \<notin> set a" "CHR '' '' \<notin> set n" "CHR '' '' \<notin> set u"
  shows "getStatusValue (a @ '' '' @ n @ '' '' @ u) =
    Some (unit_value (if n = ''a'' \<or> n = ''an'' then Fin 1 else js_Number n) u unitSeconds)"
  using assms by (simp add: getStatusValue_def split_on_append_sep split_on_no_sep nth_opt_def)

section \<open>Properties\<close>

text \<open>
  C17. The containers shown after any sequence of responses are pairwise different; and after a
  response with rows in it, every row within 70 seconds of the newest is shown as fetched, any other
  row shown was on the page before, and none is 70 seconds or more older than the newest.
\<close>

theorem containers_table_current:
  assumes "distinct (map cr_id cur)" "\<And>r. r \<in> set responses \<Longrightarrow> distinct (map cr_id r)"
    "distinct (map cr_id items)" "items \<noteq> []"
  shows "let page = foldl (\<lambda>cur items. containers_fetched systemId items (Some cur)) cur responses;
             page' = containers_fetched systemId items (Some page); newest = last_updated cr_updated items
         in distinct (map cr_id page')
          \<and> (\<forall>x\<in>set items. \<bar>newest - cr_updated x\<bar> < window \<longrightarrow> lookup_by cr_id page' (cr_id x) = Some x)
          \<and> (\<forall>x\<in>set page'. newest - cr_updated x < window \<and> (x \<in> set items \<or> x \<in> set page))"
proof -
  define page where "page = foldl (\<lambda>cur items. containers_fetched systemId items (Some cur)) cur responses"
  have d: "distinct (map cr_id page)"
    unfolding page_def using recent_merge.merges_distinct [OF containers_recent assms(1,2)] by simp
  note rm = recent_merge.merge_distinct [OF containers_recent assms(3) d, of systemId]
    recent_merge.merge_shows_fetched [OF containers_recent assms(3) d, of _ systemId]
    recent_merge.merge_all_recent [OF containers_recent assms(4,3) d, of _ systemId]
  have "x \<in> set items \<or> x \<in> set page" if "x \<in> set (containers_fetched systemId items (Some page))" for x
    using that assms(4) by (auto simp: containers_merge merge_items_def set_kept_items set_recent_items)
  then show ?thesis unfolding Let_def page_def [symmetric] using rm by blast
qed

definition sample_container :: "string \<Rightarrow> int \<Rightarrow> ContainerRecord" where
  "sample_container k t = \<lparr>cr_id = k, cr_system = ''s'', cr_name = k, cr_image = ''i'', cr_cpu = 1, cr_memory = 1,
     cr_net = 0, cr_health = 2, cr_status = ''Up 2 hours'', cr_updated = t\<rparr>"

lemma sample_container_simps [simp]:
  "cr_id (sample_container k t) = k" "cr_updated (sample_container k t) = t"
  by (simp_all add: sample_container_def)

theorem containers_table_current_witness:
  "lookup_by cr_id (containers_fetched None [sample_container ''b'' 100000]
     (Some (foldl (\<lambda>cur items. containers_fetched None items (Some cur)) [sample_container ''a'' 0] [[sample_container ''b'' 1]]))) ''b''
   = Some (sample_container ''b'' 100000)"
proof -
  have "distinct (map cr_id [sample_container ''a'' 0])"
    "\<And>r. r \<in> set [[sample_container ''b'' 1]] \<Longrightarrow> distinct (map cr_id r)"
    "distinct (map cr_id [sample_container ''b'' 100000])" "[sample_container ''b'' 100000] \<noteq> []" by auto
  from containers_table_current [where systemId = None and responses = "[[sample_container ''b'' 1]]", OF this] show ?thesis
    by (simp add: Let_def last_updated_def at_last_def window_def)
qed

text \<open>
  A Docker status orders the containers by their age: \<open>Up n unit\<close> is worth \<open>n\<close> times the
  unit's seconds, \<open>a\<close> and \<open>an\<close> stand for one, for every unit Docker prints; a status of one
  word, such as \<open>Created\<close>, makes the comparison throw.
\<close>

theorem getStatusValue_correct:
  assumes "(u, v) \<in> set [(''second'', 1), (''seconds'', 1), (''minute'', 60), (''minutes'', 60), (''hour'', 3600),
      (''hours'', 3600), (''days'', 86400), (''weeks'', 604800), (''months'', 2592000)]"
  shows "getStatusValue (''Up '' @ show_nat n @ '' '' @ u) = Some (Fin (of_nat n * v))
    \<and> getStatusValue (''Up a '' @ u) = Some (Fin v) \<and> getStatusValue (''Up an '' @ u) = Some (Fin v)
    \<and> (\<forall>w. CHR '' '' \<notin> set w \<longrightarrow> getStatusValue w = None)"
proof (intro conjI allI impI)
  have u: "CHR '' '' \<notin> set u" and v: "unit_value x u unitSeconds = js_scale v x" for x
    using assms by (auto simp: unitSeconds_def)
  show "getStatusValue (''Up '' @ show_nat n @ '' '' @ u) = Some (Fin (of_nat n * v))"
    using getStatusValue_words [of "''Up''" "show_nat n" u] u v digits_not_article [of n] show_nat_no_space [of n]
    by (simp add: mult.commute)
  show "getStatusValue (''Up a '' @ u) = Some (Fin v)"
    using getStatusValue_words [of "''Up''" "''a''" u] u v by simp
  show "getStatusValue (''Up an '' @ u) = Some (Fin v)"
    using getStatusValue_words [of "''Up''" "''an''" u] u v by simp
  show "getStatusValue w = None" if "CHR '' '' \<notin> set w" for w
    using that by (simp add: getStatusValue_def split_on_no_sep nth_opt_def)
qed

theorem getStatusValue_correct_witness: "getStatusValue ''Up 2 hours'' = Some (Fin 7200)"
  using getStatusValue_correct [of "''hours''" 3600 2] by (simp add: show_nat.simps digit_char_eval)

end
