(* ===== verification/Systemd.thy ===== *)
theory Systemd
  imports Containers
begin

text \<open>
  \<^verbatim>\<open>components/systemd-table/systemd-table-columns.tsx\<close> and
  \<^verbatim>\<open>components/systemd-table/systemd-table.tsx\<close>: the services of a system. The responses carry no
  system (the field is not requested), so rows are told apart by name.
\<close>

section \<open>Columns\<close>

fun getSubStateColor :: "ServiceSubState \<Rightarrow> string" where
  "getSubStateColor Sub_Running = ''bg-green-500''"
| "getSubStateColor Sub_Failed = ''bg-red-500''"
| "getSubStateColor Sub_Dead = ''bg-yellow-500''"
| "getSubStateColor s = ''bg-zinc-500''"

fun getStatusColor :: "ServiceStatus \<Rightarrow> string" where
  "getStatusColor Svc_Active = ''bg-green-500''"
| "getStatusColor Svc_Failed = ''bg-red-500''"
| "getStatusColor Svc_Reloading = ''bg-yellow-500''"
| "getStatusColor Svc_Activating = ''bg-yellow-500''"
| "getStatusColor Svc_Deactivating = ''bg-yellow-500''"
| "getStatusColor s = ''bg-zinc-500''"

definition state_cell :: "ServiceStatus \<Rightarrow> string \<times> string" where
  "state_cell s = (getStatusColor s, case nth_opt ServiceStatusLabels (service_status_code s) of None \<Rightarrow> ''Unknown'' | Some l \<Rightarrow> l)"

definition sub_cell :: "ServiceSubState \<Rightarrow> string \<times> string" where
  "sub_cell s = (getSubStateColor s, case nth_opt ServiceSubStateLabels (service_sub_code s) of None \<Rightarrow> ''Unknown'' | Some l \<Rightarrow> l)"

definition service_cpu_value :: "SystemdRecord \<Rightarrow> rat" where
  "service_cpu_value r = (if sds_sub r \<noteq> Sub_Running then - 1 else sds_cpu r)"

definition service_cpuPeak_value :: "SystemdRecord \<Rightarrow> rat" where
  "service_cpuPeak_value r = (if sds_sub r \<noteq> Sub_Running then - 1 else sds_cpuPeak r)"

definition service_cpu_cell :: "(rat \<Rightarrow> nat \<Rightarrow> string) \<Rightarrow> rat \<Rightarrow> string" where
  "service_cpu_cell dec val = (if val < 0 then ''N/A'' else dec val (if val \<ge> 10 then 1 else 2) @ ''%'')"

definition service_memory_cell :: "(rat \<Rightarrow> nat \<Rightarrow> string) \<Rightarrow> rat \<Rightarrow> string" where
  "service_memory_cell dec val = (if val = 0 then ''N/A'' else bytes_cell dec (formatBytes val False Bytes False))"

section \<open>The list\<close>

definition systemd_fetched :: "SystemdRecord list \<Rightarrow> SystemdRecord list \<Rightarrow> SystemdRecord list" where
  "systemd_fetched items curItems =
    (if items = [] then curItems else merge_items sds_name sds_updated items curItems)"

text \<open>
  The listener of a system's page skips the request while \<open>lastUpdated\<close> is less than 9.5 minutes
  old. The effect runs once per system, so \<open>lastUpdated\<close> is what the list held when it ran:
  \<open>data0\<close>, the list of the render in which the page was opened or the system changed.
\<close>

definition effect_lastUpdated :: "SystemdRecord list \<Rightarrow> int" where
  "effect_lastUpdated data0 = (case data0 of [] \<Rightarrow> 0 | r # _ \<Rightarrow> sds_updated r)"

definition systemd_listen :: "SystemdRecord list \<Rightarrow> int \<Rightarrow> int \<Rightarrow> string option \<Rightarrow> string \<Rightarrow> string option" where
  "systemd_listen data0 loadTime now systemId changedKey =
    (if truthy_id systemId
     then (if changedKey = the systemId \<and> \<not> effect_lastUpdated data0 > now - 570000 then systemId else None)
     else if now - loadTime > 500 then Some changedKey else None)"

text \<open>
  The search text. A fetched row has no system: the field, here empty, names no system of the store. The sub
  state is its number, printed.
\<close>

definition systemd_filter :: "(string \<Rightarrow> string) \<Rightarrow> SystemRecord store \<Rightarrow> string \<Rightarrow> SystemdRecord \<Rightarrow> bool" where
  "systemd_filter lower allSystems filterValue r =
    words_match (lower filterValue)
      (lower (system_name allSystems (sds_system r) @ '' '' @ sds_name r @ '' ''
        @ (case nth_opt ServiceStatusLabels (service_status_code (sds_state r)) of None \<Rightarrow> [] | Some l \<Rightarrow> l)
        @ '' '' @ show_nat (service_sub_code (sds_sub r))))"

definition statusTotals :: "SystemdRecord list \<Rightarrow> nat list" where
  "statusTotals services =
    foldl (\<lambda>totals r. totals[service_status_code (sds_state r) := totals ! service_status_code (sds_state r) + 1])
      [0, 0, 0, 0, 0, 0] services"

definition systemd_hidden :: "SystemdRecord list \<Rightarrow> string \<Rightarrow> bool" where
  "systemd_hidden services globalFilter \<longleftrightarrow> services = [] \<and> globalFilter = []"

section \<open>Lemmas\<close>

lemma systemd_recent: "recent_merge sds_name sds_updated systemd_fetched"
  by unfold_locales (simp_all add: systemd_fetched_def lookup_merge_items distinct_merge_items)

interpretation services: recent_merge sds_name sds_updated systemd_fetched
  by (rule systemd_recent)

lemma status_code_less: "service_status_code s < 6"
  by (cases s) auto

lemma statusTotals_from:
  assumes "length totals = 6" "i < 6"
  shows "length (foldl (\<lambda>totals r. totals[service_status_code (sds_state r) := totals ! service_status_code (sds_state r) + 1]) totals services) = 6
    \<and> foldl (\<lambda>totals r. totals[service_status_code (sds_state r) := totals ! service_status_code (sds_state r) + 1]) totals services ! i
      = totals ! i + length (filter (\<lambda>r. service_status_code (sds_state r) = i) services)"
  using assms
proof (induction services arbitrary: totals)
  case (Cons r rs)
  then show ?case
    using status_code_less [of "sds_state r"]
      Cons.IH [of "totals[service_status_code (sds_state r) := totals ! service_status_code (sds_state r) + 1]"]
    by (simp add: nth_list_update)
qed simp

lemma inj_status_code: "service_status_code s = service_status_code t \<longleftrightarrow> s = t"
  by (cases s; cases t) auto

lemma zero_totals: "[0, 0, 0, 0, 0, 0 :: nat] ! service_status_code s = 0"
  by (cases s) auto

lemma label_of_code: "nth_opt ServiceStatusLabels (service_status_code s) \<noteq> None"
  using status_code_less [of s] by (simp add: nth_opt_def ServiceStatusLabels_def)

section \<open>Properties\<close>

text \<open>
  The services shown after any sequence of responses have different names; after a response with
  rows in it every recent fetched row is shown as fetched and no row is 70 seconds or more older than
  the newest one; a response without rows changes nothing.
\<close>

theorem systemd_table_current:
  assumes "distinct (map sds_name cur)" "\<And>r. r \<in> set responses \<Longrightarrow> distinct (map sds_name r)"
    "distinct (map sds_name items)"
  shows "let page = foldl (\<lambda>cur items. systemd_fetched items cur) cur responses; page' = systemd_fetched items page;
             newest = last_updated sds_updated items
         in distinct (map sds_name page')
          \<and> (\<forall>x\<in>set items. \<bar>newest - sds_updated x\<bar> < window \<longrightarrow> lookup_by sds_name page' (sds_name x) = Some x)
          \<and> (if items = [] then page' = page else (\<forall>x\<in>set page'. newest - sds_updated x < window))"
proof -
  define page where "page = foldl (\<lambda>cur items. systemd_fetched items cur) cur responses"
  have d: "distinct (map sds_name page)"
    unfolding page_def using services.merges_distinct [OF assms(1,2)] by simp
  show ?thesis unfolding Let_def page_def [symmetric]
    using services.merge_distinct [OF assms(3) d] services.merge_shows_fetched [OF assms(3) d]
      services.merge_all_recent [OF _ assms(3) d]
    by (simp add: systemd_fetched_def)
qed

definition sample_service :: "string \<Rightarrow> ServiceStatus \<Rightarrow> int \<Rightarrow> SystemdRecord" where
  "sample_service n s t = \<lparr>sds_id = [], sds_system = [], sds_name = n, sds_state = s, sds_sub = Sub_Running,
     sds_cpu = 1, sds_cpuPeak = 2, sds_memory = 3, sds_memPeak = 4, sds_updated = t\<rparr>"

lemma sample_service_simps [simp]:
  "sds_name (sample_service n s t) = n" "sds_updated (sample_service n s t) = t" "sds_state (sample_service n s t) = s"
  by (simp_all add: sample_service_def)

theorem systemd_table_current_witness:
  "lookup_by sds_name (systemd_fetched [sample_service ''ssh'' Svc_Failed 5]
     (foldl (\<lambda>cur items. systemd_fetched items cur) [] [[sample_service ''ssh'' Svc_Active 1]])) ''ssh''
   = Some (sample_service ''ssh'' Svc_Failed 5)"
proof -
  have "distinct (map sds_name [])" "\<And>r. r \<in> set [[sample_service ''ssh'' Svc_Active 1]] \<Longrightarrow> distinct (map sds_name r)"
    "distinct (map sds_name [sample_service ''ssh'' Svc_Failed 5])" by auto
  from systemd_table_current [where responses = "[[sample_service ''ssh'' Svc_Active 1]]", OF this] show ?thesis
    by (simp add: Let_def last_updated_def at_last_def window_def)
qed

text \<open>
  The totals above the table count the services of each state: the entry of every state is the
  number of services in it, so the entries add up to the number of services.
\<close>

theorem statusTotals_counts:
  "(\<forall>s. statusTotals services ! service_status_code s = length (filter (\<lambda>r. sds_state r = s) services))
   \<and> length (statusTotals services) = 6 \<and> sum_list (statusTotals services) = length services"
proof (intro conjI allI)
  have l: "length (statusTotals services) = 6" for services
    unfolding statusTotals_def using statusTotals_from [of "[0,0,0,0,0,0]" 0 services] by simp
  then show "length (statusTotals services) = 6" .
  show "statusTotals services ! service_status_code s = length (filter (\<lambda>r. sds_state r = s) services)" for s
    unfolding statusTotals_def using statusTotals_from [of "[0,0,0,0,0,0]" "service_status_code s" services] status_code_less [of s]
    by (simp add: inj_status_code zero_totals)
  show "sum_list (statusTotals services) = length services"
  proof (induction services rule: rev_induct)
    case Nil
    then show ?case by (simp add: statusTotals_def)
  next
    case (snoc r rs)
    have "statusTotals (rs @ [r]) = (statusTotals rs)[service_status_code (sds_state r) := statusTotals rs ! service_status_code (sds_state r) + 1]"
      by (simp add: statusTotals_def)
    then show ?case using snoc l [of rs] status_code_less [of "sds_state r"] by (simp add: sum_list_update)
  qed
qed

text \<open>
  The guard against fetching too often never holds on a page that was opened without rows: the
  time it reads was fixed when the effect ran, so every later update of the system fetches again.
\<close>

theorem systemd_guard_stale:
  assumes "now \<ge> 570000" "systemId \<noteq> []"
  shows "systemd_listen [] loadTime now (Some systemId) systemId = Some systemId"
  using assms by (simp add: systemd_listen_def truthy_id_def effect_lastUpdated_def)

theorem systemd_guard_stale_witness: "systemd_listen [] 0 1000000 (Some ''s'') ''s'' = Some ''s''"
  using systemd_guard_stale [of 1000000 "''s''" 0] by simp

end
