(* ===== verification/Sheets.thy ===== *)
theory Sheets
  imports Systemd
begin

text \<open>
  The sheets with the details of a service, a container and a disk,
  \<^verbatim>\<open>components/systemd-table/systemd-table.tsx\<close>,
  \<^verbatim>\<open>components/containers-table/containers-table.tsx\<close> and
  \<^verbatim>\<open>components/routes/system/smart-table.tsx\<close>: the rows of the service
  sheet, what the sheets request and what the answers, which may arrive in any order, do to them. \<open>tr\<close> translates a message, \<open>dec v d\<close> is
  \<open>decimalString(v, d)\<close>, \<open>num\<close> prints a number, \<open>lower\<close> is \<open>toLowerCase\<close>.
\<close>

section \<open>Service details\<close>

text \<open>A number that JSON may leave out or give as \<open>null\<close>.\<close>

datatype JsNumber = Absent | NullNumber | Given rat

text \<open>The fields of \<open>SystemdServiceDetails\<close> the sheet reads.\<close>

record ServiceDetails =
  sv_Id :: string
  sv_ActiveState :: string
  sv_SubState :: string
  sv_CPUUsageNSec :: "rat option"
  sv_TasksCurrent :: JsNumber
  sv_TasksMax :: JsNumber
  sv_MemoryCurrent :: JsNumber
  sv_MemoryPeak :: JsNumber
  sv_MemoryLimit :: JsNumber
  sv_NRestarts :: JsNumber
  sv_MainPID :: JsNumber
  sv_ExecMainPID :: JsNumber
  sv_Result :: string
  sv_Description :: string
  sv_LoadState :: string
  sv_UnitFileState :: string
  sv_UnitFilePreset :: string
  sv_FragmentPath :: string
  sv_Documentation :: "string list"
  sv_Wants :: "string list"
  sv_Requires :: "string list"
  sv_RequiredBy :: "string list"
  sv_Conflicts :: "string list"
  sv_Before :: "string list"
  sv_After :: "string list"
  sv_Triggers :: "string list"
  sv_TriggeredBy :: "string list"
  sv_ActiveEnterTimestamp :: rat
  sv_ActiveExitTimestamp :: rat
  sv_InactiveEnterTimestamp :: rat
  sv_CanStart :: bool
  sv_CanStop :: bool
  sv_CanReload :: bool

definition formatMemory :: "(string \<Rightarrow> string) \<Rightarrow> (rat \<Rightarrow> nat \<Rightarrow> string) \<Rightarrow> JsNumber \<Rightarrow> string option" where
  "formatMemory tr dec v =
    (case v of
       Absent \<Rightarrow> None
     | NullNumber \<Rightarrow> Some (tr ''Unlimited'')
     | Given x \<Rightarrow> (let (value, unit) = formatBytes x False Bytes False in Some (dec value (if value \<ge> 10 then 1 else 2) @ '' '' @ unit)))"

text \<open>Hours, minutes and seconds of a number of seconds.\<close>

definition cpu_time_parts :: "rat \<Rightarrow> int \<times> int \<times> int" where
  "cpu_time_parts seconds =
    (let rest = seconds - 3600 * of_int \<lfloor>seconds / 3600\<rfloor>; last = seconds - 60 * of_int \<lfloor>seconds / 60\<rfloor>
     in (\<lfloor>seconds / 3600\<rfloor>, \<lfloor>rest / 60\<rfloor>, \<lfloor>last\<rfloor>))"

definition part :: "int \<Rightarrow> string \<Rightarrow> string list" where
  "part n u = (if n \<noteq> 0 then [show_int n @ u] else [])"

definition formatCpuTime :: "(rat \<Rightarrow> nat \<Rightarrow> string) \<Rightarrow> rat option \<Rightarrow> string option" where
  "formatCpuTime dec ns =
    (if ns = None \<or> ns = Some 0 then None
     else (let seconds = the ns / 1000000000; (h, m, s) = cpu_time_parts seconds
           in if seconds \<ge> 3600 then Some (join '' '' (part h ''h'' @ part m ''m'' @ part s ''s''))
              else if seconds \<ge> 60 then Some (show_int \<lfloor>seconds / 60\<rfloor> @ ''m '' @ show_int s @ ''s'')
              else if seconds \<ge> 1 then Some (dec seconds 2 @ ''s'')
              else Some (dec (seconds * 1000) 2 @ ''ms'')))"

definition formatTasks :: "(string \<Rightarrow> string) \<Rightarrow> (rat \<Rightarrow> string) \<Rightarrow> (string \<Rightarrow> string) \<Rightarrow> JsNumber \<Rightarrow> JsNumber \<Rightarrow> string option" where
  "formatTasks tr num lower current limit =
    (let cur = (case current of Given c \<Rightarrow> if c \<ge> 0 then Some c else None | _ \<Rightarrow> None);
         lim = (case limit of Given m \<Rightarrow> if m > 0 then Some m else None | _ \<Rightarrow> None)
     in if cur = None \<and> lim = None then None
        else Some ((case cur of Some c \<Rightarrow> num c | None \<Rightarrow> ''N/A'')
          @ (case lim of Some m \<Rightarrow> ''('' @ tr ''limit'' @ '': '' @ num m @ '')'' | None \<Rightarrow> [])
          @ (if limit = NullNumber then ''('' @ tr ''limit'' @ '': '' @ lower (tr ''Unlimited'') @ '')'' else [])))"

definition positive_pid :: "JsNumber \<Rightarrow> rat option" where
  "positive_pid v = (case v of Given p \<Rightarrow> if p > 0 then Some p else None | _ \<Rightarrow> None)"

definition execMainPidValue :: "ServiceDetails \<Rightarrow> rat option" where
  "execMainPidValue d =
    (case positive_pid (sv_ExecMainPID d) of None \<Rightarrow> None | Some p \<Rightarrow> if sv_ExecMainPID d \<noteq> sv_MainPID d then Some p else None)"

text \<open>
  The active state: its text, and the state of the row's record, which the sheet overwrites with the
  status of that name (the first match in the list of labels).
\<close>

definition label_or_empty :: "string list \<Rightarrow> nat \<Rightarrow> string" where
  "label_or_empty ls i = (case nth_opt ls i of None \<Rightarrow> [] | Some l \<Rightarrow> l)"

definition stateText :: "SystemdRecord \<Rightarrow> ServiceDetails option \<Rightarrow> string" where
  "stateText service details =
    (let statusLabel = label_or_empty ServiceStatusLabels (service_status_code (sds_state service));
         subStateLabel = label_or_empty ServiceSubStateLabels (service_sub_code (sds_sub service));
         active = (case details of None \<Rightarrow> [] | Some d \<Rightarrow> sv_ActiveState d);
         sub = (case details of None \<Rightarrow> [] | Some d \<Rightarrow> sv_SubState d)
     in if active \<noteq> [] then (if sub \<noteq> [] then active @ '' ('' @ sub @ '')'' else active)
        else if subStateLabel \<noteq> [] then statusLabel @ '' ('' @ subStateLabel @ '')'' else statusLabel)"

definition all_statuses :: "ServiceStatus list" where
  "all_statuses = [Svc_Active, Svc_Inactive, Svc_Failed, Svc_Activating, Svc_Deactivating, Svc_Reloading]"

definition synced_service :: "(string \<Rightarrow> string) \<Rightarrow> ServiceDetails option \<Rightarrow> SystemdRecord \<Rightarrow> SystemdRecord" where
  "synced_service lower details service =
    (case details of
       None \<Rightarrow> service
     | Some d \<Rightarrow>
        (case find (\<lambda>x. lower (sv_ActiveState d) = lower (label_or_empty ServiceStatusLabels (service_status_code x))) all_statuses of
           None \<Rightarrow> service
         | Some x \<Rightarrow> service\<lparr>sds_state := x\<rparr>))"

text \<open>
  A row of the details: left out when it has no value, unless it is always shown; then it shows N/A. A
  row is its key, its label and the text.
\<close>

definition renderRow :: "string \<Rightarrow> string \<Rightarrow> string option \<Rightarrow> bool \<Rightarrow> (string \<times> string \<times> string) list" where
  "renderRow k label v alwaysShow =
    (if \<not> alwaysShow \<and> (v = None \<or> v = Some []) then []
     else [(k, label, case v of None \<Rightarrow> ''N/A'' | Some x \<Rightarrow> x)])"

text \<open>\<open>date ms\<close> is \<open>new Date(ms).toLocaleString()\<close>, none for an invalid date.\<close>

definition formatTimestamp :: "(rat \<Rightarrow> string option) \<Rightarrow> rat option \<Rightarrow> string option" where
  "formatTimestamp date ts = (if ts = None \<or> ts = Some 0 then None else date (the ts / 1000))"

definition joined :: "string list option \<Rightarrow> string option" where
  "joined xs = (if xs = None \<or> xs = Some [] then None else Some (join '', '' (the xs)))"

definition capitalize :: "(string \<Rightarrow> string) \<Rightarrow> (string \<Rightarrow> string) \<Rightarrow> string \<Rightarrow> string" where
  "capitalize upper lower s = upper (take 1 s) @ lower (drop 1 s)"

definition bootState :: "ServiceDetails option \<Rightarrow> string" where
  "bootState details =
    (case details of
       None \<Rightarrow> []
     | Some d \<Rightarrow> sv_UnitFileState d @ (if sv_UnitFilePreset d \<noteq> [] then ''(preset: '' @ sv_UnitFilePreset d @ '')'' else []))"

text \<open>The five groups of rows; \<open>service\<close> already has the state the details gave it.\<close>

definition general_rows :: "(string \<Rightarrow> string) \<Rightarrow> SystemdRecord \<Rightarrow> ServiceDetails option \<Rightarrow> (string \<times> string \<times> string) list" where
  "general_rows tr service details =
     renderRow ''name'' (tr ''Name'') (Some (sds_name service)) True
   @ renderRow ''description'' (tr ''Description'') (map_option sv_Description details) True
   @ renderRow ''loadState'' (tr ''Load state'') (map_option sv_LoadState details) True
   @ renderRow ''bootState'' (tr ''Boot state'') (Some (bootState details)) True
   @ renderRow ''unitFile'' (tr ''Unit file'') (map_option sv_FragmentPath details) True
   @ renderRow ''active'' (tr ''Active state'') (Some (stateText service details)) True
   @ renderRow ''status'' (tr ''Status'') (map_option sv_Result details) True
   @ renderRow ''documentation'' (tr ''Documentation'') (joined (map_option sv_Documentation details)) False"

definition number_field :: "(ServiceDetails \<Rightarrow> JsNumber) \<Rightarrow> ServiceDetails option \<Rightarrow> JsNumber" where
  "number_field f details = (case details of None \<Rightarrow> Absent | Some d \<Rightarrow> f d)"

definition restartsValue :: "JsNumber \<Rightarrow> rat option" where
  "restartsValue v = (case v of Given n \<Rightarrow> Some n | _ \<Rightarrow> None)"

definition runtime_rows ::
  "(string \<Rightarrow> string) \<Rightarrow> (rat \<Rightarrow> nat \<Rightarrow> string) \<Rightarrow> (rat \<Rightarrow> string) \<Rightarrow> (string \<Rightarrow> string) \<Rightarrow> (string \<Rightarrow> string)
    \<Rightarrow> ServiceDetails option \<Rightarrow> (string \<times> string \<times> string) list" where
  "runtime_rows tr dec num upper lower details =
     renderRow ''mainPid'' (tr ''Main PID'') (map_option num (positive_pid (number_field sv_MainPID details))) True
   @ renderRow ''execMainPid'' (tr ''Exec main PID'') (map_option num (Option.bind details execMainPidValue)) False
   @ renderRow ''tasks'' (tr ''Tasks'') (formatTasks tr num lower (number_field sv_TasksCurrent details) (number_field sv_TasksMax details)) True
   @ renderRow ''cpuTime'' (tr ''CPU time'') (formatCpuTime dec (Option.bind details sv_CPUUsageNSec)) False
   @ renderRow ''memory'' (tr ''Memory'') (formatMemory tr dec (number_field sv_MemoryCurrent details)) True
   @ renderRow ''memoryPeak'' (capitalize upper lower (tr ''Memory Peak'')) (formatMemory tr dec (number_field sv_MemoryPeak details)) False
   @ renderRow ''memoryLimit'' (tr ''Memory limit'') (formatMemory tr dec (number_field sv_MemoryLimit details)) False
   @ renderRow ''restarts'' (tr ''Restarts'') (map_option num (restartsValue (number_field sv_NRestarts details))) True"

definition relation_rows :: "(string \<Rightarrow> string) \<Rightarrow> ServiceDetails option \<Rightarrow> (string \<times> string \<times> string) list" where
  "relation_rows tr details =
     renderRow ''wants'' (tr ''Wants'') (joined (map_option sv_Wants details)) False
   @ renderRow ''requires'' (tr ''Requires'') (joined (map_option sv_Requires details)) False
   @ renderRow ''requiredBy'' (tr ''Required by'') (joined (map_option sv_RequiredBy details)) False
   @ renderRow ''conflicts'' (tr ''Conflicts'') (joined (map_option sv_Conflicts details)) False
   @ renderRow ''before'' (tr ''Before'') (joined (map_option sv_Before details)) False
   @ renderRow ''after'' (tr ''After'') (joined (map_option sv_After details)) False
   @ renderRow ''triggers'' (tr ''Triggers'') (joined (map_option sv_Triggers details)) False
   @ renderRow ''triggeredBy'' (tr ''Triggered by'') (joined (map_option sv_TriggeredBy details)) False"

definition lifecycle_rows ::
  "(string \<Rightarrow> string) \<Rightarrow> (rat \<Rightarrow> string option) \<Rightarrow> SystemdRecord \<Rightarrow> ServiceDetails option \<Rightarrow> (string \<times> string \<times> string) list" where
  "lifecycle_rows tr date service details =
     renderRow ''activeSince'' (tr ''Became active'') (formatTimestamp date (map_option sv_ActiveEnterTimestamp details)) False
   @ (if sds_state service \<noteq> Svc_Active
      then renderRow ''lastActive'' (tr ''Exited active'') (formatTimestamp date (map_option sv_ActiveExitTimestamp details)) False
      else [])
   @ renderRow ''inactiveSince'' (tr ''Became inactive'') (formatTimestamp date (map_option sv_InactiveEnterTimestamp details)) False
   @ renderRow ''execMainStart'' (tr ''Process started'') None False"

definition yes_no :: "(string \<Rightarrow> string) \<Rightarrow> bool option \<Rightarrow> string" where
  "yes_no tr b = (if b = Some True then tr ''Yes'' else tr ''No'')"

definition capability_rows :: "(string \<Rightarrow> string) \<Rightarrow> ServiceDetails option \<Rightarrow> (string \<times> string \<times> string) list" where
  "capability_rows tr details =
     renderRow ''canStart'' (tr ''Can start'') (Some (yes_no tr (map_option sv_CanStart details))) False
   @ renderRow ''canStop'' (tr ''Can stop'') (Some (yes_no tr (map_option sv_CanStop details))) False
   @ renderRow ''canReload'' (tr ''Can reload'') (Some (yes_no tr (map_option sv_CanReload details))) False"

section \<open>The service sheet\<close>

text \<open>
  The sheet's state, and its requests: each run of the effect that sends one has a number, the request
  waits with the system and the service's name it asks for in \<open>sh_requests\<close>, and \<open>sh_live\<close> is the run
  whose \<open>cancelled\<close> flag is not set. The effect runs again when the sheet is opened or closed and when the page
  moves to another system; the sheet is modal, so a row is clicked only while it is closed.
\<close>

record ServiceSheet =
  sh_system :: "string option"
  sh_open :: bool
  sh_service :: "SystemdRecord option"
  sh_details :: "ServiceDetails option"
  sh_isLoading :: bool
  sh_error :: "string option"
  sh_live :: "nat option"
  sh_requests :: "(nat \<times> string option \<times> string) list"
  sh_runs :: nat

definition sheet_init :: "string option \<Rightarrow> ServiceSheet" where
  "sheet_init systemId = \<lparr>sh_system = systemId, sh_open = False, sh_service = None, sh_details = None, sh_isLoading = False, sh_error = None,
     sh_live = None, sh_requests = [], sh_runs = 0\<rparr>"

definition sheet_effect :: "ServiceSheet \<Rightarrow> ServiceSheet" where
  "sheet_effect st =
    (case sh_service st of
       None \<Rightarrow> st\<lparr>sh_live := None\<rparr>
     | Some service \<Rightarrow>
        if \<not> sh_open st then st\<lparr>sh_live := None\<rparr>
        else st\<lparr>sh_error := None, sh_details := None, sh_isLoading := True, sh_live := Some (sh_runs st),
               sh_requests := sh_requests st @ [(sh_runs st, sh_system st, sds_name service)], sh_runs := Suc (sh_runs st)\<rparr>)"

definition openSheet :: "SystemdRecord \<Rightarrow> ServiceSheet \<Rightarrow> ServiceSheet" where
  "openSheet service st = sheet_effect (st\<lparr>sh_service := Some service, sh_open := True\<rparr>)"

definition closeSheet :: "ServiceSheet \<Rightarrow> ServiceSheet" where
  "closeSheet st = sheet_effect (st\<lparr>sh_open := False\<rparr>)"

text \<open>The page moves to another system.\<close>

definition sheet_setSystem :: "string option \<Rightarrow> ServiceSheet \<Rightarrow> ServiceSheet" where
  "sheet_setSystem systemId st = (if systemId = sh_system st then st else sheet_effect (st\<lparr>sh_system := systemId\<rparr>))"

text \<open>An answer: the details, none, or an error with its message.\<close>

definition sheet_answer ::
  "(string \<Rightarrow> string) \<Rightarrow> (string \<Rightarrow> string) \<Rightarrow> nat \<Rightarrow> (string option + ServiceDetails option) \<Rightarrow> ServiceSheet \<Rightarrow> ServiceSheet" where
  "sheet_answer tr lower i r st =
    (let st1 = st\<lparr>sh_requests := filter (\<lambda>q. fst q \<noteq> i) (sh_requests st)\<rparr>
     in if sh_live st \<noteq> Some i then st1
        else (case r of
            Inr (Some d) \<Rightarrow> st1\<lparr>sh_details := Some d, sh_isLoading := False,
                                sh_service := map_option (synced_service lower (Some d)) (sh_service st)\<rparr>
          | Inr None \<Rightarrow> st1\<lparr>sh_details := None, sh_error := Some (tr ''No results found.''), sh_isLoading := False\<rparr>
          | Inl msg \<Rightarrow> st1\<lparr>sh_error := Some (case msg of None \<Rightarrow> ''Failed to load service details'' | Some m \<Rightarrow> m),
                           sh_details := None, sh_isLoading := False\<rparr>))"

text \<open>
  Every interleaving of clicks, moves and answers. \<open>details_of sys name d\<close> is any relation between what is
  asked and the details that the hub answers with.
\<close>

inductive sheet_reach :: "(string \<Rightarrow> string) \<Rightarrow> (string \<Rightarrow> string) \<Rightarrow> (string option \<Rightarrow> string \<Rightarrow> ServiceDetails \<Rightarrow> bool)
  \<Rightarrow> ServiceSheet \<Rightarrow> bool" for tr lower details_of where
  start: "sheet_reach tr lower details_of (sheet_init systemId)"
| clicked: "sheet_reach tr lower details_of st \<Longrightarrow> \<not> sh_open st \<Longrightarrow> sheet_reach tr lower details_of (openSheet service st)"
| closed: "sheet_reach tr lower details_of st \<Longrightarrow> sh_open st \<Longrightarrow> sheet_reach tr lower details_of (closeSheet st)"
| moved: "sheet_reach tr lower details_of st \<Longrightarrow> sheet_reach tr lower details_of (sheet_setSystem systemId st)"
| answered: "sheet_reach tr lower details_of st \<Longrightarrow> (i, sys, name) \<in> set (sh_requests st)
    \<Longrightarrow> (\<forall>d. r = Inr (Some d) \<longrightarrow> details_of sys name d) \<Longrightarrow> sheet_reach tr lower details_of (sheet_answer tr lower i r st)"

section \<open>The container sheet\<close>

text \<open>\<open>getLogsHtml\<close> and \<open>getInfoHtml\<close>: \<open>hl\<close> highlights, \<open>pretty\<close> prints JSON again or fails.\<close>

definition getLogsHtml :: "(string \<Rightarrow> string) \<Rightarrow> (string \<Rightarrow> string \<Rightarrow> string) \<Rightarrow> string option \<Rightarrow> string" where
  "getLogsHtml tr hl response =
    (case response of None \<Rightarrow> [] | Some logs \<Rightarrow> if logs \<noteq> [] then hl ''log'' logs else tr ''No results.'')"

definition getInfoHtml ::
  "(string \<Rightarrow> string) \<Rightarrow> (string \<Rightarrow> string \<Rightarrow> string) \<Rightarrow> (string \<Rightarrow> string option) \<Rightarrow> string option \<Rightarrow> string" where
  "getInfoHtml tr hl pretty response =
    (case response of
       None \<Rightarrow> []
     | Some info0 \<Rightarrow>
        (let info = (case pretty info0 of None \<Rightarrow> info0 | Some i \<Rightarrow> i)
         in if info \<noteq> [] then hl ''json'' info else tr ''No results.''))"

text \<open>
  The sheet of a container: the effect clears the texts and requests them whenever the container is
  another object than before (\<open>same\<close> says it is not); its answer is shown whatever container is
  active by then. A refresh requests the logs alone and keeps the button spinning for at least half a
  second.
\<close>

record ContainerSheet =
  ct_open :: bool
  ct_container :: "ContainerRecord option"
  ct_logs :: string
  ct_info :: string
  ct_requests :: "ContainerRecord list"
  ct_isRefreshing :: bool
  ct_refreshes :: "(ContainerRecord \<times> int) list"

definition openContainer :: "bool \<Rightarrow> ContainerRecord \<Rightarrow> ContainerSheet \<Rightarrow> ContainerSheet" where
  "openContainer same c st =
    (if same then st\<lparr>ct_open := True\<rparr>
     else st\<lparr>ct_open := True, ct_container := Some c, ct_logs := [], ct_info := [], ct_requests := ct_requests st @ [c]\<rparr>)"

definition closeContainer :: "ContainerSheet \<Rightarrow> ContainerSheet" where
  "closeContainer st = st\<lparr>ct_open := False\<rparr>"

definition container_answer :: "ContainerRecord \<Rightarrow> string \<Rightarrow> string \<Rightarrow> ContainerSheet \<Rightarrow> ContainerSheet" where
  "container_answer c logsHtml infoHtml st =
    st\<lparr>ct_requests := remove1 c (ct_requests st), ct_logs := logsHtml, ct_info := infoHtml\<rparr>"

definition refreshLogs :: "int \<Rightarrow> ContainerSheet \<Rightarrow> ContainerSheet" where
  "refreshLogs now st =
    (case ct_container st of
       None \<Rightarrow> st
     | Some c \<Rightarrow> st\<lparr>ct_isRefreshing := True, ct_refreshes := ct_refreshes st @ [(c, now)]\<rparr>)"

text \<open>The answer to a refresh, and when the button stops spinning.\<close>

definition refresh_answer :: "ContainerRecord \<times> int \<Rightarrow> string \<Rightarrow> int \<Rightarrow> ContainerSheet \<Rightarrow> ContainerSheet \<times> int" where
  "refresh_answer q logsHtml now st =
    (st\<lparr>ct_logs := logsHtml, ct_refreshes := remove1 q (ct_refreshes st)\<rparr>, now + max 0 (500 - (now - snd q)))"

section \<open>The disk sheet\<close>

text \<open>
  \<open>DiskSheet\<close> of \<^verbatim>\<open>smart-table.tsx\<close>: opening it requests the full record of the disk; it
  shows whatever answer comes.
\<close>

record DiskSheet =
  dk_open :: bool
  dk_diskId :: "string option"
  dk_disk :: "SmartDeviceRecord option"
  dk_isLoading :: bool
  dk_requests :: "string list"

definition disk_effect :: "DiskSheet \<Rightarrow> DiskSheet" where
  "disk_effect st =
    (case dk_diskId st of
       None \<Rightarrow> st\<lparr>dk_disk := None\<rparr>
     | Some k \<Rightarrow> if k = [] then st\<lparr>dk_disk := None\<rparr>
                 else if \<not> dk_open st then st
                 else st\<lparr>dk_isLoading := True, dk_requests := dk_requests st @ [k]\<rparr>)"

definition openDisk :: "string \<Rightarrow> DiskSheet \<Rightarrow> DiskSheet" where
  "openDisk k st = disk_effect (st\<lparr>dk_diskId := Some k, dk_open := True\<rparr>)"

definition closeDisk :: "DiskSheet \<Rightarrow> DiskSheet" where
  "closeDisk st = disk_effect (st\<lparr>dk_open := False\<rparr>)"

definition disk_answer :: "string \<Rightarrow> SmartDeviceRecord option \<Rightarrow> DiskSheet \<Rightarrow> DiskSheet" where
  "disk_answer k r st = st\<lparr>dk_requests := remove1 k (dk_requests st), dk_disk := r, dk_isLoading := False\<rparr>"

definition is_failed_attribute :: "SmartAttribute \<Rightarrow> bool" where
  "is_failed_attribute a \<longleftrightarrow> (case sa_wf a of None \<Rightarrow> False | Some w \<Rightarrow> trim w \<noteq> [])"

definition failedAttributes :: "SmartAttribute list \<Rightarrow> SmartAttribute list" where
  "failedAttributes attrs = filter is_failed_attribute attrs"

text \<open>A column with an accessor key is shown when some attribute has it; the others always.\<close>

datatype SmartColumn = ColId | ColName | ColValue | ColNormalized | ColWorst | ColThreshold | ColWhenFailed

definition smartColumns :: "SmartColumn list" where
  "smartColumns = [ColId, ColName, ColValue, ColNormalized, ColWorst, ColThreshold, ColWhenFailed]"

definition has_value :: "SmartColumn \<Rightarrow> SmartAttribute \<Rightarrow> bool" where
  "has_value c a =
    (case c of ColId \<Rightarrow> sa_id a \<noteq> None | ColWorst \<Rightarrow> sa_w a \<noteq> None | ColThreshold \<Rightarrow> sa_t a \<noteq> None
     | ColWhenFailed \<Rightarrow> sa_wf a \<noteq> None | _ \<Rightarrow> True)"

definition visibleColumns :: "SmartAttribute list \<Rightarrow> SmartColumn list" where
  "visibleColumns attrs = filter (\<lambda>c. c \<in> {ColName, ColValue} \<or> list_ex (has_value c) attrs) smartColumns"

section \<open>Lemmas\<close>

lemma clock_parts:
  fixes n :: int
  assumes "0 \<le> n"
  obtains a q t where "n div 3600 = a" "n mod 3600 div 60 = q" "n mod 60 = t"
    "0 \<le> a" "0 \<le> q" "q < 60" "0 \<le> t" "t < 60" "3600 * a + 60 * q + t = n"
proof -
  obtain a r where a: "n div 3600 = a" "n mod 3600 = r" by blast
  obtain q t where q: "r div 60 = q" "r mod 60 = t" by blast
  have "n mod 3600 mod 60 = n mod 60" by (rule mod_mod_cancel) simp
  then have t: "n mod 60 = t" using a q by metis
  have n: "3600 * a + r = n" "0 \<le> r" "r < 3600"
    using a mult_div_mod_eq [of 3600 n] pos_mod_sign [of 3600 n] pos_mod_bound [of 3600 n] zero_less_numeral by metis+
  have r: "60 * q + t = r" "0 \<le> t" "t < 60"
    using q mult_div_mod_eq [of 60 r] pos_mod_sign [of 60 r] pos_mod_bound [of 60 r] zero_less_numeral by metis+
  have "0 \<le> a" "0 \<le> q" "q < 60" "3600 * a + 60 * q + t = n" using n r assms by linarith+
  then show thesis using that [OF a(1) _ t] q a(2) r by metis
qed

lemma cpu_time_parts_sum:
  assumes "seconds \<ge> 0" "cpu_time_parts seconds = (h, m, s)"
  shows "0 \<le> h \<and> 0 \<le> m \<and> m < 60 \<and> 0 \<le> s \<and> s < 60 \<and> 3600 * h + 60 * m + s = \<lfloor>seconds\<rfloor>"
proof -
  define n where "n = \<lfloor>seconds\<rfloor>"
  have n0: "0 \<le> n" using assms(1) by (simp add: n_def)
  have h: "h = n div 3600"
    using assms(2) floor_rat_div [of 3600 seconds] by (simp add: cpu_time_parts_def Let_def n_def)
  have m: "m = n mod 3600 div 60"
    using assms(2) floor_rat_div [of 60 "seconds - 3600 * of_int \<lfloor>seconds / 3600\<rfloor>"] floor_rat_rest [of 3600 seconds]
    by (auto simp: cpu_time_parts_def Let_def n_def)
  have s: "s = n mod 60"
    using assms(2) floor_rat_rest [of 60 seconds] by (simp add: cpu_time_parts_def Let_def n_def)
  obtain a q t where "n div 3600 = a" "n mod 3600 div 60 = q" "n mod 60 = t"
    "0 \<le> a" "0 \<le> q" "q < 60" "0 \<le> t" "t < 60" "3600 * a + 60 * q + t = n"
    using clock_parts [OF n0] by metis
  then show ?thesis unfolding h m s n_def [symmetric] by simp
qed

lemma sds_name_synced [simp]: "sds_name (synced_service lower d s) = sds_name s"
  by (simp add: synced_service_def split: option.split)

text \<open>
  The invariant: run numbers are fresh, the live run asks for the open sheet's service on the page's system, and
  an open sheet either waits for that run's answer or shows exactly one of details and error.
\<close>

definition asks_only :: "nat \<Rightarrow> 'q \<Rightarrow> (nat \<times> 'q) list \<Rightarrow> bool" where
  "asks_only i q rs = list_all (\<lambda>r. fst r = i \<longrightarrow> snd r = q) rs"

lemma asks_only_simps:
  "asks_only i q (rs @ [(j, p)]) \<longleftrightarrow> asks_only i q rs \<and> (j = i \<longrightarrow> p = q)"
  "asks_only i q rs \<Longrightarrow> asks_only i q (filter P rs)"
  "\<forall>r\<in>set rs. fst r < n \<Longrightarrow> asks_only n q rs"
  by (auto simp: asks_only_def list_all_iff)

lemma asks_onlyD: "asks_only i q rs \<Longrightarrow> (i, p) \<in> set rs \<Longrightarrow> p = q"
  by (auto simp: asks_only_def list_all_iff)

definition sheet_inv :: "(string option \<Rightarrow> string \<Rightarrow> ServiceDetails \<Rightarrow> bool) \<Rightarrow> ServiceSheet \<Rightarrow> bool" where
  "sheet_inv details_of st \<longleftrightarrow> (\<forall>q\<in>set (sh_requests st). fst q < sh_runs st) \<and> distinct (map fst (sh_requests st))
     \<and> (if sh_open st
        then (\<exists>i s. sh_live st = Some i \<and> sh_service st = Some s
               \<and> asks_only i (sh_system st, sds_name s) (sh_requests st)
               \<and> (if sh_isLoading st
                  then (i, sh_system st, sds_name s) \<in> set (sh_requests st) \<and> sh_details st = None \<and> sh_error st = None
                  else (\<forall>q. (i, q) \<notin> set (sh_requests st)) \<and> (sh_details st = None) = (sh_error st \<noteq> None)
                     \<and> (\<forall>d. sh_details st = Some d \<longrightarrow> details_of (sh_system st) (sds_name s) d)))
        else sh_live st = None)"

lemma sheet_effect_inv:
  assumes "\<forall>q\<in>set (sh_requests st). fst q < sh_runs st" "distinct (map fst (sh_requests st))" "sh_open st \<Longrightarrow> sh_service st \<noteq> None"
  shows "sheet_inv details_of (sheet_effect st)"
  using assms by (auto simp: sheet_inv_def sheet_effect_def less_SucI asks_only_simps split: option.splits)

lemma openSheet_inv: "sheet_inv details_of st \<Longrightarrow> sheet_inv details_of (openSheet s st)"
  unfolding openSheet_def by (rule sheet_effect_inv) (auto simp: sheet_inv_def)

lemma closeSheet_inv: "sheet_inv details_of st \<Longrightarrow> sheet_inv details_of (closeSheet st)"
  unfolding closeSheet_def by (rule sheet_effect_inv) (auto simp: sheet_inv_def)

lemma sheet_setSystem_inv:
  assumes "sheet_inv details_of st"
  shows "sheet_inv details_of (sheet_setSystem k st)"
proof (cases "k = sh_system st")
  case False
  have "sheet_inv details_of (sheet_effect (st\<lparr>sh_system := k\<rparr>))"
    by (rule sheet_effect_inv) (use assms in \<open>auto simp: sheet_inv_def split: if_splits\<close>)
  with False show ?thesis by (simp add: sheet_setSystem_def)
qed (use assms in \<open>simp add: sheet_setSystem_def\<close>)

lemma sheet_answer_inv:
  assumes "sheet_inv details_of st" "(i, sys, name) \<in> set (sh_requests st)" "\<forall>d. r = Inr (Some d) \<longrightarrow> details_of sys name d"
  shows "sheet_inv details_of (sheet_answer tr lower i r st)"
proof (cases "sh_live st = Some i")
  case False
  with assms(1) show ?thesis
    by (auto simp: sheet_inv_def sheet_answer_def distinct_map_filter asks_only_simps split: if_splits)
next
  case True
  then have "sh_open st" using assms(1) by (auto simp: sheet_inv_def split: if_splits)
  with True assms(1) obtain s where s: "sh_service st = Some s" "asks_only i (sh_system st, sds_name s) (sh_requests st)"
    by (auto simp: sheet_inv_def)
  have q: "name = sds_name s" "sys = sh_system st" using asks_onlyD [OF s(2) assms(2)] by simp_all
  have "sh_error st = None" using True \<open>sh_open st\<close> assms(1,2) by (auto simp: sheet_inv_def split: if_splits)
  moreover have "\<forall>q\<in>set (sh_requests st). fst q < sh_runs st" "distinct (map fst (sh_requests st))"
    using assms(1) by (simp_all add: sheet_inv_def)
  ultimately show ?thesis using True \<open>sh_open st\<close> s q assms(3)
    by (cases r; cases "projr r")
      (auto simp: sheet_inv_def sheet_answer_def distinct_map_filter asks_only_simps Let_def)
qed

lemma sheet_reach_inv: "sheet_reach tr lower details_of st \<Longrightarrow> sheet_inv details_of st"
proof (induction rule: sheet_reach.induct)
  case start
  show ?case by (simp add: sheet_inv_def sheet_init_def)
qed (auto intro: openSheet_inv closeSheet_inv sheet_setSystem_inv sheet_answer_inv)

section \<open>Properties\<close>

text \<open>
  C9. The service sheet never shows an answer to another question: in whatever order answers arrive, however
  often the sheet is closed and opened in between and the page moves to other systems, an open sheet either waits,
  showing neither details nor an error, for a request that is under way and asks for its service on the system of the
  page; or it shows exactly one of an error and details, and these answered such a request.
\<close>

theorem service_sheet_current:
  assumes "sheet_reach tr lower details_of st" "sh_open st"
  shows "\<exists>s. sh_service st = Some s
    \<and> (if sh_isLoading st
       then sh_details st = None \<and> sh_error st = None
          \<and> (\<exists>i. sh_live st = Some i \<and> (i, sh_system st, sds_name s) \<in> set (sh_requests st))
       else (sh_details st = None) = (sh_error st \<noteq> None)
          \<and> (\<forall>d. sh_details st = Some d \<longrightarrow> details_of (sh_system st) (sds_name s) d))"
  using sheet_reach_inv [OF assms(1)] assms(2) by (auto simp: sheet_inv_def split: if_splits)

definition sample_unit :: "string \<Rightarrow> SystemdRecord" where
  "sample_unit n = \<lparr>sds_id = [], sds_system = [], sds_name = n, sds_state = Svc_Active, sds_sub = Sub_Running,
     sds_cpu = 1, sds_cpuPeak = 2, sds_memory = 3, sds_memPeak = 4, sds_updated = 5\<rparr>"

definition sample_details :: "string \<Rightarrow> ServiceDetails" where
  "sample_details n = \<lparr>sv_Id = n, sv_ActiveState = ''active'', sv_SubState = [], sv_CPUUsageNSec = None,
     sv_TasksCurrent = Absent, sv_TasksMax = Absent, sv_MemoryCurrent = Absent, sv_MemoryPeak = Absent,
     sv_MemoryLimit = Absent, sv_NRestarts = Absent, sv_MainPID = Absent, sv_ExecMainPID = Absent,
     sv_Result = [], sv_Description = [], sv_LoadState = [], sv_UnitFileState = [], sv_UnitFilePreset = [],
     sv_FragmentPath = [], sv_Documentation = [], sv_Wants = [], sv_Requires = [], sv_RequiredBy = [], sv_Conflicts = [],
     sv_Before = [], sv_After = [], sv_Triggers = [], sv_TriggeredBy = [], sv_ActiveEnterTimestamp = 0,
     sv_ActiveExitTimestamp = 0, sv_InactiveEnterTimestamp = 0, sv_CanStart = True, sv_CanStop = True, sv_CanReload = False\<rparr>"

text \<open>Opened for one service, closed, opened for another; the answers come in the other order.\<close>

definition sample_sheet :: ServiceSheet where
  "sample_sheet = sheet_answer id id 0 (Inr (Some (sample_details ''ssh.service'')))
     (sheet_answer id id 1 (Inr (Some (sample_details ''cron.service'')))
       (openSheet (sample_unit ''cron'') (closeSheet (openSheet (sample_unit ''ssh'') (sheet_init (Some ''a''))))))"

abbreviation unit_details :: "string option \<Rightarrow> string \<Rightarrow> ServiceDetails \<Rightarrow> bool" where
  "unit_details sys name d \<equiv> sv_Id d = name @ ''.service''"

lemma sample_sheet_reach: "sheet_reach id id unit_details sample_sheet"
proof -
  have 1: "sheet_reach id id unit_details (closeSheet (openSheet (sample_unit ''ssh'') (sheet_init (Some ''a''))))"
    by (intro sheet_reach.closed sheet_reach.clicked sheet_reach.start)
      (simp_all add: openSheet_def sheet_effect_def sheet_init_def)
  have 2: "sheet_reach id id unit_details (openSheet (sample_unit ''cron'') (closeSheet (openSheet (sample_unit ''ssh'') (sheet_init (Some ''a'')))))"
    by (rule sheet_reach.clicked [OF 1]) (simp add: closeSheet_def openSheet_def sheet_effect_def)
  show ?thesis unfolding sample_sheet_def
    by (rule sheet_reach.answered [where sys = "Some ''a''" and name = "''ssh''"],
        rule sheet_reach.answered [where sys = "Some ''a''" and name = "''cron''", OF 2])
      (simp_all add: sheet_answer_def closeSheet_def openSheet_def sheet_effect_def sheet_init_def sample_unit_def sample_details_def)
qed

theorem service_sheet_current_witness:
  "\<exists>d. sh_details sample_sheet = Some d \<and> sv_Id d = ''cron.service''"
proof -
  have sample: "sh_details sample_sheet = Some (sample_details ''cron.service'')" "sh_open sample_sheet" "\<not> sh_isLoading sample_sheet"
    "map_option sds_name (sh_service sample_sheet) = Some ''cron''"
    by (simp_all add: sample_sheet_def sheet_answer_def closeSheet_def openSheet_def sheet_effect_def sheet_init_def sample_unit_def)
  from service_sheet_current [OF sample_sheet_reach sample(2)] sample have "sv_Id (sample_details ''cron.service'') = ''cron'' @ ''.service''"
    by auto
  with sample(1) show ?thesis by simp
qed

text \<open>
  The rows of the sheet have distinct keys, whatever the details hold: React identifies them by key.
\<close>

lemma renderRow_keys: "subseq (map fst (renderRow k l v a)) [k]"
  by (simp add: renderRow_def)

definition sheet_keys :: "string list" where
  "sheet_keys = [''name'', ''description'', ''loadState'', ''bootState'', ''unitFile'', ''active'', ''status'', ''documentation'']
    @ [''mainPid'', ''execMainPid'', ''tasks'', ''cpuTime'', ''memory'', ''memoryPeak'', ''memoryLimit'', ''restarts'']
    @ [''wants'', ''requires'', ''requiredBy'', ''conflicts'', ''before'', ''after'', ''triggers'', ''triggeredBy'']
    @ [''activeSince'', ''lastActive'', ''inactiveSince'', ''execMainStart'']
    @ [''canStart'', ''canStop'', ''canReload'']"

lemma subseq_distinct: "subseq xs ys \<Longrightarrow> distinct ys \<Longrightarrow> distinct xs"
  by (induction rule: list_emb.induct) (auto dest: list_emb_set)

lemma subseq_rows:
  assumes "subseq (map fst xs) [k]" "subseq (map fst ys) ks"
  shows "subseq (map fst (xs @ ys)) (k # ks)"
  using list_emb_append_mono [OF assms] by simp

theorem service_rows_distinct:
  "distinct (map fst (general_rows tr service details @ runtime_rows tr dec num upper lower details
     @ relation_rows tr details @ lifecycle_rows tr date service details @ capability_rows tr details))"
proof -
  have g: "subseq (map fst (general_rows tr service details))
      [''name'', ''description'', ''loadState'', ''bootState'', ''unitFile'', ''active'', ''status'', ''documentation'']"
    unfolding general_rows_def by (intro subseq_rows renderRow_keys)
  have r: "subseq (map fst (runtime_rows tr dec num upper lower details))
      [''mainPid'', ''execMainPid'', ''tasks'', ''cpuTime'', ''memory'', ''memoryPeak'', ''memoryLimit'', ''restarts'']"
    unfolding runtime_rows_def by (intro subseq_rows renderRow_keys)
  have l: "subseq (map fst (relation_rows tr details))
      [''wants'', ''requires'', ''requiredBy'', ''conflicts'', ''before'', ''after'', ''triggers'', ''triggeredBy'']"
    unfolding relation_rows_def by (intro subseq_rows renderRow_keys)
  have f: "subseq (map fst (lifecycle_rows tr date service details))
      [''activeSince'', ''lastActive'', ''inactiveSince'', ''execMainStart'']"
    unfolding lifecycle_rows_def by (intro subseq_rows renderRow_keys) (simp add: renderRow_keys)
  have c: "subseq (map fst (capability_rows tr details)) [''canStart'', ''canStop'', ''canReload'']"
    unfolding capability_rows_def by (intro subseq_rows renderRow_keys)
  have "subseq (map fst (general_rows tr service details @ runtime_rows tr dec num upper lower details
     @ relation_rows tr details @ lifecycle_rows tr date service details @ capability_rows tr details)) sheet_keys"
    unfolding map_append sheet_keys_def by (intro list_emb_append_mono g r l f c)
  moreover have "distinct sheet_keys" by (simp add: sheet_keys_def)
  ultimately show ?thesis by (rule subseq_distinct)
qed

text \<open>
  Capabilities that are not known, while the details load or after the request failed, are shown as
  missing: the sheet says that the service cannot be started, stopped or reloaded.
\<close>

theorem unknown_capabilities_denied:
  assumes "tr ''No'' \<noteq> []"
  shows "map (snd \<circ> snd) (capability_rows tr None) = replicate 3 (tr ''No'')"
  using assms by (simp add: capability_rows_def renderRow_def yes_no_def numeral_3_eq_3)

text \<open>
  CPU time is shown exactly to the second from an hour on: hours, minutes below 60 and seconds below
  60 add up to the whole seconds, and only parts that are zero are left out.
\<close>

theorem cpu_time_shown:
  assumes "ns \<ge> 3600 * 1000000000"
  shows "\<exists>h m s. formatCpuTime dec (Some ns) = Some (join '' '' (part h ''h'' @ part m ''m'' @ part s ''s''))
    \<and> 1 \<le> h \<and> 0 \<le> m \<and> m < 60 \<and> 0 \<le> s \<and> s < 60 \<and> 3600 * h + 60 * m + s = \<lfloor>ns / 1000000000\<rfloor>"
proof -
  obtain h m s where p: "cpu_time_parts (ns / 1000000000) = (h, m, s)" by (metis prod_cases3)
  have big: "3600 \<le> ns / 1000000000" using assms by (simp add: field_simps)
  then have sum: "0 \<le> h \<and> 0 \<le> m \<and> m < 60 \<and> 0 \<le> s \<and> s < 60 \<and> 3600 * h + 60 * m + s = \<lfloor>ns / 1000000000\<rfloor>"
    using cpu_time_parts_sum [OF _ p] by simp
  have "3600 \<le> \<lfloor>ns / 1000000000\<rfloor>" using big by (simp add: le_floor_iff)
  with sum have "1 \<le> h" by linarith
  moreover have "formatCpuTime dec (Some ns) = Some (join '' '' (part h ''h'' @ part m ''m'' @ part s ''s''))"
    using big assms by (simp add: formatCpuTime_def p)
  ultimately show ?thesis using sum by blast
qed

text \<open>
  The container sheet lacks such a guard: when a second container is opened before the first one's
  answer has come, and that answer comes last, the sheet of the second shows the logs and details of
  the first.
\<close>

theorem container_sheet_stale:
  "let st2 = openContainer False b (closeContainer (openContainer False a st));
       st4 = container_answer a logsA infoA (container_answer b logsB infoB st2)
   in ct_container st4 = Some b \<and> ct_open st4 \<and> ct_logs st4 = logsA \<and> ct_info st4 = infoA"
  by (simp add: openContainer_def closeContainer_def container_answer_def)

text \<open>The disk sheet lacks it as well.\<close>

theorem disk_sheet_stale:
  assumes "a \<noteq> []" "b \<noteq> []"
  shows "let st4 = disk_answer a (Some diskA) (disk_answer b (Some diskB) (openDisk b (closeDisk (openDisk a st))))
   in dk_diskId st4 = Some b \<and> dk_open st4 \<and> \<not> dk_isLoading st4 \<and> dk_disk st4 = Some diskA"
  using assms by (simp add: openDisk_def closeDisk_def disk_effect_def disk_answer_def)

end
