(* ===== verification/TableViews.thy ===== *)
theory TableViews
  imports Sheets DataTable
begin

text \<open>
  The components around the tables of containers, services and disks,
  \<^verbatim>\<open>components/containers-table/containers-table.tsx\<close>,
  \<^verbatim>\<open>components/systemd-table/systemd-table.tsx\<close> and
  \<^verbatim>\<open>components/routes/system/smart-table.tsx\<close>: the stored order, the search field, the rows and what
  stands in their place, the padding around the rows a virtual list renders, and the texts of the
  container and disk sheets. \<open>E\<close> is the table library, \<open>loc\<close> is \<open>localeCompare\<close>.
\<close>

section \<open>Order and search\<close>

record ListView =
  lv_sorting :: sorting
  lv_globalFilter :: string

definition systemId_flag :: "string option \<Rightarrow> string" where
  "systemId_flag systemId = (if truthy_id systemId then ''1'' else ''0'')"

definition default_order :: "string option \<Rightarrow> sorting" where
  "default_order systemId = [(if truthy_id systemId then ''name'' else ''system'', False)]"

definition containers_mounted :: "(string \<Rightarrow> sorting) \<Rightarrow> string option \<Rightarrow> (string, string) dict \<Rightarrow> ListView" where
  "containers_mounted parse systemId session =
    \<lparr>lv_sorting = browserStorage_init parse (''sort-c-'' @ systemId_flag systemId) (default_order systemId) session, lv_globalFilter = []\<rparr>"

definition systemd_mounted :: "(string \<Rightarrow> sorting) \<Rightarrow> string option \<Rightarrow> (string, string) dict \<Rightarrow> ListView" where
  "systemd_mounted parse systemId session =
    \<lparr>lv_sorting = browserStorage_init parse (''sort-sd-'' @ systemId_flag systemId) (default_order systemId) session, lv_globalFilter = []\<rparr>"

definition disks_mounted :: "string option \<Rightarrow> ListView" where
  "disks_mounted systemId = \<lparr>lv_sorting = default_order systemId, lv_globalFilter = []\<rparr>"

definition containers_stored :: "(sorting \<Rightarrow> string) \<Rightarrow> string option \<Rightarrow> ListView \<Rightarrow> (string, string) dict \<Rightarrow> (string, string) dict" where
  "containers_stored enc systemId v session = browserStorage_effect enc (''sort-c-'' @ systemId_flag systemId) (lv_sorting v) session"

definition systemd_stored :: "(sorting \<Rightarrow> string) \<Rightarrow> string option \<Rightarrow> ListView \<Rightarrow> (string, string) dict \<Rightarrow> (string, string) dict" where
  "systemd_stored enc systemId v session = browserStorage_effect enc (''sort-sd-'' @ systemId_flag systemId) (lv_sorting v) session"

definition setGlobalFilter :: "string \<Rightarrow> ListView \<Rightarrow> ListView" where
  "setGlobalFilter s v = v\<lparr>lv_globalFilter := s\<rparr>"

definition HeaderButton_click :: "string \<Rightarrow> ListView \<Rightarrow> ListView" where
  "HeaderButton_click k v = v\<lparr>lv_sorting := [(k, map_of (lv_sorting v) k = Some False)]\<rparr>"

section \<open>Columns\<close>

text \<open>A column with a comparison of its own; \<open>auto\<close> are the library's comparisons for the others.\<close>

definition by_text :: "(string \<Rightarrow> string \<Rightarrow> rat) \<Rightarrow> ('a \<Rightarrow> string) \<Rightarrow> 'a column" where
  "by_text loc f = (\<lambda>_. True, \<lambda>a b. loc (f a) (f b))"

definition containerChartCols :: "string list" where
  "containerChartCols = [''name'', ''system'', ''cpu'', ''memory'', ''net'', ''health'', ''image'', ''status'', ''updated'']"

definition container_columns :: "string option \<Rightarrow> string list" where
  "container_columns systemId = filter (\<lambda>k. if truthy_id systemId then k \<noteq> ''system'' else True) containerChartCols"

definition container_col ::
  "(string \<Rightarrow> string \<Rightarrow> rat) \<Rightarrow> SystemRecord store \<Rightarrow> (string \<Rightarrow> ContainerRecord column) \<Rightarrow> string \<Rightarrow> ContainerRecord column" where
  "container_col loc allSystems auto k =
    (if k = ''name'' then by_text loc cr_name
     else if k = ''system'' then (\<lambda>_. True, container_system_cmp loc allSystems)
     else if k = ''image'' then by_text loc cr_image
     else auto k)"

definition disk_columns :: "string option \<Rightarrow> string list" where
  "disk_columns systemId =
    filter (\<lambda>k. if truthy_id systemId then k \<noteq> ''system'' else True)
      [''system'', ''name'', ''model'', ''capacity'', ''state'', ''type'', ''hours'', ''cycles'', ''temp'', ''updated''] @ [''actions'']"

definition disk_col ::
  "(string \<Rightarrow> string \<Rightarrow> rat) \<Rightarrow> SystemRecord store \<Rightarrow> (string \<Rightarrow> SmartDeviceRecord column) \<Rightarrow> string \<Rightarrow> SmartDeviceRecord column" where
  "disk_col loc allSystems auto k =
    (if k = ''system'' then (\<lambda>_. True, smart_system_cmp loc allSystems)
     else if k = ''name'' then by_text loc sd_name
     else if k = ''model'' then by_text loc sd_model
     else if k = ''type'' then by_text loc sd_type
     else auto k)"

section \<open>Rows\<close>

datatype 'a ListBody = Rows "'a row list" | NoResults | Loading | Hidden

definition containers_body ::
  "ContainerRecord TableEngine \<Rightarrow> (string \<Rightarrow> ContainerRecord column) \<Rightarrow> (string \<Rightarrow> string) \<Rightarrow> SystemRecord store \<Rightarrow> ListView
    \<Rightarrow> ContainerRecord list option \<Rightarrow> ContainerRecord ListBody" where
  "containers_body E cols lower allSystems v data =
    (let rows = row_model E cols (container_filter lower allSystems (lv_globalFilter v)) (lv_sorting v) (case data of None \<Rightarrow> [] | Some d \<Rightarrow> d)
     in if rows \<noteq> [] then Rows rows else if data \<noteq> None then NoResults else Loading)"

definition systemd_body ::
  "SystemdRecord TableEngine \<Rightarrow> (string \<Rightarrow> SystemdRecord column) \<Rightarrow> (string \<Rightarrow> string) \<Rightarrow> SystemRecord store \<Rightarrow> ListView
    \<Rightarrow> SystemdRecord list \<Rightarrow> SystemdRecord ListBody" where
  "systemd_body E cols lower allSystems v data =
    (if systemd_hidden data (lv_globalFilter v) then Hidden
     else (let rows = row_model E cols (systemd_filter lower allSystems (lv_globalFilter v)) (lv_sorting v) data
           in if rows \<noteq> [] then Rows rows else NoResults))"

text \<open>The totals in the heading of the services: all and failed ones.\<close>

definition systemd_heading :: "SystemdRecord list \<Rightarrow> nat \<times> nat" where
  "systemd_heading data = (length data, statusTotals data ! service_status_code Svc_Failed)"

text \<open>The disks; the filters of the columns, which decide on hiding, are never set.\<close>

definition disks_body ::
  "SmartDeviceRecord TableEngine \<Rightarrow> (string \<Rightarrow> SmartDeviceRecord column) \<Rightarrow> (string \<Rightarrow> string) \<Rightarrow> SystemRecord store \<Rightarrow> ListView
    \<Rightarrow> string option \<Rightarrow> SmartDeviceRecord list option \<Rightarrow> SmartDeviceRecord ListBody" where
  "disks_body E cols lower allSystems v systemId devices =
    (if table_hidden systemId devices False then Hidden
     else (let rows = row_model E cols (smart_filter lower allSystems (lv_globalFilter v)) (lv_sorting v) (case devices of None \<Rightarrow> [] | Some d \<Rightarrow> d)
           in if rows \<noteq> [] then Rows rows else if devices \<noteq> None then NoResults else Loading))"

section \<open>Virtual rows\<close>

text \<open>
  The rows the virtualiser renders, with their extent in pixels. The padding above is the start of
  the first one; without rows it is \<open>0 - scrollMargin\<close>, because \<open>-\<close> binds tighter than \<open>??\<close>.
\<close>

record VirtualItem =
  vi_index :: nat
  vi_start :: int
  vi_end :: int

definition paddingTop :: "int \<Rightarrow> VirtualItem list \<Rightarrow> int" where
  "paddingTop scrollMargin items = max 0 (case items of [] \<Rightarrow> 0 - scrollMargin | v # _ \<Rightarrow> vi_start v)"

definition paddingBottom :: "int \<Rightarrow> VirtualItem list \<Rightarrow> int" where
  "paddingBottom totalSize items = max 0 (totalSize - (case at_last items of None \<Rightarrow> 0 | Some v \<Rightarrow> vi_end v))"

definition has_min_height :: "'a list \<Rightarrow> bool" where
  "has_min_height rows \<longleftrightarrow> rows = [] \<or> length rows > 2"

section \<open>Texts of the sheets\<close>

text \<open>The heading of the container sheet: name, system, status, image, id and health.\<close>

definition container_header :: "SystemRecord store \<Rightarrow> ContainerRecord \<Rightarrow> string \<times> string list" where
  "container_header allSystems c =
    (cr_name c, [system_name allSystems (cr_system c), cr_status c, cr_image c, cr_id c, health_label (cr_health c)])"

definition or_unknown :: "string \<Rightarrow> string" where
  "or_unknown s = (if s = [] then ''Unknown'' else s)"

definition disk_text :: "(SmartDeviceRecord \<Rightarrow> string) \<Rightarrow> SmartDeviceRecord option \<Rightarrow> string" where
  "disk_text f disk = or_unknown (case disk of None \<Rightarrow> [] | Some d \<Rightarrow> f d)"

definition disk_capacity :: "(rat \<Rightarrow> string) \<Rightarrow> SmartDeviceRecord option \<Rightarrow> string" where
  "disk_capacity num disk =
    (case disk of None \<Rightarrow> ''Unknown'' | Some d \<Rightarrow> if sd_capacity d = 0 then ''Unknown'' else formatCapacity num (sd_capacity d))"

definition disk_header :: "(rat \<Rightarrow> string) \<Rightarrow> SmartDeviceRecord option \<Rightarrow> string \<times> string list" where
  "disk_header num disk = (disk_text sd_name disk, [disk_text sd_model disk, disk_capacity num disk, disk_text sd_serial disk, disk_text sd_firmware disk])"

record DiskBody =
  db_passed :: bool
  db_status :: string
  db_failed :: "string option"
  db_columns :: "SmartColumn list"
  db_rows :: "(SmartAttribute \<times> bool) list"

text \<open>While the record is loading there is a spinner; then the result of the self-test and the attributes.\<close>

definition disk_body :: "DiskSheet \<Rightarrow> DiskBody option" where
  "disk_body st =
    (if dk_isLoading st then None
     else (let attrs = (case dk_disk st of None \<Rightarrow> [] | Some d \<Rightarrow> sd_attributes d); status = disk_text sd_state (dk_disk st);
               failed = failedAttributes attrs
           in Some \<lparr>db_passed = (status = ''PASSED''), db_status = status,
                    db_failed = (if failed \<noteq> [] then Some (join '', '' (map sa_n failed)) else None),
                    db_columns = visibleColumns attrs,
                    db_rows = map (\<lambda>a. (a, is_failed_attribute a)) attrs\<rparr>))"

section \<open>Lemmas\<close>

lemma by_text_comparator: "comparator loc UNIV \<Longrightarrow> comparator (snd (by_text loc f)) UNIV"
  using comparator_on [of loc f] by (simp add: by_text_def)

text \<open>Adjacent virtual rows meet.\<close>

fun adjacent :: "VirtualItem list \<Rightarrow> bool" where
  "adjacent (v # w # vs) \<longleftrightarrow> vi_end v = vi_start w \<and> adjacent (w # vs)"
| "adjacent _ \<longleftrightarrow> True"

lemma adjacent_extent: "adjacent (v # vs) \<Longrightarrow> sum_list (map (\<lambda>w. vi_end w - vi_start w) (v # vs)) = vi_end (last (v # vs)) - vi_start v"
  by (induction vs arbitrary: v) auto

section \<open>Properties\<close>

text \<open>
  The table of containers shows what it holds. The rows are exactly the containers the search lets
  through, each once; the table says that there are no results exactly when it was loaded and none
  qualifies, and turns a spinner exactly until the first answer.
\<close>

theorem containers_shown:
  assumes "table_engine E" "distinct (map cr_id d)"
  shows "let found = filter (container_filter lower allSystems (lv_globalFilter v)) d
    in containers_body E cols lower allSystems v None = Loading
    \<and> (if found = [] then containers_body E cols lower allSystems v (Some d) = NoResults
       else (\<exists>rows. containers_body E cols lower allSystems v (Some d) = Rows rows
               \<and> mset (map snd rows) = mset found \<and> distinct (map (cr_id \<circ> snd) rows)))"
proof -
  let ?p = "container_filter lower allSystems (lv_globalFilter v)"
  define found where "found = filter ?p d"
  define rows where "rows = row_model E cols ?p (lv_sorting v) d"
  have m: "mset (map snd rows) = mset found"
    unfolding rows_def found_def by (rule table_engine.row_model_mset [OF assms(1)])
  then have e: "rows = [] \<longleftrightarrow> found = []" by (metis length_0_conv length_map mset_zero_iff_right size_mset)
  have "distinct (map cr_id found)" unfolding found_def by (rule distinct_map_filter [OF assms(2)])
  moreover have "mset (map (cr_id \<circ> snd) rows) = mset (map cr_id found)"
    using arg_cong [OF m, of "image_mset cr_id"] by (simp add: multiset.map_comp)
  ultimately have "distinct (map (cr_id \<circ> snd) rows)" using mset_eq_imp_distinct_iff by blast
  moreover have "row_model E cols ?p (lv_sorting v) [] = []"
    using table_engine.row_model_length [OF assms(1), of cols ?p "lv_sorting v" "[]"] by simp
  ultimately show ?thesis using m e unfolding Let_def found_def [symmetric] by (auto simp: containers_body_def rows_def [symmetric])
qed

text \<open>
  The padding around the rows that are rendered stands for those that are not: together with the
  rendered rows it makes up the height of the whole list.
\<close>

theorem padding_fills_list:
  assumes "adjacent items" "items \<noteq> []" "0 \<le> vi_start (hd items)" "vi_end (last items) \<le> totalSize"
  shows "paddingTop scrollMargin items + sum_list (map (\<lambda>w. vi_end w - vi_start w) items) + paddingBottom totalSize items = totalSize"
proof -
  obtain v vs where i: "items = v # vs" using assms(2) by (cases items) auto
  have "at_last items = Some (last items)" using assms(2) by (simp add: at_last_def)
  then show ?thesis
    using assms adjacent_extent [of v vs] unfolding i paddingTop_def paddingBottom_def by simp
qed

text \<open>
  The disk sheet points out every failed attribute: the heading names them exactly when one is marked
  in the table, and each name in it belongs to a marked row.
\<close>

theorem disk_failures_named:
  assumes "disk_body st = Some b"
  shows "(db_failed b \<noteq> None) = list_ex snd (db_rows b)
    \<and> (\<forall>s. db_failed b = Some s \<longrightarrow> s = join '', '' (map (sa_n \<circ> fst) (filter snd (db_rows b))))"
proof -
  define attrs where "attrs = (case dk_disk st of None \<Rightarrow> [] | Some d \<Rightarrow> sd_attributes d)"
  have rows: "db_rows b = map (\<lambda>a. (a, is_failed_attribute a)) attrs"
    and named: "db_failed b = (if filter is_failed_attribute attrs \<noteq> [] then Some (join '', '' (map sa_n (filter is_failed_attribute attrs))) else None)"
    using assms by (auto simp: disk_body_def Let_def failedAttributes_def attrs_def split: if_splits)
  show ?thesis unfolding rows named by (auto simp: list_ex_iff filter_empty_conv filter_map comp_def)
qed

text \<open>The order chosen on a system's page and on the page of all systems are stored apart.\<close>

theorem orders_stored_apart:
  assumes "truthy_id systemId"
  shows "containers_mounted parse None (containers_stored enc systemId v session) = containers_mounted parse None session
    \<and> systemd_mounted parse None (systemd_stored enc systemId v session) = systemd_mounted parse None session
    \<and> containers_mounted parse systemId (systemd_stored enc systemId w session) = containers_mounted parse systemId session"
  using assms
  by (simp add: containers_mounted_def systemd_mounted_def containers_stored_def systemd_stored_def systemId_flag_def truthy_id_def
      browserStorage_init_def browserStorage_effect_def getStorageValue_def)

end
