(* ===== verification/DisksPage.thy ===== *)
theory DisksPage
  imports TableViews Pages
begin

text \<open>
  The table of disks as a component, \<open>DisksTable\<close> of \<^verbatim>\<open>components/routes/system/smart-table.tsx\<close>: the
  list request and the subscription, which belong to the system the page shows, the search and the order,
  the menus of the rows with their requests, the sheet, and what the table renders. \<open>E\<close> is the table
  library, \<open>cols\<close> its columns, \<open>lower\<close> is \<open>toLowerCase\<close>.
\<close>

section \<open>State\<close>

record DiskSub =
  ds_system :: "string option"
  ds_confirmed :: bool
  ds_ended :: bool

record DisksPage =
  dp_systemId :: "string option"
  dp_view :: ListView
  dp_devices :: "SmartDeviceRecord list option"
  dp_pending :: bool
  dp_subs :: "DiskSub list"
  dp_action :: "(RowAction \<times> string) option"
  dp_requests :: "(RowAction \<times> SmartDeviceRecord) list"
  dp_sheet :: DiskSheet

definition new_sub :: "string option \<Rightarrow> DiskSub" where
  "new_sub systemId = \<lparr>ds_system = systemId, ds_confirmed = False, ds_ended = False\<rparr>"

definition disks_page_mounted :: "string option \<Rightarrow> DisksPage" where
  "disks_page_mounted systemId = \<lparr>dp_systemId = systemId, dp_view = disks_mounted systemId, dp_devices = None, dp_pending = True,
     dp_subs = [new_sub systemId], dp_action = None, dp_requests = [],
     dp_sheet = \<lparr>dk_open = False, dk_diskId = None, dk_disk = None, dk_isLoading = False, dk_requests = []\<rparr>\<rparr>"

section \<open>The list and the subscription\<close>

text \<open>
  Another system: the request for the old list is aborted and the subscription ended, if it was
  confirmed by then; a new request and a new subscription follow. The devices stay until the list comes.
\<close>

definition end_sub :: "DiskSub list \<Rightarrow> DiskSub list" where
  "end_sub subs = (case rev subs of [] \<Rightarrow> [] | s # before \<Rightarrow> rev ((if ds_confirmed s then s\<lparr>ds_ended := True\<rparr> else s) # before))"

definition show_system :: "string option \<Rightarrow> DisksPage \<Rightarrow> DisksPage" where
  "show_system systemId p =
    (if systemId = dp_systemId p then p
     else p\<lparr>dp_systemId := systemId, dp_pending := True, dp_subs := end_sub (dp_subs p) @ [new_sub systemId]\<rparr>)"

definition list_loaded :: "bool + SmartDeviceRecord list \<Rightarrow> DisksPage \<Rightarrow> DisksPage" where
  "list_loaded res p =
    (if dp_pending p then p\<lparr>dp_devices := smart_loaded res (dp_devices p), dp_pending := False\<rparr> else p)"

definition confirm_sub :: "nat \<Rightarrow> DisksPage \<Rightarrow> DisksPage" where
  "confirm_sub i p = (if i < length (dp_subs p) then p\<lparr>dp_subs := (dp_subs p)[i := (dp_subs p ! i)\<lparr>ds_confirmed := True\<rparr>]\<rparr> else p)"

definition disk_message :: "nat \<Rightarrow> PbAction \<times> SmartDeviceRecord \<Rightarrow> DisksPage \<Rightarrow> DisksPage" where
  "disk_message i e p =
    (if i < length (dp_subs p) \<and> \<not> ds_ended (dp_subs p ! i)
     then p\<lparr>dp_devices := smart_event (ds_system (dp_subs p ! i)) e (dp_devices p)\<rparr> else p)"

section \<open>The menus of the rows\<close>

definition item_disabled :: "RowAction \<Rightarrow> SmartDeviceRecord \<Rightarrow> (RowAction \<times> string) option \<Rightarrow> bool" where
  "item_disabled a d st = (case a of RefreshRow \<Rightarrow> refresh_disabled d st | DeleteRow \<Rightarrow> delete_disabled d st)"

definition menu_start :: "RowAction \<Rightarrow> SmartDeviceRecord \<Rightarrow> DisksPage \<Rightarrow> DisksPage" where
  "menu_start a d p =
    (if item_disabled a d (dp_action p) \<or> a = RefreshRow \<and> sd_system d = [] then p
     else p\<lparr>dp_action := row_start a d (dp_action p), dp_requests := dp_requests p @ [(a, d)]\<rparr>)"

text \<open>The end of a row's request, whether it failed or not.\<close>

definition action_end :: "RowAction \<times> SmartDeviceRecord \<Rightarrow> DisksPage \<Rightarrow> DisksPage" where
  "action_end q p =
    (if q \<in> set (dp_requests p)
     then p\<lparr>dp_requests := remove1 q (dp_requests p), dp_action := row_settled (snd q) (dp_action p)\<rparr> else p)"

section \<open>Rows and cells\<close>

record DiskEnv =
  de_engine :: "SmartDeviceRecord TableEngine"
  de_cols :: "string \<Rightarrow> SmartDeviceRecord column"
  de_lower :: "string \<Rightarrow> string"
  de_systems :: "SystemRecord store"

definition disk_rows :: "DiskEnv \<Rightarrow> DisksPage \<Rightarrow> SmartDeviceRecord row list" where
  "disk_rows V p =
    (case disks_body (de_engine V) (de_cols V) (de_lower V) (de_systems V) (dp_view p) (dp_systemId p) (dp_devices p) of Rows rs \<Rightarrow> rs | _ \<Rightarrow> [])"

text \<open>How numbers, durations and times are printed.\<close>

record CellText =
  ct_num :: "rat \<Rightarrow> string"
  ct_locale :: "rat \<Rightarrow> string"
  ct_seconds :: "rat \<Rightarrow> SecondsUnit \<Rightarrow> string"
  ct_settings :: UserSettings
  ct_dateString :: "string \<Rightarrow> string"
  ct_withSeconds :: "string \<Rightarrow> string"
  ct_shortDate :: "string \<Rightarrow> string"
  ct_today :: string

datatype DiskCell = Plain string | StateBadge string string | TypeBadge string | TwoLines string string | ActionMenu bool bool

definition disk_cell :: "CellText \<Rightarrow> SystemRecord store \<Rightarrow> (RowAction \<times> string) option \<Rightarrow> SmartDeviceRecord \<Rightarrow> string \<Rightarrow> DiskCell" where
  "disk_cell C allSystems st d k =
    (if k = ''system'' then Plain (system_name allSystems (sd_system d))
     else if k = ''name'' then Plain (sd_name d)
     else if k = ''model'' then Plain (sd_model d)
     else if k = ''capacity'' then Plain (formatCapacity (ct_num C) (sd_capacity d))
     else if k = ''state'' then StateBadge (state_badge (sd_state d)) (sd_state d)
     else if k = ''type'' then TypeBadge (sd_type d)
     else if k = ''hours'' then (let (h, day) = hours_cell (ct_seconds C) (sd_hours d) in TwoLines h day)
     else if k = ''cycles'' then Plain (ct_locale C (sd_cycles d))
     else if k = ''temp'' then Plain (temp_cell (ct_num C) (ct_settings C) (sd_temp d))
     else if k = ''updated'' then Plain (updated_cell (ct_dateString C) (ct_withSeconds C) (ct_shortDate C) (ct_today C) (sd_updated d))
     else ActionMenu (refresh_disabled d st) (delete_disabled d st))"

definition disk_head :: "(string \<Rightarrow> string) \<Rightarrow> string \<Rightarrow> string" where
  "disk_head tr k =
    tr (case map_of [(''system'', ''System''), (''name'', ''Device''), (''model'', ''Model''), (''capacity'', ''Capacity''),
      (''state'', ''Status''), (''type'', ''Type''), (''hours'', ''Power On''), (''cycles'', ''Cycles''), (''temp'', ''Temp''), (''updated'', ''Updated'')] k
      of None \<Rightarrow> ''Actions'' | Some h \<Rightarrow> h)"

record DisksTableView =
  dv_title :: string
  dv_description :: string
  dv_filter :: string
  dv_clear :: bool
  dv_heads :: "string list"
  dv_body :: "(string \<times> DiskCell list) list + string option"
  dv_colSpan :: nat

text \<open>Hidden, or the card: its rows, or in their place a message or (\<open>None\<close>) a spinner.\<close>

definition DisksTable :: "(string \<Rightarrow> string) \<Rightarrow> CellText \<Rightarrow> DiskEnv \<Rightarrow> DisksPage \<Rightarrow> DisksTableView option" where
  "DisksTable tr C V p =
    (let ks = disk_columns (dp_systemId p);
         card = (\<lambda>body. \<lparr>dv_title = ''S.M.A.R.T.'', dv_description = tr ''Click on a device to view more information.'',
           dv_filter = lv_globalFilter (dp_view p), dv_clear = (lv_globalFilter (dp_view p) \<noteq> []),
           dv_heads = map (disk_head tr) ks, dv_body = body, dv_colSpan = length ks\<rparr>)
     in case disks_body (de_engine V) (de_cols V) (de_lower V) (de_systems V) (dp_view p) (dp_systemId p) (dp_devices p) of
          Hidden \<Rightarrow> None
        | Rows rs \<Rightarrow> Some (card (Inl (map (\<lambda>r. (show_nat (fst r), map (disk_cell C (de_systems V) (dp_action p) (snd r)) ks)) rs)))
        | NoResults \<Rightarrow> Some (card (Inr (Some (tr ''No results.''))))
        | Loading \<Rightarrow> Some (card (Inr None)))"

section \<open>Events\<close>

datatype DisksEvent =
    FilterInput string | ClearFilter | HeadClick string | DiskClick nat | MenuItem RowAction nat | ActionEnd "RowAction \<times> SmartDeviceRecord"
  | ListLoaded "bool + SmartDeviceRecord list" | SubConfirmed nat | DiskMessage nat "PbAction \<times> SmartDeviceRecord"
  | ShowSystem "string option" | SheetClose | SheetAnswer string "SmartDeviceRecord option"

definition at_row :: "DiskEnv \<Rightarrow> nat \<Rightarrow> (SmartDeviceRecord \<Rightarrow> DisksPage \<Rightarrow> DisksPage) \<Rightarrow> DisksPage \<Rightarrow> DisksPage" where
  "at_row V i g p = (case nth_opt (disk_rows V p) i of None \<Rightarrow> p | Some r \<Rightarrow> g (snd r) p)"

fun disks_event :: "DiskEnv \<Rightarrow> DisksEvent \<Rightarrow> DisksPage \<Rightarrow> DisksPage" where
  "disks_event V (FilterInput s) p = p\<lparr>dp_view := setGlobalFilter s (dp_view p)\<rparr>"
| "disks_event V ClearFilter p = p\<lparr>dp_view := setGlobalFilter [] (dp_view p)\<rparr>"
| "disks_event V (HeadClick k) p = p\<lparr>dp_view := HeaderButton_click k (dp_view p)\<rparr>"
| "disks_event V (DiskClick i) p = at_row V i (\<lambda>d p. p\<lparr>dp_sheet := openDisk (sd_id d) (dp_sheet p)\<rparr>) p"
| "disks_event V (MenuItem a i) p = at_row V i (menu_start a) p"
| "disks_event V (ActionEnd q) p = action_end q p"
| "disks_event V (ListLoaded res) p = list_loaded res p"
| "disks_event V (SubConfirmed i) p = confirm_sub i p"
| "disks_event V (DiskMessage i e) p = disk_message i e p"
| "disks_event V (ShowSystem s) p = show_system s p"
| "disks_event V SheetClose p = p\<lparr>dp_sheet := closeDisk (dp_sheet p)\<rparr>"
| "disks_event V (SheetAnswer k r) p = p\<lparr>dp_sheet := disk_answer k r (dp_sheet p)\<rparr>"

section \<open>Lemmas\<close>

lemma at_row_cases: "at_row V i g p = p \<or> (\<exists>r. nth_opt (disk_rows V p) i = Some r \<and> at_row V i g p = g (snd r) p)"
  by (simp add: at_row_def split: option.split)

text \<open>A row's menu waits only for a request of that row and kind.\<close>

definition row_requests :: "DisksPage \<Rightarrow> (RowAction \<times> string) list" where
  "row_requests p = map (\<lambda>(a, d). (a, sd_id d)) (dp_requests p)"

definition action_inv :: "DisksPage \<Rightarrow> bool" where
  "action_inv p \<longleftrightarrow> (\<forall>k. dp_action p = Some k \<longrightarrow> k \<in> set (row_requests p))"

lemma action_inv_frame [simp]:
  "action_inv (p\<lparr>dp_view := v\<rparr>) = action_inv p" "action_inv (p\<lparr>dp_sheet := s\<rparr>) = action_inv p"
  "action_inv (show_system x p) = action_inv p" "action_inv (list_loaded res p) = action_inv p"
  "action_inv (confirm_sub i p) = action_inv p" "action_inv (disk_message i e p) = action_inv p"
  by (simp_all add: action_inv_def row_requests_def show_system_def list_loaded_def confirm_sub_def disk_message_def)

lemma action_inv_start: "action_inv p \<Longrightarrow> action_inv (menu_start a d p)"
  by (auto simp: action_inv_def menu_start_def row_start_def row_requests_def)

lemma action_inv_end:
  assumes "action_inv p"
  shows "action_inv (action_end q p)"
proof (cases "q \<in> set (dp_requests p)")
  case True
  show ?thesis unfolding action_inv_def
  proof (intro allI impI)
    fix k
    assume "dp_action (action_end q p) = Some k"
    then have k: "dp_action p = Some k" "snd k \<noteq> sd_id (snd q)"
      using True by (auto simp: action_end_def row_settled_def split: option.splits prod.splits if_splits)
    then have "k \<in> set (row_requests p)" using assms by (simp add: action_inv_def)
    then obtain r where r: "r \<in> set (dp_requests p)" "k = (fst r, sd_id (snd r))" by (auto simp: row_requests_def)
    with k(2) have "r \<noteq> q" by auto
    with r(1) have "r \<in> set (remove1 q (dp_requests p))" by (simp add: in_set_remove1)
    then show "k \<in> set (row_requests (action_end q p))" using r(2) True by (force simp: row_requests_def action_end_def)
  qed
qed (use assms in \<open>simp add: action_end_def\<close>)

interpretation disk_menus: request_page "disks_event V" "\<lambda>p. \<exists>s. p = disks_page_mounted s" action_inv
  "\<lambda>p k. dp_action p = Some k" row_requests for V
proof (unfold_locales, goal_cases)
  case (1 p)
  then show ?case by (auto simp: action_inv_def disks_page_mounted_def)
next
  case (2 p e)
  then have "action_inv (at_row V i (menu_start a) p)" for a i using at_row_cases [of V i "menu_start a" p] by (auto simp: action_inv_start)
  moreover have "action_inv (at_row V i (\<lambda>d p. p\<lparr>dp_sheet := openDisk (sd_id d) (dp_sheet p)\<rparr>) p)" for i
    using 2 by (simp add: at_row_def split: option.split)
  ultimately show ?case using 2 by (cases e) (simp_all add: action_inv_end)
next
  case (3 p k)
  then show ?case by (simp add: action_inv_def)
qed

text \<open>
  What the hub and the browser do: a list holds disks of the system it was requested for, and the request of the
  page's own system is not cancelled.
\<close>

definition lists_fit :: "DisksEvent \<Rightarrow> DisksPage \<Rightarrow> bool" where
  "lists_fit e p =
    (case e of
       ListLoaded (Inr ds) \<Rightarrow> list_all (in_scope (dp_systemId p)) ds
     | ListLoaded (Inl isAbort) \<Rightarrow> \<not> isAbort
     | _ \<Rightarrow> True)"

abbreviation disks_session :: "DiskEnv \<Rightarrow> DisksPage \<Rightarrow> bool" where
  "disks_session V \<equiv> session (disks_event V) lists_fit (\<lambda>p. \<exists>s. p = disks_page_mounted s)"

definition devices_of :: "DisksPage \<Rightarrow> SmartDeviceRecord list" where
  "devices_of p = (case dp_devices p of None \<Rightarrow> [] | Some ds \<Rightarrow> ds)"

text \<open>
  Subscriptions that still deliver: that of the page's system, and those that could not be ended when the page left
  their system.
\<close>

definition leaked :: "DisksPage \<Rightarrow> DiskSub list" where
  "leaked p = filter (Not \<circ> ds_ended) (butlast (dp_subs p))"

definition live_scopes :: "DisksPage \<Rightarrow> string option set" where
  "live_scopes p = set (map ds_system (filter (Not \<circ> ds_ended) (dp_subs p)))"

definition scope_inv :: "DisksPage \<Rightarrow> bool" where
  "scope_inv p \<longleftrightarrow> (\<exists>before cur. dp_subs p = before @ [cur] \<and> ds_system cur = dp_systemId p \<and> \<not> ds_ended cur)
     \<and> (\<not> dp_pending p \<longrightarrow> (\<forall>d\<in>set (devices_of p). \<exists>k\<in>live_scopes p. in_scope k d))"

lemma scope_inv_frame [simp]:
  "scope_inv (p\<lparr>dp_view := v\<rparr>) = scope_inv p" "scope_inv (p\<lparr>dp_sheet := s\<rparr>) = scope_inv p"
  "scope_inv (menu_start a d p) = scope_inv p" "scope_inv (action_end q p) = scope_inv p"
  by (simp_all add: scope_inv_def devices_of_def live_scopes_def menu_start_def action_end_def)

lemma smart_feed_members: "d \<in> set (smart_feed s e ds) \<Longrightarrow> d \<in> set ds \<or> in_scope s d"
  using set_update_subset_insert [of ds] by (fastforce simp: smart_feed_def Let_def split: prod.splits option.splits if_splits)

lemma end_sub_snoc: "end_sub (subs @ [s]) = subs @ [if ds_confirmed s then s\<lparr>ds_ended := True\<rparr> else s]"
  by (simp add: end_sub_def)

lemma scope_inv_show: "scope_inv p \<Longrightarrow> scope_inv (show_system s p)"
  by (auto simp: scope_inv_def show_system_def new_sub_def)

lemma own_scope:
  assumes "scope_inv p"
  shows "dp_systemId p \<in> live_scopes p"
proof -
  from assms obtain before cur where "dp_subs p = before @ [cur]" "ds_system cur = dp_systemId p" "\<not> ds_ended cur"
    unfolding scope_inv_def by blast
  then show ?thesis by (simp add: live_scopes_def del: set_map)
qed

lemma scope_inv_loaded:
  assumes "scope_inv p" "lists_fit (ListLoaded res) p"
  shows "scope_inv (list_loaded res p)"
proof -
  have same: "live_scopes (list_loaded res p) = live_scopes p" "dp_subs (list_loaded res p) = dp_subs p"
    "dp_systemId (list_loaded res p) = dp_systemId p"
    by (simp_all add: live_scopes_def list_loaded_def)
  have "\<exists>k\<in>live_scopes p. in_scope k d" if "\<not> dp_pending (list_loaded res p)" "d \<in> set (devices_of (list_loaded res p))" for d
  proof (cases "dp_pending p")
    case True
    then have "in_scope (dp_systemId p) d"
      using that assms(2) by (auto simp: list_loaded_def smart_loaded_def devices_of_def lists_fit_def list_all_iff split: sum.splits)
    with own_scope [OF assms(1)] show ?thesis by blast
  next
    case False
    with that assms(1) show ?thesis by (simp add: list_loaded_def scope_inv_def)
  qed
  with assms(1) show ?thesis unfolding scope_inv_def same by blast
qed

lemma map_filter_update:
  "i < length xs \<Longrightarrow> f y = f (xs ! i) \<Longrightarrow> P y = P (xs ! i) \<Longrightarrow> map f (filter P (xs[i := y])) = map f (filter P xs)"
  by (induction xs arbitrary: i) (auto simp: nth_Cons split: nat.splits)

lemma live_scopes_confirm: "live_scopes (confirm_sub i p) = live_scopes p"
  by (simp add: live_scopes_def confirm_sub_def map_filter_update del: set_map)

lemma scope_inv_confirm:
  assumes "scope_inv p"
  shows "scope_inv (confirm_sub i p)"
proof -
  obtain before cur where s: "dp_subs p = before @ [cur]" "ds_system cur = dp_systemId p" "\<not> ds_ended cur"
    using assms by (auto simp: scope_inv_def)
  then have "\<exists>before cur. dp_subs (confirm_sub i p) = before @ [cur] \<and> ds_system cur = dp_systemId p \<and> \<not> ds_ended cur"
    by (cases "i < length before") (auto simp: confirm_sub_def list_update_append nth_append)
  moreover have "dp_systemId (confirm_sub i p) = dp_systemId p" "dp_pending (confirm_sub i p) = dp_pending p"
    "devices_of (confirm_sub i p) = devices_of p" by (simp_all add: confirm_sub_def devices_of_def)
  ultimately show ?thesis using assms unfolding scope_inv_def live_scopes_confirm by simp
qed

lemma scope_inv_message:
  assumes "scope_inv p"
  shows "scope_inv (disk_message i e p)"
proof (cases "i < length (dp_subs p) \<and> \<not> ds_ended (dp_subs p ! i)")
  case True
  let ?k = "ds_system (dp_subs p ! i)"
  have k: "?k \<in> live_scopes p" using True nth_mem [of i "dp_subs p"] by (simp add: live_scopes_def)
  have same: "dp_subs (disk_message i e p) = dp_subs p" "live_scopes (disk_message i e p) = live_scopes p"
    "dp_systemId (disk_message i e p) = dp_systemId p" "dp_pending (disk_message i e p) = dp_pending p"
    by (simp_all add: disk_message_def live_scopes_def)
  have "devices_of (disk_message i e p) = smart_feed ?k e (devices_of p)"
    using True by (simp add: disk_message_def smart_event_def devices_of_def)
  then have "d \<in> set (devices_of p) \<or> in_scope ?k d" if "d \<in> set (devices_of (disk_message i e p))" for d
    using that smart_feed_members by metis
  with assms k show ?thesis unfolding scope_inv_def same by blast
qed (use assms in \<open>auto simp: disk_message_def\<close>)

interpretation disks_scope: session_page "disks_event V" lists_fit "\<lambda>p. \<exists>s. p = disks_page_mounted s" scope_inv for V
proof (unfold_locales, goal_cases)
  case (1 p)
  then show ?case by (auto simp: scope_inv_def disks_page_mounted_def new_sub_def)
next
  case (2 p e)
  have "scope_inv (at_row V i g p)" if "\<And>d. scope_inv (g d p)" for i g
    using at_row_cases [of V i g p] that 2(1) by auto
  with 2 show ?case
    by (cases e) (simp_all add: scope_inv_loaded scope_inv_confirm scope_inv_message scope_inv_show)
qed

section \<open>Properties\<close>

text \<open>
  C22. Which disks the table holds. However often the page moves from system to system and however
  confirmations, messages, lists and actions interleave, once the list of the system shown has come every device in the
  table belongs to that system or to the system of a leaked subscription. Only a move that leaves a subscription which has
  not been confirmed leaks it: a move after the confirmation leaks none.
\<close>

theorem disks_in_scope:
  assumes "disks_session V p"
  shows "(\<not> dp_pending p \<longrightarrow> (\<forall>d\<in>set (devices_of p). in_scope (dp_systemId p) d \<or> (\<exists>s\<in>set (leaked p). in_scope (ds_system s) d)))
    \<and> (\<forall>s. s \<noteq> dp_systemId p \<longrightarrow>
         leaked (show_system s p) = leaked p @ (if ds_confirmed (last (dp_subs p)) then [] else [last (dp_subs p)]))"
proof -
  have inv: "scope_inv p" by (rule disks_scope.session_inv [OF assms])
  then obtain before cur where s: "dp_subs p = before @ [cur]" "ds_system cur = dp_systemId p" "\<not> ds_ended cur"
    by (auto simp: scope_inv_def)
  have "live_scopes p = insert (dp_systemId p) (ds_system ` set (leaked p))"
    using s by (auto simp: live_scopes_def leaked_def)
  then have "in_scope (dp_systemId p) d \<or> (\<exists>s\<in>set (leaked p). in_scope (ds_system s) d)"
    if "\<not> dp_pending p" "d \<in> set (devices_of p)" for d
    using inv that unfolding scope_inv_def by auto
  moreover have "leaked (show_system k p) = leaked p @ (if ds_confirmed cur then [] else [cur])" if "k \<noteq> dp_systemId p" for k
    using that s by (simp add: leaked_def show_system_def end_sub_snoc butlast_append)
  ultimately show ?thesis using s(1) by simp
qed

definition sample_disk_env :: DiskEnv where
  "sample_disk_env = \<lparr>de_engine = reference_engine, de_cols = (\<lambda>_. by_text (\<lambda>_ _. 0) sd_name), de_lower = id, de_systems = []\<rparr>"

definition sample_disks :: DisksPage where
  "sample_disks = run (disks_event sample_disk_env) [SubConfirmed 0, ListLoaded (Inr [sample_disk ''d'' ''a'']), ShowSystem (Some ''b''),
     ListLoaded (Inr [sample_disk ''e'' ''b'']), DiskMessage 0 (Create, sample_disk ''f'' ''a'')] (disks_page_mounted (Some ''a''))"

theorem disks_in_scope_witness:
  "in_scope (Some ''b'') (sample_disk ''e'' ''b'') \<and> devices_of sample_disks = [sample_disk ''e'' ''b'']"
proof -
  have "disks_session sample_disk_env sample_disks"
    unfolding sample_disks_def run_simps by (intro session.event, rule session.start) (blast | code_simp)+
  moreover have d: "devices_of sample_disks = [sample_disk ''e'' ''b'']" "\<not> dp_pending sample_disks" "dp_systemId sample_disks = Some ''b''"
    by code_simp+
  moreover have "leaked sample_disks = []" by code_simp
  ultimately show ?thesis using disks_in_scope [of sample_disk_env sample_disks] by simp
qed

text \<open>
  A subscription that was not confirmed when the page left its system is never ended: a disk of the
  former system that changes afterwards appears in the table of the other one.
\<close>

theorem left_subscription_adds_disk:
  assumes "sd_system r = a" "a \<noteq> b" "a \<noteq> []" "b \<noteq> []"
  shows "let p = run (disks_event V) [ShowSystem (Some b), ListLoaded (Inr []), SubConfirmed 0, DiskMessage 0 (Update, r)] (disks_page_mounted (Some a))
    in dp_systemId p = Some b \<and> devices_of p = [r] \<and> \<not> in_scope (dp_systemId p) r"
  using assms
  by (simp add: disks_page_mounted_def show_system_def list_loaded_def confirm_sub_def disk_message_def smart_event_def smart_feed_def
      smart_loaded_def devices_of_def in_scope_def end_sub_def new_sub_def find_index_def Let_def)

text \<open>
  Menus never stay disabled: in every run, once no request of a row is under way, both items of every
  row's menu can be chosen.
\<close>

theorem disk_menus_idle:
  assumes "dp_requests (run (disks_event V) es (disks_page_mounted s)) = []"
  shows "disk_cell C allSystems (dp_action (run (disks_event V) es (disks_page_mounted s))) d ''actions'' = ActionMenu False False"
proof -
  let ?p = "run (disks_event V) es (disks_page_mounted s)"
  have "dp_action ?p \<noteq> Some k" for k
    using disk_menus.idle_when_answered [of "disks_page_mounted s" V es k] assms by (auto simp: row_requests_def)
  then show ?thesis by (simp add: disk_cell_def refresh_disabled_def delete_disabled_def)
qed

definition sample_cells :: CellText where
  "sample_cells = \<lparr>ct_num = (\<lambda>_. []), ct_locale = (\<lambda>_. []), ct_seconds = (\<lambda>_ _. []), ct_settings = empty_settings,
     ct_dateString = id, ct_withSeconds = id, ct_shortDate = id, ct_today = []\<rparr>"

theorem disk_menus_idle_witness:
  "disk_cell sample_cells [] (dp_action (run (disks_event sample_disk_env) [ListLoaded (Inr [sample_disk ''d'' ''a'']), MenuItem DeleteRow 0,
     ActionEnd (DeleteRow, sample_disk ''d'' ''a'')] (disks_page_mounted None))) (sample_disk ''d'' ''a'') ''actions'' = ActionMenu False False"
  by (rule disk_menus_idle) code_simp

text \<open>
  A menu forgets a deletion when another request of the same row ends first: after a refresh and a
  deletion of one disk were started and the refresh has ended, the deletion is under way and both items
  can be chosen again.
\<close>

theorem refresh_end_frees_deletion:
  assumes "sd_system d \<noteq> []" "dp_action p = None" "dp_requests p = []"
  shows "let p' = action_end (RefreshRow, d) (menu_start DeleteRow d (menu_start RefreshRow d p))
    in dp_requests p' = [(DeleteRow, d)] \<and> \<not> item_disabled DeleteRow d (dp_action p') \<and> \<not> item_disabled RefreshRow d (dp_action p')"
  using assms
  by (simp add: menu_start_def action_end_def item_disabled_def refresh_disabled_def delete_disabled_def row_start_def row_settled_def Let_def)

text \<open>
  A click on a row opens the sheet of the disk in that row, whatever the search and the order are: one
  of the devices, one that the search lets through, and its record is requested.
\<close>

theorem clicked_disk_opened:
  assumes "table_engine (de_engine V)" "nth_opt (disk_rows V p) i = Some (j, d)" "sd_id d \<noteq> []"
  shows "let sheet = dp_sheet (disks_event V (DiskClick i) p)
    in d \<in> set (devices_of p) \<and> smart_filter (de_lower V) (de_systems V) (lv_globalFilter (dp_view p)) d
    \<and> dk_open sheet \<and> dk_diskId sheet = Some (sd_id d) \<and> dk_isLoading sheet \<and> last (dk_requests sheet) = sd_id d"
proof -
  have "(j, d) \<in> set (row_model (de_engine V) (de_cols V) (smart_filter (de_lower V) (de_systems V) (lv_globalFilter (dp_view p)))
      (lv_sorting (dp_view p)) (devices_of p))"
    using assms(2) by (auto simp: disk_rows_def disks_body_def devices_of_def nth_opt_def Let_def split: if_splits option.splits dest: nth_mem)
  from table_engine.row_model_at [OF assms(1) this] show ?thesis
    using assms(2,3) by (auto simp: at_row_def openDisk_def disk_effect_def Let_def in_set_conv_nth)
qed

theorem clicked_disk_opened_witness:
  "dk_diskId (dp_sheet (disks_event sample_disk_env (DiskClick 0) sample_disks)) = Some ''e''"
proof -
  have "table_engine (de_engine sample_disk_env)" by (simp add: sample_disk_env_def reference_table.table_engine_axioms)
  moreover have "nth_opt (disk_rows sample_disk_env sample_disks) 0 = Some (0, sample_disk ''e'' ''b'')" by code_simp
  ultimately show ?thesis using clicked_disk_opened [of sample_disk_env sample_disks 0 0 "sample_disk ''e'' ''b''"]
    by (simp add: Let_def sample_disk_def)
qed

end
