(* ===== verification/ServicesPage.thy ===== *)
theory ServicesPage
  imports TableViews Pages
begin

text \<open>
  The table of services as a component, \<open>SystemdTable\<close> of
  \<^verbatim>\<open>components/systemd-table/systemd-table.tsx\<close> with the columns of
  \<^verbatim>\<open>components/systemd-table/systemd-table-columns.tsx\<close>: its requests and its listener of the store of
  systems, over moves of the page to other systems; rows, cells and sheet. \<open>dec\<close> prints a number with some
  digits, \<open>time\<close> the time of day of a timestamp in milliseconds.
\<close>

section \<open>State and requests\<close>

text \<open>\<open>sp_closure\<close> is the data the running effect saw; its listener compares with their time.\<close>

record ServicesPage =
  sp_systemId :: "string option"
  sp_data :: "SystemdRecord list"
  sp_closure :: "SystemdRecord list"
  sp_loadTime :: int
  sp_requests :: "string option list"
  sp_view :: ListView
  sp_sheet :: ServiceSheet

definition services_mounted :: "ListView \<Rightarrow> string option \<Rightarrow> int \<Rightarrow> ServicesPage" where
  "services_mounted v systemId now = \<lparr>sp_systemId = systemId, sp_data = [], sp_closure = [], sp_loadTime = now,
     sp_requests = [systemId], sp_view = v, sp_sheet = sheet_init systemId\<rparr>"

text \<open>Another system: both effects run with the data of the render before, then the data are cleared.\<close>

definition services_show :: "string option \<Rightarrow> int \<Rightarrow> ServicesPage \<Rightarrow> ServicesPage" where
  "services_show systemId now p =
    (if systemId = sp_systemId p then p
     else p\<lparr>sp_systemId := systemId, sp_closure := sp_data p, sp_loadTime := now, sp_data := [],
            sp_requests := sp_requests p @ [systemId], sp_sheet := sheet_setSystem systemId (sp_sheet p)\<rparr>)"

definition services_answer :: "string option \<Rightarrow> SystemdRecord list \<Rightarrow> ServicesPage \<Rightarrow> ServicesPage" where
  "services_answer k items p =
    (if k \<in> set (sp_requests p)
     then p\<lparr>sp_requests := remove1 k (sp_requests p), sp_data := systemd_fetched items (sp_data p)\<rparr> else p)"

definition services_failed :: "string option \<Rightarrow> ServicesPage \<Rightarrow> ServicesPage" where
  "services_failed k p = p\<lparr>sp_requests := remove1 k (sp_requests p)\<rparr>"

text \<open>A system of the store has changed.\<close>

definition services_listen :: "string \<Rightarrow> int \<Rightarrow> ServicesPage \<Rightarrow> ServicesPage" where
  "services_listen key now p =
    (case systemd_listen (sp_closure p) (sp_loadTime p) now (sp_systemId p) key of
       None \<Rightarrow> p
     | Some k \<Rightarrow> p\<lparr>sp_requests := sp_requests p @ [Some k]\<rparr>)"

section \<open>Rows and cells\<close>

datatype ListCell = Text string | Dot string string

definition service_columns :: "string list" where
  "service_columns = [''name'', ''state'', ''sub'', ''cpu'', ''cpuPeak'', ''memory'', ''memPeak'', ''updated'']"

definition service_head :: "(string \<Rightarrow> string) \<Rightarrow> string \<Rightarrow> string" where
  "service_head tr k =
    (if k = ''name'' then tr ''Name'' else if k = ''state'' then tr ''State'' else if k = ''sub'' then tr ''Sub State''
     else if k = ''cpu'' then tr ''CPU'' @ '' (10m)'' else if k = ''cpuPeak'' then tr ''CPU Peak''
     else if k = ''memory'' then tr ''Memory'' else if k = ''memPeak'' then tr ''Memory Peak'' else tr ''Updated'')"

definition dot_cell :: "string \<times> string \<Rightarrow> ListCell" where
  "dot_cell c = (case c of (colour, label) \<Rightarrow> Dot colour label)"

definition service_cell :: "(rat \<Rightarrow> nat \<Rightarrow> string) \<Rightarrow> (int \<Rightarrow> string) \<Rightarrow> SystemdRecord \<Rightarrow> string \<Rightarrow> ListCell" where
  "service_cell dec time r k =
    (if k = ''name'' then Text (sds_name r)
     else if k = ''state'' then dot_cell (state_cell (sds_state r))
     else if k = ''sub'' then dot_cell (sub_cell (sds_sub r))
     else if k = ''cpu'' then Text (service_cpu_cell dec (service_cpu_value r))
     else if k = ''cpuPeak'' then Text (service_cpu_cell dec (service_cpuPeak_value r))
     else if k = ''memory'' then Text (service_memory_cell dec (sds_memory r))
     else if k = ''memPeak'' then Text (service_memory_cell dec (sds_memPeak r))
     else Text (time (sds_updated r)))"

text \<open>The comparisons of the columns; without one of their own the library compares the values.\<close>

definition by_value :: "('a \<Rightarrow> rat) \<Rightarrow> 'a column" where
  "by_value f = (\<lambda>_. True, \<lambda>a b. f a - f b)"

definition service_col :: "(string \<Rightarrow> string \<Rightarrow> rat) \<Rightarrow> string \<Rightarrow> SystemdRecord column" where
  "service_col loc k =
    (if k = ''name'' then by_text loc sds_name
     else if k = ''state'' then by_value (\<lambda>r. of_nat (service_status_code (sds_state r)))
     else if k = ''sub'' then by_value (\<lambda>r. of_nat (service_sub_code (sds_sub r)))
     else if k = ''cpu'' then by_value (\<lambda>r. - service_cpu_value r)
     else if k = ''cpuPeak'' then by_value (\<lambda>r. - service_cpuPeak_value r)
     else if k = ''memory'' then by_value (\<lambda>r. - sds_memory r)
     else if k = ''memPeak'' then by_value (\<lambda>r. - sds_memPeak r)
     else by_value (\<lambda>r. - of_int (sds_updated r)))"

record 'a ListEnv =
  le_engine :: "'a TableEngine"
  le_cols :: "string \<Rightarrow> 'a column"
  le_lower :: "string \<Rightarrow> string"
  le_systems :: "SystemRecord store"

definition body_rows :: "'a ListBody \<Rightarrow> 'a row list" where
  "body_rows b = (case b of Rows rs \<Rightarrow> rs | _ \<Rightarrow> [])"

definition services_body :: "SystemdRecord ListEnv \<Rightarrow> ServicesPage \<Rightarrow> SystemdRecord ListBody" where
  "services_body V p = systemd_body (le_engine V) (le_cols V) (le_lower V) (le_systems V) (sp_view p) (sp_data p)"

record ListCard =
  lc_title :: string
  lc_description :: "string list"
  lc_filter :: string
  lc_clear :: bool
  lc_heads :: "string list"
  lc_rows :: "(string \<times> ListCell list) list"
  lc_message :: "string option"
  lc_spinner :: bool
  lc_colSpan :: nat

definition SystemdTable :: "(string \<Rightarrow> string) \<Rightarrow> (rat \<Rightarrow> nat \<Rightarrow> string) \<Rightarrow> (int \<Rightarrow> string) \<Rightarrow> SystemdRecord ListEnv \<Rightarrow> ServicesPage \<Rightarrow> ListCard option" where
  "SystemdTable tr dec time V p =
    (case services_body V p of
       Hidden \<Rightarrow> None
     | body \<Rightarrow> Some \<lparr>lc_title = tr ''Systemd Services'',
         lc_description = [tr (''Total: '' @ show_nat (fst (systemd_heading (sp_data p)))), tr (''Failed: '' @ show_nat (snd (systemd_heading (sp_data p)))),
           tr ''Updated every 10 minutes.''],
         lc_filter = lv_globalFilter (sp_view p), lc_clear = False, lc_heads = map (service_head tr) service_columns,
         lc_rows = map (\<lambda>r. (show_nat (fst r), map (service_cell dec time (snd r)) service_columns)) (body_rows body),
         lc_message = (if body_rows body = [] then Some (tr ''No results.'') else None), lc_spinner = False,
         lc_colSpan = length service_columns\<rparr>)"

section \<open>Events\<close>

datatype ServicesEvent =
    ServicesFilter string | ServicesHead string | ServiceClick nat | ServiceClose | ServiceDetailsAnswer nat "string option + ServiceDetails option"
  | ServicesShow "string option" int | ServicesAnswer "string option" "SystemdRecord list" | ServicesFailed "string option" | SystemChanged string int

fun services_event :: "(string \<Rightarrow> string) \<Rightarrow> SystemdRecord ListEnv \<Rightarrow> ServicesEvent \<Rightarrow> ServicesPage \<Rightarrow> ServicesPage" where
  "services_event tr V (ServicesFilter s) p = p\<lparr>sp_view := setGlobalFilter s (sp_view p)\<rparr>"
| "services_event tr V (ServicesHead k) p = p\<lparr>sp_view := HeaderButton_click k (sp_view p)\<rparr>"
| "services_event tr V (ServiceClick i) p =
    (case nth_opt (body_rows (services_body V p)) i of None \<Rightarrow> p | Some r \<Rightarrow> p\<lparr>sp_sheet := openSheet (snd r) (sp_sheet p)\<rparr>)"
| "services_event tr V ServiceClose p = p\<lparr>sp_sheet := closeSheet (sp_sheet p)\<rparr>"
| "services_event tr V (ServiceDetailsAnswer i r) p = p\<lparr>sp_sheet := sheet_answer tr (le_lower V) i r (sp_sheet p)\<rparr>"
| "services_event tr V (ServicesShow s now) p = services_show s now p"
| "services_event tr V (ServicesAnswer k items) p = services_answer k items p"
| "services_event tr V (ServicesFailed k) p = services_failed k p"
| "services_event tr V (SystemChanged key now) p = services_listen key now p"

text \<open>Without data and search the component renders nothing: the sheet is unmounted, its request cancelled.\<close>

definition sheet_unmounted :: "ServiceSheet \<Rightarrow> ServiceSheet" where
  "sheet_unmounted st = st\<lparr>sh_open := False, sh_service := None, sh_details := None, sh_isLoading := False, sh_error := None, sh_live := None\<rparr>"

definition services_step :: "(string \<Rightarrow> string) \<Rightarrow> SystemdRecord ListEnv \<Rightarrow> ServicesEvent \<Rightarrow> ServicesPage \<Rightarrow> ServicesPage" where
  "services_step tr V e p =
    (let p' = services_event tr V e p
     in if systemd_hidden (sp_data p') (lv_globalFilter (sp_view p')) then p'\<lparr>sp_sheet := sheet_unmounted (sp_sheet p')\<rparr> else p')"

section \<open>Lemmas\<close>

lemma systemd_fetched_subset: "set (systemd_fetched items cur) \<subseteq> set items \<union> set cur"
  by (auto simp: systemd_fetched_def merge_items_def recent_items_def kept_items_def Let_def)

lemma services_step_fields [simp]:
  "sp_systemId (services_step tr V e p) = sp_systemId (services_event tr V e p)"
  "sp_data (services_step tr V e p) = sp_data (services_event tr V e p)"
  "sp_requests (services_step tr V e p) = sp_requests (services_event tr V e p)"
  "sp_closure (services_step tr V e p) = sp_closure (services_event tr V e p)"
  by (simp_all add: services_step_def Let_def)

text \<open>
  A session on the pages of systems in which the answers fit (\<open>of_system k\<close> says that a service runs on
  system \<open>k\<close>) and the page moves on only when no request is under way.
\<close>

definition services_ok :: "(string \<Rightarrow> SystemdRecord \<Rightarrow> bool) \<Rightarrow> ServicesEvent \<Rightarrow> ServicesPage \<Rightarrow> bool" where
  "services_ok of_system e p =
    (case e of
       ServicesShow s _ \<Rightarrow> truthy_id s \<and> sp_requests p = []
     | ServicesAnswer k items \<Rightarrow> truthy_id k \<and> list_all (of_system (the k)) items
     | _ \<Rightarrow> True)"

definition services_inv :: "(string \<Rightarrow> SystemdRecord \<Rightarrow> bool) \<Rightarrow> ServicesPage \<Rightarrow> bool" where
  "services_inv of_system p \<longleftrightarrow> truthy_id (sp_systemId p) \<and> (\<forall>k\<in>set (sp_requests p). k = sp_systemId p)
     \<and> (\<forall>r\<in>set (sp_data p). of_system (the (sp_systemId p)) r)"

lemma truthy_the: "truthy_id s \<Longrightarrow> Some (the s) = s"
  by (auto simp: truthy_id_def)

lemma services_inv_answer:
  assumes "services_inv of_system p" "list_all (of_system (the k)) items"
  shows "services_inv of_system (services_answer k items p)"
proof (cases "k \<in> set (sp_requests p)")
  case True
  then have k: "k = sp_systemId p" using assms(1) by (simp add: services_inv_def)
  then have "\<forall>r\<in>set items \<union> set (sp_data p). of_system (the (sp_systemId p)) r"
    using assms by (auto simp: services_inv_def list_all_iff)
  then have "\<forall>r\<in>set (systemd_fetched items (sp_data p)). of_system (the (sp_systemId p)) r"
    using systemd_fetched_subset [of items "sp_data p"] by blast
  moreover have "\<forall>j\<in>set (remove1 k (sp_requests p)). j = sp_systemId p"
    using assms(1) set_remove1_subset [of k "sp_requests p"] unfolding services_inv_def by blast
  moreover have "sp_systemId (services_answer k items p) = sp_systemId p" "sp_requests (services_answer k items p) = remove1 k (sp_requests p)"
    "sp_data (services_answer k items p) = systemd_fetched items (sp_data p)"
    using True by (simp_all add: services_answer_def)
  moreover have "truthy_id (sp_systemId p)" using assms(1) unfolding services_inv_def by blast
  ultimately show ?thesis unfolding services_inv_def by simp
qed (use assms in \<open>simp add: services_answer_def\<close>)

lemma services_inv_failed: "services_inv of_system p \<Longrightarrow> services_inv of_system (services_failed k p)"
  using set_remove1_subset [of k "sp_requests p"] unfolding services_inv_def services_failed_def by auto

lemma services_inv_listen: "services_inv of_system p \<Longrightarrow> services_inv of_system (services_listen key now p)"
  by (auto simp: services_inv_def services_listen_def systemd_listen_def truthy_the split: option.splits if_splits)

interpretation services_system: session_page "services_step tr V" "services_ok of_system"
  "\<lambda>p. \<exists>v s now. truthy_id s \<and> p = services_mounted v s now" "services_inv of_system" for tr V of_system
proof (unfold_locales, goal_cases)
  case (1 p)
  then show ?case by (auto simp: services_inv_def services_mounted_def)
next
  case (2 p e)
  have "services_inv of_system (services_event tr V e p)"
  proof (cases e)
    case (ServicesAnswer k items)
    then show ?thesis using 2 services_inv_answer [of of_system p k items] by (simp add: services_ok_def)
  next
    case (ServicesFailed k)
    then show ?thesis using 2 services_inv_failed by simp
  next
    case (SystemChanged key now)
    then show ?thesis using 2 services_inv_listen by simp
  qed (use 2 in \<open>auto simp: services_inv_def services_ok_def services_show_def split: option.split\<close>)
  then show ?case by (simp add: services_inv_def)
qed

section \<open>Properties\<close>

text \<open>
  The table keeps to its system. In every session on the pages of systems in which the answers fit their
  requests and the page moves on only when none is under way, the services shown are services of the
  system shown, and only its services are being requested.
\<close>

theorem services_of_system:
  assumes "session (services_step tr V) (services_ok of_system) (\<lambda>p. \<exists>v s now. truthy_id s \<and> p = services_mounted v s now) p"
  shows "list_all (of_system (the (sp_systemId p))) (sp_data p) \<and> list_all (\<lambda>k. k = sp_systemId p) (sp_requests p)"
  using services_system.session_inv [OF assms] by (simp add: services_inv_def list_all_iff)

definition sample_services_env :: "SystemdRecord ListEnv" where
  "sample_services_env = \<lparr>le_engine = reference_engine, le_cols = service_col (\<lambda>_ _. 0), le_lower = id, le_systems = []\<rparr>"

definition sample_list :: ListView where
  "sample_list = \<lparr>lv_sorting = [(''name'', False)], lv_globalFilter = []\<rparr>"

definition sample_services :: ServicesPage where
  "sample_services = run (services_step id sample_services_env) [ServicesAnswer (Some ''a'') [sample_service ''ssh'' Svc_Active 1],
     ServicesShow (Some ''b'') 5, ServicesAnswer (Some ''b'') [sample_service ''cron'' Svc_Failed 2]] (services_mounted sample_list (Some ''a'') 0)"

theorem services_of_system_witness:
  "sp_data sample_services = [sample_service ''cron'' Svc_Failed 2]
   \<and> list_all (\<lambda>r. sds_name r = ''cron'') (sp_data sample_services)"
proof -
  let ?of = "\<lambda>k r. k = ''b'' \<longrightarrow> sds_name r = ''cron''"
  have "session (services_step id sample_services_env) (services_ok ?of) (\<lambda>p. \<exists>v s now. truthy_id s \<and> p = services_mounted v s now) sample_services"
    unfolding sample_services_def run_simps
  proof (intro session.event, rule session.start)
    show "\<exists>v s now. truthy_id s \<and> services_mounted sample_list (Some ''a'') 0 = services_mounted v s now"
      by (intro exI [of _ sample_list] exI [of _ "Some ''a''"] exI [of _ 0]) (simp add: truthy_id_def)
  qed (simp_all add: services_ok_def truthy_id_def services_mounted_def services_answer_def)
  note of_b = services_of_system [OF this]
  have "sp_systemId sample_services = Some ''b''" "sp_data sample_services = [sample_service ''cron'' Svc_Failed 2]" by code_simp+
  with of_b show ?thesis by simp
qed

text \<open>
  A list that comes late is shown on the page of another system: its services are merged with those
  of that system.
\<close>

theorem late_services_shown:
  assumes "a \<noteq> b" "items \<noteq> []" "r \<in> set items" "sds_updated r = last_updated sds_updated items"
  shows "let p = run (services_step tr V) [ServicesShow (Some b) now, ServicesAnswer (Some a) items] (services_mounted v (Some a) t)
    in sp_systemId p = Some b \<and> r \<in> set (sp_data p)"
  using assms
  by (simp add: services_show_def services_answer_def services_mounted_def systemd_fetched_def merge_items_def recent_items_def window_def Let_def)

text \<open>
  After a move the listener judges by the age of the former system's data: as long as these are younger
  than nine and a half minutes, changes of the system shown are not fetched.
\<close>

theorem moved_page_not_refreshed:
  assumes "sp_data p = r # rest" "sp_systemId p = Some a" "b \<noteq> a" "b \<noteq> []" "now < sds_updated r + 570000"
  shows "let p' = services_step tr V (ServicesShow (Some b) t) p
    in sp_data p' = [] \<and> sp_requests (services_step tr V (SystemChanged b now) p') = sp_requests p'"
  using assms
  by (simp add: services_show_def services_listen_def systemd_listen_def effect_lastUpdated_def truthy_id_def services_step_def Let_def)

text \<open>
  A click on a row opens the sheet of the service in that row, one of the services that the search lets
  through, and requests its details.
\<close>

theorem clicked_service_opened:
  assumes "table_engine (le_engine V)" "nth_opt (body_rows (services_body V p)) i = Some (j, r)"
  shows "let sheet = sp_sheet (services_step tr V (ServiceClick i) p)
    in r \<in> set (sp_data p) \<and> systemd_filter (le_lower V) (le_systems V) (lv_globalFilter (sp_view p)) r
    \<and> sh_open sheet \<and> sh_service sheet = Some r \<and> sh_isLoading sheet \<and> snd (last (sh_requests sheet)) = (sh_system sheet, sds_name r)"
proof -
  have h: "\<not> systemd_hidden (sp_data p) (lv_globalFilter (sp_view p))"
    using assms(2) by (auto simp: body_rows_def services_body_def systemd_body_def nth_opt_def split: if_splits)
  then have "(j, r) \<in> set (row_model (le_engine V) (le_cols V) (systemd_filter (le_lower V) (le_systems V) (lv_globalFilter (sp_view p)))
      (lv_sorting (sp_view p)) (sp_data p))"
    using assms(2) by (auto simp: body_rows_def services_body_def systemd_body_def nth_opt_def Let_def split: if_splits dest: nth_mem)
  from table_engine.row_model_at [OF assms(1) this] show ?thesis
    using assms(2) h by (auto simp: services_step_def openSheet_def sheet_effect_def Let_def in_set_conv_nth)
qed

end
