(* ===== verification/ContainersPage.thy ===== *)
theory ContainersPage
  imports ServicesPage
begin

text \<open>
  The table of containers as a component, \<open>ContainersTable\<close> of
  \<^verbatim>\<open>components/containers-table/containers-table.tsx\<close> with the columns of
  \<^verbatim>\<open>containers-table-columns.tsx\<close>: its requests and its listener of the store of systems, rows and
  cells, and the sheet with the logs, their refresh and the two full-screen dialogs. The component follows
  the system it was mounted for. \<open>same\<close> says whether a clicked row holds the very record the sheet has.
\<close>

section \<open>State and requests\<close>

record ContainersPage =
  cp_systemId :: "string option"
  cp_data :: "ContainerRecord list option"
  cp_loadTime :: int
  cp_requests :: "string option list"
  cp_view :: ListView
  cp_sheet :: ContainerSheet
  cp_stops :: "int list"
  cp_logsFullscreen :: bool
  cp_infoFullscreen :: bool

definition containers_page_mounted :: "ListView \<Rightarrow> string option \<Rightarrow> int \<Rightarrow> ContainersPage" where
  "containers_page_mounted v systemId now = \<lparr>cp_systemId = systemId, cp_data = None, cp_loadTime = now, cp_requests = [systemId], cp_view = v,
     cp_sheet = \<lparr>ct_open = False, ct_container = None, ct_logs = [], ct_info = [], ct_requests = [], ct_isRefreshing = False, ct_refreshes = []\<rparr>,
     cp_stops = [], cp_logsFullscreen = False, cp_infoFullscreen = False\<rparr>"

definition containers_answer :: "string option \<Rightarrow> ContainerRecord list \<Rightarrow> ContainersPage \<Rightarrow> ContainersPage" where
  "containers_answer k items p =
    (if k \<in> set (cp_requests p)
     then p\<lparr>cp_requests := remove1 k (cp_requests p), cp_data := Some (containers_fetched k items (cp_data p))\<rparr> else p)"

definition containers_changed :: "string \<Rightarrow> int \<Rightarrow> ContainersPage \<Rightarrow> ContainersPage" where
  "containers_changed key now p =
    (case containers_listen (cp_loadTime p) now (cp_systemId p) key of
       None \<Rightarrow> p
     | Some k \<Rightarrow> p\<lparr>cp_requests := cp_requests p @ [Some k]\<rparr>)"

section \<open>Rows and cells\<close>

definition container_head :: "(string \<Rightarrow> string) \<Rightarrow> string \<Rightarrow> string" where
  "container_head tr k =
    (if k = ''name'' then tr ''Name'' else if k = ''system'' then tr ''System'' else if k = ''cpu'' then tr ''CPU''
     else if k = ''memory'' then tr ''Memory'' else if k = ''net'' then tr ''Net'' else if k = ''health'' then tr ''Health''
     else if k = ''image'' then tr ''Image'' else if k = ''status'' then tr ''Status'' else tr ''Updated'')"

definition container_cell :: "(rat \<Rightarrow> nat \<Rightarrow> string) \<Rightarrow> (int \<Rightarrow> string) \<Rightarrow> SystemRecord store \<Rightarrow> ContainerRecord \<Rightarrow> string \<Rightarrow> ListCell" where
  "container_cell dec time allSystems c k =
    (if k = ''name'' then Text (cr_name c)
     else if k = ''system'' then Text (system_name allSystems (cr_system c))
     else if k = ''cpu'' then Text (container_cpu_cell dec (cr_cpu c))
     else if k = ''memory'' then Text (container_memory_cell dec (cr_memory c))
     else if k = ''net'' then Text (container_net_cell dec (cr_net c))
     else if k = ''health'' then (case health_cell (cr_health c) of (label, colour) \<Rightarrow> Dot (case colour of None \<Rightarrow> [] | Some x \<Rightarrow> x) label)
     else if k = ''image'' then Text (cr_image c)
     else if k = ''status'' then Text (cr_status c)
     else Text (time (cr_updated c)))"

definition containers_page_body :: "ContainerRecord ListEnv \<Rightarrow> ContainersPage \<Rightarrow> ContainerRecord ListBody" where
  "containers_page_body V p = containers_body (le_engine V) (le_cols V) (le_lower V) (le_systems V) (cp_view p) (cp_data p)"

definition ContainersTable :: "(string \<Rightarrow> string) \<Rightarrow> (rat \<Rightarrow> nat \<Rightarrow> string) \<Rightarrow> (int \<Rightarrow> string) \<Rightarrow> ContainerRecord ListEnv \<Rightarrow> ContainersPage \<Rightarrow> ListCard" where
  "ContainersTable tr dec time V p =
    (let ks = container_columns (cp_systemId p); body = containers_page_body V p
     in \<lparr>lc_title = tr ''All Containers'', lc_description = [tr ''Click on a container to view more information.''],
         lc_filter = lv_globalFilter (cp_view p), lc_clear = (lv_globalFilter (cp_view p) \<noteq> []), lc_heads = map (container_head tr) ks,
         lc_rows = map (\<lambda>r. (show_nat (fst r), map (container_cell dec time (le_systems V) (snd r)) ks)) (body_rows body),
         lc_message = (if body = NoResults then Some (tr ''No results.'') else None), lc_spinner = (body = Loading),
         lc_colSpan = length ks\<rparr>)"

section \<open>The sheet\<close>

record ContainerSheetView =
  cv_title :: string
  cv_link :: string
  cv_texts :: "string list"
  cv_logs :: string
  cv_info :: string
  cv_logsPulse :: bool
  cv_infoPulse :: bool
  cv_refreshDisabled :: bool
  cv_logsDialog :: "(string \<times> string \<times> bool) option"
  cv_infoDialog :: "(string \<times> string) option"

text \<open>Nothing is rendered before a container was clicked; \<open>path\<close> is the path of a system's page.\<close>

definition ContainerSheet_view :: "(string \<Rightarrow> string) \<Rightarrow> SystemRecord store \<Rightarrow> ContainersPage \<Rightarrow> ContainerSheetView option" where
  "ContainerSheet_view path allSystems p =
    (case ct_container (cp_sheet p) of
       None \<Rightarrow> None
     | Some c \<Rightarrow>
        (let s = cp_sheet p; (name, texts) = container_header allSystems c
         in Some \<lparr>cv_title = name, cv_link = path (cr_system c), cv_texts = texts, cv_logs = ct_logs s, cv_info = ct_info s,
              cv_logsPulse = (ct_logs s = []), cv_infoPulse = (ct_info s = []), cv_refreshDisabled = ct_isRefreshing s,
              cv_logsDialog = (if cp_logsFullscreen p then Some (name @ '' logs'', ct_logs s, ct_isRefreshing s) else None),
              cv_infoDialog = (if cp_infoFullscreen p then Some (name @ '' info'', ct_info s) else None)\<rparr>))"

text \<open>
  The refresh buttons of the sheet and of the dialog; when the answer comes, a timer is set that frees
  them. A click on another container does not touch any of this.
\<close>

definition refresh_click :: "int \<Rightarrow> ContainersPage \<Rightarrow> ContainersPage" where
  "refresh_click now p = (if ct_isRefreshing (cp_sheet p) then p else p\<lparr>cp_sheet := refreshLogs now (cp_sheet p)\<rparr>)"

definition refresh_done :: "ContainerRecord \<times> int \<Rightarrow> string \<Rightarrow> int \<Rightarrow> ContainersPage \<Rightarrow> ContainersPage" where
  "refresh_done q logsHtml now p =
    (if q \<in> set (ct_refreshes (cp_sheet p))
     then (let (s, stop) = refresh_answer q logsHtml now (cp_sheet p) in p\<lparr>cp_sheet := s, cp_stops := cp_stops p @ [stop]\<rparr>) else p)"

definition refresh_stop :: "int \<Rightarrow> ContainersPage \<Rightarrow> ContainersPage" where
  "refresh_stop t p =
    (if t \<in> set (cp_stops p) then p\<lparr>cp_stops := remove1 t (cp_stops p), cp_sheet := (cp_sheet p)\<lparr>ct_isRefreshing := False\<rparr>\<rparr> else p)"

section \<open>Events\<close>

datatype ContainersEvent =
    ContainersFilter string | ContainersClear | ContainersHead string | ContainerClick nat bool | ContainerClose
  | ContainersAnswer "string option" "ContainerRecord list" | ContainersFailed "string option" | ContainersChanged string int
  | SheetTexts ContainerRecord string string | RefreshClick int | RefreshDone "ContainerRecord \<times> int" string int | RefreshStop int
  | LogsFullscreen bool | InfoFullscreen bool

fun containers_event :: "ContainerRecord ListEnv \<Rightarrow> ContainersEvent \<Rightarrow> ContainersPage \<Rightarrow> ContainersPage" where
  "containers_event V (ContainersFilter s) p = p\<lparr>cp_view := setGlobalFilter s (cp_view p)\<rparr>"
| "containers_event V ContainersClear p = p\<lparr>cp_view := setGlobalFilter [] (cp_view p)\<rparr>"
| "containers_event V (ContainersHead k) p = p\<lparr>cp_view := HeaderButton_click k (cp_view p)\<rparr>"
| "containers_event V (ContainerClick i same) p =
    (case nth_opt (body_rows (containers_page_body V p)) i of
       None \<Rightarrow> p
     | Some r \<Rightarrow> p\<lparr>cp_sheet := openContainer (same \<and> ct_container (cp_sheet p) = Some (snd r)) (snd r) (cp_sheet p)\<rparr>)"
| "containers_event V ContainerClose p = p\<lparr>cp_sheet := closeContainer (cp_sheet p)\<rparr>"
| "containers_event V (ContainersAnswer k items) p = containers_answer k items p"
| "containers_event V (ContainersFailed k) p = p\<lparr>cp_requests := remove1 k (cp_requests p)\<rparr>"
| "containers_event V (ContainersChanged key now) p = containers_changed key now p"
| "containers_event V (SheetTexts c logsHtml infoHtml) p =
    (if c \<in> set (ct_requests (cp_sheet p)) then p\<lparr>cp_sheet := container_answer c logsHtml infoHtml (cp_sheet p)\<rparr> else p)"
| "containers_event V (RefreshClick now) p = refresh_click now p"
| "containers_event V (RefreshDone q logsHtml now) p = refresh_done q logsHtml now p"
| "containers_event V (RefreshStop t) p = refresh_stop t p"
| "containers_event V (LogsFullscreen b) p = p\<lparr>cp_logsFullscreen := b\<rparr>"
| "containers_event V (InfoFullscreen b) p = p\<lparr>cp_infoFullscreen := b\<rparr>"

section \<open>Lemmas\<close>

text \<open>What the refresh buttons wait for: the answer of a refresh, or a timer.\<close>

definition refresh_waits :: "ContainersPage \<Rightarrow> ((ContainerRecord \<times> int) + int) list" where
  "refresh_waits p = map Inl (ct_refreshes (cp_sheet p)) @ map Inr (cp_stops p)"

text \<open>At most one of them at a time, and exactly one while the buttons spin.\<close>

definition spinner_inv :: "ContainersPage \<Rightarrow> bool" where
  "spinner_inv p \<longleftrightarrow> length (refresh_waits p) = (if ct_isRefreshing (cp_sheet p) then 1 else 0)"

lemma spinner_inv_frame [simp]:
  "spinner_inv (p\<lparr>cp_view := v\<rparr>) = spinner_inv p" "spinner_inv (p\<lparr>cp_requests := ks\<rparr>) = spinner_inv p"
  "spinner_inv (p\<lparr>cp_data := d\<rparr>) = spinner_inv p"
  "spinner_inv (p\<lparr>cp_logsFullscreen := b\<rparr>) = spinner_inv p" "spinner_inv (p\<lparr>cp_infoFullscreen := b\<rparr>) = spinner_inv p"
  "spinner_inv (containers_answer k items p) = spinner_inv p" "spinner_inv (containers_changed key now p) = spinner_inv p"
  by (simp_all add: spinner_inv_def refresh_waits_def containers_answer_def containers_changed_def split: option.split)

lemma spinner_inv_sheet [simp]:
  "spinner_inv (p\<lparr>cp_sheet := openContainer same c (cp_sheet p)\<rparr>) = spinner_inv p"
  "spinner_inv (p\<lparr>cp_sheet := closeContainer (cp_sheet p)\<rparr>) = spinner_inv p"
  "spinner_inv (p\<lparr>cp_sheet := container_answer c l i (cp_sheet p)\<rparr>) = spinner_inv p"
  by (simp_all add: spinner_inv_def refresh_waits_def openContainer_def closeContainer_def container_answer_def)

lemma spinner_inv_click: "spinner_inv p \<Longrightarrow> spinner_inv (refresh_click now p)"
  by (auto simp: spinner_inv_def refresh_waits_def refresh_click_def refreshLogs_def split: option.split)

lemma single_wait:
  "length (xs :: 'a list) + length (ys :: 'b list) = (if b then 1 else 0) \<Longrightarrow> x \<in> set xs \<Longrightarrow> xs = [x] \<and> ys = [] \<and> b"
  by (cases xs; cases b) auto

lemma spinner_inv_done:
  assumes "spinner_inv p"
  shows "spinner_inv (refresh_done q l now p)"
proof (cases "q \<in> set (ct_refreshes (cp_sheet p))")
  case True
  then have "ct_refreshes (cp_sheet p) = [q] \<and> cp_stops p = [] \<and> ct_isRefreshing (cp_sheet p)"
    using assms by (intro single_wait) (simp_all add: spinner_inv_def refresh_waits_def)
  then show ?thesis by (simp add: spinner_inv_def refresh_waits_def refresh_done_def refresh_answer_def)
qed (use assms in \<open>simp add: refresh_done_def\<close>)

lemma spinner_inv_stop:
  assumes "spinner_inv p"
  shows "spinner_inv (refresh_stop t p)"
proof (cases "t \<in> set (cp_stops p)")
  case True
  then have "cp_stops p = [t] \<and> ct_refreshes (cp_sheet p) = [] \<and> ct_isRefreshing (cp_sheet p)"
    using assms by (intro single_wait) (simp_all add: spinner_inv_def refresh_waits_def add.commute)
  then show ?thesis by (simp add: spinner_inv_def refresh_waits_def refresh_stop_def)
qed (use assms in \<open>simp add: refresh_stop_def\<close>)

interpretation refresh_page: event_page "containers_event V" "\<lambda>p. \<exists>v s now. p = containers_page_mounted v s now" spinner_inv for V
proof (unfold_locales, goal_cases)
  case (1 p)
  then show ?case by (auto simp: spinner_inv_def refresh_waits_def containers_page_mounted_def)
next
  case (2 p e)
  then show ?case by (cases e) (simp_all add: spinner_inv_click spinner_inv_done spinner_inv_stop split: option.split)
qed

section \<open>Properties\<close>

text \<open>
  Refreshing the logs: in every run, however containers are opened, answers come and timers fire, the
  refresh buttons are disabled exactly while a refresh or its timer is under way, and there is never
  more than one.
\<close>

theorem refresh_one_at_a_time:
  "let p = run (containers_event V) es (containers_page_mounted v s now)
   in (ct_isRefreshing (cp_sheet p) \<longleftrightarrow> refresh_waits p \<noteq> []) \<and> length (refresh_waits p) \<le> 1"
proof -
  have "spinner_inv (run (containers_event V) es (containers_page_mounted v s now))" by (rule refresh_page.inv_run) blast
  then show ?thesis by (auto simp: spinner_inv_def Let_def split: if_splits)
qed

text \<open>The buttons spin for half a second at least, and no longer than the request once that has passed.\<close>

theorem refresh_spin_bounds:
  assumes "(c, start) \<in> set (ct_refreshes (cp_sheet p))"
  shows "cp_stops (refresh_done (c, start) logsHtml now p) = cp_stops p @ [max now (start + 500)]"
  using assms by (auto simp: refresh_done_def refresh_answer_def max_def)

text \<open>
  A refresh belongs to the container it was started for, but its answer is shown whatever container is
  open by then: the logs of the former container stand under the name of the present one.
\<close>

theorem refreshed_logs_of_other_container:
  assumes "ct_container (cp_sheet p) = Some c" "(b, start) \<in> set (ct_refreshes (cp_sheet p))" "b \<noteq> c"
  shows "map_option (\<lambda>view. (cv_title view, cv_logs view)) (ContainerSheet_view path allSystems (refresh_done (b, start) logsHtml now p))
    = Some (cr_name c, logsHtml)"
  using assms by (simp add: ContainerSheet_view_def refresh_done_def refresh_answer_def container_header_def Let_def)

text \<open>
  A click on a row opens the sheet of the container in that row, one that the search lets through; unless
  the sheet still has this very record, its texts are cleared and requested.
\<close>

theorem clicked_container_opened:
  assumes "table_engine (le_engine V)" "nth_opt (body_rows (containers_page_body V p)) i = Some (j, c)"
  shows "let p' = containers_event V (ContainerClick i same) p
    in (\<exists>d. cp_data p = Some d \<and> c \<in> set d) \<and> container_filter (le_lower V) (le_systems V) (lv_globalFilter (cp_view p)) c
    \<and> ct_open (cp_sheet p') \<and> ct_container (cp_sheet p') = Some c
    \<and> (\<not> same \<longrightarrow> ct_logs (cp_sheet p') = [] \<and> ct_info (cp_sheet p') = [] \<and> last (ct_requests (cp_sheet p')) = c)"
proof -
  obtain d where d: "cp_data p = Some d \<or> cp_data p = None \<and> d = []"
    and r: "(j, c) \<in> set (row_model (le_engine V) (le_cols V) (container_filter (le_lower V) (le_systems V) (lv_globalFilter (cp_view p)))
      (lv_sorting (cp_view p)) d)"
    using assms(2) by (auto simp: body_rows_def containers_page_body_def containers_body_def nth_opt_def Let_def split: if_splits option.splits dest: nth_mem)
  from table_engine.row_model_at [OF assms(1) r] show ?thesis
    using assms(2) d by (auto simp: openContainer_def Let_def in_set_conv_nth)
qed

end
