(* ===== verification/Packages.thy ===== *)
theory Packages
  imports Smart
begin

text \<open>
  \<^verbatim>\<open>components/package-updates-table/package-updates-table.tsx\<close>: the package updates of a system,
  their selection, holds, and the job that applies them. The component's state is the record
  \<open>PkgState\<close>; a \<open>Set\<close> of names is a list without repetitions in insertion order. Operations that
  notify the user return the toasts, title and description, and whether the list is fetched again.
  \<open>tr\<close> is the translation of a message.
\<close>

section \<open>State\<close>

datatype JobStatus = Idle | Running | Done | Failed | Unreachable

record ApplyStatus =
  as_status :: JobStatus
  as_packages :: "string list option"
  as_message :: "string option"
  as_startedAt :: "int option"
  as_finishedAt :: "int option"

record PkgState =
  pk_updates :: "PackageUpdate list option"
  pk_selected :: "string list"
  pk_checking :: bool
  pk_applying :: "ApplyStatus option"
  pk_unsupported :: bool
  pk_filter :: string
  pk_announced :: int

type_synonym pk_toast = "string option \<times> string"

definition set_add :: "'a \<Rightarrow> 'a list \<Rightarrow> 'a list" where
  "set_add x s = (if x \<in> set s then s else s @ [x])"

definition set_delete :: "'a \<Rightarrow> 'a list \<Rightarrow> 'a list" where
  "set_delete x s = filter (\<lambda>y. y \<noteq> x) s"

definition new_set :: "'a list \<Rightarrow> 'a list" where
  "new_set xs = foldl (\<lambda>s x. set_add x s) [] xs"

definition held :: "PackageUpdate \<Rightarrow> bool" where "held u \<longleftrightarrow> pu_hd u = Some True"

definition security :: "PackageUpdate \<Rightarrow> bool" where "security u \<longleftrightarrow> pu_sec u = Some True"

text \<open>\<open>updates ?? []\<close>\<close>

definition listed :: "PkgState \<Rightarrow> PackageUpdate list" where
  "listed st = (case pk_updates st of None \<Rightarrow> [] | Some us \<Rightarrow> us)"

section \<open>Loading\<close>

text \<open>The list arrived: selected packages that are no longer listed are dropped.\<close>

definition updates_fetched :: "PackageUpdate list option \<Rightarrow> PkgState \<Rightarrow> PkgState" where
  "updates_fetched response st =
    (let us = (case response of None \<Rightarrow> [] | Some us \<Rightarrow> us)
     in st\<lparr>pk_updates := Some us, pk_selected := filter (\<lambda>n. n \<in> pu_n ` set us) (pk_selected st)\<rparr>)"

text \<open>The effect of opening a system's page, and the answers to its two requests.\<close>

definition pk_open :: "PkgState \<Rightarrow> PkgState" where
  "pk_open st = st\<lparr>pk_updates := None, pk_selected := [], pk_unsupported := False, pk_applying := None, pk_announced := 0\<rparr>"

definition initial_failed :: "PkgState \<Rightarrow> PkgState" where
  "initial_failed st = st\<lparr>pk_unsupported := True\<rparr>"

definition resume :: "ApplyStatus \<Rightarrow> PkgState \<Rightarrow> PkgState" where
  "resume status st =
    (if as_status status = Running
     then st\<lparr>pk_announced := (case as_startedAt status of None \<Rightarrow> 0 | Some t \<Rightarrow> t), pk_applying := Some status\<rparr>
     else st)"

definition isApplying :: "PkgState \<Rightarrow> bool" where
  "isApplying st \<longleftrightarrow> (case pk_applying st of None \<Rightarrow> False | Some a \<Rightarrow> as_status a = Running \<or> as_status a = Unreachable)"

section \<open>The job\<close>

definition job_toasts :: "(string \<Rightarrow> string) \<Rightarrow> string \<Rightarrow> ApplyStatus \<Rightarrow> pk_toast list" where
  "job_toasts tr installed status =
    (case as_status status of
       Done \<Rightarrow> [(Some (tr ''Packages updated''), installed @ '' '' @ tr ''packages installed successfully'')]
     | Failed \<Rightarrow> [(Some (tr ''Package update failed''),
                  case as_message status of None \<Rightarrow> tr ''Check the agent logs for details'' | Some m \<Rightarrow> m)]
     | _ \<Rightarrow> [])"

text \<open>
  One tick of the poll: the answer of the status request, \<open>None\<close> when it failed. The third
  component says whether the list is fetched again.
\<close>

definition poll :: "(string \<Rightarrow> string) \<Rightarrow> int \<Rightarrow> ApplyStatus option \<Rightarrow> PkgState \<Rightarrow> PkgState \<times> pk_toast list \<times> bool" where
  "poll tr now response st =
    (case response of
       None \<Rightarrow> (st, [], False)
     | Some status \<Rightarrow>
         if as_status status = Running then (st\<lparr>pk_applying := Some status\<rparr>, [], False)
         else if as_status status = Unreachable
         then (st\<lparr>pk_applying := Some ((case pk_applying st of None \<Rightarrow> status | Some cur \<Rightarrow> cur)\<lparr>as_status := Unreachable\<rparr>)\<rparr>, [], False)
         else
           (let jobKey = (case as_finishedAt status of None \<Rightarrow> now | Some t \<Rightarrow> t);
                installed = (case as_packages status of None \<Rightarrow> [] | Some ps \<Rightarrow> show_nat (length ps))
            in (st\<lparr>pk_applying := None, pk_announced := jobKey, pk_selected := []\<rparr>,
                (if pk_announced st \<noteq> jobKey then job_toasts tr installed status else []), True)))"

definition check_start :: "PkgState \<Rightarrow> PkgState" where
  "check_start st = st\<lparr>pk_checking := True\<rparr>"

text \<open>The end of \<open>checkNow\<close>: the list, or the error with its message.\<close>

definition check_done :: "(string \<Rightarrow> string) \<Rightarrow> (string option + PackageUpdate list option) \<Rightarrow> PkgState \<Rightarrow> PkgState \<times> pk_toast list" where
  "check_done tr response st =
    (case response of
       Inr us \<Rightarrow> ((updates_fetched us st)\<lparr>pk_checking := False\<rparr>, [])
     | Inl e \<Rightarrow> (st\<lparr>pk_checking := False\<rparr>, [(Some (tr ''Error''), case e of None \<Rightarrow> tr ''Failed to check for updates'' | Some m \<Rightarrow> m)]))"

text \<open>The packages sent to be applied: the selection, nothing when it is empty.\<close>

definition apply_request :: "PkgState \<Rightarrow> string list option" where
  "apply_request st = (if pk_selected st = [] then None else Some (pk_selected st))"

text \<open>
  The answer to the request for \<open>packages\<close>: a final result of an agent that applies synchronously, a
  job to watch, a status without a state (\<open>None\<close>), or an error.
\<close>

definition apply_done ::
  "(string \<Rightarrow> string) \<Rightarrow> int \<Rightarrow> string list \<Rightarrow> (string option + ApplyStatus option) \<Rightarrow> PkgState \<Rightarrow> PkgState \<times> pk_toast list \<times> bool" where
  "apply_done tr now packages response st =
    (case response of
       Inl e \<Rightarrow> (st, [(Some (tr ''Error''), case e of None \<Rightarrow> tr ''Failed to start update'' | Some m \<Rightarrow> m)], False)
     | Inr None \<Rightarrow>
         (st\<lparr>pk_announced := 0, pk_applying := Some \<lparr>as_status = Running, as_packages = Some packages,
             as_message = None, as_startedAt = None, as_finishedAt = None\<rparr>\<rparr>, [], False)
     | Inr (Some status) \<Rightarrow>
         if as_status status = Done \<or> as_status status = Failed
         then (st\<lparr>pk_announced := (case as_finishedAt status of None \<Rightarrow> now | Some t \<Rightarrow> t), pk_selected := []\<rparr>,
               job_toasts tr (show_nat (length packages)) status, True)
         else (st\<lparr>pk_announced := 0, pk_applying := Some status\<rparr>, [], False))"

section \<open>Selection\<close>

definition filteredUpdates :: "(string \<Rightarrow> string) \<Rightarrow> PkgState \<Rightarrow> PackageUpdate list" where
  "filteredUpdates lower st =
    (case pk_updates st of
       None \<Rightarrow> []
     | Some us \<Rightarrow>
         (let terms = filter (\<lambda>w. w \<noteq> []) (split_on CHR '' '' (lower (pk_filter st)))
          in if terms = [] then us else filter (\<lambda>u. list_all (str_includes (lower (pu_n u))) terms) us))"

definition selectableUpdates :: "(string \<Rightarrow> string) \<Rightarrow> PkgState \<Rightarrow> PackageUpdate list" where
  "selectableUpdates lower st = filter (\<lambda>u. \<not> held u) (filteredUpdates lower st)"

definition security_updates :: "PkgState \<Rightarrow> PackageUpdate list" where
  "security_updates st = filter (\<lambda>u. security u \<and> \<not> held u) (listed st)"

definition securityCount :: "PkgState \<Rightarrow> nat" where
  "securityCount st = length (security_updates st)"

definition selectSecurity :: "PkgState \<Rightarrow> PkgState" where
  "selectSecurity st = st\<lparr>pk_selected := new_set (map pu_n (security_updates st))\<rparr>"

definition allFilteredSelected :: "(string \<Rightarrow> string) \<Rightarrow> PkgState \<Rightarrow> bool" where
  "allFilteredSelected lower st \<longleftrightarrow>
    selectableUpdates lower st \<noteq> [] \<and> list_all (\<lambda>u. pu_n u \<in> set (pk_selected st)) (selectableUpdates lower st)"

definition toggleAll :: "(string \<Rightarrow> string) \<Rightarrow> PkgState \<Rightarrow> PkgState" where
  "toggleAll lower st =
    (let sel = selectableUpdates lower st
     in st\<lparr>pk_selected :=
        (if list_all (\<lambda>u. pu_n u \<in> set (pk_selected st)) sel
         then foldl (\<lambda>s u. set_delete (pu_n u) s) (pk_selected st) sel
         else foldl (\<lambda>s u. set_add (pu_n u) s) (pk_selected st) sel)\<rparr>)"

definition toggleOne :: "string \<Rightarrow> PkgState \<Rightarrow> PkgState" where
  "toggleOne name st =
    st\<lparr>pk_selected := (if name \<in> set (pk_selected st) then set_delete name (pk_selected st) else set_add name (pk_selected st))\<rparr>"

text \<open>The optimistic half of \<open>setHold\<close>, and what its request's outcome shows; both outcomes fetch again.\<close>

definition setHold :: "string \<Rightarrow> bool \<Rightarrow> PkgState \<Rightarrow> PkgState" where
  "setHold pkg hold st =
    st\<lparr>pk_updates := map_option (map (\<lambda>u. if pu_n u = pkg then u\<lparr>pu_hd := Some hold\<rparr> else u)) (pk_updates st),
       pk_selected := (if hold then set_delete pkg (pk_selected st) else pk_selected st)\<rparr>"

definition hold_done :: "(string \<Rightarrow> string) \<Rightarrow> string \<Rightarrow> bool \<Rightarrow> string option option \<Rightarrow> pk_toast" where
  "hold_done tr pkg hold failure =
    (case failure of
       None \<Rightarrow> (None, tr (pkg @ (if hold then '' held'' else '' unheld'')))
     | Some e \<Rightarrow> (Some (tr ''Error''), case e of None \<Rightarrow> tr ''Failed to change hold'' | Some m \<Rightarrow> m))"

definition pk_hidden :: "PkgState \<Rightarrow> bool" where
  "pk_hidden st \<longleftrightarrow> pk_unsupported st \<or> pk_updates st = None"

definition apply_disabled :: "PkgState \<Rightarrow> bool" where
  "apply_disabled st \<longleftrightarrow> isApplying st \<or> pk_checking st \<or> pk_selected st = []"

definition check_disabled :: "PkgState \<Rightarrow> bool" where
  "check_disabled st \<longleftrightarrow> pk_checking st \<or> isApplying st"

definition pk_init :: PkgState where
  "pk_init = \<lparr>pk_updates = None, pk_selected = [], pk_checking = False, pk_applying = None, pk_unsupported = False,
     pk_filter = [], pk_announced = 0\<rparr>"

section \<open>Behaviour\<close>

text \<open>
  What can happen to the component: the page of a system is opened; an answer of the hub arrives, at
  any time and with any content; or the user acts on what is shown and enabled. A checkbox acts on a
  row of the filtered list that is not held. While a job runs the table takes no clicks, but its boxes and
  buttons still work with the keyboard.
\<close>

inductive pk_user :: "(string \<Rightarrow> string) \<Rightarrow> PkgState \<Rightarrow> PkgState \<Rightarrow> bool" for lower where
  user_filter: "\<not> pk_hidden st \<Longrightarrow> pk_user lower st (st\<lparr>pk_filter := f\<rparr>)"
| user_toggle: "\<not> pk_hidden st \<Longrightarrow> u \<in> set (selectableUpdates lower st)
    \<Longrightarrow> pk_user lower st (toggleOne (pu_n u) st)"
| user_toggle_all: "\<not> pk_hidden st \<Longrightarrow> pk_user lower st (toggleAll lower st)"
| user_security: "\<not> pk_hidden st \<Longrightarrow> securityCount st > 0 \<Longrightarrow> \<not> check_disabled st \<Longrightarrow> pk_user lower st (selectSecurity st)"
| user_hold: "\<not> pk_hidden st \<Longrightarrow> u \<in> set (filteredUpdates lower st)
    \<Longrightarrow> pk_user lower st (setHold (pu_n u) (\<not> held u) st)"
| user_check: "\<not> pk_hidden st \<Longrightarrow> \<not> check_disabled st \<Longrightarrow> pk_user lower st (check_start st)"

inductive pk_answer :: "PkgState \<Rightarrow> PkgState \<Rightarrow> bool" where
  answer_open: "pk_answer st (pk_open st)"
| answer_fetched: "pk_answer st (updates_fetched us st)"
| answer_failed: "pk_answer st (initial_failed st)"
| answer_resume: "pk_answer st (resume status st)"
| answer_poll: "pk_answer st (fst (poll tr now r st))"
| answer_check: "pk_answer st (fst (check_done tr c st))"
| answer_apply: "pk_answer st (fst (apply_done tr now packages a st))"

inductive pk_reach :: "(string \<Rightarrow> string) \<Rightarrow> PkgState \<Rightarrow> bool" for lower where
  reach_init: "pk_reach lower pk_init"
| reach_user: "pk_reach lower st \<Longrightarrow> pk_user lower st st' \<Longrightarrow> pk_reach lower st'"
| reach_answer: "pk_reach lower st \<Longrightarrow> pk_answer st st' \<Longrightarrow> pk_reach lower st'"

definition pk_inv :: "PkgState \<Rightarrow> bool" where
  "pk_inv st \<longleftrightarrow> distinct (pk_selected st)
     \<and> set (pk_selected st) \<subseteq> pu_n ` set (listed st)"

text \<open>No selected name belongs to a held package.\<close>

definition none_held :: "PkgState \<Rightarrow> bool" where
  "none_held st \<longleftrightarrow>
    (\<forall>u\<in>set (listed st). held u \<longrightarrow> pu_n u \<notin> set (pk_selected st))"

text \<open>Rows have different names.\<close>

definition names_distinct :: "PkgState \<Rightarrow> bool" where
  "names_distinct st \<longleftrightarrow> distinct (map pu_n (listed st))"

section \<open>Lemmas\<close>

lemma set_set_add [simp]: "set (set_add x s) = insert x (set s)"
  by (auto simp: set_add_def)

lemma distinct_set_add [simp]: "distinct s \<Longrightarrow> distinct (set_add x s)"
  by (simp add: set_add_def)

lemma set_set_delete [simp]: "set (set_delete x s) = set s - {x}"
  by (auto simp: set_delete_def)

lemma distinct_set_delete [simp]: "distinct s \<Longrightarrow> distinct (set_delete x s)"
  by (simp add: set_delete_def)

lemma fold_set_add:
  "set (foldl (\<lambda>s x. set_add (f x) s) s xs) = set s \<union> f ` set xs"
  "distinct s \<Longrightarrow> distinct (foldl (\<lambda>s x. set_add (f x) s) s xs)"
  by (induction xs arbitrary: s) auto

lemma fold_set_delete:
  "set (foldl (\<lambda>s x. set_delete (f x) s) s xs) = set s - f ` set xs"
  "distinct s \<Longrightarrow> distinct (foldl (\<lambda>s x. set_delete (f x) s) s xs)"
  by (induction xs arbitrary: s) auto

lemma new_set_simps [simp]: "set (new_set xs) = set xs" "distinct (new_set xs)"
  using fold_set_add [where f = "\<lambda>x. x" and s = "[]" and xs = xs] by (simp_all add: new_set_def)

lemma filteredUpdates_subset:
  "set (filteredUpdates lower st) \<subseteq> set (listed st)"
  by (auto simp: filteredUpdates_def listed_def Let_def split: option.splits if_splits)

lemma selectable_not_held: "u \<in> set (selectableUpdates lower st) \<Longrightarrow>
    u \<in> set (listed st) \<and> \<not> held u"
  using filteredUpdates_subset [of lower st] by (auto simp: selectableUpdates_def)

lemma set_toggleAll:
  "set (pk_selected (toggleAll lower st)) =
    (let names = pu_n ` set (selectableUpdates lower st)
     in if names \<subseteq> set (pk_selected st) then set (pk_selected st) - names else set (pk_selected st) \<union> names)"
  by (auto simp: toggleAll_def Let_def fold_set_add fold_set_delete list_all_iff)

lemma pk_frames [simp]:
  "pk_updates (toggleAll lower st) = pk_updates st" "pk_updates (toggleOne n st) = pk_updates st"
  "pk_updates (selectSecurity st) = pk_updates st" "pk_updates (check_start st) = pk_updates st"
  "pk_selected (check_start st) = pk_selected st"
  by (simp_all add: toggleAll_def toggleOne_def selectSecurity_def check_start_def Let_def)

lemma distinct_toggleAll: "distinct (pk_selected st) \<Longrightarrow> distinct (pk_selected (toggleAll lower st))"
  by (simp add: toggleAll_def Let_def fold_set_add fold_set_delete)

lemma listed_frames [simp]:
  "listed (toggleAll lower st) = listed st" "listed (toggleOne n st) = listed st"
  "listed (selectSecurity st) = listed st" "listed (check_start st) = listed st"
  "listed (st\<lparr>pk_filter := f\<rparr>) = listed st" "listed (st\<lparr>pk_selected := sel\<rparr>) = listed st"
  "listed (updates_fetched (Some us) st) = us"
  "listed (updates_fetched None st) = []" "listed (pk_open st) = []" "listed pk_init = []"
  by (simp_all add: listed_def updates_fetched_def pk_open_def pk_init_def)

lemma listed_setHold:
  "listed (setHold p h st) = map (\<lambda>u. if pu_n u = p then u\<lparr>pu_hd := Some h\<rparr> else u) (listed st)"
  by (simp add: setHold_def listed_def split: option.split)

lemma setHold_names: "map pu_n (listed (setHold p h st)) = map pu_n (listed st)"
  by (simp add: listed_setHold)

lemma pk_user_inv:
  assumes "pk_user lower st st'" "pk_inv st"
  shows "pk_inv st'"
  using assms
proof cases
  case (user_toggle u)
  then show ?thesis using assms(2) selectable_not_held [of u lower st]
    by (auto simp: pk_inv_def toggleOne_def)
next
  case user_toggle_all
  then show ?thesis using assms(2) selectable_not_held [of _ lower st] distinct_toggleAll [of st lower]
    by (auto simp: pk_inv_def set_toggleAll Let_def split: if_splits)
next
  case user_security
  then show ?thesis by (auto simp: pk_inv_def selectSecurity_def security_updates_def)
next
  case (user_hold u)
  then show ?thesis using assms(2) setHold_names [of "pu_n u" "\<not> held u" st]
    by (simp add: pk_inv_def flip: set_map) (auto simp: setHold_def)
qed (auto simp: pk_inv_def)

lemma pk_answer_inv:
  assumes "pk_answer st st'" "pk_inv st"
  shows "pk_inv st'"
  using assms
  by cases (auto simp: pk_inv_def listed_def pk_open_def updates_fetched_def initial_failed_def resume_def poll_def check_done_def
      apply_done_def Let_def split: option.splits sum.splits)

lemma pk_inv_init: "pk_inv pk_init"
  by (simp add: pk_inv_def pk_init_def)

lemma pk_reach_inv: "pk_reach lower st \<Longrightarrow> pk_inv st"
  by (induction rule: pk_reach.induct) (blast intro: pk_user_inv pk_answer_inv pk_inv_init)+

lemma same_name: "names_distinct st \<Longrightarrow> u \<in> set (listed st) \<Longrightarrow> v \<in> set (listed st) \<Longrightarrow> pu_n u = pu_n v \<Longrightarrow> u = v"
  by (auto simp: names_distinct_def distinct_map dest: inj_onD)

lemma selectable_name_not_held:
  "names_distinct st \<Longrightarrow> u \<in> set (selectableUpdates lower st) \<Longrightarrow> v \<in> set (listed st) \<Longrightarrow> held v \<Longrightarrow> pu_n v \<noteq> pu_n u"
  using selectable_not_held [of u lower st] same_name [of st u v] by auto

lemma pk_user_none_held:
  assumes "pk_user lower st st'" "names_distinct st" "none_held st"
  shows "names_distinct st' \<and> none_held st'"
  using assms(1)
proof cases
  case (user_toggle u)
  then show ?thesis using assms(2,3) selectable_name_not_held [OF assms(2), of u lower]
    by (auto simp: none_held_def names_distinct_def toggleOne_def)
next
  case user_toggle_all
  then show ?thesis using assms(2,3) selectable_name_not_held [OF assms(2), of _ lower]
    by (auto simp: none_held_def names_distinct_def set_toggleAll Let_def split: if_splits)
next
  case user_security
  have "pu_n v \<noteq> pu_n u" if "v \<in> set (listed st)" "held v" "u \<in> set (security_updates st)" for u v
    using that same_name [OF assms(2), of u v] by (auto simp: security_updates_def)
  then show ?thesis using assms(2) user_security by (auto simp: none_held_def names_distinct_def selectSecurity_def)
next
  case (user_hold u)
  then have "names_distinct st'" using assms(2) by (simp add: names_distinct_def setHold_names)
  moreover have "none_held st'" using assms(3)
    unfolding user_hold(1) none_held_def listed_setHold
    by (auto simp: setHold_def held_def split: if_splits)
  ultimately show ?thesis by simp
qed (use assms in \<open>auto simp: none_held_def names_distinct_def\<close>)

section \<open>Properties\<close>

text \<open>
  C4. Nothing is applied that was not chosen: in every state the component can reach, whatever the
  user did and whatever answers arrived in whatever order, a request to apply packages names at least
  one package, none twice, and only packages of the list shown.
\<close>

theorem apply_request_sound:
  assumes "pk_reach lower st" "apply_request st = Some packages"
  shows "packages \<noteq> [] \<and> distinct packages \<and> set packages \<subseteq> pu_n ` set (listed st)
    \<and> set packages = set (pk_selected st)"
  using pk_reach_inv [OF assms(1)] assms(2) by (auto simp: apply_request_def pk_inv_def split: if_splits)

definition sample_update :: "string \<Rightarrow> bool \<Rightarrow> PackageUpdate" where
  "sample_update n h = \<lparr>pu_n = n, pu_cv = None, pu_av = None, pu_hd = Some h, pu_sec = Some True\<rparr>"

definition sample_selected :: PkgState where
  "sample_selected = selectSecurity (updates_fetched (Some [sample_update ''curl'' False]) pk_init)"

lemma sample_selected_simps [simp]:
  "pk_selected sample_selected = [''curl'']" "listed sample_selected = [sample_update ''curl'' False]"
  by (simp_all add: sample_selected_def selectSecurity_def updates_fetched_def pk_init_def security_updates_def listed_def
      sample_update_def security_def held_def new_set_def set_add_def)

lemma sample_selected_reach: "pk_reach lower sample_selected"
proof -
  let ?st = "updates_fetched (Some [sample_update ''curl'' False]) pk_init"
  have "pk_reach lower ?st" by (rule reach_answer [OF reach_init answer_fetched])
  moreover have "pk_user lower ?st (selectSecurity ?st)"
    by (rule user_security)
       (simp_all add: pk_hidden_def securityCount_def security_updates_def check_disabled_def isApplying_def
          updates_fetched_def pk_init_def listed_def sample_update_def security_def held_def)
  ultimately show ?thesis unfolding sample_selected_def by (rule reach_user)
qed

theorem apply_request_sound_witness: "set [''curl''] \<subseteq> pu_n ` set (listed sample_selected)"
  using apply_request_sound [OF sample_selected_reach [of id], of "[''curl'']"] by (simp add: apply_request_def)

text \<open>
  C15. What the user does never selects a held package: if no selected package is held, then after any
  action on the page (toggling a row or all rows, selecting the security updates, holding and
  unholding, filtering, checking) none is.
\<close>

theorem user_never_selects_held:
  assumes "pk_user lower st st'" "names_distinct st" "none_held st"
  shows "none_held st' \<and> names_distinct st'"
  using pk_user_none_held [OF assms] by simp

theorem user_never_selects_held_witness:
  "none_held (toggleAll id (updates_fetched (Some [sample_update ''curl'' True]) pk_init))"
proof -
  let ?st = "updates_fetched (Some [sample_update ''curl'' True]) pk_init"
  have "pk_user id ?st (toggleAll id ?st)"
    by (rule user_toggle_all) (simp_all add: pk_hidden_def isApplying_def updates_fetched_def pk_init_def)
  moreover have "names_distinct ?st" "none_held ?st"
    by (simp_all add: names_distinct_def none_held_def) (simp add: updates_fetched_def pk_init_def)
  ultimately show ?thesis using user_never_selects_held by blast
qed

text \<open>
  A fetch can leave a held package selected: the selection is restricted to the listed names but
  not to packages that are not held, so a package held elsewhere (with \<open>apt-mark\<close>, say) after it was
  selected stays in the next request.
\<close>

theorem fetch_keeps_held_selected:
  "\<exists>st us. pk_reach id st \<and> none_held st \<and> pk_reach id (updates_fetched us st)
     \<and> \<not> none_held (updates_fetched us st) \<and> apply_request (updates_fetched us st) = Some [''curl'']"
proof (intro exI conjI)
  let ?us = "Some [sample_update ''curl'' True]"
  show "pk_reach id sample_selected" by (rule sample_selected_reach)
  then show "pk_reach id (updates_fetched ?us sample_selected)" by (rule reach_answer [OF _ answer_fetched])
  show "none_held sample_selected" by (simp add: none_held_def) (simp add: sample_update_def held_def)
  show "\<not> none_held (updates_fetched ?us sample_selected)"
    by (simp add: none_held_def updates_fetched_def) (simp add: sample_update_def held_def listed_def)
  show "apply_request (updates_fetched ?us sample_selected) = Some [''curl'']"
    by (simp add: apply_request_def updates_fetched_def sample_update_def)
qed

text \<open>A sequence of polls with their toasts.\<close>

fun polls :: "(string \<Rightarrow> string) \<Rightarrow> (int \<times> ApplyStatus option) list \<Rightarrow> PkgState \<Rightarrow> PkgState \<times> pk_toast list" where
  "polls tr [] st = (st, [])"
| "polls tr ((now, r) # rs) st =
    (let (st1, ts, _) = poll tr now r st; (st2, ts') = polls tr rs st1 in (st2, ts @ ts'))"

definition pending_answer :: "ApplyStatus option \<Rightarrow> bool" where
  "pending_answer r = (case r of None \<Rightarrow> True | Some s \<Rightarrow> as_status s = Running \<or> as_status s = Unreachable)"

lemma poll_pending:
  assumes "pending_answer r" "isApplying st"
  shows "\<exists>st1. poll tr now r st = (st1, [], False) \<and> isApplying st1 \<and> pk_announced st1 = pk_announced st \<and> pk_selected st1 = pk_selected st"
  using assms by (cases r) (auto simp: poll_def pending_answer_def isApplying_def)

lemma polls_pending:
  assumes "\<forall>r\<in>set rs. pending_answer (snd r)" "isApplying st"
  shows "\<exists>st1. polls tr rs st = (st1, []) \<and> isApplying st1 \<and> pk_announced st1 = pk_announced st \<and> pk_selected st1 = pk_selected st"
  using assms
proof (induction rs arbitrary: st)
  case (Cons r rs)
  obtain now a where r: "r = (now, a)" by fastforce
  from Cons.prems obtain st1 where 1: "poll tr now a st = (st1, [], False)" "isApplying st1"
    "pk_announced st1 = pk_announced st" "pk_selected st1 = pk_selected st"
    using poll_pending [of a st tr now] by (auto simp: r)
  from Cons.IH [OF _ 1(2)] Cons.prems obtain st2 where "polls tr rs st1 = (st2, [])" "isApplying st2"
    "pk_announced st2 = pk_announced st1" "pk_selected st2 = pk_selected st1" by auto
  then show ?case by (simp add: r 1)
qed auto

text \<open>The toast of a finished job; none when the agent knows of no job.\<close>

definition final_toasts :: "(string \<Rightarrow> string) \<Rightarrow> ApplyStatus \<Rightarrow> pk_toast list" where
  "final_toasts tr s =
    (if as_status s = Done
     then [(Some (tr ''Packages updated''),
            (case as_packages s of None \<Rightarrow> [] | Some ps \<Rightarrow> show_nat (length ps)) @ '' '' @ tr ''packages installed successfully'')]
     else if as_status s = Failed
     then [(Some (tr ''Package update failed''), case as_message s of None \<Rightarrow> tr ''Check the agent logs for details'' | Some m \<Rightarrow> m)]
     else [])"

lemma poll_announced:
  "as_finishedAt s = Some t \<Longrightarrow> as_status s \<in> {Done, Failed, Idle} \<Longrightarrow> pk_announced st = t
    \<Longrightarrow> \<exists>st1 f. poll tr now (Some s) st = (st1, [], f) \<and> pk_announced st1 = t"
  by (auto simp: poll_def Let_def)

lemma polls_announced:
  assumes "as_finishedAt s = Some t" "as_status s \<in> {Done, Failed, Idle}" "\<forall>r\<in>set later. snd r = None \<or> snd r = Some s" "pk_announced st = t"
  shows "snd (polls tr later st) = []"
  using assms(3,4)
proof (induction later arbitrary: st)
  case (Cons r later)
  obtain now a where r: "r = (now, a)" by fastforce
  have "\<exists>st1 f. poll tr now a st = (st1, [], f) \<and> pk_announced st1 = t"
    using Cons.prems poll_announced [OF assms(1,2), of st tr now] by (auto simp: r poll_def)
  then obtain st1 f where "poll tr now a st = (st1, [], f)" "pk_announced st1 = t" by blast
  then show ?case using Cons by (simp add: r split_beta)
qed simp

text \<open>
  C16. A job is announced once. While the polls answer that it runs, that the agent is unreachable, or
  fail, the table keeps waiting and shows nothing. The final answer ends the wait, empties the selection and fetches the
  list; it shows one toast, of the success with the number of packages or of the failure with its message, and none when
  the agent knows of no job. When the answer carries its time, the same answer again, any number of times, shows nothing.
\<close>

theorem job_announced_once:
  assumes "isApplying st" "\<forall>r\<in>set rs. pending_answer (snd r)"
    and "as_status s \<in> {Done, Failed, Idle}" "pk_announced st \<noteq> (case as_finishedAt s of None \<Rightarrow> now | Some t \<Rightarrow> t)"
    and "\<forall>r\<in>set later. snd r = None \<or> snd r = Some s"
  shows "case polls tr rs st of (st1, ts) \<Rightarrow>
      ts = [] \<and> isApplying st1 \<and> pk_selected st1 = pk_selected st
      \<and> (case poll tr now (Some s) st1 of (st2, ts2, refetch) \<Rightarrow>
           ts2 = final_toasts tr s \<and> refetch \<and> \<not> isApplying st2 \<and> pk_selected st2 = []
           \<and> (as_finishedAt s \<noteq> None \<longrightarrow> snd (polls tr later st2) = []))"
proof -
  from polls_pending [OF assms(2,1)] obtain st1 where st1: "polls tr rs st = (st1, [])" "isApplying st1"
    "pk_announced st1 = pk_announced st" "pk_selected st1 = pk_selected st" by auto
  let ?key = "case as_finishedAt s of None \<Rightarrow> now | Some t \<Rightarrow> t"
  let ?st2 = "st1\<lparr>pk_applying := None, pk_announced := ?key, pk_selected := []\<rparr>"
  have "poll tr now (Some s) st1 = (?st2, final_toasts tr s, True)"
    using assms(3,4) st1(3) by (auto simp: poll_def job_toasts_def final_toasts_def Let_def)
  moreover have "as_finishedAt s \<noteq> None \<Longrightarrow> snd (polls tr later ?st2) = []"
    using polls_announced [OF _ assms(3,5), of "the (as_finishedAt s)" ?st2] by auto
  ultimately show ?thesis using st1 by (simp add: isApplying_def)
qed

definition sample_job :: "JobStatus \<Rightarrow> ApplyStatus" where
  "sample_job j = \<lparr>as_status = j, as_packages = None, as_message = None, as_startedAt = Some 1, as_finishedAt = Some 9\<rparr>"

theorem job_announced_once_witness:
  "fst (snd (poll id 9 (Some (sample_job Failed))
     (fst (polls id [(1, None), (2, Some (sample_job Unreachable))] (resume (sample_job Running) pk_init)))))
   = [(Some ''Package update failed'', ''Check the agent logs for details'')]"
proof -
  let ?rs = "[(1, None), (2, Some (sample_job Unreachable))]"
  have "isApplying (resume (sample_job Running) pk_init)" "\<forall>r\<in>set ?rs. pending_answer (snd r)"
    "as_status (sample_job Failed) \<in> {Done, Failed, Idle}"
    "pk_announced (resume (sample_job Running) pk_init) \<noteq> (case as_finishedAt (sample_job Failed) of None \<Rightarrow> 9 | Some t \<Rightarrow> t)"
    "\<forall>r\<in>set ([] :: (int \<times> ApplyStatus option) list). snd r = None \<or> snd r = Some (sample_job Failed)"
    by (simp_all add: isApplying_def resume_def sample_job_def pk_init_def pending_answer_def)
  from job_announced_once [OF this, of id] have
    "fst (snd (poll id 9 (Some (sample_job Failed)) (fst (polls id ?rs (resume (sample_job Running) pk_init))))) = final_toasts id (sample_job Failed)"
    by (simp add: split_beta)
  also have "\<dots> = [(Some ''Package update failed'', ''Check the agent logs for details'')]"
    by (simp add: final_toasts_def sample_job_def)
  finally show ?thesis .
qed

text \<open>An answer without the time of the end is announced again by every later poll.\<close>

theorem job_without_time_announced_again:
  assumes "as_status s = Done" "as_finishedAt s = None" "now' \<noteq> now" "pk_announced st \<noteq> now"
  shows "case poll tr now (Some s) st of (st2, ts, _) \<Rightarrow> ts = final_toasts tr s \<and> fst (snd (poll tr now' (Some s) st2)) = final_toasts tr s"
  using assms by (simp add: poll_def job_toasts_def final_toasts_def Let_def)

end
