(* ===== verification/PackagesView.thy ===== *)
theory PackagesView
  imports Packages
begin

text \<open>
  The card of package updates, the rendered part of
  \<^verbatim>\<open>components/package-updates-table/package-updates-table.tsx\<close>: what it shows in a state and what
  its controls do. The controls are proved to be exactly the user's actions of theory \<open>Packages\<close>, so
  that the properties stated there over those actions hold for the card as it is drawn.
\<close>

section \<open>What is shown\<close>

datatype CardDescription = AgentRestarting | ApplyingCount nat | AvailableCount nat "nat option" | UpToDate

definition card_description :: "PkgState \<Rightarrow> CardDescription" where
  "card_description st =
    (if isApplying st
     then (case pk_applying st of
             Some a \<Rightarrow> if as_status a = Unreachable then AgentRestarting
               else ApplyingCount (case as_packages a of None \<Rightarrow> 0 | Some ps \<Rightarrow> length ps)
           | None \<Rightarrow> ApplyingCount 0)
     else if listed st \<noteq> []
     then AvailableCount (length (listed st)) (if securityCount st > 0 then Some (securityCount st) else None)
     else UpToDate)"

datatype ButtonView = ButtonView string bool

text \<open>The buttons with their labels and whether they are disabled.\<close>

definition card_buttons :: "(string \<Rightarrow> string) \<Rightarrow> PkgState \<Rightarrow> ButtonView list" where
  "card_buttons tr st =
    (if securityCount st > 0
     then [ButtonView (tr ''Select security'' @ '' ('' @ show_nat (securityCount st) @ '')'') (check_disabled st)] else [])
    @ [ButtonView (tr ''Check now'') (check_disabled st)]
    @ (if listed st \<noteq> []
       then [ButtonView (if isApplying st then tr (''Applying'' @ [CHR 0xE2, CHR 0x80, CHR 0xA6])
                         else tr ''Apply selected'' @ '' ('' @ show_nat (length (pk_selected st)) @ '')'') (apply_disabled st)]
       else [])"

record UpdateRow =
  ur_key :: string
  ur_selected :: bool
  ur_boxDisabled :: bool
  ur_badges :: "string list"
  ur_current :: string
  ur_available :: string
  ur_holdTitle :: string

text \<open>A long dash stands for a version that is not known.\<close>

definition long_dash :: string where "long_dash = [CHR 0xE2, CHR 0x80, CHR 0x94]"

definition or_dash :: "string option \<Rightarrow> string" where
  "or_dash v = (case v of None \<Rightarrow> long_dash | Some s \<Rightarrow> if s = [] then long_dash else s)"

definition update_row :: "(string \<Rightarrow> string) \<Rightarrow> PkgState \<Rightarrow> PackageUpdate \<Rightarrow> UpdateRow" where
  "update_row tr st u =
    \<lparr>ur_key = pu_n u, ur_selected = (pu_n u \<in> set (pk_selected st)), ur_boxDisabled = held u,
     ur_badges = (if security u then [tr ''security''] else []) @ (if held u then [tr ''Held''] else []),
     ur_current = or_dash (pu_cv u), ur_available = or_dash (pu_av u),
     ur_holdTitle = (if held u then tr ''Unhold (allow updates)'' else tr ''Hold (pin, prevent updates)'')\<rparr>"

record UpdateCard =
  uc_description :: CardDescription
  uc_filter :: "string option"
  uc_buttons :: "ButtonView list"
  uc_header :: "bool option"
  uc_rows :: "UpdateRow list"
  uc_noResults :: bool
  uc_inert :: bool

definition PackageUpdatesTable :: "(string \<Rightarrow> string) \<Rightarrow> (string \<Rightarrow> string) \<Rightarrow> PkgState \<Rightarrow> UpdateCard option" where
  "PackageUpdatesTable lower tr st =
    (if pk_hidden st then None
     else Some \<lparr>uc_description = card_description st,
       uc_filter = (if listed st \<noteq> [] then Some (pk_filter st) else None),
       uc_buttons = card_buttons tr st,
       uc_header = (if listed st \<noteq> [] then Some (allFilteredSelected lower st) else None),
       uc_rows = (if listed st \<noteq> [] then map (update_row tr st) (filteredUpdates lower st) else []),
       uc_noResults = (listed st \<noteq> [] \<and> filteredUpdates lower st = []),
       uc_inert = isApplying st\<rparr>)"

section \<open>Controls\<close>

text \<open>
  The boxes and buttons of the table can be used with the pointer or with the keyboard; while a job runs the table
  takes no clicks (\<open>pointer-events-none\<close>), which does not disable them.
\<close>

datatype InputDevice = Pointer | Keyboard

datatype CardControl = FilterInput string | SecurityButton | CheckNowButton | ApplyButton
  | HeaderBox InputDevice | RowClick nat | RowBox InputDevice nat | HoldButton InputDevice nat

datatype CardRequest = CheckUpdates | ApplyUpdates "string list" | HoldPackage string bool

definition table_takes :: "InputDevice \<Rightarrow> PkgState \<Rightarrow> bool" where
  "table_takes dev st \<longleftrightarrow> listed st \<noteq> [] \<and> (dev = Keyboard \<or> \<not> isApplying st)"

definition nth_update :: "(string \<Rightarrow> string) \<Rightarrow> PkgState \<Rightarrow> InputDevice \<Rightarrow> nat \<Rightarrow> PackageUpdate option" where
  "nth_update lower st dev i = (if table_takes dev st then nth_opt (filteredUpdates lower st) i else None)"

definition click_row :: "PackageUpdate \<Rightarrow> PkgState \<Rightarrow> PkgState" where
  "click_row u st = (if held u then st else toggleOne (pu_n u) st)"

text \<open>A control that is not shown, is disabled or takes no clicks does nothing.\<close>

fun card_control :: "(string \<Rightarrow> string) \<Rightarrow> CardControl \<Rightarrow> PkgState \<Rightarrow> PkgState \<times> CardRequest list" where
  "card_control lower (FilterInput f) st = (if listed st \<noteq> [] then st\<lparr>pk_filter := f\<rparr> else st, [])"
| "card_control lower SecurityButton st =
    (if securityCount st > 0 \<and> \<not> check_disabled st then selectSecurity st else st, [])"
| "card_control lower CheckNowButton st =
    (if check_disabled st then (st, []) else (check_start st, [CheckUpdates]))"
| "card_control lower ApplyButton st =
    (if listed st = [] \<or> apply_disabled st then (st, [])
     else (st, case apply_request st of None \<Rightarrow> [] | Some ps \<Rightarrow> [ApplyUpdates ps]))"
| "card_control lower (HeaderBox dev) st = (if table_takes dev st then toggleAll lower st else st, [])"
| "card_control lower (RowClick i) st =
    (case nth_update lower st Pointer i of None \<Rightarrow> (st, []) | Some u \<Rightarrow> (click_row u st, []))"
| "card_control lower (RowBox dev i) st =
    (case nth_update lower st dev i of None \<Rightarrow> (st, []) | Some u \<Rightarrow> (click_row u st, []))"
| "card_control lower (HoldButton dev i) st =
    (case nth_update lower st dev i of
       None \<Rightarrow> (st, [])
     | Some u \<Rightarrow> (setHold (pu_n u) (\<not> held u) st, [HoldPackage (pu_n u) (\<not> held u)]))"

definition use_card :: "(string \<Rightarrow> string) \<Rightarrow> CardControl \<Rightarrow> PkgState \<Rightarrow> PkgState \<times> CardRequest list" where
  "use_card lower c st = (if pk_hidden st then (st, []) else card_control lower c st)"

section \<open>Lemmas\<close>

lemma nth_opt_mem: "nth_opt xs i = Some x \<Longrightarrow> x \<in> set xs"
  by (auto simp: nth_opt_def split: if_splits)

lemma nth_update_Some: "nth_update lower st dev i = Some u \<Longrightarrow> u \<in> set (filteredUpdates lower st)"
  by (auto simp: nth_update_def dest: nth_opt_mem split: if_splits)

lemma nth_update_ex:
  assumes "u \<in> set (filteredUpdates lower st)"
  shows "\<exists>i. nth_update lower st Keyboard i = Some u"
proof -
  have "listed st \<noteq> []" using assms(1) filteredUpdates_subset [of lower st] by auto
  moreover obtain i where "i < length (filteredUpdates lower st)" "filteredUpdates lower st ! i = u"
    using assms(1) by (metis in_set_conv_nth)
  ultimately show ?thesis by (auto simp: nth_update_def table_takes_def nth_opt_def)
qed

lemma click_row_user:
  assumes "\<not> pk_hidden st" "nth_update lower st dev i = Some u"
  shows "click_row u st = st \<or> pk_user lower st (click_row u st)"
  using assms nth_update_Some [OF assms(2)] pk_user.user_toggle [of st u lower]
  by (auto simp: click_row_def selectableUpdates_def)

lemma applying_frozen:
  assumes "isApplying st" "c \<notin> {HeaderBox Keyboard} \<union> range (RowBox Keyboard) \<union> range (HoldButton Keyboard)"
  shows "snd (use_card lower c st) = [] \<and> (\<exists>f. fst (use_card lower c st) = st\<lparr>pk_filter := f\<rparr>)"
proof -
  have same: "\<exists>f. st = st\<lparr>pk_filter := f\<rparr>" by (rule exI [of _ "pk_filter st"]) simp
  have dev: "dev = Pointer" if "dev \<noteq> Keyboard" for dev using that by (cases dev) simp_all
  show ?thesis using assms same
    by (cases c) (auto simp: use_card_def check_disabled_def apply_disabled_def nth_update_def table_takes_def dest: dev)
qed

section \<open>Properties\<close>

text \<open>
  C18. The card offers the user's actions and nothing else: every use of a control changes nothing or is
  one of them, and while packages are listed every one of them is a use of a control. A request to apply comes only
  from its button, which is enabled then, and names the selection the button counts. While a job runs nothing is applied
  or checked and no click changes the table or the selection; with the keyboard its boxes and holds still work.
\<close>

theorem card_refines_user_actions:
  "(\<forall>c. fst (use_card lower c st) = st \<or> pk_user lower st (fst (use_card lower c st)))
   \<and> (listed st \<noteq> [] \<and> pk_user lower st st' \<longrightarrow> (\<exists>c. fst (use_card lower c st) = st'))
   \<and> (\<forall>c ps. ApplyUpdates ps \<in> set (snd (use_card lower c st)) \<longrightarrow> c = ApplyButton \<and> apply_request st = Some ps
        \<and> ButtonView (tr ''Apply selected'' @ '' ('' @ show_nat (length ps) @ '')'') False \<in> set (card_buttons tr st))
   \<and> (isApplying st \<longrightarrow> (\<forall>c. c \<notin> {HeaderBox Keyboard} \<union> range (RowBox Keyboard) \<union> range (HoldButton Keyboard)
        \<longrightarrow> snd (use_card lower c st) = [] \<and> (\<exists>f. fst (use_card lower c st) = st\<lparr>pk_filter := f\<rparr>)))"
proof (intro conjI allI impI)
  show "fst (use_card lower c st) = st \<or> pk_user lower st (fst (use_card lower c st))" for c
    by (cases c) (auto simp: use_card_def split: option.split dest: click_row_user nth_update_Some intro: pk_user.intros)
  show "snd (use_card lower c st) = []" "\<exists>f. fst (use_card lower c st) = st\<lparr>pk_filter := f\<rparr>"
    if "isApplying st" "c \<notin> {HeaderBox Keyboard} \<union> range (RowBox Keyboard) \<union> range (HoldButton Keyboard)" for c
    using that applying_frozen [OF that] by blast+
  show "\<exists>c. fst (use_card lower c st) = st'" if "listed st \<noteq> [] \<and> pk_user lower st st'"
    using conjunct2 [OF that] conjunct1 [OF that]
  proof cases
    case (user_filter f)
    then show ?thesis using that by (intro exI [of _ "FilterInput f"]) (simp add: use_card_def)
  next
    case (user_toggle u)
    then obtain i where "nth_update lower st Keyboard i = Some u"
      using nth_update_ex [of u lower st] by (auto simp: selectableUpdates_def)
    then show ?thesis using user_toggle
      by (intro exI [of _ "RowBox Keyboard i"]) (simp add: use_card_def click_row_def selectableUpdates_def)
  next
    case user_toggle_all
    then show ?thesis using that by (intro exI [of _ "HeaderBox Keyboard"]) (simp add: use_card_def table_takes_def)
  next
    case user_security
    then show ?thesis by (intro exI [of _ SecurityButton]) (simp add: use_card_def)
  next
    case (user_hold u)
    then obtain i where "nth_update lower st Keyboard i = Some u" using nth_update_ex [of u lower st] by blast
    then show ?thesis using user_hold by (intro exI [of _ "HoldButton Keyboard i"]) (simp add: use_card_def)
  next
    case user_check
    then show ?thesis by (intro exI [of _ CheckNowButton]) (simp add: use_card_def)
  qed
  fix c ps
  assume r: "ApplyUpdates ps \<in> set (snd (use_card lower c st))"
  then have c: "c = ApplyButton" "listed st \<noteq> []" "\<not> apply_disabled st" "apply_request st = Some ps"
    by (cases c; auto simp: use_card_def split: if_splits option.splits)+
  then show "c = ApplyButton" "apply_request st = Some ps" by simp_all
  have "ps = pk_selected st" "\<not> isApplying st"
    using c(3,4) by (simp_all add: apply_request_def apply_disabled_def split: if_splits)
  then show "ButtonView (tr ''Apply selected'' @ '' ('' @ show_nat (length ps) @ '')'') False \<in> set (card_buttons tr st)"
    using c(2,3) by (simp add: card_buttons_def)
qed

theorem card_refines_user_actions_witness:
  "ApplyUpdates [''curl''] \<in> set (snd (use_card id ApplyButton sample_selected))
   \<and> ButtonView ''Apply selected (1)'' False \<in> set (card_buttons id sample_selected)"
proof -
  have a: "ApplyUpdates [''curl''] \<in> set (snd (use_card id ApplyButton sample_selected))" by code_simp
  have n: "show_nat 1 = ''1''" by code_simp
  from card_refines_user_actions [of id sample_selected sample_selected id, THEN conjunct2, THEN conjunct2, THEN conjunct1, THEN spec, THEN spec, THEN mp, OF a]
  have "ButtonView (''Apply selected'' @ '' ('' @ show_nat 1 @ '')'') False \<in> set (card_buttons id sample_selected)" by simp
  with a show ?thesis by (simp only: n append.simps simp_thms)
qed

text \<open>A row is marked exactly when the request to apply would name it, and a held row cannot be ticked.\<close>

theorem rows_mark_request:
  assumes "PackageUpdatesTable lower tr st = Some view" "r \<in> set (uc_rows view)"
  shows "(ur_selected r \<longleftrightarrow> (\<exists>ps. apply_request st = Some ps \<and> ur_key r \<in> set ps))
    \<and> (\<exists>u\<in>set (listed st). ur_key r = pu_n u \<and> (ur_boxDisabled r \<longleftrightarrow> held u))"
proof -
  obtain u where u: "u \<in> set (filteredUpdates lower st)" "r = update_row tr st u"
    using assms by (auto simp: PackageUpdatesTable_def split: if_splits)
  have "u \<in> set (listed st)" using u(1) filteredUpdates_subset [of lower st] by blast
  with u(2) show ?thesis by (auto simp: update_row_def apply_request_def)
qed

text \<open>
  Held and selected with the keyboard while a job runs: a package can be put on hold although the table is greyed out.
\<close>

theorem hold_while_applying:
  assumes "\<not> pk_hidden st" "isApplying st" "u \<in> set (filteredUpdates lower st)"
  shows "\<exists>i. use_card lower (HoldButton Keyboard i) st = (setHold (pu_n u) (\<not> held u) st, [HoldPackage (pu_n u) (\<not> held u)])
    \<and> use_card lower (HoldButton Pointer i) st = (st, [])"
proof -
  obtain i where "nth_update lower st Keyboard i = Some u" using nth_update_ex [OF assms(3)] by blast
  moreover have "nth_update lower st Pointer i = None" using assms(2) by (simp add: nth_update_def table_takes_def)
  ultimately show ?thesis using assms(1) by (intro exI [of _ i]) (simp add: use_card_def)
qed

end
