(* ===== verification/LinksView.thy ===== *)
theory LinksView
  imports Links
begin

text \<open>
  The card of quick links as a component, \<^verbatim>\<open>components/quick-links.tsx\<close>, and the manager of
  external links in \<^verbatim>\<open>components/routes/settings/general.tsx\<close>: their state with the two dialogs, every action, and what is shown. \<open>saveQuickLinks\<close> puts the new list into the store at once
  and sends it to the hub; the requests are the lists sent, in order.
\<close>

section \<open>State and actions\<close>

record LinkForm =
  lf_name :: string
  lf_localUrl :: string
  lf_domainUrl :: string
  lf_category :: string

record QuickLinksView =
  qv_links :: "QuickLink list"
  qv_open :: bool
  qv_editing :: EditForm
  qv_addOpen :: bool
  qv_add :: LinkForm
  qv_categories :: "(string, bool) dict"

definition empty_form :: LinkForm where
  "empty_form = \<lparr>lf_name = [], lf_localUrl = [], lf_domainUrl = [], lf_category = []\<rparr>"

definition no_edit :: EditForm where
  "no_edit = \<lparr>ef_link = None, ef_name = [], ef_localUrl = [], ef_domainUrl = [], ef_category = []\<rparr>"

text \<open>\<open>isOpen\<close> and \<open>cats\<close> are what the browser has stored.\<close>

definition links_mounted :: "QuickLink list \<Rightarrow> bool \<Rightarrow> (string, bool) dict \<Rightarrow> QuickLinksView" where
  "links_mounted links isOpen cats =
    \<lparr>qv_links = links, qv_open = isOpen, qv_editing = no_edit, qv_addOpen = False, qv_add = empty_form, qv_categories = cats\<rparr>"

datatype QuickAction = ToggleCard | OpenAdd | CloseAdd | ChangeAdd LinkForm | PressAdd string
  | EditLink QuickLink | ChangeEdit LinkForm | CancelEdit | PressSave | RemoveLink string
  | MoveTo string MoveDirection | ToggleCategory string

definition category_open :: "QuickLinksView \<Rightarrow> string \<Rightarrow> bool" where
  "category_open v cat = (case dget (qv_categories v) cat of None \<Rightarrow> True | Some b \<Rightarrow> b)"

text \<open>Saving a list: the store takes it and it is sent.\<close>

definition save_links :: "QuickLink list option \<Rightarrow> QuickLinksView \<Rightarrow> QuickLinksView \<times> QuickLink list list" where
  "save_links new v = (case new of None \<Rightarrow> (v, []) | Some links \<Rightarrow> (v\<lparr>qv_links := links\<rparr>, [links]))"

fun link_action :: "QuickAction \<Rightarrow> QuickLinksView \<Rightarrow> QuickLinksView \<times> QuickLink list list" where
  "link_action ToggleCard v = (v\<lparr>qv_open := \<not> qv_open v\<rparr>, [])"
| "link_action OpenAdd v = (v\<lparr>qv_addOpen := True\<rparr>, [])"
| "link_action CloseAdd v = (v\<lparr>qv_addOpen := False\<rparr>, [])"
| "link_action (ChangeAdd f) v = (v\<lparr>qv_add := f\<rparr>, [])"
| "link_action (PressAdd uuid) v =
    (let f = qv_add v;
         new = addNewLink uuid (lf_name f) (lf_localUrl f) (lf_domainUrl f) (lf_category f) (qv_links v)
     in case new of
          None \<Rightarrow> (v, [])
        | Some links \<Rightarrow> (v\<lparr>qv_links := links, qv_addOpen := False, qv_add := empty_form\<rparr>, [links]))"
| "link_action (EditLink l) v = (v\<lparr>qv_editing := openEditDialog l\<rparr>, [])"
| "link_action (ChangeEdit f) v =
    (v\<lparr>qv_editing := (qv_editing v)\<lparr>ef_name := lf_name f, ef_localUrl := lf_localUrl f,
        ef_domainUrl := lf_domainUrl f, ef_category := lf_category f\<rparr>\<rparr>, [])"
| "link_action CancelEdit v = (v\<lparr>qv_editing := (qv_editing v)\<lparr>ef_link := None\<rparr>\<rparr>, [])"
| "link_action PressSave v =
    (case save_links (saveEdit (qv_editing v) (qv_links v)) v of
       (v', sent) \<Rightarrow> (v'\<lparr>qv_editing := (qv_editing v')\<lparr>ef_link := None\<rparr>\<rparr>, sent))"
| "link_action (RemoveLink k) v = save_links (Some (removeLink k (qv_links v))) v"
| "link_action (MoveTo k dir) v = save_links (moveLink k dir (qv_links v)) v"
| "link_action (ToggleCategory cat) v = (v\<lparr>qv_categories := dset cat (\<not> category_open v cat) (qv_categories v)\<rparr>, [])"

section \<open>What is shown\<close>

datatype LinksBody = LinkGroups "(string \<times> LinkCard list) list" | NoLinksYet | Folded

definition links_body :: "SystemRecord store \<Rightarrow> QuickLinksView \<Rightarrow> LinksBody" where
  "links_body systemsById v =
    (if \<not> qv_open v then Folded
     else if qv_links v = [] then NoLinksYet
     else LinkGroups (map (\<lambda>(cat, links). (cat, CategoryGroup systemsById (category_open v cat) links)) (grouped (qv_links v))))"

text \<open>The dialogs: whether each is shown, its fields, the categories offered and whether the button can be pressed.\<close>

record LinkDialog =
  ld_title :: string
  ld_fields :: "(string \<times> string) list"
  ld_offered :: "string list"
  ld_button :: "string \<times> bool"

definition link_fields :: "(string \<Rightarrow> string) \<Rightarrow> LinkForm \<Rightarrow> (string \<times> string) list" where
  "link_fields tr f = [(tr ''Name'', lf_name f), (tr ''Category'', lf_category f),
     (tr ''Local URL'', lf_localUrl f), (tr ''Domain URL'', lf_domainUrl f)]"

definition add_dialog :: "(string \<Rightarrow> string) \<Rightarrow> QuickLinksView \<Rightarrow> LinkDialog option" where
  "add_dialog tr v =
    (if qv_addOpen v
     then Some \<lparr>ld_title = tr ''Add Quick Link'', ld_fields = link_fields tr (qv_add v),
            ld_offered = existingCategories (qv_links v), ld_button = (tr ''Add'', trim (lf_name (qv_add v)) \<noteq> [])\<rparr>
     else None)"

definition edit_dialog :: "(string \<Rightarrow> string) \<Rightarrow> QuickLinksView \<Rightarrow> LinkDialog option" where
  "edit_dialog tr v =
    (let e = qv_editing v in
     if ef_link e \<noteq> None
     then Some \<lparr>ld_title = tr ''Edit Quick Link'',
            ld_fields = link_fields tr \<lparr>lf_name = ef_name e, lf_localUrl = ef_localUrl e, lf_domainUrl = ef_domainUrl e, lf_category = ef_category e\<rparr>,
            ld_offered = existingCategories (qv_links v), ld_button = (tr ''Save'', True)\<rparr>
     else None)"

fun link_actions :: "QuickAction list \<Rightarrow> QuickLinksView \<Rightarrow> QuickLinksView \<times> QuickLink list list" where
  "link_actions [] v = (v, [])"
| "link_actions (a # as) v =
    (let (v', sent) = link_action a v; (v'', later) = link_actions as v' in (v'', sent @ later))"

section \<open>The manager of external links\<close>

text \<open>The two dialogs share one form.\<close>

record LinksManager =
  xm_links :: "ExternalLink list"
  xm_edit :: "ExternalLink option"
  xm_addOpen :: bool
  xm_form :: ExternalForm

definition manager_mounted :: "ExternalLink list \<Rightarrow> LinksManager" where
  "manager_mounted links = \<lparr>xm_links = links, xm_edit = None, xm_addOpen = False, xm_form = openAdd\<rparr>"

datatype ManagerAction = ManagerAdd | ManagerEdit ExternalLink | ManagerForm ExternalForm | ManagerCloseAdd
  | ManagerCloseEdit | ManagerPressAdd string | ManagerPressSave | ManagerRemove string

definition form_complete :: "ExternalForm \<Rightarrow> bool" where
  "form_complete f = (trim (xf_label f) \<noteq> [] \<and> trim (xf_url f) \<noteq> [])"

fun manager_action :: "ManagerAction \<Rightarrow> LinksManager \<Rightarrow> LinksManager \<times> ExternalLink list list" where
  "manager_action ManagerAdd m = (m\<lparr>xm_form := openAdd, xm_addOpen := True\<rparr>, [])"
| "manager_action (ManagerEdit l) m = (m\<lparr>xm_edit := Some l, xm_form := openEdit l\<rparr>, [])"
| "manager_action (ManagerForm f) m =
    (if xf_icon f \<in> fst ` set ICON_OPTIONS \<or> xf_icon f = xf_icon (xm_form m) then (m\<lparr>xm_form := f\<rparr>, []) else (m, []))"
| "manager_action ManagerCloseAdd m = (m\<lparr>xm_addOpen := False\<rparr>, [])"
| "manager_action ManagerCloseEdit m = (m\<lparr>xm_edit := None\<rparr>, [])"
| "manager_action (ManagerPressAdd uuid) m =
    (case handleAdd uuid (xm_form m) (xm_links m) of
       None \<Rightarrow> (m, []) | Some links \<Rightarrow> (m\<lparr>xm_links := links, xm_addOpen := False\<rparr>, [links]))"
| "manager_action ManagerPressSave m =
    (case handleSaveEdit (xm_edit m) (xm_form m) (xm_links m) of
       None \<Rightarrow> (m, []) | Some links \<Rightarrow> (m\<lparr>xm_links := links, xm_edit := None\<rparr>, [links]))"
| "manager_action (ManagerRemove k) m =
    (m\<lparr>xm_links := handleRemove k (xm_links m)\<rparr>, [handleRemove k (xm_links m)])"

record ManagerRow =
  mr_key :: string
  mr_icon :: string
  mr_label :: string
  mr_url :: string
  mr_category :: "string option"

definition manager_row :: "ExternalLink \<Rightarrow> ManagerRow" where
  "manager_row l = \<lparr>mr_key = el_id l, mr_icon = (if el_icon l = [] then ''globe'' else el_icon l),
     mr_label = el_label l, mr_url = el_url l,
     mr_category = (case el_category l of None \<Rightarrow> None | Some c \<Rightarrow> if c = [] then None else Some c)\<rparr>"

text \<open>The rows (\<open>None\<close>: the hint that there are none yet) and the open dialog with its fields and button.\<close>

definition manager_rows :: "LinksManager \<Rightarrow> ManagerRow list option" where
  "manager_rows m = (if xm_links m = [] then None else Some (map manager_row (xm_links m)))"

record ManagerDialog =
  md_title :: string
  md_fields :: "(string \<times> string) list"
  md_icons :: "(string \<times> string) list"
  md_offered :: "string list"
  md_button :: "string \<times> bool"

definition manager_form :: "(string \<Rightarrow> string) \<Rightarrow> string \<Rightarrow> string \<Rightarrow> LinksManager \<Rightarrow> ManagerDialog" where
  "manager_form tr title button m =
    \<lparr>md_title = tr title,
     md_fields = [(tr ''Label'', xf_label (xm_form m)), (tr ''URL'', xf_url (xm_form m)), (tr ''Icon'', xf_icon (xm_form m)),
       (tr ''Category'', xf_category (xm_form m))],
     md_icons = ICON_OPTIONS, md_offered = externalCategories (xm_links m),
     md_button = (tr button, form_complete (xm_form m))\<rparr>"

definition manager_dialogs :: "(string \<Rightarrow> string) \<Rightarrow> LinksManager \<Rightarrow> ManagerDialog list" where
  "manager_dialogs tr m =
    (if xm_addOpen m then [manager_form tr ''Add External Link'' ''Add'' m] else [])
    @ (if xm_edit m \<noteq> None then [manager_form tr ''Edit External Link'' ''Save'' m] else [])"

section \<open>Lemmas\<close>

lemma moveLink_mset:
  assumes "moveLink k dir links = Some links'"
  shows "mset links' = mset links"
proof -
  obtain idx t where idx: "idx < length links"
    and l': "links' = take t (take idx links @ drop (idx + 1) links) @ links ! idx # drop t (take idx links @ drop (idx + 1) links)"
    using assms
    by (auto simp: moveLink_def Let_def split: option.splits if_splits dest!: find_index_SomeD)
  let ?rest = "take idx links @ drop (idx + 1) links"
  have "mset links' = add_mset (links ! idx) (mset (take t ?rest @ drop t ?rest))" by (simp add: l')
  also have "\<dots> = add_mset (links ! idx) (mset ?rest)" unfolding append_take_drop_id ..
  also have "\<dots> = mset (take idx links @ links ! idx # drop (Suc idx) links)" by simp
  also have "\<dots> = mset links" using idx by (simp add: id_take_nth_drop [symmetric])
  finally show ?thesis .
qed

lemma saveEdit_ids: "saveEdit f links = Some links' \<Longrightarrow> map ql_id links' = map ql_id links"
  by (auto simp: saveEdit_def split: option.splits)

lemma link_action_saved:
  "link_action a v = (v', sent) \<Longrightarrow> sent = [] \<and> qv_links v' = qv_links v \<or> sent = [qv_links v']"
  by (cases a) (auto simp: save_links_def Let_def split: option.splits)

definition uuid_of :: "QuickAction \<Rightarrow> string list" where
  "uuid_of a = (case a of PressAdd u \<Rightarrow> [u] | _ \<Rightarrow> [])"

definition ids :: "QuickLinksView \<Rightarrow> string list" where
  "ids v = map ql_id (qv_links v)"

lemma link_action_ids:
  assumes "link_action a v = (v', sent)" "distinct (ids v)" "set (uuid_of a) \<inter> set (ids v) = {}"
  shows "distinct (ids v') \<and> set (ids v') \<subseteq> set (ids v) \<union> set (uuid_of a)"
proof (cases a)
  case (MoveTo k dir)
  then have "mset (ids v') = mset (ids v)"
    using assms(1) moveLink_mset [of k dir "qv_links v"] by (auto simp: save_links_def ids_def split: option.splits)
  then show ?thesis using assms(2) mset_eq_imp_distinct_iff mset_eq_setD by blast
next
  case PressSave
  then have "ids v' = ids v"
    using assms(1) saveEdit_ids [of "qv_editing v" "qv_links v"] by (auto simp: save_links_def ids_def split: option.splits)
  then show ?thesis using assms(2) by simp
qed (use assms in \<open>auto simp: save_links_def ids_def uuid_of_def removeLink_def addNewLink_def distinct_map_filter
    Let_def split: option.splits if_splits\<close>)

lemma mset_dset_old:
  "dget d k = Some ls \<Longrightarrow> mset (concat (map snd (dset k (ls @ [l]) d))) = add_mset l (mset (concat (map snd d)))"
  by (induction d) (auto simp del: map_of_eq_Some_iff split: if_splits)

lemma mset_dset_new: "dget d k = None \<Longrightarrow> dset k v d = d @ [(k, v)]"
  by (induction d) (auto simp del: map_of_eq_None_iff split: if_splits)

lemma mset_group_link: "mset (concat (map snd (group_link d l))) = add_mset l (mset (concat (map snd d)))"
proof (cases "dget d (category_of l)")
  case None
  then have "group_link d l = dset (category_of l) [l] d"
    by (simp add: group_link_def Let_def dhas_def del: map_of_eq_None_iff)
  with None show ?thesis by (simp add: mset_dset_new del: map_of_eq_None_iff)
next
  case (Some ls)
  then show ?thesis using mset_dset_old [OF Some] by (simp add: group_link_def Let_def dhas_def del: map_of_eq_Some_iff)
qed

lemma mset_grouped: "mset (concat (map snd (grouped links))) = mset links"
proof (induction links rule: rev_induct)
  case (snoc l links)
  then show ?case by (simp add: grouped_def mset_group_link)
qed (simp add: grouped_def)

section \<open>Properties\<close>

text \<open>
  Over any sequence of actions the links keep distinct ids, what was sent to the hub last is what the
  store holds, and no other link appears than those there were and those added; the groups of the card
  show every link exactly once.
\<close>

theorem quick_links_kept:
  assumes "link_actions as v = (v', sent)" "distinct (ids v @ concat (map uuid_of as))"
  shows "distinct (ids v') \<and> set (ids v') \<subseteq> set (ids v) \<union> set (concat (map uuid_of as))
    \<and> (if sent = [] then qv_links v' = qv_links v else last sent = qv_links v')
    \<and> mset (concat (map snd (grouped (qv_links v')))) = mset (qv_links v')"
proof -
  have "distinct (ids v') \<and> set (ids v') \<subseteq> set (ids v) \<union> set (concat (map uuid_of as))
    \<and> (if sent = [] then qv_links v' = qv_links v else last sent = qv_links v')"
    using assms
  proof (induction as arbitrary: v sent)
    case (Cons a as)
    obtain v1 s1 where a: "link_action a v = (v1, s1)" by fastforce
    obtain later where rest: "link_actions as v1 = (v', later)" "sent = s1 @ later"
      using Cons.prems(1) a by (auto split: prod.splits)
    have i: "distinct (ids v1) \<and> set (ids v1) \<subseteq> set (ids v) \<union> set (uuid_of a)"
      by (rule link_action_ids [OF a]) (use Cons.prems(2) in auto)
    then have "distinct (ids v1 @ concat (map uuid_of as))" using Cons.prems(2) by auto
    from Cons.IH [OF rest(1) this] i link_action_saved [OF a] show ?case
      unfolding rest(2) by auto
  qed (auto simp: ids_def)
  then show ?thesis by (simp add: mset_grouped)
qed

text \<open>A new link needs a name that is not blank; an edited one may be left without.\<close>

theorem edit_accepts_blank_name:
  assumes "trim n = []" "ef_link (qv_editing v) = Some l" "l \<in> set (qv_links v)"
  shows "link_action (PressAdd u) (v\<lparr>qv_add := f\<lparr>lf_name := n\<rparr>\<rparr>) = (v\<lparr>qv_add := f\<lparr>lf_name := n\<rparr>\<rparr>, [])
    \<and> (\<exists>l'\<in>set (qv_links (fst (link_action PressSave (fst (link_action (ChangeEdit (f\<lparr>lf_name := n\<rparr>)) v))))). ql_id l' = ql_id l \<and> ql_name l' = n)"
proof -
  let ?v = "fst (link_action (ChangeEdit (f\<lparr>lf_name := n\<rparr>)) v)"
  let ?g = "\<lambda>x. if ql_id x = ql_id l then x\<lparr>ql_name := n, ql_localUrl := lf_localUrl f, ql_domainUrl := lf_domainUrl f,
        ql_category := Some (lf_category f)\<rparr> else x"
  have links: "qv_links (fst (link_action PressSave ?v)) =
      map ?g (qv_links v)"
    using assms(2) by (simp add: save_links_def saveEdit_def)
  have "\<exists>l'\<in>set (qv_links (fst (link_action PressSave ?v))). ql_id l' = ql_id l \<and> ql_name l' = n"
    unfolding links set_map by (rule bexI [of _ "?g l"]) (use assms(3) in auto)
  then show ?thesis using assms(1) by (simp add: addNewLink_def)
qed

text \<open>A link as the bar can show it: named, with an address, and with an icon that is known or left out.\<close>

definition link_ok :: "ExternalLink \<Rightarrow> bool" where
  "link_ok l = (el_label l \<noteq> [] \<and> el_url l \<noteq> [] \<and> (el_icon l = [] \<or> el_icon l \<in> set ICON_MAP))"

lemma icon_options: "fst ` set ICON_OPTIONS = set ICON_MAP"
  by (simp add: ICON_OPTIONS_def ICON_MAP_def insert_commute)

definition manager_ok :: "LinksManager \<Rightarrow> bool" where
  "manager_ok m = (list_all link_ok (xm_links m) \<and> xf_icon (xm_form m) \<in> set ICON_MAP)"

text \<open>
  The manager keeps the external links fit for the bar: whatever is entered, every link it stores or
  sends has a label and an address, and the icon the bar draws is the one chosen.
\<close>

theorem external_links_shown_as_chosen:
  assumes "manager_ok m" "manager_action a m = (m', sent)" "\<forall>l. a = ManagerEdit l \<longrightarrow> l \<in> set (xm_links m)"
  shows "manager_ok m' \<and> list_all (list_all link_ok) sent
    \<and> ExternalLinksBar (xm_links m') = map (\<lambda>l. (el_url l, el_label l, mr_icon (manager_row l))) (xm_links m')"
proof -
  have globe: "''globe'' \<in> set ICON_MAP" "[] \<notin> set ICON_MAP" by (simp_all add: ICON_MAP_def)
  have "manager_ok m' \<and> list_all (list_all link_ok) sent"
  proof (cases a)
    case (ManagerEdit l)
    then have "link_ok l" using assms(1,3) by (simp add: manager_ok_def list_all_iff)
    then show ?thesis using assms(1,2) globe ManagerEdit by (auto simp: manager_ok_def openEdit_def link_ok_def)
  qed (use assms globe icon_options in \<open>auto simp: manager_ok_def openAdd_def handleAdd_def handleSaveEdit_def handleRemove_def
      link_ok_def list_all_iff split: option.splits if_splits\<close>)
  moreover from this have "mr_icon (manager_row l) = (if el_icon l \<in> set ICON_MAP then el_icon l else ''globe'')"
    if "l \<in> set (xm_links m')" for l
    using that globe by (auto simp: manager_ok_def list_all_iff link_ok_def manager_row_def)
  ultimately show ?thesis by (simp add: ExternalLinksBar_def)
qed

end
