(* ===== verification/I18n.thy ===== *)
theory I18n
  imports Stores
begin

text \<open>
  \<^verbatim>\<open>lib/i18n.ts\<close> and \<^verbatim>\<open>lib/languages.ts\<close>: choosing and activating the language. What
  Lingui detects (from the storage, then the browser, then \<open>en\<close>) and whether a catalogue can be
  loaded are parameters; only the codes of the language list are kept, its labels and flags are data.
\<close>

definition languages :: "string list" where
  "languages = [''ar'', ''bg'', ''cs'', ''da'', ''de'', ''en'', ''es'', ''fa'', ''fr'', ''he'', ''hr'', ''hu'', ''id'',
     ''it'', ''ja'', ''ko'', ''nl'', ''no'', ''pl'', ''pt'', ''ru'', ''sl'', ''sr'', ''sv'', ''tr'', ''uk'', ''vi'',
     ''zh-CN'', ''zh-HK'', ''zh'']"

definition rtlLanguages :: "string list" where
  "rtlLanguages = [''ar'', ''fa'', ''he'']"

text \<open>The catalogue in use, the document's language, the stored choice and the direction.\<close>

record LocaleState =
  lc_active :: string
  lc_lang :: string
  lc_stored :: "string option"
  lc_direction :: Direction

definition activateLocale :: "string \<Rightarrow> LocaleState \<Rightarrow> LocaleState" where
  "activateLocale loc st =
    st\<lparr>lc_active := loc, lc_lang := loc, lc_stored := Some loc,
       lc_direction := (if loc \<in> set rtlLanguages then Rtl else Ltr)\<rparr>"

text \<open>\<open>loads\<close> says which catalogues can be imported.\<close>

definition dynamicActivate :: "(string \<Rightarrow> bool) \<Rightarrow> string \<Rightarrow> LocaleState \<Rightarrow> LocaleState" where
  "dynamicActivate loads loc st =
    (if loc = ''en'' then activateLocale loc st
     else if loads loc then activateLocale loc st
     else activateLocale ''en'' st)"

definition zhVariantMap :: "(string, string) dict" where
  "zhVariantMap = [(''zh-HK'', ''zh-HK''), (''zh-TW'', ''zh''), (''zh-MO'', ''zh''), (''zh-Hant'', ''zh'')]"

text \<open>\<open>detected\<close> is the result of \<open>detect(fromStorage("lang"), fromNavigator(), "en")\<close>.\<close>

definition getLocale :: "string option \<Rightarrow> string" where
  "getLocale detected =
    (case detected of
       Some d \<Rightarrow>
         if prefix ''zh-'' d then (case dget zhVariantMap d of Some v \<Rightarrow> v | None \<Rightarrow> ''zh-CN'')
         else (let l = hd (split_on CHR ''-'' (if d = [] then ''en'' else d)) in if l \<in> set languages then l else ''en'')
     | None \<Rightarrow> ''en'')"

definition batteryStateTranslations :: "(string \<Rightarrow> string) \<Rightarrow> BatteryState \<Rightarrow> string" where
  "batteryStateTranslations tr s =
    (case s of Bat_Unknown \<Rightarrow> tr ''Unknown'' | Bat_Empty \<Rightarrow> tr ''Empty'' | Bat_Full \<Rightarrow> tr ''Full''
     | Bat_Charging \<Rightarrow> tr ''Charging'' | Bat_Discharging \<Rightarrow> tr ''Discharging'' | Bat_Idle \<Rightarrow> tr ''Idle'')"

section \<open>Lemmas\<close>

lemma zhVariantMap_values: "dget zhVariantMap d = Some v \<Longrightarrow> v \<in> set languages"
  by (auto simp: zhVariantMap_def languages_def split: if_splits)

lemma zh_languages: "''zh-CN'' \<in> set languages" "''en'' \<in> set languages"
  by (simp_all add: languages_def)

lemma getLocale_supported: "getLocale d \<in> set languages"
  by (auto simp: getLocale_def Let_def zh_languages zhVariantMap_values split: option.split)

lemma split_on_hd_no_sep: "c \<notin> set s \<Longrightarrow> hd (split_on c s) = s"
  by (induction s) (auto split: list.split)

lemma language_codes:
  "list_all (\<lambda>l. l \<noteq> [] \<and> (CHR ''-'' \<in> set l \<longrightarrow> l = ''zh-CN'' \<or> l = ''zh-HK'')) languages"
  by code_simp

lemma language_code:
  "l \<in> set languages \<Longrightarrow> l \<noteq> []" "l \<in> set languages \<Longrightarrow> CHR ''-'' \<in> set l \<Longrightarrow> l = ''zh-CN'' \<or> l = ''zh-HK''"
  using language_codes by (auto simp: list_all_iff)

lemma getLocale_language:
  assumes "l \<in> set languages"
  shows "getLocale (Some l) = l"
proof (cases "CHR ''-'' \<in> set l")
  case True
  from language_code(2) [OF assms True] show ?thesis
    by (elim disjE) (simp_all add: getLocale_def zhVariantMap_def)
next
  case False
  then have "\<not> prefix ''zh-'' l" using set_mono_prefix [of "''zh-''" l] by auto
  moreover have "l \<noteq> []" by (rule language_code(1) [OF assms])
  ultimately show ?thesis using False assms by (simp add: getLocale_def split_on_hd_no_sep)
qed

section \<open>Properties\<close>

text \<open>
  The language chosen at the start is always one of the list, and a stored choice of the list is
  kept: after activating a language whose catalogue loads, the next start finds the same language;
  the direction is right to left exactly for the right-to-left languages, also after a failed load,
  which falls back to English.
\<close>

theorem locale_choice_roundtrip:
  assumes "l \<in> set languages"
  shows "getLocale d \<in> set languages
    \<and> getLocale (lc_stored (dynamicActivate loads l st)) = (if l = ''en'' \<or> loads l then l else ''en'')
    \<and> (lc_direction (dynamicActivate loads l st) = Rtl \<longleftrightarrow> loads l \<and> l \<in> {''ar'', ''fa'', ''he''})
    \<and> lc_active (dynamicActivate loads l st) = lc_lang (dynamicActivate loads l st)"
  using assms getLocale_language [of l] getLocale_language [of "''en''"]
  by (auto simp: getLocale_supported dynamicActivate_def activateLocale_def rtlLanguages_def zh_languages)

theorem locale_choice_roundtrip_witness:
  "getLocale (lc_stored (dynamicActivate (\<lambda>_. True) ''zh-HK'' \<lparr>lc_active = ''en'', lc_lang = ''en'', lc_stored = None, lc_direction = Ltr\<rparr>)) = ''zh-HK''"
  using locale_choice_roundtrip [of "''zh-HK''" None "\<lambda>_. True"] by (simp add: languages_def)

end
