(* ===== verification/SystemsTable.thy ===== *)
theory SystemsTable
  imports Systems Api Containers I18n
begin

text \<open>
  The home page's table of systems: \<^verbatim>\<open>components/systems-table/systems-table.tsx\<close> (status filter,
  counts, sort menu, view mode) and \<^verbatim>\<open>components/systems-table/systems-table-columns.tsx\<close> (the
  values and cells of the columns, the search with its caches, the disk meters, the actions of a
  row). \<open>dec\<close> is \<open>decimalString\<close>, \<open>lower\<close> is \<open>toLowerCase\<close>, \<open>tr\<close> translates a message.
\<close>

section \<open>Filters, counts and sorting\<close>

datatype StatusFilter = AllStatuses | WithStatus SystemStatus

definition filteredData :: "StatusFilter \<Rightarrow> AppState \<Rightarrow> SystemRecord list" where
  "filteredData statusFilter st =
    (if statusFilter = AllStatuses then systems st
     else if statusFilter = WithStatus Up then dvals (st_upSystems st)
     else if statusFilter = WithStatus Down then dvals (st_downSystems st)
     else dvals (st_pausedSystems st))"

definition status_counts :: "AppState \<Rightarrow> nat \<times> nat \<times> nat" where
  "status_counts st = (length (dvals (st_upSystems st)), length (dvals (st_downSystems st)), length (dvals (st_pausedSystems st)))"

definition initial_view :: "int \<Rightarrow> SystemRecord list \<Rightarrow> string" where
  "initial_view innerWidth rows = (if innerWidth < 1024 \<and> length rows < 200 then ''grid'' else ''table'')"

text \<open>The sort menu: choosing the current column turns its direction, another one sorts ascending.\<close>

definition sort_select :: "string \<Rightarrow> (string \<times> bool) list \<Rightarrow> (string \<times> bool) list" where
  "sort_select columnId sorting =
    [(columnId, case sorting of [] \<Rightarrow> False | (k, desc) # _ \<Rightarrow> k = columnId \<and> \<not> desc)]"

section \<open>Search\<close>

text \<open>
  The filter of the system column is a closure over the last input, its lower case, and a cache of
  lower-case names; the status is matched by its translation, which a pending system does not have.
\<close>

record FilterClosure =
  fc_input :: string
  fc_lower :: string
  fc_names :: "(string, string) dict"

definition init_filter :: FilterClosure where
  "init_filter = \<lparr>fc_input = [], fc_lower = [], fc_names = []\<rparr>"

definition statusTranslations :: "(string \<Rightarrow> string) \<Rightarrow> (string \<Rightarrow> string) \<Rightarrow> SystemStatus \<Rightarrow> string option" where
  "statusTranslations lower tr status =
    (case status of Up \<Rightarrow> Some (lower (tr ''Up'')) | Down \<Rightarrow> Some (lower (tr ''Down''))
     | Paused \<Rightarrow> Some (lower (tr ''Paused'')) | Pending \<Rightarrow> None)"

definition filterFn ::
  "(string \<Rightarrow> string) \<Rightarrow> (string \<Rightarrow> string) \<Rightarrow> SystemRecord \<Rightarrow> string \<Rightarrow> FilterClosure \<Rightarrow> bool \<times> FilterClosure" where
  "filterFn lower tr row newFilterInput fc =
    (let fc1 = (if newFilterInput \<noteq> fc_input fc then fc\<lparr>fc_input := newFilterInput, fc_lower := lower newFilterInput\<rparr> else fc);
         (nameLower, fc2) =
           (case dget (fc_names fc1) (sys_name row) of
              Some n \<Rightarrow> (n, fc1)
            | None \<Rightarrow> (lower (sys_name row), fc1\<lparr>fc_names := dset (sys_name row) (lower (sys_name row)) (fc_names fc1)\<rparr>))
     in (str_includes nameLower (fc_lower fc2)
           \<or> (case statusTranslations lower tr (sys_status row) of None \<Rightarrow> False | Some s \<Rightarrow> str_includes s (fc_lower fc2)), fc2))"

text \<open>The search of a whole table, row by row through the same closure.\<close>

fun filter_rows ::
  "(string \<Rightarrow> string) \<Rightarrow> (string \<Rightarrow> string) \<Rightarrow> string \<Rightarrow> SystemRecord list \<Rightarrow> FilterClosure \<Rightarrow> SystemRecord list \<times> FilterClosure" where
  "filter_rows lower tr input [] fc = ([], fc)"
| "filter_rows lower tr input (r # rs) fc =
    (let (keep, fc1) = filterFn lower tr r input fc; (rest, fc2) = filter_rows lower tr input rs fc1
     in (if keep then r # rest else rest, fc2))"

section \<open>Values and cells\<close>

fun STATUS_COLORS :: "SystemStatus \<Rightarrow> string" where
  "STATUS_COLORS Up = ''bg-green-500''" | "STATUS_COLORS Down = ''bg-red-500''"
| "STATUS_COLORS Paused = ''bg-primary/40''" | "STATUS_COLORS Pending = ''bg-yellow-500''"

text \<open>\<open>x || undefined\<close> of a number.\<close>

definition truthy_num :: "rat option \<Rightarrow> rat option" where
  "truthy_num x = (case x of Some v \<Rightarrow> if v = 0 then None else Some v | None \<Rightarrow> None)"

definition cpu_accessor :: "SystemInfo \<Rightarrow> rat option" where "cpu_accessor i = truthy_num (si_cpu i)"
definition memory_accessor :: "SystemInfo \<Rightarrow> rat option" where "memory_accessor i = truthy_num (Some (si_mp i))"
definition disk_accessor :: "SystemInfo \<Rightarrow> rat option" where "disk_accessor i = truthy_num (Some (si_dp i))"
definition gpu_accessor :: "SystemInfo \<Rightarrow> rat option" where "gpu_accessor i = truthy_num (si_g i)"

definition or_zero :: "rat option \<Rightarrow> rat" where
  "or_zero x = (case x of None \<Rightarrow> 0 | Some v \<Rightarrow> v)"

definition load_accessor :: "SystemInfo \<Rightarrow> rat option" where
  "load_accessor i =
    (let s = (case si_la i of None \<Rightarrow> 0 | Some (a, b, c) \<Rightarrow> a + b + c)
     in if s = 0 then truthy_num (Some (or_zero (si_l1 i) + or_zero (si_l5 i) + or_zero (si_l15 i))) else Some s)"

text \<open>The load cell: its averages and the colour of its dot, nothing for an idle paused or old system.\<close>

definition load_averages :: "SystemInfo \<Rightarrow> rat \<times> rat \<times> rat" where
  "load_averages i =
    (let v = parseSemVer (si_v i); legacy = (or_zero (si_l1 i), or_zero (si_l5 i), or_zero (si_l15 i))
     in case si_la i of
          None \<Rightarrow> legacy
        | Some la \<Rightarrow> if js_eq (sv_minor v) (Fin 12) \<and> js_less (sv_patch v) (Fin 1) then legacy else la)"

definition load_state :: "UserSettings \<Rightarrow> rat \<Rightarrow> int option \<Rightarrow> MeterState" where
  "load_state settings load threads =
    (case threads of
       None \<Rightarrow> getMeterState settings (load * 100)
     | Some t \<Rightarrow> if t = 0 then (if load > 0 then Crit else Good) else getMeterState settings (load / of_int t * 100))"

definition meter_color :: "SystemStatus \<Rightarrow> MeterState \<Rightarrow> string" where
  "meter_color status threshold =
    (if status \<noteq> Up then STATUS_COLORS Paused
     else case threshold of Good \<Rightarrow> STATUS_COLORS Up | Warn \<Rightarrow> STATUS_COLORS Pending | Crit \<Rightarrow> STATUS_COLORS Down)"

definition load_cell :: "(rat \<Rightarrow> nat \<Rightarrow> string) \<Rightarrow> UserSettings \<Rightarrow> SystemRecord \<Rightarrow> (string \<times> string list) option" where
  "load_cell dec settings s =
    (let i = sys_info s; (a, b, c) = load_averages i; m = max a (max b c)
     in if m = 0 \<and> (sys_status s = Paused \<or> js_less (sv_minor (parseSemVer (si_v i))) (Fin 12)) then None
        else Some (meter_color (sys_status s) (load_state settings m (si_t i)),
                   map (\<lambda>la. dec la (if la \<ge> 10 then 1 else 2)) [a, b, c]))"

definition net_accessor :: "SystemInfo \<Rightarrow> rat option" where
  "net_accessor i = (case truthy_num (si_bb i) of Some v \<Rightarrow> Some v | None \<Rightarrow> truthy_num (Some (si_b i * 1024 * 1024)))"

definition net_cell :: "(rat \<Rightarrow> nat \<Rightarrow> string) \<Rightarrow> UserSettings \<Rightarrow> SystemRecord \<Rightarrow> string option" where
  "net_cell dec settings s =
    (if sys_status s = Paused then None
     else (let (v, u) = formatBytes (or_zero (net_accessor (sys_info s))) True (unit_or (us_unitNet settings) Bytes) False
           in Some (dec v (if v \<ge> 100 then 1 else 2) @ '' '' @ u)))"

definition systems_temp_cell :: "(rat \<Rightarrow> nat \<Rightarrow> string) \<Rightarrow> UserSettings \<Rightarrow> SystemRecord \<Rightarrow> string option" where
  "systems_temp_cell dec settings s =
    (case truthy_num (si_dt (sys_info s)) of
       None \<Rightarrow> None
     | Some val \<Rightarrow> (let (v, u) = formatTemperature settings val (us_unitTemp settings)
                    in Some (dec v (if v \<ge> 100 then 1 else 2) @ '' '' @ u)))"

datatype BatteryIcon = PlugCharging | BatteryLow | BatteryMedium | BatteryHigh | BatteryFull

text \<open>The battery cell: icon, colour, percentage, and the state as the link's title.\<close>

definition battery_icon :: "rat \<Rightarrow> BatteryState \<Rightarrow> BatteryIcon \<times> string" where
  "battery_icon pct state =
    (if state = Bat_Charging then (PlugCharging, ''text-muted-foreground'')
     else if pct < 25 then (BatteryLow, if pct < 11 then ''text-red-500'' else ''text-yellow-500'')
     else if pct < 75 then (BatteryMedium, ''text-muted-foreground'')
     else if pct < 95 then (BatteryHigh, ''text-muted-foreground'')
     else (BatteryFull, ''text-muted-foreground''))"

definition battery_cell :: "(string \<Rightarrow> string) \<Rightarrow> SystemInfo \<Rightarrow> ((BatteryIcon \<times> string) \<times> rat \<times> string) option" where
  "battery_cell tr i =
    (case si_bat i of
       None \<Rightarrow> None
     | Some (pct, state) \<Rightarrow> Some (battery_icon pct state, pct, batteryStateTranslations tr state))"

definition services_of :: "SystemRecord \<Rightarrow> int \<times> int" where
  "services_of s = (case si_sv (sys_info s) of None \<Rightarrow> (0, 0) | Some p \<Rightarrow> p)"

definition services_cmp :: "SystemRecord \<Rightarrow> SystemRecord \<Rightarrow> rat" where
  "services_cmp a b =
    (let (totalA, failedA) = services_of a; (totalB, failedB) = services_of b
     in if failedA \<noteq> failedB then of_int (failedA - failedB) else of_int (totalA - totalB))"

definition services_cell :: "SystemRecord \<Rightarrow> (string \<times> int \<times> int) option" where
  "services_cell s =
    (let (total, failed) = services_of s
     in if sys_status s \<noteq> Up \<or> total = 0 then None
        else Some (if failed > 0 then STATUS_COLORS Down else if failed = 0 then STATUS_COLORS Up else [], total, failed))"

definition int_or_zero :: "int option \<Rightarrow> int" where
  "int_or_zero x = (case x of None \<Rightarrow> 0 | Some v \<Rightarrow> v)"

text \<open>The updates cell: dot and count when there are updates, and whether a reboot is needed.\<close>

definition updates_cell :: "SystemRecord \<Rightarrow> ((string \<times> int) option \<times> bool) option" where
  "updates_cell s =
    (let n = int_or_zero (si_pu (sys_info s)); sec = int_or_zero (si_pus (sys_info s)); rb = (si_rb (sys_info s) = Some True)
     in if sys_status s \<noteq> Up \<or> (n = 0 \<and> \<not> rb) then None
        else Some (if n > 0 then Some (if sec > 0 then STATUS_COLORS Down else STATUS_COLORS Pending, n) else None, rb))"

definition updates_title :: "(string \<Rightarrow> string) \<Rightarrow> SystemInfo \<Rightarrow> string" where
  "updates_title tr i =
    (let sec = int_or_zero (si_pus i); rb = (si_rb i = Some True)
     in (if sec > 0 then show_int sec @ '' '' @ tr ''security'' else [])
        @ (if rb then (if sec > 0 then [CHR '' '', CHR 0xC2, CHR 0xB7, CHR '' ''] else []) @ tr ''Reboot required'' else []))"

definition uptime_cell :: "(rat \<Rightarrow> SecondsUnit \<Rightarrow> string) \<Rightarrow> SystemInfo \<Rightarrow> string option" where
  "uptime_cell fmt i =
    (let uptime = si_u i
     in if uptime = 0 then None
        else Some (fmt uptime (if uptime < 3600 then U_minute else if uptime < 360000 then U_hour else U_day)))"

text \<open>The agent cell: the colour (the last class that applies), the icon of the connection, its title and the version.\<close>

datatype AgentIcon = WebSocketIcon | ChevronRightSquareIcon | DotIcon

definition agent_icon :: "SystemInfo \<Rightarrow> AgentIcon \<times> string option" where
  "agent_icon i =
    (case si_ct i of
       None \<Rightarrow> (DotIcon, None)
     | Some c \<Rightarrow> (if c = WebSocket then WebSocketIcon else ChevronRightSquareIcon, nth_opt connectionTypeLabels (connection_code c)))"

definition agent_cell :: "string \<Rightarrow> SystemRecord \<Rightarrow> (string \<times> (AgentIcon \<times> string option) \<times> string) option" where
  "agent_cell hubVersion s =
    (let version = si_v (sys_info s)
     in if version = [] then None
        else Some (if sys_status s \<noteq> Up then ''text-red-500'' else if version = hubVersion then ''text-green-500''
                   else ''text-yellow-500'', agent_icon (sys_info s), version))"

definition meter_cell :: "(rat \<Rightarrow> nat \<Rightarrow> string) \<Rightarrow> UserSettings \<Rightarrow> SystemStatus \<Rightarrow> rat option \<Rightarrow> string \<times> string \<times> rat" where
  "meter_cell dec settings status v =
    (let val = or_zero v in (dec val (if val \<ge> 10 then 1 else 2) @ ''%'', meter_color status (getMeterState settings val), val))"

text \<open>The disk cell of a system with extra disks: the disks by use, and the dots on the meter.\<close>

definition extra_disks :: "SystemInfo \<Rightarrow> (string \<times> rat) list" where
  "extra_disks i = js_sort (\<lambda>a b. snd b - snd a) (case si_efs i of None \<Rightarrow> [] | Some m \<Rightarrow> m)"

definition disk_states :: "UserSettings \<Rightarrow> SystemInfo \<Rightarrow> MeterState list" where
  "disk_states settings i = sort (uniq (map (\<lambda>d. getMeterState settings (snd d)) (extra_disks i)))"

definition extraDiskIndicators :: "UserSettings \<Rightarrow> SystemRecord \<Rightarrow> string list" where
  "extraDiskIndicators settings s =
    (if sys_status s \<noteq> Up then []
     else map (\<lambda>state. [STATUS_COLORS Up, STATUS_COLORS Pending, STATUS_COLORS Down] ! meter_code state)
            (disk_states settings (sys_info s)))"

text \<open>The whole cell: the root disk's meter, the dots, and the tooltip's rows.\<close>

definition DiskCellWithMultiple ::
  "(rat \<Rightarrow> nat \<Rightarrow> string) \<Rightarrow> UserSettings \<Rightarrow> SystemRecord \<Rightarrow> (string \<times> string \<times> rat) \<times> string list \<times> (string \<times> string \<times> string \<times> rat) list" where
  "DiskCellWithMultiple dec settings s =
    (let i = sys_info s
     in if extra_disks i = [] then (meter_cell dec settings (sys_status s) (disk_accessor i), [], [])
        else (meter_cell dec settings (sys_status s) (Some (si_dp i)), extraDiskIndicators settings s,
              map (\<lambda>(name, pct). (name, meter_cell dec settings (sys_status s) (Some pct))) (extra_disks i)))"

definition indicator_dot :: "string \<Rightarrow> SystemRecord \<Rightarrow> string" where
  "indicator_dot className s = (if className \<noteq> [] then className else STATUS_COLORS (sys_status s))"

section \<open>Actions of a row\<close>

datatype RowItem = Edit | PauseResume | CopyName | CopyHost | UpdateAgent | ApplyAll | ApplySecurity | Reboot | DeleteSystem

definition menu_items :: "string option \<Rightarrow> SystemRecord \<Rightarrow> RowItem list" where
  "menu_items role s =
    (let ro = isReadOnlyUser role; up = (sys_status s = Up)
     in (if ro then [] else [Edit]) @ (if ro then [] else [PauseResume]) @ [CopyName, CopyHost]
        @ (if ro \<or> \<not> up then [] else [UpdateAgent])
        @ (if ro \<or> \<not> up \<or> int_or_zero (si_pu (sys_info s)) = 0 then [] else [ApplyAll])
        @ (if ro \<or> \<not> up \<or> int_or_zero (si_pus (sys_info s)) = 0 then [] else [ApplySecurity])
        @ (if ro \<or> \<not> up then [] else [Reboot])
        @ (if ro then [] else [DeleteSystem]))"

definition toggled_status :: "SystemStatus \<Rightarrow> SystemStatus" where
  "toggled_status status = (if status = Paused then Pending else Paused)"

datatype RowRequest =
    UpdateStatus string SystemStatus
  | PostAgentUpdate string
  | PostApply string bool
  | PostReboot string
  | DeleteRecord string

text \<open>The request an item sends, after its dialog is confirmed where it has one.\<close>

fun item_request :: "SystemRecord \<Rightarrow> RowItem \<Rightarrow> RowRequest option" where
  "item_request s PauseResume = Some (UpdateStatus (sys_id s) (toggled_status (sys_status s)))"
| "item_request s UpdateAgent = Some (PostAgentUpdate (sys_id s))"
| "item_request s ApplyAll = Some (PostApply (sys_id s) False)"
| "item_request s ApplySecurity = Some (PostApply (sys_id s) True)"
| "item_request s Reboot = Some (PostReboot (sys_id s))"
| "item_request s DeleteSystem = Some (DeleteRecord (sys_id s))"
| "item_request s _ = None"

text \<open>
  The toasts an item shows: \<open>Inl\<close> is a failed request with its message, \<open>Inr\<close> an answer with
  the fields \<open>updated\<close> and \<open>message\<close>. An interpolated message is translated as a whole.
\<close>

type_synonym row_toast = "string option \<times> string option"

definition request_toasts :: "(string \<Rightarrow> string) \<Rightarrow> string \<Rightarrow> string \<Rightarrow> string \<Rightarrow> string option + 'a \<Rightarrow> row_toast list" where
  "request_toasts tr ok description failed result =
    (case result of Inr _ \<Rightarrow> [(Some (tr ok), Some (tr description))] | Inl m \<Rightarrow> [(Some (tr failed), m)])"

fun item_toasts :: "(string \<Rightarrow> string) \<Rightarrow> SystemRecord \<Rightarrow> RowItem \<Rightarrow> string option + bool \<times> string option \<Rightarrow> row_toast list" where
  "item_toasts tr s UpdateAgent result =
    (None, Some (tr (''Pushing agent update to '' @ sys_name s @ ''...''))) #
    (case result of Inr (updated, m) \<Rightarrow> [(Some (tr (if updated then ''Agent updating'' else ''Agent up to date'')), m)]
     | Inl m \<Rightarrow> [(Some (tr ''Agent update failed''), m)])"
| "item_toasts tr s ApplyAll result =
    request_toasts tr ''Updates started''
      (sys_name s @ '' is installing '' @ show_int (int_or_zero (si_pu (sys_info s))) @ '' updates in the background'')
      ''Update failed'' result"
| "item_toasts tr s ApplySecurity result =
    request_toasts tr ''Security updates started''
      (sys_name s @ '' is installing '' @ show_int (int_or_zero (si_pus (sys_info s))) @ '' security updates in the background'')
      ''Update failed'' result"
| "item_toasts tr s Reboot result =
    request_toasts tr ''Rebooting'' (sys_name s @ '' is restarting now'') ''Reboot failed'' result"
| "item_toasts tr s _ result = []"

section \<open>Lemmas\<close>

text \<open>A closure is consistent when its cached values are the ones it would compute.\<close>

definition filter_inv :: "(string \<Rightarrow> string) \<Rightarrow> FilterClosure \<Rightarrow> bool" where
  "filter_inv lower fc \<longleftrightarrow> fc_lower fc = lower (fc_input fc) \<and> (\<forall>n l. dget (fc_names fc) n = Some l \<longrightarrow> l = lower n)"

text \<open>What a row has to match, without caches.\<close>

definition row_matches :: "(string \<Rightarrow> string) \<Rightarrow> (string \<Rightarrow> string) \<Rightarrow> string \<Rightarrow> SystemRecord \<Rightarrow> bool" where
  "row_matches lower tr input row \<longleftrightarrow>
    str_includes (lower (sys_name row)) (lower input)
    \<or> (\<exists>s. statusTranslations lower tr (sys_status row) = Some s \<and> str_includes s (lower input))"

lemma filterFn_correct:
  assumes "filter_inv lower fc"
  shows "fst (filterFn lower tr row input fc) = row_matches lower tr input row \<and> filter_inv lower (snd (filterFn lower tr row input fc))"
proof -
  define fc1 where "fc1 = (if input \<noteq> fc_input fc then fc\<lparr>fc_input := input, fc_lower := lower input\<rparr> else fc)"
  have inv: "filter_inv lower fc1" and low: "fc_lower fc1 = lower input"
    using assms by (auto simp: fc1_def filter_inv_def)
  show ?thesis
  proof (cases "dget (fc_names fc1) (sys_name row)")
    case None
    with inv low show ?thesis unfolding filterFn_def fc1_def [symmetric] Let_def
      by (auto simp: row_matches_def filter_inv_def update_conv' split: option.split)
  next
    case (Some l)
    with inv have "l = lower (sys_name row)" by (auto simp: filter_inv_def)
    with Some inv low show ?thesis unfolding filterFn_def fc1_def [symmetric] Let_def
      by (auto simp: row_matches_def split: option.split)
  qed
qed

lemma filter_rows_correct:
  assumes "filter_inv lower fc"
  shows "fst (filter_rows lower tr input rows fc) = filter (row_matches lower tr input) rows
    \<and> filter_inv lower (snd (filter_rows lower tr input rows fc))"
  using assms
proof (induction rows arbitrary: fc)
  case (Cons r rs)
  obtain keep fc1 where f: "filterFn lower tr r input fc = (keep, fc1)" by fastforce
  with filterFn_correct [OF Cons.prems, of tr r input] have "keep = row_matches lower tr input r" "filter_inv lower fc1" by auto
  with Cons.IH [of fc1] f show ?case by (auto simp: split_beta)
qed simp

text \<open>Earlier searches: inputs with the rows they were tried on.\<close>

definition searches :: "(string \<Rightarrow> string) \<Rightarrow> (string \<Rightarrow> string) \<Rightarrow> (string \<times> SystemRecord list) list \<Rightarrow> FilterClosure \<Rightarrow> FilterClosure" where
  "searches lower tr qs fc = foldl (\<lambda>fc q. snd (filter_rows lower tr (fst q) (snd q) fc)) fc qs"

lemma searches_inv: "filter_inv lower fc \<Longrightarrow> filter_inv lower (searches lower tr qs fc)"
  unfolding searches_def using filter_rows_correct by (induction qs arbitrary: fc) auto

interpretation by_use: comparator "\<lambda>a b. snd b - (snd a :: rat)" UNIV
  by unfold_locales auto

interpretation by_services: comparator services_cmp UNIV
  by unfold_locales (auto simp: services_cmp_def Let_def split: if_splits prod.splits)

lemma meter_states: "set [Good, Warn, Crit] = UNIV"
proof -
  have "c \<in> set [Good, Warn, Crit]" for c by (cases c) auto
  then show ?thesis by blast
qed

lemma sort_uniq_states: "sort (uniq ms) = filter (\<lambda>c. c \<in> set ms) [Good, Warn, Crit]"
proof (rule sorted_distinct_set_unique)
  show "sorted (filter (\<lambda>c. c \<in> set ms) [Good, Warn, Crit])"
    by (simp add: less_eq_MeterState_def)
  show "set (sort (uniq ms)) = set (filter (\<lambda>c. c \<in> set ms) [Good, Warn, Crit])"
    unfolding set_filter meter_states by simp
qed auto

lemma inj_meter_color: "inj (meter_color Up)"
proof (rule injI)
  fix a b assume "meter_color Up a = meter_color Up b"
  then show "a = b" by (cases a; cases b) (simp_all add: meter_color_def)
qed

lemma meter_colors: "[STATUS_COLORS Up, STATUS_COLORS Pending, STATUS_COLORS Down] = map (meter_color Up) [Good, Warn, Crit]"
  by (simp add: meter_color_def)

lemma nth_meter_colors: "[STATUS_COLORS Up, STATUS_COLORS Pending, STATUS_COLORS Down] ! meter_code m = meter_color Up m"
  by (cases m) (simp_all add: meter_color_def)

section \<open>Properties\<close>

text \<open>
  C23. The search gives what a search without caches gives: whatever was searched before, through
  whatever tables, the rows kept are those whose name or translated status contains the input,
  compared in lower case.
\<close>

theorem search_caches_transparent:
  assumes "lower [] = []"
  shows "fst (filter_rows lower tr input rows (searches lower tr earlier init_filter)) = filter (row_matches lower tr input) rows"
proof -
  have "filter_inv lower init_filter" using assms by (simp add: filter_inv_def init_filter_def)
  from filter_rows_correct [OF searches_inv [OF this]] show ?thesis by simp
qed

theorem search_caches_transparent_witness:
  "fst (filter_rows id id ''we'' [sample_system ''a'' ''web'' Down, sample_system ''b'' ''db'' Up]
     (searches id id [(''u'', [sample_system ''a'' ''web'' Down])] init_filter))
   = [sample_system ''a'' ''web'' Down]"
  using search_caches_transparent [of id id "''we''" "[sample_system ''a'' ''web'' Down, sample_system ''b'' ''db'' Up]"]
  by (simp add: row_matches_def statusTranslations_def) (simp add: sample_system_def)

text \<open>
  The status filter shows what it says: in every reachable state of the stores the rows of the
  filter for up, down or paused systems are the systems known with that status, each once, and the
  counts in the menu are their numbers.
\<close>

theorem status_filter_rows:
  assumes "nano_map setKey" "reachable setKey st" "status \<in> {Up, Down, Paused}"
  shows "set (filteredData (WithStatus status) st) = {s \<in> set (systems st). sys_status s = status}
    \<and> length (filteredData (WithStatus status) st) = card {k. \<exists>s. dget (st_allSystemsById st) k = Some s \<and> sys_status s = status}
    \<and> status_counts st = (length (filteredData (WithStatus Up) st), length (filteredData (WithStatus Down) st), length (filteredData (WithStatus Paused) st))"
proof -
  define m where "m = (case status of Up \<Rightarrow> st_upSystems st | Down \<Rightarrow> st_downSystems st | _ \<Rightarrow> st_pausedSystems st)"
  have inv: "systems_inv st" by (rule reachable_inv [OF assms(1,2)])
  have fd: "filteredData (WithStatus status) st = dvals m"
    using assms(3) by (auto simp: filteredData_def m_def)
  have d: "distinct (dkeys m)" "distinct (dkeys (st_allSystemsById st))"
    using inv by (cases status; simp add: systems_inv_def stores_distinct_def m_def)+
  have g: "dget m k = with_status status (st_allSystemsById st) k" for k
    using inv assms(3) by (auto simp: systems_inv_def partition_inv_def m_def)
  have rows: "set (dvals m) = {s \<in> set (dvals (st_allSystemsById st)). sys_status s = status}"
    unfolding dvals_of_dget [OF d(1)] dvals_of_dget [OF d(2)] g
    by (auto simp: with_status_def split: option.splits if_splits)
  have "set (dkeys m) = {k. \<exists>s. dget m k = Some s}"
    by (auto simp: dom_map_of_conv_image_fst [symmetric] dom_def)
  also have "\<dots> = {k. \<exists>s. dget (st_allSystemsById st) k = Some s \<and> sys_status s = status}"
    unfolding g by (auto simp: with_status_def split: option.splits if_splits)
  finally have "length m = card {k. \<exists>s. dget (st_allSystemsById st) k = Some s \<and> sys_status s = status}"
    using distinct_card [OF d(1)] by simp
  with rows show ?thesis by (simp add: fd systems_def) (simp add: status_counts_def filteredData_def)
qed

theorem status_filter_rows_witness:
  "length (filteredData (WithStatus Down) sample_session) = 1"
proof -
  have "{k. \<exists>s. dget (st_allSystemsById sample_session) k = Some s \<and> sys_status s = Down} = {''a''}"
    by (auto simp: sample_byId) (auto simp: sample_system_def split: if_splits)
  then show ?thesis
    using status_filter_rows [OF nano_reference.nano_map_axioms sample_reachable, of Down] by simp
qed

text \<open>
  The dots on a disk meter are one per state some extra disk is in, in the order green, yellow,
  red, so never more than three; the disks in the tooltip are in order of use.
\<close>

theorem disk_dots_one_per_state:
  "extraDiskIndicators settings s =
     (if sys_status s = Up
      then filter (\<lambda>c. \<exists>d\<in>set (extra_disks (sys_info s)). c = meter_color Up (getMeterState settings (snd d)))
             [STATUS_COLORS Up, STATUS_COLORS Pending, STATUS_COLORS Down]
      else [])
   \<and> sorted_wrt (\<lambda>a b. snd a \<ge> snd b) (extra_disks (sys_info s))
   \<and> mset (extra_disks (sys_info s)) = mset (case si_efs (sys_info s) of None \<Rightarrow> [] | Some m \<Rightarrow> m)"
proof (intro conjI)
  let ?st = "\<lambda>d. getMeterState settings (snd d)" and ?ds = "extra_disks (sys_info s)"
  have "disk_states settings (sys_info s) = filter (\<lambda>c. c \<in> set (map ?st ?ds)) [Good, Warn, Crit]"
    unfolding disk_states_def by (rule sort_uniq_states)
  then show "extraDiskIndicators settings s =
     (if sys_status s = Up
      then filter (\<lambda>c. \<exists>d\<in>set ?ds. c = meter_color Up (?st d)) [STATUS_COLORS Up, STATUS_COLORS Pending, STATUS_COLORS Down]
      else [])"
    unfolding extraDiskIndicators_def nth_meter_colors meter_colors filter_map comp_def
    by (auto simp: inj_eq [OF inj_meter_color] intro!: map_cong [OF _ refl] filter_cong)
  show "sorted_wrt (\<lambda>a b. snd a \<ge> snd b) ?ds"
    using by_use.sorted_js_sort [of "case si_efs (sys_info s) of None \<Rightarrow> [] | Some m \<Rightarrow> m"] by (simp add: extra_disks_def)
  show "mset ?ds = mset (case si_efs (sys_info s) of None \<Rightarrow> [] | Some m \<Rightarrow> m)" by (simp add: extra_disks_def)
qed

text \<open>
  A read-only user can only copy: no item of a row's menu sends a request. For other users the
  items that reach the host (agent update, package updates, reboot) are there only while the system
  is up, and the package items only when there are such updates.
\<close>

theorem row_menu_permissions:
  "(isReadOnlyUser role \<longrightarrow> menu_items role s = [CopyName, CopyHost] \<and> (\<forall>i\<in>set (menu_items role s). item_request s i = None))
   \<and> (\<forall>i\<in>set (menu_items role s). i \<in> {UpdateAgent, ApplyAll, ApplySecurity, Reboot} \<longrightarrow> sys_status s = Up)
   \<and> (ApplyAll \<in> set (menu_items role s) \<longrightarrow> int_or_zero (si_pu (sys_info s)) \<noteq> 0)
   \<and> (\<not> isReadOnlyUser role \<longrightarrow> PauseResume \<in> set (menu_items role s))"
  by (auto simp: menu_items_def Let_def)

theorem row_menu_permissions_witness:
  "menu_items (Some ''readonly'') (sample_system ''a'' ''web'' Up) = [CopyName, CopyHost]"
  using row_menu_permissions [of "Some ''readonly''" "sample_system ''a'' ''web'' Up"] by (simp add: isReadOnlyUser_def)

end
