(* ===== verification/SystemsView.thy ===== *)
theory SystemsView
  imports SystemsTable DataTable Router
begin

text \<open>
  The component around the table of systems, \<^verbatim>\<open>components/systems-table/systems-table.tsx\<close>: its
  state and where it is stored, the menu that changes it, and the rows and cards it shows. \<open>E\<close> is
  the table library, \<open>loc\<close> is \<open>localeCompare\<close>.
\<close>

section \<open>Columns\<close>

record ColumnDef =
  cd_id :: string
  cd_name :: string
  cd_enableHiding :: bool
  cd_accessor :: bool
  cd_hideSort :: bool

definition plain_column :: "string \<Rightarrow> string \<Rightarrow> bool \<Rightarrow> ColumnDef" where
  "plain_column k name hideSort = \<lparr>cd_id = k, cd_name = name, cd_enableHiding = True, cd_accessor = True, cd_hideSort = hideSort\<rparr>"

definition SystemsTableColumns :: "ColumnDef list" where
  "SystemsTableColumns =
    [(plain_column ''system'' ''System'' False)\<lparr>cd_enableHiding := False\<rparr>,
     plain_column ''cpu'' ''CPU'' False, plain_column ''memory'' ''Memory'' False, plain_column ''disk'' ''Disk'' False,
     plain_column ''gpu'' ''GPU'' False, plain_column ''loadAverage'' ''Load Avg'' False, plain_column ''net'' ''Net'' False,
     plain_column ''temp'' ''Temp'' True, plain_column ''battery'' ''Bat'' True, plain_column ''services'' ''Services'' True,
     plain_column ''updates'' ''Updates'' True, plain_column ''uptime'' ''Uptime'' False, plain_column ''agent'' ''Agent'' True,
     (plain_column ''actions'' ''Actions'' False)\<lparr>cd_accessor := False\<rparr>]"

text \<open>
  The comparisons: the name column has its own and is not inverted; the services column has its own
  and is inverted like all others, which the library compares by their values (\<open>auto\<close>).
\<close>

definition systems_columns :: "(string \<Rightarrow> string \<Rightarrow> rat) \<Rightarrow> (string \<Rightarrow> SystemRecord column) \<Rightarrow> string \<Rightarrow> SystemRecord column" where
  "systems_columns loc auto k =
    (if k = ''system'' then (\<lambda>_. True, \<lambda>a b. loc (sys_name a) (sys_name b))
     else if k = ''services'' then (\<lambda>s. si_sv (sys_info s) \<noteq> None, \<lambda>a b. services_cmp b a)
     else auto k)"

text \<open>
  The cell of the name column: the dot, the link with its width in characters, and the name; \<open>path\<close> is
  the router's path of a system's page.
\<close>

definition system_cell :: "(string \<Rightarrow> string) \<Rightarrow> AppState \<Rightarrow> SystemRecord \<Rightarrow> string \<times> string \<times> rat \<times> string" where
  "system_cell path st s =
    (STATUS_COLORS (sys_status s), path (sys_id s), st_longestSystemNameLen st / (105 / 100), sys_name s)"

text \<open>
  A header: highlighted while its column sorts, with the sort arrows unless the column hides them. A
  click sorts by it, descending if it sorts ascending now.
\<close>

definition isSorted :: "sorting \<Rightarrow> string \<Rightarrow> bool option" where
  "isSorted sorting k = map_of sorting k"

definition sortableHeader :: "(string \<Rightarrow> string) \<Rightarrow> sorting \<Rightarrow> ColumnDef \<Rightarrow> bool \<times> string \<times> bool" where
  "sortableHeader tr sorting c = (isSorted sorting (cd_id c) \<noteq> None, tr (cd_name c), \<not> cd_hideSort c)"

definition header_click :: "ColumnDef \<Rightarrow> sorting \<Rightarrow> sorting" where
  "header_click c sorting = [(cd_id c, isSorted sorting (cd_id c) = Some False)]"

section \<open>State\<close>

text \<open>The state of the component; the filter of the system column has its closure with the caches.\<close>

record SystemsView =
  vs_filter :: string
  vs_statusFilter :: StatusFilter
  vs_sorting :: sorting
  vs_columnFilter :: string
  vs_columnVisibility :: "(string, bool) dict"
  vs_viewMode :: string
  vs_closure :: FilterClosure

text \<open>\<open>JSON.stringify\<close> and \<open>JSON.parse\<close> of what is stored.\<close>

record StorageCodec =
  sc_sorting :: "sorting \<Rightarrow> string"
  sc_parseSorting :: "string \<Rightarrow> sorting"
  sc_cols :: "(string, bool) dict \<Rightarrow> string"
  sc_parseCols :: "string \<Rightarrow> (string, bool) dict"
  sc_view :: "string \<Rightarrow> string"
  sc_parseView :: "string \<Rightarrow> string"

type_synonym storage = "(string, string) dict"

definition view_mounted :: "StorageCodec \<Rightarrow> int \<Rightarrow> AppState \<Rightarrow> storage \<times> storage \<Rightarrow> SystemsView" where
  "view_mounted J innerWidth st stored =
    (case stored of (session, local) \<Rightarrow>
      \<lparr>vs_filter = [], vs_statusFilter = AllStatuses,
       vs_sorting = browserStorage_init (sc_parseSorting J) ''sortMode'' [(''system'', False)] session,
       vs_columnFilter = [],
       vs_columnVisibility = browserStorage_init (sc_parseCols J) ''cols'' [] local,
       vs_viewMode = browserStorage_init (sc_parseView J) ''viewMode'' (initial_view innerWidth (filteredData AllStatuses st)) local,
       vs_closure = init_filter\<rparr>)"

text \<open>The effects that store the three values after a change.\<close>

definition view_stored :: "StorageCodec \<Rightarrow> SystemsView \<Rightarrow> storage \<times> storage \<Rightarrow> storage \<times> storage" where
  "view_stored J v stored =
    (case stored of (session, local) \<Rightarrow>
      (browserStorage_effect (sc_sorting J) ''sortMode'' (vs_sorting v) session,
       browserStorage_effect (sc_view J) ''viewMode'' (vs_viewMode v)
         (browserStorage_effect (sc_cols J) ''cols'' (vs_columnVisibility v) local)))"

section \<open>The menu\<close>

definition setFilter :: "string \<Rightarrow> SystemsView \<Rightarrow> SystemsView" where
  "setFilter text v = v\<lparr>vs_filter := text, vs_columnFilter := text\<rparr>"

definition setStatusFilter :: "StatusFilter \<Rightarrow> SystemsView \<Rightarrow> SystemsView" where
  "setStatusFilter f v = v\<lparr>vs_statusFilter := f\<rparr>"

text \<open>Another layout makes new column definitions, and with them a new closure for the filter.\<close>

definition setViewMode :: "string \<Rightarrow> SystemsView \<Rightarrow> SystemsView" where
  "setViewMode m v = (if m = vs_viewMode v then v else v\<lparr>vs_viewMode := m, vs_closure := init_filter\<rparr>)"

definition selectSort :: "string \<Rightarrow> SystemsView \<Rightarrow> SystemsView" where
  "selectSort k v = v\<lparr>vs_sorting := sort_select k (vs_sorting v)\<rparr>"

definition column_visible :: "SystemsView \<Rightarrow> string \<Rightarrow> bool" where
  "column_visible v k = (case dget (vs_columnVisibility v) k of None \<Rightarrow> True | Some b \<Rightarrow> b)"

definition toggleVisibility :: "string \<Rightarrow> bool \<Rightarrow> SystemsView \<Rightarrow> SystemsView" where
  "toggleVisibility k b v = v\<lparr>vs_columnVisibility := dset k b (vs_columnVisibility v)\<rparr>"

datatype SortIcon = NoIcon | ArrowUpIcon | ArrowDownIcon

definition sort_icon :: "sorting \<Rightarrow> string \<Rightarrow> SortIcon" where
  "sort_icon sorting k =
    (case sorting of [] \<Rightarrow> NoIcon | (k', desc) # _ \<Rightarrow> if k' = k then (if desc then ArrowUpIcon else ArrowDownIcon) else NoIcon)"

definition sort_menu :: "(string \<Rightarrow> string) \<Rightarrow> SystemsView \<Rightarrow> (string \<times> SortIcon \<times> string) list" where
  "sort_menu tr v = map (\<lambda>c. (cd_id c, sort_icon (vs_sorting v) (cd_id c), tr (cd_name c))) (filter cd_accessor SystemsTableColumns)"

definition fields_menu :: "(string \<Rightarrow> string) \<Rightarrow> SystemsView \<Rightarrow> (string \<times> bool \<times> string) list" where
  "fields_menu tr v =
    map (\<lambda>c. (cd_id c, column_visible v (cd_id c), tr (cd_name c))) (filter cd_enableHiding SystemsTableColumns)"

text \<open>The status choices with the numbers beside them.\<close>

definition status_menu :: "AppState \<Rightarrow> (StatusFilter \<times> nat option) list" where
  "status_menu st =
    (case status_counts st of (up, down, paused) \<Rightarrow>
      [(AllStatuses, None), (WithStatus Up, Some up), (WithStatus Down, Some down), (WithStatus Paused, Some paused)])"

section \<open>Rows and cards\<close>

definition view_matches :: "(string \<Rightarrow> string) \<Rightarrow> (string \<Rightarrow> string) \<Rightarrow> SystemsView \<Rightarrow> SystemRecord \<Rightarrow> bool" where
  "view_matches lower tr v s = fst (filterFn lower tr s (vs_columnFilter v) (vs_closure v))"

definition view_rows ::
  "SystemRecord TableEngine \<Rightarrow> (string \<Rightarrow> SystemRecord column) \<Rightarrow> (string \<Rightarrow> string) \<Rightarrow> (string \<Rightarrow> string) \<Rightarrow> AppState \<Rightarrow> SystemsView
    \<Rightarrow> SystemRecord row list" where
  "view_rows E cols lower tr st v = row_model E cols (view_matches lower tr v) (vs_sorting v) (filteredData (vs_statusFilter v) st)"

text \<open>Showing the rows runs the filter over the data, which fills its caches.\<close>

definition view_shown :: "(string \<Rightarrow> string) \<Rightarrow> (string \<Rightarrow> string) \<Rightarrow> AppState \<Rightarrow> SystemsView \<Rightarrow> SystemsView" where
  "view_shown lower tr st v =
    v\<lparr>vs_closure := snd (filter_rows lower tr (vs_columnFilter v) (filteredData (vs_statusFilter v) st) (vs_closure v))\<rparr>"

text \<open>
  A card of the grid: the link of the system, whether it is dimmed, whether it has the buttons, and
  the columns whose values it lists.
\<close>

record SystemCard =
  sk_id :: string
  sk_name :: string
  sk_dimmed :: bool
  sk_actions :: bool
  sk_fields :: "string list"

definition system_card :: "SystemsView \<Rightarrow> SystemRecord \<Rightarrow> SystemCard" where
  "system_card v s = \<lparr>sk_id = sys_id s, sk_name = sys_name s, sk_dimmed = (sys_status s = Paused),
     sk_actions = column_visible v ''actions'',
     sk_fields = map cd_id (filter (\<lambda>c. column_visible v (cd_id c) \<and> cd_id c \<noteq> ''system'' \<and> cd_id c \<noteq> ''actions'') SystemsTableColumns)\<rparr>"

definition visible_columns :: "SystemsView \<Rightarrow> string list" where
  "visible_columns v = map cd_id (filter (\<lambda>c. column_visible v (cd_id c)) SystemsTableColumns)"

datatype SystemsBody = TableRows "string list" "(nat \<times> SystemRecord) list" | Cards "SystemCard list" | NoSystems

definition systems_body ::
  "SystemRecord TableEngine \<Rightarrow> (string \<Rightarrow> SystemRecord column) \<Rightarrow> (string \<Rightarrow> string) \<Rightarrow> (string \<Rightarrow> string) \<Rightarrow> AppState \<Rightarrow> SystemsView
    \<Rightarrow> SystemsBody" where
  "systems_body E cols lower tr st v =
    (let rows = view_rows E cols lower tr st v in
     if rows = [] then NoSystems
     else if vs_viewMode v = ''table'' then TableRows (visible_columns v) rows
     else Cards (map (\<lambda>r. system_card v (snd r)) rows))"

text \<open>Everything the user and the page do to the state between mounting and unmounting.\<close>

datatype ViewAction = Type string | ChooseStatus StatusFilter | ChooseSort string | ChooseView string | ToggleField string bool | Render AppState

fun view_step :: "(string \<Rightarrow> string) \<Rightarrow> (string \<Rightarrow> string) \<Rightarrow> ViewAction \<Rightarrow> SystemsView \<Rightarrow> SystemsView" where
  "view_step lower tr (Type text) v = setFilter text v"
| "view_step lower tr (ChooseStatus f) v = setStatusFilter f v"
| "view_step lower tr (ChooseSort k) v = selectSort k v"
| "view_step lower tr (ChooseView m) v = setViewMode m v"
| "view_step lower tr (ToggleField k b) v = toggleVisibility k b v"
| "view_step lower tr (Render st) v = view_shown lower tr st v"

definition view_steps :: "(string \<Rightarrow> string) \<Rightarrow> (string \<Rightarrow> string) \<Rightarrow> ViewAction list \<Rightarrow> SystemsView \<Rightarrow> SystemsView" where
  "view_steps lower tr as v = foldl (\<lambda>v a. view_step lower tr a v) v as"

section \<open>Lemmas\<close>

definition view_inv :: "(string \<Rightarrow> string) \<Rightarrow> SystemsView \<Rightarrow> bool" where
  "view_inv lower v \<longleftrightarrow> filter_inv lower (vs_closure v) \<and> vs_columnFilter v = vs_filter v"

lemma init_filter_inv: "lower [] = [] \<Longrightarrow> filter_inv lower init_filter"
  by (simp add: filter_inv_def init_filter_def)

lemma view_step_inv: "lower [] = [] \<Longrightarrow> view_inv lower v \<Longrightarrow> view_inv lower (view_step lower tr a v)"
  by (cases a) (auto simp: view_inv_def setFilter_def setStatusFilter_def selectSort_def setViewMode_def toggleVisibility_def
      view_shown_def init_filter_inv filter_rows_correct)

lemma view_steps_inv: "lower [] = [] \<Longrightarrow> view_inv lower v \<Longrightarrow> view_inv lower (view_steps lower tr as v)"
  unfolding view_steps_def by (induction as arbitrary: v) (simp_all add: view_step_inv)

lemma view_mounted_inv: "lower [] = [] \<Longrightarrow> view_inv lower (view_mounted J w st stored)"
  by (simp add: view_inv_def view_mounted_def init_filter_inv split: prod.split)

lemma view_matches_eq: "view_inv lower v \<Longrightarrow> view_matches lower tr v s = row_matches lower tr (vs_filter v) s"
  using filterFn_correct [of lower "vs_closure v" tr s] by (simp add: view_matches_def view_inv_def)

definition offered_status :: "StatusFilter \<Rightarrow> bool" where
  "offered_status f \<longleftrightarrow> f \<in> {AllStatuses, WithStatus Up, WithStatus Down, WithStatus Paused}"

lemma offered_status_menu: "f \<in> fst ` set (status_menu st) \<longleftrightarrow> offered_status f"
  by (auto simp: status_menu_def status_counts_def offered_status_def)

text \<open>The rows of a status filter are the values of one store, keyed by the systems' ids.\<close>

lemma filteredData_store:
  assumes "systems_inv st" "offered_status f"
  shows "\<exists>m. filteredData f st = dvals m \<and> distinct (dkeys m)
    \<and> (\<forall>k s. dget m k = Some s \<longleftrightarrow> dget (st_allSystemsById st) k = Some s \<and> (f = AllStatuses \<or> f = WithStatus (sys_status s)))"
proof -
  define m where "m = (if f = AllStatuses then st_allSystemsById st else if f = WithStatus Up then st_upSystems st
    else if f = WithStatus Down then st_downSystems st else st_pausedSystems st)"
  have "filteredData f st = dvals m" by (simp add: filteredData_def m_def systems_def)
  moreover have "distinct (dkeys m)" using assms(1) by (simp add: systems_inv_def stores_distinct_def m_def)
  moreover have "dget m k = Some s \<longleftrightarrow> dget (st_allSystemsById st) k = Some s \<and> (f = AllStatuses \<or> f = WithStatus (sys_status s))" for k s
  proof -
    have w: "with_status x (st_allSystemsById st) k = Some s \<longleftrightarrow> dget (st_allSystemsById st) k = Some s \<and> sys_status s = x" for x
      by (auto simp: with_status_def split: option.splits if_splits)
    from assms(2) consider "f = AllStatuses" | "f = WithStatus Up" | "f = WithStatus Down" | "f = WithStatus Paused"
      by (auto simp: offered_status_def)
    then show ?thesis
      using assms(1) by cases (simp_all add: systems_inv_def partition_inv_def m_def w eq_commute [of _ "sys_status s"])
  qed
  ultimately show ?thesis by blast
qed

lemma ids_of_store:
  assumes "distinct (dkeys m)" "\<And>k s. dget m k = Some s \<Longrightarrow> sys_id s = k"
  shows "map sys_id (dvals m) = dkeys m"
proof -
  have "sys_id (snd e) = fst e" if "e \<in> set m" for e
  proof -
    have "dget m (fst e) = Some (snd e)" using that assms(1) by (simp add: map_of_is_SomeI)
    then show ?thesis by (rule assms(2))
  qed
  then show ?thesis by simp
qed

lemma filteredData_rows:
  assumes "systems_inv st" "offered_status f"
  shows "set (filteredData f st) = {s \<in> set (systems st). f = AllStatuses \<or> f = WithStatus (sys_status s)}"
    and "distinct (map sys_id (filteredData f st))"
proof -
  obtain m where m: "filteredData f st = dvals m" "distinct (dkeys m)"
    "\<And>k s. dget m k = Some s \<longleftrightarrow> dget (st_allSystemsById st) k = Some s \<and> (f = AllStatuses \<or> f = WithStatus (sys_status s))"
    using filteredData_store [OF assms] by blast
  have d: "distinct (dkeys (st_allSystemsById st))" using assms(1) by (simp add: systems_inv_def stores_distinct_def)
  show "set (filteredData f st) = {s \<in> set (systems st). f = AllStatuses \<or> f = WithStatus (sys_status s)}"
    unfolding m(1) systems_def dvals_of_dget [OF m(2)] dvals_of_dget [OF d] m(3)
    by blast
  have "sys_id s = k" if "dget m k = Some s" for k s
    using that assms(1) unfolding m(3) systems_inv_def ids_inv_def by blast
  from ids_of_store [OF m(2) this] show "distinct (map sys_id (filteredData f st))" unfolding m(1) using m(2) by (rule ssubst)
qed

section \<open>Properties\<close>

text \<open>
  C13. The table shows the right systems. In every state of the stores that messages can lead to, and
  whatever was typed, chosen and rendered before, the rows are exactly the known systems with the
  chosen status whose name or translated status contains the text in the search field, each once,
  and the page says that there are none exactly when it has no rows.
\<close>

theorem shown_systems:
  assumes "table_engine E" "nano_map setKey" "reachable setKey st" "lower [] = []"
    and "v = view_steps lower tr actions (view_mounted J w st0 stored)" "vs_statusFilter v \<in> fst ` set (status_menu st)"
  shows "snd ` set (view_rows E cols lower tr st v) =
      {s \<in> set (systems st). (vs_statusFilter v = AllStatuses \<or> vs_statusFilter v = WithStatus (sys_status s))
        \<and> row_matches lower tr (vs_filter v) s}
    \<and> distinct (map (sys_id \<circ> snd) (view_rows E cols lower tr st v))
    \<and> (systems_body E cols lower tr st v = NoSystems \<longleftrightarrow> view_rows E cols lower tr st v = [])"
proof (intro conjI)
  have inv: "view_inv lower v" unfolding assms(5) by (intro view_steps_inv view_mounted_inv assms(4))
  have sinv: "systems_inv st" by (rule reachable_inv [OF assms(2,3)])
  have off: "offered_status (vs_statusFilter v)" using assms(6) by (simp only: offered_status_menu)
  let ?d = "filteredData (vs_statusFilter v) st"
  show "snd ` set (view_rows E cols lower tr st v) =
      {s \<in> set (systems st). (vs_statusFilter v = AllStatuses \<or> vs_statusFilter v = WithStatus (sys_status s))
        \<and> row_matches lower tr (vs_filter v) s}"
    unfolding view_rows_def table_engine.row_model_set [OF assms(1)] filteredData_rows(1) [OF sinv off] view_matches_eq [OF inv]
    by blast
  have "mset (map (sys_id \<circ> snd) (view_rows E cols lower tr st v)) = mset (map sys_id (filter (view_matches lower tr v) ?d))"
    using table_engine.row_model_mset [OF assms(1), of cols "view_matches lower tr v" "vs_sorting v" ?d]
    unfolding view_rows_def by (simp only: mset_map image_mset.compositionality [symmetric]) 
  moreover have "distinct (map sys_id (filter (view_matches lower tr v) ?d))"
    using filteredData_rows(2) [OF sinv off] by (rule distinct_map_filter)
  ultimately show "distinct (map (sys_id \<circ> snd) (view_rows E cols lower tr st v))"
    using mset_eq_imp_distinct_iff by blast
  show "systems_body E cols lower tr st v = NoSystems \<longleftrightarrow> view_rows E cols lower tr st v = []"
    by (simp add: systems_body_def Let_def)
qed

definition sample_view :: SystemsView where
  "sample_view = view_steps id id [Type ''w'', Render sample_session, ChooseStatus (WithStatus Down)]
     (view_mounted \<lparr>sc_sorting = \<lambda>_. [], sc_parseSorting = \<lambda>_. [], sc_cols = \<lambda>_. [], sc_parseCols = \<lambda>_. [], sc_view = id, sc_parseView = id\<rparr>
       800 sample_session ([], []))"

theorem shown_systems_witness:
  "sys_name ` snd ` set (view_rows reference_engine (\<lambda>_. (\<lambda>_. True, \<lambda>_ _. 0)) id id sample_session sample_view) = {''web''}"
proof -
  have v: "vs_statusFilter sample_view = WithStatus Down" "vs_filter sample_view = ''w''"
    by (simp_all add: sample_view_def view_steps_def setStatusFilter_def view_shown_def setFilter_def view_mounted_def)
  have sys: "set (systems sample_session) = {sample_system ''a'' ''web'' Down}"
  proof -
    have "distinct (dkeys (st_allSystemsById sample_session))"
      using reachable_inv [OF nano_reference.nano_map_axioms sample_reachable] by (simp add: systems_inv_def stores_distinct_def)
    from dvals_of_dget [OF this] show ?thesis by (simp add: systems_def sample_byId)
  qed
  have "snd ` set (view_rows reference_engine (\<lambda>_. (\<lambda>_. True, \<lambda>_ _. 0)) id id sample_session sample_view)
      = {s \<in> set (systems sample_session). (WithStatus Down = AllStatuses \<or> WithStatus Down = WithStatus (sys_status s)) \<and> row_matches id id ''w'' s}"
    using shown_systems [OF reference_table.table_engine_axioms nano_reference.nano_map_axioms sample_reachable, of id sample_view id] v
    by (simp add: sample_view_def offered_status_menu offered_status_def del: view_steps_def)
  also have "\<dots> = {sample_system ''a'' ''web'' Down}"
    unfolding sys by (auto simp: row_matches_def statusTranslations_def sample_system_def)
  finally show ?thesis by (simp add: sample_system_def)
qed

text \<open>With the name column as the sort column the rows are in the order of the names, or its reverse.\<close>

theorem systems_sorted_by_name:
  assumes "table_engine E" "comparator loc UNIV" "vs_sorting v = [(''system'', desc)]"
  shows "sorted_wrt (\<lambda>a b. (if desc then loc (sys_name (snd b)) (sys_name (snd a)) else loc (sys_name (snd a)) (sys_name (snd b))) \<le> 0)
    (view_rows E (systems_columns loc auto) lower tr st v)"
proof -
  have "comparator (snd (systems_columns loc auto ''system'')) UNIV"
    using comparator_on [OF assms(2), of sys_name] by (simp add: systems_columns_def)
  moreover have "order_by (systems_columns loc auto ''system'') desc x y =
      (if desc then loc (sys_name y) (sys_name x) else loc (sys_name x) (sys_name y))" for x y
    by (simp add: order_by_def systems_columns_def)
  ultimately show ?thesis
    using table_engine.sorted_order [OF assms(1), where cols = "systems_columns loc auto" and k = "''system''" and desc = desc]
    unfolding view_rows_def row_model_def assms(3) by presburger
qed

text \<open>
  The order, the visible columns and the layout survive leaving the page: what was stored is what the
  component starts with the next time, in the same browser session.
\<close>

theorem view_persisted:
  assumes "\<And>x. sc_parseSorting J (sc_sorting J x) = x" "\<And>x. sc_parseCols J (sc_cols J x) = x" "\<And>x. sc_parseView J (sc_view J x) = x"
    and "\<And>x. sc_sorting J x \<noteq> []" "\<And>x. sc_cols J x \<noteq> []" "\<And>x. sc_view J x \<noteq> []"
  shows "let v' = view_mounted J w st (view_stored J v stored)
    in vs_sorting v' = vs_sorting v \<and> vs_columnVisibility v' = vs_columnVisibility v \<and> vs_viewMode v' = vs_viewMode v"
  using assms
  by (simp add: Let_def view_mounted_def view_stored_def browserStorage_init_def browserStorage_effect_def getStorageValue_def
      split: prod.split)

text \<open>
  Choosing a column in the sort menu twice turns the direction; every column with values is in the
  menu, and the column shown with an arrow is the one the rows are sorted by.
\<close>

theorem sort_menu_marks_column:
  "map fst (filter (\<lambda>e. fst (snd e) \<noteq> NoIcon) (sort_menu tr (selectSort k v))) =
     (if k \<in> set (map fst (sort_menu tr v)) then [k] else [])
   \<and> vs_sorting (selectSort k (selectSort k v)) = [(k, \<not> snd (hd (vs_sorting (selectSort k v))))]"
proof
  have ids: "map fst (sort_menu tr v) = [''system'', ''cpu'', ''memory'', ''disk'', ''gpu'', ''loadAverage'', ''net'', ''temp'', ''battery'',
      ''services'', ''updates'', ''uptime'', ''agent'']" for v
    by (simp add: sort_menu_def SystemsTableColumns_def plain_column_def)
  have icon: "fst (snd e) = sort_icon (vs_sorting v) (fst e)" if "e \<in> set (sort_menu tr v)" for e v
    using that by (auto simp: sort_menu_def)
  have "filter (\<lambda>e. fst (snd e) \<noteq> NoIcon) (sort_menu tr (selectSort k v)) = filter (\<lambda>e. fst e = k) (sort_menu tr (selectSort k v))"
    by (rule filter_cong [OF refl]) (auto simp: icon selectSort_def sort_select_def sort_icon_def split: if_splits)
  then have "map fst (filter (\<lambda>e. fst (snd e) \<noteq> NoIcon) (sort_menu tr (selectSort k v))) = filter (\<lambda>x. x = k) (map fst (sort_menu tr (selectSort k v)))"
    by (simp add: filter_map comp_def)
  also have "\<dots> = (if k \<in> set (map fst (sort_menu tr v)) then [k] else [])"
    unfolding ids by simp
  finally show "map fst (filter (\<lambda>e. fst (snd e) \<noteq> NoIcon) (sort_menu tr (selectSort k v))) =
     (if k \<in> set (map fst (sort_menu tr v)) then [k] else [])" .
  show "vs_sorting (selectSort k (selectSort k v)) = [(k, \<not> snd (hd (vs_sorting (selectSort k v))))]"
    by (simp add: selectSort_def sort_select_def)
qed

text \<open>The header and the sort menu agree: from one sort column both lead to the same order.\<close>

theorem header_agrees_with_menu:
  assumes "vs_sorting v = [s]"
  shows "header_click c (vs_sorting v) = vs_sorting (selectSort (cd_id c) v)"
  using assms by (cases s) (simp add: header_click_def isSorted_def selectSort_def sort_select_def)

end
