(* ===== verification/Fleet.thy ===== *)
theory Fleet
  imports Api Toast
begin

text \<open>
  Fleet actions, \<^verbatim>\<open>components/update-agents-button.tsx\<close>: start the agents' or the packages'
  updates on every system and report the results; and the reboot badge of a system's tile,
  \<^verbatim>\<open>components/systems-table/reboot-button.tsx\<close>. \<open>tr\<close> translates a message.
\<close>

datatype FleetAction = Agents | Updates | Security

definition action_url :: "FleetAction \<Rightarrow> string" where
  "action_url a = (case a of Agents \<Rightarrow> ''/api/beszel-ext/agents/update-all'' | _ \<Rightarrow> ''/api/beszel-ext/updates/apply-all'')"

text \<open>The body: none, empty, or \<open>securityOnly\<close>.\<close>

definition action_body :: "FleetAction \<Rightarrow> (string \<times> bool) list option" where
  "action_body a = (case a of Agents \<Rightarrow> None | Updates \<Rightarrow> Some [] | Security \<Rightarrow> Some [(''securityOnly'', True)])"

definition action_title :: "(string \<Rightarrow> string) \<Rightarrow> FleetAction \<Rightarrow> string" where
  "action_title tr a =
    (case a of Agents \<Rightarrow> tr ''Update all agents?'' | Updates \<Rightarrow> tr ''Apply ALL package updates on every system?''
     | Security \<Rightarrow> tr ''Apply security updates on every system?'')"

definition fleet_visible :: "string option \<Rightarrow> bool" where
  "fleet_visible role = isAdmin role"

text \<open>The results by system name, sorted into started, skipped and failed.\<close>

definition acted :: "(string, string) dict \<Rightarrow> string list" where
  "acted results = map fst (filter (\<lambda>(n, r). prefix ''updated'' r \<or> prefix ''running'' r) results)"

definition skipped :: "(string, string) dict \<Rightarrow> nat" where
  "skipped results = length (filter (\<lambda>(n, r). r = ''up to date'' \<or> r = ''no updates'') results)"

definition failed :: "(string, string) dict \<Rightarrow> string list" where
  "failed results = map (\<lambda>(n, r). n @ '' ('' @ drop 7 r @ '')'') (filter (\<lambda>(n, r). prefix ''error'' r) results)"

definition fleet_description :: "(string \<Rightarrow> string) \<Rightarrow> (string, string) dict \<Rightarrow> string" where
  "fleet_description tr results =
    join [CHR '' '', CHR 0xC2, CHR 0xB7, CHR '' '']
      (filter (\<lambda>s. s \<noteq> [])
        [if acted results \<noteq> [] then tr ''Started'' @ '': '' @ join '', '' (acted results) else [],
         if skipped results \<noteq> 0 then tr ''Nothing to do'' @ '': '' @ show_nat (skipped results) else [],
         if failed results \<noteq> [] then tr ''Failed'' @ '': '' @ join ''; '' (failed results) else []])"

text \<open>Confirmation and run: the dialog's action, and the toast of its outcome.\<close>

record FleetState =
  fl_confirm :: "FleetAction option"
  fl_running :: bool

definition fleet_run_start :: "FleetState \<Rightarrow> FleetState \<times> (string \<times> (string \<times> bool) list option) option" where
  "fleet_run_start s =
    (case fl_confirm s of None \<Rightarrow> (s, None)
     | Some a \<Rightarrow> (s\<lparr>fl_running := True\<rparr>, Some (action_url a, action_body a)))"

definition fleet_run_done ::
  "(string \<Rightarrow> string) \<Rightarrow> FleetAction \<Rightarrow> string option + (string, string) dict option \<Rightarrow> FleetState
   \<Rightarrow> FleetState \<times> (string \<times> string option \<times> int option)" where
  "fleet_run_done tr a response s =
    (s\<lparr>fl_running := False\<rparr>,
     (case response of
        Inr results \<Rightarrow>
          (if a = Agents then tr ''Agent updates pushed'' else tr ''Package updates started'',
           Some (fleet_description tr (case results of None \<Rightarrow> [] | Some r \<Rightarrow> r)), Some 12000)
      | Inl e \<Rightarrow> (tr ''Fleet action failed'', e, None)))"

text \<open>The reboot badge of a tile.\<close>

definition reboot_badge :: "string option \<Rightarrow> SystemRecord \<Rightarrow> bool" where
  "reboot_badge role s \<longleftrightarrow> si_rb (sys_info s) = Some True \<and> \<not> isReadOnlyUser role"

definition reboot_toast :: "(string \<Rightarrow> string) \<Rightarrow> SystemRecord \<Rightarrow> string option + unit \<Rightarrow> string \<times> string option" where
  "reboot_toast tr s result =
    (case result of Inr _ \<Rightarrow> (tr ''Rebooting'', Some (tr (sys_name s @ '' is restarting now''))) | Inl m \<Rightarrow> (tr ''Reboot failed'', m))"

section \<open>Properties\<close>

text \<open>The results the hub sends: started, nothing to do, or an error with its text.\<close>

definition hub_result :: "string \<Rightarrow> bool" where
  "hub_result r \<longleftrightarrow> prefix ''updated'' r \<or> prefix ''running'' r \<or> r = ''up to date'' \<or> r = ''no updates'' \<or> prefix ''error'' r"

lemma hub_result_kinds:
  "prefix ''error'' r \<Longrightarrow> \<not> prefix ''updated'' r \<and> \<not> prefix ''running'' r \<and> r \<noteq> ''up to date'' \<and> r \<noteq> ''no updates''"
  "r = ''up to date'' \<or> r = ''no updates'' \<Longrightarrow> \<not> prefix ''updated'' r \<and> \<not> prefix ''running'' r"
  by (auto simp: prefix_def)

text \<open>
  The report of a fleet action accounts for every system once: with results of the documented
  kinds, the systems started, those with nothing to do and those that failed add up to all systems,
  and a failure is reported with the system's name and the text after \<open>error: \<close>.
\<close>

theorem fleet_report_complete:
  assumes "\<forall>(n, r)\<in>set results. hub_result r"
  shows "length (acted results) + skipped results + length (failed results) = length results
    \<and> (\<forall>n m. (n, ''error: '' @ m) \<in> set results \<longrightarrow> n @ '' ('' @ m @ '')'' \<in> set (failed results))"
proof (intro conjI allI impI)
  show "length (acted results) + skipped results + length (failed results) = length results"
    using assms
  proof (induction results)
    case (Cons e es)
    obtain n r where e: "e = (n, r)" by fastforce
    from Cons.prems have "hub_result r" by (auto simp: e)
    with Cons show ?case using hub_result_kinds [of r]
      by (auto simp: e acted_def skipped_def failed_def hub_result_def)
  qed (simp add: acted_def skipped_def failed_def)
  fix n m assume "(n, ''error: '' @ m) \<in> set results"
  then show "n @ '' ('' @ m @ '')'' \<in> set (failed results)" by (force simp: failed_def)
qed

theorem fleet_report_complete_witness:
  "length (acted [(''a'', ''running''), (''b'', ''error: x'')]) + skipped [(''a'', ''running''), (''b'', ''error: x'')]
    + length (failed [(''a'', ''running''), (''b'', ''error: x'')]) = 2"
  using fleet_report_complete [of "[(''a'', ''running''), (''b'', ''error: x'')]"] by (simp add: hub_result_def)

end
