(* ===== verification/RowActions.thy ===== *)
theory RowActions
  imports SystemsView Fleet Pages
begin

text \<open>
  The button of a system's row with its menu and dialogs, \<open>ActionsButton\<close> of
  \<^verbatim>\<open>components/systems-table/systems-table-columns.tsx\<close>, inside the rows and cards of
  \<^verbatim>\<open>components/systems-table/systems-table.tsx\<close>. The state of a button lives as long as React's key of
  its row: in the table the key is the row's id, which is the position of the system in the data; in the
  grid it is the id of the system. A card of the grid also has the badge of a pending reboot with its own dialog,
  \<open>RebootButton\<close> of \<^verbatim>\<open>components/systems-table/reboot-button.tsx\<close>. \<open>mode\<close> is the view mode, \<open>role\<close>
  the user's role.
\<close>

section \<open>One button\<close>

text \<open>The states of the menu's dialogs, and of the dialog of the badge.\<close>

record RowMenu =
  rm_deleteOpen :: bool
  rm_rebootOpen :: bool
  rm_editOpen :: bool
  rm_editOpened :: bool
  rm_badgeOpen :: bool

definition new_menu :: RowMenu where
  "new_menu = \<lparr>rm_deleteOpen = False, rm_rebootOpen = False, rm_editOpen = False, rm_editOpened = False, rm_badgeOpen = False\<rparr>"

text \<open>What choosing an item does: it opens a dialog, copies a text, or sends its request at once.\<close>

datatype ItemEffect = Opens RowMenu | Copies string | Sends RowRequest

fun item_effect :: "SystemRecord \<Rightarrow> RowItem \<Rightarrow> RowMenu \<Rightarrow> ItemEffect" where
  "item_effect s Edit m = Opens (m\<lparr>rm_editOpen := True, rm_editOpened := True\<rparr>)"
| "item_effect s Reboot m = Opens (m\<lparr>rm_rebootOpen := True\<rparr>)"
| "item_effect s DeleteSystem m = Opens (m\<lparr>rm_deleteOpen := True\<rparr>)"
| "item_effect s CopyName m = Copies (sys_name s)"
| "item_effect s CopyHost m = Copies (sys_host s)"
| "item_effect s PauseResume m = Sends (UpdateStatus (sys_id s) (toggled_status (sys_status s)))"
| "item_effect s UpdateAgent m = Sends (PostAgentUpdate (sys_id s))"
| "item_effect s ApplyAll m = Sends (PostApply (sys_id s) False)"
| "item_effect s ApplySecurity m = Sends (PostApply (sys_id s) True)"

definition item_label :: "(string \<Rightarrow> string) \<Rightarrow> SystemRecord \<Rightarrow> RowItem \<Rightarrow> string" where
  "item_label tr s i =
    (case i of
       Edit \<Rightarrow> tr ''Edit''
     | PauseResume \<Rightarrow> if sys_status s = Paused then tr ''Resume'' else tr ''Pause''
     | CopyName \<Rightarrow> tr ''Copy name''
     | CopyHost \<Rightarrow> tr ''Copy host''
     | UpdateAgent \<Rightarrow> tr ''Update agent''
     | ApplyAll \<Rightarrow> tr ''Apply all updates'' @ '' ('' @ show_int (int_or_zero (si_pu (sys_info s))) @ '')''
     | ApplySecurity \<Rightarrow> tr ''Apply security updates'' @ '' ('' @ show_int (int_or_zero (si_pus (sys_info s))) @ '')''
     | Reboot \<Rightarrow> tr ''Reboot system''
     | DeleteSystem \<Rightarrow> tr ''Delete'')"

record ConfirmDialog =
  cd_title :: string
  cd_description :: string
  cd_cancel :: string
  cd_action :: string

definition reboot_dialog :: "(string \<Rightarrow> string) \<Rightarrow> bool \<Rightarrow> SystemRecord \<Rightarrow> RowMenu \<Rightarrow> ConfirmDialog option" where
  "reboot_dialog tr needsReboot s m =
    (if rm_rebootOpen m
     then Some \<lparr>cd_title = tr (''Reboot '' @ sys_name s @ ''?''),
       cd_description = tr (if needsReboot then ''This system needs a reboot to finish applying updates.'' else ''The host will restart immediately.'')
         @ '' '' @ tr ''It will show as down for a short time while it comes back up.'',
       cd_cancel = tr ''Cancel'', cd_action = tr ''Reboot''\<rparr>
     else None)"

definition delete_dialog :: "(string \<Rightarrow> string) \<Rightarrow> SystemRecord \<Rightarrow> RowMenu \<Rightarrow> ConfirmDialog option" where
  "delete_dialog tr s m =
    (if rm_deleteOpen m
     then Some \<lparr>cd_title = tr (''Are you sure you want to delete '' @ sys_name s @ ''?''),
       cd_description = tr (''This action cannot be undone. This will permanently delete all current records for '' @ sys_name s @ '' from the database.''),
       cd_cancel = tr ''Cancel'', cd_action = tr ''Continue''\<rparr>
     else None)"

text \<open>The badge renders nothing, its dialog included, unless a reboot is pending and the user may reboot.\<close>

definition badge_dialog :: "(string \<Rightarrow> string) \<Rightarrow> string option \<Rightarrow> SystemRecord \<Rightarrow> RowMenu \<Rightarrow> ConfirmDialog option" where
  "badge_dialog tr role s m =
    (if reboot_badge role s \<and> rm_badgeOpen m
     then Some \<lparr>cd_title = tr (''Reboot '' @ sys_name s @ ''?''),
       cd_description = tr ''This system needs a reboot to finish applying updates. It will show as down for a short time while it comes back up.'',
       cd_cancel = tr ''Cancel'', cd_action = tr ''Reboot''\<rparr>
     else None)"

text \<open>The edit dialog is rendered from its first opening on.\<close>

definition edit_dialog_system :: "SystemRecord \<Rightarrow> RowMenu \<Rightarrow> (SystemRecord \<times> bool) option" where
  "edit_dialog_system s m = (if rm_editOpened m then Some (s, rm_editOpen m) else None)"

section \<open>The rows\<close>

definition row_key :: "string \<Rightarrow> SystemRecord row \<Rightarrow> string" where
  "row_key mode r = (if mode = ''table'' then show_nat (fst r) else sys_id (snd r))"

record SystemRows =
  rw_rows :: "SystemRecord row list"
  rw_menus :: "(string, RowMenu) dict"
  rw_copied :: "string list"
  rw_sent :: "RowRequest list"

definition rows_mounted :: "SystemRecord row list \<Rightarrow> SystemRows" where
  "rows_mounted rows = \<lparr>rw_rows = rows, rw_menus = [], rw_copied = [], rw_sent = []\<rparr>"

definition menu_of :: "SystemRows \<Rightarrow> string \<Rightarrow> RowMenu" where
  "menu_of w k = (case dget (rw_menus w) k of None \<Rightarrow> new_menu | Some m \<Rightarrow> m)"

definition row_system :: "string \<Rightarrow> SystemRows \<Rightarrow> string \<Rightarrow> SystemRecord option" where
  "row_system mode w k = map_option snd (find (\<lambda>r. row_key mode r = k) (rw_rows w))"

datatype RowsEvent =
    Choose string RowItem
  | ConfirmReboot string
  | ConfirmDelete string
  | CloseReboot string
  | CloseDelete string
  | CloseEdit string
  | ClickBadge string
  | ConfirmBadge string
  | CloseBadge string
  | RowsChange "SystemRecord row list"

definition set_menu :: "string \<Rightarrow> (RowMenu \<Rightarrow> RowMenu) \<Rightarrow> SystemRows \<Rightarrow> SystemRows" where
  "set_menu k g w = w\<lparr>rw_menus := dset k (g (menu_of w k)) (rw_menus w)\<rparr>"

definition choose_item :: "string option \<Rightarrow> SystemRecord \<Rightarrow> string \<Rightarrow> RowItem \<Rightarrow> SystemRows \<Rightarrow> SystemRows" where
  "choose_item role s k i w =
    (if i \<notin> set (menu_items role s) then w
     else case item_effect s i (menu_of w k) of
       Opens m \<Rightarrow> set_menu k (\<lambda>_. m) w
     | Copies t \<Rightarrow> w\<lparr>rw_copied := rw_copied w @ [t]\<rparr>
     | Sends r \<Rightarrow> w\<lparr>rw_sent := rw_sent w @ [r]\<rparr>)"

text \<open>Confirming sends the request for the system the row shows by then, and closes the dialog.\<close>

definition confirm_reboot :: "SystemRecord \<Rightarrow> string \<Rightarrow> SystemRows \<Rightarrow> SystemRows" where
  "confirm_reboot s k w =
    (if rm_rebootOpen (menu_of w k)
     then set_menu k (\<lambda>m. m\<lparr>rm_rebootOpen := False\<rparr>) (w\<lparr>rw_sent := rw_sent w @ [PostReboot (sys_id s)]\<rparr>) else w)"

definition confirm_delete :: "SystemRecord \<Rightarrow> string \<Rightarrow> SystemRows \<Rightarrow> SystemRows" where
  "confirm_delete s k w =
    (if rm_deleteOpen (menu_of w k)
     then set_menu k (\<lambda>m. m\<lparr>rm_deleteOpen := False\<rparr>) (w\<lparr>rw_sent := rw_sent w @ [DeleteRecord (sys_id s)]\<rparr>) else w)"

text \<open>The badge and its dialog, which the cards of the grid have.\<close>

definition badge_shown :: "string \<Rightarrow> string option \<Rightarrow> SystemRecord \<Rightarrow> bool" where
  "badge_shown mode role s \<longleftrightarrow> mode \<noteq> ''table'' \<and> reboot_badge role s"

definition click_badge :: "string \<Rightarrow> string option \<Rightarrow> SystemRecord \<Rightarrow> string \<Rightarrow> SystemRows \<Rightarrow> SystemRows" where
  "click_badge mode role s k w = (if badge_shown mode role s then set_menu k (\<lambda>m. m\<lparr>rm_badgeOpen := True\<rparr>) w else w)"

definition close_badge :: "string \<Rightarrow> string option \<Rightarrow> SystemRecord \<Rightarrow> string \<Rightarrow> SystemRows \<Rightarrow> SystemRows" where
  "close_badge mode role s k w = (if badge_shown mode role s then set_menu k (\<lambda>m. m\<lparr>rm_badgeOpen := False\<rparr>) w else w)"

definition confirm_badge :: "string \<Rightarrow> string option \<Rightarrow> SystemRecord \<Rightarrow> string \<Rightarrow> SystemRows \<Rightarrow> SystemRows" where
  "confirm_badge mode role s k w =
    (if badge_shown mode role s \<and> rm_badgeOpen (menu_of w k)
     then set_menu k (\<lambda>m. m\<lparr>rm_badgeOpen := False\<rparr>) (w\<lparr>rw_sent := rw_sent w @ [PostReboot (sys_id s)]\<rparr>) else w)"

text \<open>Other rows: buttons whose key is no longer there are unmounted and lose their state.\<close>

definition rows_change :: "string \<Rightarrow> SystemRecord row list \<Rightarrow> SystemRows \<Rightarrow> SystemRows" where
  "rows_change mode rows w = w\<lparr>rw_rows := rows, rw_menus := filter (\<lambda>(k, m). k \<in> row_key mode ` set rows) (rw_menus w)\<rparr>"

definition with_row :: "string \<Rightarrow> string \<Rightarrow> (SystemRecord \<Rightarrow> SystemRows \<Rightarrow> SystemRows) \<Rightarrow> SystemRows \<Rightarrow> SystemRows" where
  "with_row mode k g w = (case row_system mode w k of None \<Rightarrow> w | Some s \<Rightarrow> g s w)"

fun rows_event :: "string \<Rightarrow> string option \<Rightarrow> RowsEvent \<Rightarrow> SystemRows \<Rightarrow> SystemRows" where
  "rows_event mode role (Choose k i) w = with_row mode k (\<lambda>s. choose_item role s k i) w"
| "rows_event mode role (ConfirmReboot k) w = with_row mode k (\<lambda>s. confirm_reboot s k) w"
| "rows_event mode role (ConfirmDelete k) w = with_row mode k (\<lambda>s. confirm_delete s k) w"
| "rows_event mode role (CloseReboot k) w = with_row mode k (\<lambda>s. set_menu k (\<lambda>m. m\<lparr>rm_rebootOpen := False\<rparr>)) w"
| "rows_event mode role (CloseDelete k) w = with_row mode k (\<lambda>s. set_menu k (\<lambda>m. m\<lparr>rm_deleteOpen := False\<rparr>)) w"
| "rows_event mode role (CloseEdit k) w = with_row mode k (\<lambda>s. set_menu k (\<lambda>m. m\<lparr>rm_editOpen := False\<rparr>)) w"
| "rows_event mode role (ClickBadge k) w = with_row mode k (\<lambda>s. click_badge mode role s k) w"
| "rows_event mode role (ConfirmBadge k) w = with_row mode k (\<lambda>s. confirm_badge mode role s k) w"
| "rows_event mode role (CloseBadge k) w = with_row mode k (\<lambda>s. close_badge mode role s k) w"
| "rows_event mode role (RowsChange rows) w = rows_change mode rows w"

section \<open>Lemmas\<close>

lemma menu_of_set [simp]: "menu_of (set_menu k g w) j = (if j = k then g (menu_of w k) else menu_of w j)"
  by (simp add: menu_of_def set_menu_def)

lemma set_menu_fields [simp]: "rw_sent (set_menu k g w) = rw_sent w" "rw_rows (set_menu k g w) = rw_rows w"
  by (simp_all add: set_menu_def)

lemma menu_of_update [simp]: "menu_of (w\<lparr>rw_sent := r\<rparr>) k = menu_of w k" "menu_of (w\<lparr>rw_copied := c\<rparr>) k = menu_of w k"
  by (simp_all add: menu_of_def)

lemma rows_change_menu: "menu_of (rows_change mode rows w) k = menu_of w k \<or> menu_of (rows_change mode rows w) k = new_menu"
proof -
  have "map_of (filter (\<lambda>(k, m). P k) xs) k = (if P k then map_of xs k else None)" for P and xs :: "(string \<times> RowMenu) list"
    by (induction xs) auto
  then show ?thesis by (auto simp: menu_of_def rows_change_def split: option.split)
qed

lemma row_system_key: "row_system mode w k = Some s \<Longrightarrow> \<exists>i. (i, s) \<in> set (rw_rows w) \<and> row_key mode (i, s) = k"
  by (auto simp: row_system_def find_Some_iff) (metis nth_mem prod.collapse)

lemma row_system_grid: "row_system ''grid'' w k = Some s \<Longrightarrow> sys_id s = k"
  by (auto dest!: row_system_key simp: row_key_def)

lemma new_menu_closed [simp]: "\<not> rm_deleteOpen new_menu" "\<not> rm_rebootOpen new_menu" "\<not> rm_editOpen new_menu" "\<not> rm_editOpened new_menu" "\<not> rm_badgeOpen new_menu"
  by (simp_all add: new_menu_def)

lemma rows_change_sent [simp]: "rw_sent (rows_change mode rows w) = rw_sent w"
  by (simp add: rows_change_def)

lemma rows_change_open:
  "rm_deleteOpen (menu_of (rows_change mode rows w) k) \<Longrightarrow> rm_deleteOpen (menu_of w k)"
  "rm_rebootOpen (menu_of (rows_change mode rows w) k) \<Longrightarrow> rm_rebootOpen (menu_of w k)"
  "rm_badgeOpen (menu_of (rows_change mode rows w) k) \<Longrightarrow> rm_badgeOpen (menu_of w k)"
  using rows_change_menu [of mode rows w k] by auto

lemma choose_item_counts [simp]:
  "count_list (rw_sent (choose_item role s k i w)) (DeleteRecord x) = count_list (rw_sent w) (DeleteRecord x)"
  "count_list (rw_sent (choose_item role s k i w)) (PostReboot x) = count_list (rw_sent w) (PostReboot x)"
  by (cases i; simp add: choose_item_def)+

lemma choose_item_opens:
  "rm_deleteOpen (menu_of (choose_item role s k i w) x) \<Longrightarrow> rm_deleteOpen (menu_of w x) \<or> x = k \<and> i = DeleteSystem"
  "rm_rebootOpen (menu_of (choose_item role s k i w) x) \<Longrightarrow> rm_rebootOpen (menu_of w x) \<or> x = k \<and> i = Reboot"
  "rm_badgeOpen (menu_of (choose_item role s k i w) x) = rm_badgeOpen (menu_of w x)"
  by (cases i; auto simp: choose_item_def split: if_splits)+

lemmas rows_defs = with_row_def confirm_reboot_def confirm_delete_def click_badge_def close_badge_def confirm_badge_def
lemmas rows_opens = rows_change_open choose_item_opens(1,2)

text \<open>In the grid both requests are behind their dialogs, a reboot behind two of them.\<close>

interpretation grid_delete: guarded_request "rows_event ''grid'' role" "\<lambda>w. count_list (rw_sent w) (DeleteRecord x)"
  "\<lambda>w. of_bool (rm_deleteOpen (menu_of w x))" "\<lambda>e. e = Choose x DeleteSystem" "\<lambda>e. e = ConfirmDelete x" for role x
proof (unfold_locales, goal_cases)
  case (1 e w)
  then show ?case by (cases e) (auto simp: rows_defs dest: row_system_grid rows_opens split: option.split)
next
  case (2 e w)
  then show ?case by (cases e) (auto simp: rows_defs dest: row_system_grid split: option.split)
qed

definition reboot_dialogs :: "string \<Rightarrow> SystemRows \<Rightarrow> nat" where
  "reboot_dialogs x w = of_bool (rm_rebootOpen (menu_of w x)) + of_bool (rm_badgeOpen (menu_of w x))"

lemma reboot_dialogs_change: "reboot_dialogs x (rows_change mode rows w) \<le> reboot_dialogs x w"
  using rows_change_menu [of mode rows w x] by (auto simp: reboot_dialogs_def)

lemma reboot_dialogs_choose: "reboot_dialogs x (choose_item role s k i w) \<le> reboot_dialogs x w + of_bool (x = k \<and> i = Reboot)"
  using choose_item_opens(2,3) [of role s k i w x] by (auto simp: reboot_dialogs_def)

interpretation grid_reboot: guarded_request "rows_event ''grid'' role" "\<lambda>w. count_list (rw_sent w) (PostReboot x)"
  "reboot_dialogs x" "\<lambda>e. e = Choose x Reboot \<or> e = ClickBadge x" "\<lambda>e. e = ConfirmReboot x \<or> e = ConfirmBadge x" for role x
proof (unfold_locales, goal_cases)
  case (1 e w)
  show ?case
  proof (cases e)
    case (Choose k i)
    then show ?thesis using reboot_dialogs_choose [of x role _ k i w] by (auto simp: rows_defs split: option.split)
  next
    case (RowsChange rows)
    then show ?thesis using reboot_dialogs_change [of x "''grid''" rows w] by simp
  qed (auto simp: rows_defs reboot_dialogs_def dest: row_system_grid split: option.split)
next
  case (2 e w)
  then show ?case by (cases e) (auto simp: rows_defs dest: row_system_grid split: option.split)
qed

text \<open>A read-only user opens no dialog, in either layout.\<close>

definition quiet_rows :: "SystemRows \<Rightarrow> bool" where
  "quiet_rows w \<longleftrightarrow> rw_sent w = [] \<and> (\<forall>k. \<not> rm_deleteOpen (menu_of w k) \<and> \<not> rm_rebootOpen (menu_of w k) \<and> \<not> rm_badgeOpen (menu_of w k))"

lemma readonly_choose:
  assumes "isReadOnlyUser role"
  shows "rw_sent (choose_item role s k i w) = rw_sent w" "menu_of (choose_item role s k i w) x = menu_of w x"
  using assms by (cases i; simp add: choose_item_def menu_items_def Let_def)+

interpretation readonly_rows: event_page "rows_event mode (Some ''readonly'')" "\<lambda>w. \<exists>rows. w = rows_mounted rows" quiet_rows for mode
proof (unfold_locales, goal_cases)
  case (1 w)
  then show ?case by (auto simp: quiet_rows_def rows_mounted_def menu_of_def)
next
  case (2 w e)
  have "isReadOnlyUser (Some ''readonly'')" by (simp add: isReadOnlyUser_def)
  with 2 show ?case
    by (cases e) (auto simp: quiet_rows_def rows_defs readonly_choose badge_shown_def reboot_badge_def dest: rows_change_open split: option.split)
qed

section \<open>Properties\<close>

text \<open>
  C24. In the grid a system is deleted only if that was chosen in its own menu and confirmed in its own
  dialog, and rebooted only if that was chosen in its menu or with its badge and confirmed in one of their dialogs:
  whatever else is used, in whatever order, and however the systems change in between, it happens at most once for every
  time it was asked for and for every time it was confirmed.
\<close>

theorem grid_requests_confirmed:
  "let w = run (rows_event ''grid'' role) es (rows_mounted rows) in
    count_list (rw_sent w) (DeleteRecord x)
      \<le> min (length (filter (\<lambda>e. e = Choose x DeleteSystem) es)) (length (filter (\<lambda>e. e = ConfirmDelete x) es))
    \<and> count_list (rw_sent w) (PostReboot x)
      \<le> min (length (filter (\<lambda>e. e = Choose x Reboot \<or> e = ClickBadge x) es))
            (length (filter (\<lambda>e. e = ConfirmReboot x \<or> e = ConfirmBadge x) es))"
proof -
  have "menu_of (rows_mounted rows) x = new_menu" "rw_sent (rows_mounted rows) = []" by (simp_all add: rows_mounted_def menu_of_def)
  then show ?thesis
    using grid_delete.nothing_unasked [of "rows_mounted rows" x role es] grid_reboot.nothing_unasked [of "rows_mounted rows" x role es]
    by (simp add: Let_def reboot_dialogs_def)
qed

text \<open>
  The dialog of the badge is forgotten but not closed when no reboot is pending any more: with the next pending reboot
  it is open again.
\<close>

theorem badge_dialog_returns:
  assumes "reboot_badge role s" "sys_id s' = sys_id s" "\<not> reboot_badge role s'"
  shows "let w = run (rows_event ''grid'' role) [ClickBadge (sys_id s), RowsChange [(0, s')]] (rows_mounted [(0, s)]);
      w' = rows_event ''grid'' role (RowsChange [(0, s)]) w
    in badge_dialog tr role s' (menu_of w (sys_id s)) = None \<and> badge_dialog tr role s (menu_of w' (sys_id s)) \<noteq> None"
  using assms
  by (simp add: rows_mounted_def with_row_def row_system_def row_key_def click_badge_def badge_shown_def rows_change_def set_menu_def menu_of_def
      badge_dialog_def Let_def)

text \<open>A read-only user sends nothing with the buttons of the rows, in the table or in the grid.\<close>

theorem readonly_rows_silent: "rw_sent (run (rows_event mode (Some ''readonly'')) es (rows_mounted rows)) = []"
  using readonly_rows.inv_run [of "rows_mounted rows" mode es] by (auto simp: quiet_rows_def)

text \<open>
  C36. In the table the dialogs stay with the position: when the first of three systems goes away while the
  dialog to delete the second is open, the dialog asks about the third, and confirming deletes that one.
\<close>

theorem table_dialog_moves:
  assumes "table_engine E" "\<not> isReadOnlyUser role"
  shows "let rows = (\<lambda>data. row_model E cols (\<lambda>_. True) [] data);
      w = run (rows_event ''table'' role) [Choose ''1'' DeleteSystem, RowsChange (rows [b, c])] (rows_mounted (rows [a, b, c]))
    in row_system ''table'' (rows_mounted (rows [a, b, c])) ''1'' = Some b
    \<and> map_option cd_title (Option.bind (row_system ''table'' w ''1'') (\<lambda>s. delete_dialog tr s (menu_of w ''1'')))
        = Some (tr (''Are you sure you want to delete '' @ sys_name c @ ''?''))
    \<and> rw_sent (rows_event ''table'' role (ConfirmDelete ''1'') w) = [DeleteRecord (sys_id c)]"
proof -
  have rows: "row_model E cols (\<lambda>_. True) [] data = enumerate 0 data" for data
    by (simp add: row_model_def table_engine.core [OF assms(1)] table_engine.filtered [OF assms(1)] table_engine.sorted_none [OF assms(1)])
  have n: "show_nat 0 = ''0''" "show_nat (Suc 0) = ''1''" "show_nat (Suc (Suc 0)) = ''2''" by code_simp+
  have "DeleteSystem \<in> set (menu_items role s)" for s using assms(2) by (simp add: menu_items_def Let_def)
  then show ?thesis
    by (simp add: rows n row_system_def row_key_def with_row_def choose_item_def rows_mounted_def rows_change_def
        set_menu_def menu_of_def confirm_delete_def delete_dialog_def Let_def)
qed

theorem table_dialog_moves_witness:
  "rw_sent (run (rows_event ''table'' (Some ''user''))
     [Choose ''1'' DeleteSystem, RowsChange (enumerate 0 [sample_system ''b'' ''db'' Up, sample_system ''c'' ''web'' Up]), ConfirmDelete ''1'']
     (rows_mounted (enumerate 0 [sample_system ''a'' ''mail'' Up, sample_system ''b'' ''db'' Up, sample_system ''c'' ''web'' Up])))
   = [DeleteRecord ''c'']"
  using table_dialog_moves [OF reference_table.table_engine_axioms, of "Some ''user''" "\<lambda>_. (\<lambda>_. True, \<lambda>_ _. 0)" "sample_system ''b'' ''db'' Up"
      "sample_system ''c'' ''web'' Up" "sample_system ''a'' ''mail'' Up" id]
  by (simp add: isReadOnlyUser_def row_model_def reference_engine_def Let_def sample_system_def)

end
