(* ===== verification/Charts.thy ===== *)
theory Charts
  imports SystemDetail
begin

text \<open>
  The charts, \<^verbatim>\<open>components/charts\<close> and \<^verbatim>\<open>components/ui/chart.tsx\<close>: what they plot, in
  which order and colour, which series a filter dims, and the texts of ticks and tooltips. Drawing is
  Recharts'. \<open>num\<close> prints a number, \<open>dec v d\<close> is \<open>decimalString(v, d)\<close>, \<open>lower\<close> is
  \<open>toLowerCase\<close>. An object or \<open>Map\<close> is an association list in insertion order, numbers are
  rationals.
\<close>

section \<open>Totals and colours\<close>

definition add_to :: "(string, rat) dict \<Rightarrow> string \<times> rat \<Rightarrow> (string, rat) dict" where
  "add_to totals e = dset (fst e) ((case dget totals (fst e) of None \<Rightarrow> 0 | Some v \<Rightarrow> v) + snd e) totals"

definition totals_of :: "(string \<times> rat) list \<Rightarrow> (string, rat) dict" where
  "totals_of es = foldl add_to [] es"

text \<open>The names by descending total.\<close>

definition by_total :: "(string, rat) dict \<Rightarrow> string list" where
  "by_total totals = map fst (js_sort (\<lambda>a b. snd b - snd a) totals)"

text \<open>\<open>((i * 360) / n) % 360\<close>\<close>

definition hue :: "nat \<Rightarrow> nat \<Rightarrow> rat" where
  "hue i n = (let h = of_nat (i * 360) / of_nat n in h - 360 * of_int \<lfloor>h / 360\<rfloor>)"

definition colored :: "string list \<Rightarrow> (string \<times> rat) list" where
  "colored names = map (\<lambda>i. (names ! i, hue i (length names))) [0..<length names]"

section \<open>Containers\<close>

definition sent_bytes :: "ContainerStats \<Rightarrow> rat" where
  "sent_bytes c = (case cs_b c of Some (s, r) \<Rightarrow> s | None \<Rightarrow> mb (cs_ns c))"

definition recv_bytes :: "ContainerStats \<Rightarrow> rat" where
  "recv_bytes c = (case cs_b c of Some (s, r) \<Rightarrow> r | None \<Rightarrow> mb (cs_nr c))"

text \<open>What a container adds to a chart's total.\<close>

definition usage_of :: "ChartType \<Rightarrow> ContainerStats \<Rightarrow> rat" where
  "usage_of chartType c =
    (case chartType of CT_CPU \<Rightarrow> cs_c c | CT_Memory \<Rightarrow> cs_m c | _ \<Rightarrow> sent_bytes c + recv_bytes c)"

text \<open>The containers of a data point; the field \<open>created\<close> is skipped.\<close>

definition point_usage :: "ChartType \<Rightarrow> (string, ContainerStats) dict StatsRec \<Rightarrow> (string \<times> rat) list" where
  "point_usage chartType r =
    map (\<lambda>(n, c). (n, usage_of chartType c))
      (filter (\<lambda>(n, c). n \<noteq> ''created'') (case sr_stats r of None \<Rightarrow> [] | Some d \<Rightarrow> d))"

definition totalUsage :: "ChartType \<Rightarrow> (string, ContainerStats) dict StatsRec list \<Rightarrow> (string, rat) dict" where
  "totalUsage chartType containerData = totals_of (concat (map (point_usage chartType) containerData))"

definition containerChartConfig :: "ChartType \<Rightarrow> (string, ContainerStats) dict StatsRec list \<Rightarrow> (string \<times> rat) list" where
  "containerChartConfig chartType containerData = colored (by_total (totalUsage chartType containerData))"

definition useContainerChartConfigs ::
  "(string, ContainerStats) dict StatsRec list \<Rightarrow> (string \<times> rat) list \<times> (string \<times> rat) list \<times> (string \<times> rat) list" where
  "useContainerChartConfigs d = (containerChartConfig CT_CPU d, containerChartConfig CT_Memory d, containerChartConfig CT_Network d)"

text \<open>The terms of a filter, and the series it dims.\<close>

definition filter_terms :: "(string \<Rightarrow> string) \<Rightarrow> string \<Rightarrow> string list" where
  "filter_terms lower flt = filter (\<lambda>w. w \<noteq> []) (split_on CHR '' '' (lower flt))"

definition filteredKeys :: "(string \<Rightarrow> string) \<Rightarrow> string \<Rightarrow> (string \<times> rat) list \<Rightarrow> string list" where
  "filteredKeys lower flt chartConfig =
    (if flt = [] then []
     else filter (\<lambda>key. \<not> list_ex (str_includes (lower key)) (filter_terms lower flt)) (map fst chartConfig))"

definition area_opacity :: "bool \<Rightarrow> rat \<times> rat \<times> rat" where
  "area_opacity filtered = (if filtered then (1 / 20, 1 / 10, 0) else (2 / 5, 1, 1))"

definition container_tick :: "(rat \<Rightarrow> string) \<Rightarrow> UserSettings \<Rightarrow> ChartType \<Rightarrow> rat \<Rightarrow> string" where
  "container_tick num settings chartType val =
    (if chartType = CT_CPU then num (toFixedFloat val 2) @ ''%''
     else (let net = (chartType = CT_Network);
               (v, u) = formatBytes val net (if net then unit_or (us_unitNet settings) Bytes else Bytes) (\<not> net)
           in num (toFixedFloat v (if v \<ge> 10 then 0 else 1)) @ '' '' @ u))"

text \<open>Sent and received bytes of a container in the tooltip, of one container or of all that are not dimmed.\<close>

definition getRxTxBytes :: "ContainerStats option \<Rightarrow> rat \<times> rat" where
  "getRxTxBytes c = (case c of None \<Rightarrow> (0, 0) | Some x \<Rightarrow> (sent_bytes x, recv_bytes x))"

definition rxtx_total :: "string list \<Rightarrow> (string, ContainerStats) dict \<Rightarrow> rat \<times> rat" where
  "rxtx_total dimmed payload =
    foldl (\<lambda>(s, r) (k, c). if k \<in> set dimmed then (s, r) else (s + sent_bytes c, r + recv_bytes c)) (0, 0) payload"

definition rxtx_tooltip :: "string list \<Rightarrow> (string, ContainerStats) dict \<Rightarrow> string \<Rightarrow> rat \<times> rat" where
  "rxtx_tooltip dimmed payload key =
    (if key = ''__total__'' then rxtx_total dimmed payload else getRxTxBytes (dget payload key))"

definition formatRxTx :: "(rat \<Rightarrow> nat \<Rightarrow> string) \<Rightarrow> UserSettings \<Rightarrow> rat \<times> rat \<Rightarrow> string" where
  "formatRxTx dec settings sr =
    (let (sv, su) = formatBytes (fst sr) True (unit_or (us_unitNet settings) Bytes) False;
         (rv, ru) = formatBytes (snd sr) True (unit_or (us_unitNet settings) Bytes) False
     in dec rv 2 @ '' '' @ ru @ '' rx '' @ dec sv 2 @ '' '' @ su @ '' tx'')"

text \<open>The plotted value of a container; \<open>null\<close> where it has none.\<close>

definition dataFunction :: "ChartType \<Rightarrow> string \<Rightarrow> (string, ContainerStats) dict \<Rightarrow> rat option" where
  "dataFunction chartType key d =
    map_option (\<lambda>c. usage_of chartType c) (dget d key)"

section \<open>Axis width\<close>

text \<open>
  \<open>useYAxisWidth\<close> measures the longest label so far, in a timer that a longer label replaces. The
  width is React state; \<open>maxChars\<close> and the timer belong to one rendering. \<open>offsetWidth\<close> is the width
  in pixels.
\<close>

record YAxis =
  ya_width :: int
  ya_maxChars :: nat
  ya_timeout :: "string option"

definition yaxis_render :: "YAxis \<Rightarrow> YAxis" where
  "yaxis_render y = y\<lparr>ya_maxChars := 0, ya_timeout := None\<rparr>"

definition updateYAxisWidth :: "string \<Rightarrow> YAxis \<Rightarrow> string \<times> YAxis" where
  "updateYAxisWidth str y =
    (str, if length str > ya_maxChars y then y\<lparr>ya_maxChars := length str, ya_timeout := Some str\<rparr> else y)"

definition yaxis_timeout :: "(string \<Rightarrow> int) \<Rightarrow> YAxis \<Rightarrow> YAxis" where
  "yaxis_timeout offsetWidth y =
    (case ya_timeout y of
       None \<Rightarrow> y
     | Some str \<Rightarrow> y\<lparr>ya_timeout := None, ya_width := max (ya_width y) (offsetWidth str + 24)\<rparr>)"

section \<open>Network interfaces\<close>

type_synonym iface = "rat \<times> rat \<times> rat \<times> rat"

definition iface_nth :: "nat \<Rightarrow> iface \<Rightarrow> rat option" where
  "iface_nth i f = (case f of (a, b, c, d) \<Rightarrow> nth_opt [a, b, c, d] i)"

definition sorted_interfaces :: "(string, iface) dict option \<Rightarrow> string list" where
  "sorted_interfaces ni =
    map fst (js_sort (\<lambda>a b. the (iface_nth 3 (snd b)) - the (iface_nth 3 (snd a))) (case ni of None \<Rightarrow> [] | Some d \<Rightarrow> d))"

definition useNetworkInterfaces :: "(string, iface) dict option \<Rightarrow> (string \<times> rat) list" where
  "useNetworkInterfaces ni = map (\<lambda>(k, h). (k, 220 + h)) (colored (sorted_interfaces ni))"

definition iface_value :: "nat \<Rightarrow> string \<Rightarrow> SystemStats \<Rightarrow> rat option" where
  "iface_value index key stats =
    (case st_ni stats of None \<Rightarrow> None | Some d \<Rightarrow> (case dget d key of None \<Rightarrow> None | Some f \<Rightarrow> iface_nth index f))"

section \<open>Temperatures\<close>

definition temps_of :: "SystemStats StatsRec \<Rightarrow> (string, rat) dict" where
  "temps_of r = (case sr_stats r of None \<Rightarrow> [] | Some s \<Rightarrow> (case st_t s of None \<Rightarrow> [] | Some t \<Rightarrow> t))"

definition temp_colors :: "SystemStats StatsRec list \<Rightarrow> (string \<times> rat) list" where
  "temp_colors systemStats = colored (by_total (totals_of (concat (map temps_of systemStats))))"

definition temp_filtered :: "(string \<Rightarrow> string) \<Rightarrow> string \<Rightarrow> string \<Rightarrow> bool" where
  "temp_filtered lower flt key =
    (let terms = (if flt = [] then [] else filter_terms lower flt)
     in terms \<noteq> [] \<and> \<not> list_ex (str_includes (lower key)) terms)"

definition temp_legend :: "(string \<times> rat) list \<Rightarrow> bool" where
  "temp_legend colors \<longleftrightarrow> length colors < 12"

definition temp_tick :: "(rat \<Rightarrow> string) \<Rightarrow> UserSettings \<Rightarrow> rat \<Rightarrow> string" where
  "temp_tick num settings val = (let (v, u) = formatTemperature settings val (us_unitTemp settings) in num (toFixedFloat v 2) @ '' '' @ u)"

definition temp_content :: "(rat \<Rightarrow> nat \<Rightarrow> string) \<Rightarrow> UserSettings \<Rightarrow> rat \<Rightarrow> string" where
  "temp_content dec settings val = (let (v, u) = formatTemperature settings val (us_unitTemp settings) in dec v 2 @ '' '' @ u)"

section \<open>GPU power\<close>

definition packageKey :: string where "packageKey = '' package''"

definition gpu_entries :: "SystemStats StatsRec \<Rightarrow> (string \<times> GPUData) list" where
  "gpu_entries r =
    concat (map (\<lambda>(k, g). (gpu_n g, g) # (if gpu_pp g \<noteq> None \<and> gpu_pp g \<noteq> Some 0 then [(gpu_n g @ packageKey, g)] else []))
      (gpu_dict r))"

definition or0 :: "rat option \<Rightarrow> rat" where "or0 x = (case x of None \<Rightarrow> 0 | Some v \<Rightarrow> v)"

definition gpu_power :: "SystemStats StatsRec \<Rightarrow> (string \<times> rat) list" where
  "gpu_power r =
    concat (map (\<lambda>(k, g). (gpu_n g, or0 (gpu_p g)) # (if gpu_pp g \<noteq> None \<and> gpu_pp g \<noteq> Some 0 then [(gpu_n g @ packageKey, or0 (gpu_pp g))] else []))
      (gpu_dict r))"

text \<open>A data point: the GPUs keyed by name, later entries replacing earlier ones.\<close>

definition gpu_point :: "SystemStats StatsRec \<Rightarrow> (string, GPUData) dict" where
  "gpu_point r = foldl (\<lambda>d e. dset (fst e) (snd e) d) [] (gpu_entries r)"

definition gpu_series :: "SystemStats StatsRec list \<Rightarrow> (string \<times> rat) list" where
  "gpu_series systemStats = map (\<lambda>(k, h). (k, 226 + h)) (colored (by_total (totals_of (concat (map gpu_power systemStats)))))"

definition gpu_dataKey :: "string \<Rightarrow> (string, GPUData) dict \<Rightarrow> rat" where
  "gpu_dataKey k d =
    (case dget d k of None \<Rightarrow> 0 | Some g \<Rightarrow> if suffix packageKey k then or0 (gpu_pp g) else or0 (gpu_p g))"

section \<open>Load, memory, disk and swap\<close>

definition load_legacy :: "nat \<Rightarrow> SystemStats \<Rightarrow> rat option" where
  "load_legacy i s = (if i = 0 then st_l1 s else if i = 1 then st_l5 s else st_l15 s)"

definition load_dataKey :: "SemVer \<Rightarrow> nat \<Rightarrow> SystemStats \<Rightarrow> rat option" where
  "load_dataKey v i s =
    (if (js_less (sv_minor v) (Fin 12) \<or> js_eq (sv_minor v) (Fin 12)) \<and> js_less (sv_patch v) (Fin 1) then load_legacy i s
     else (case st_la s of Some (a, b, c) \<Rightarrow> nth_opt [a, b, c] i | None \<Rightarrow> load_legacy i s))"

text \<open>The last record is never a gap: gaps are inserted in front of records.\<close>

definition totalMem :: "SystemStats StatsRec list \<Rightarrow> rat" where
  "totalMem systemStats = toFixedFloat (case last_stats systemStats of None \<Rightarrow> 0 | Some s \<Rightarrow> st_m s) 1"

text \<open>The three areas of the memory chart: used, ZFS ARC, cache.\<close>

definition mem_areas :: "bool \<Rightarrow> SystemStats \<Rightarrow> rat option list" where
  "mem_areas showMax s = (if showMax then [st_mm s, None, None] else [Some (st_mu s), st_mz s, Some (st_mb s)])"

definition gb_tick :: "(rat \<Rightarrow> string) \<Rightarrow> Unit \<Rightarrow> rat \<Rightarrow> string" where
  "gb_tick num unit val =
    (let (v, u) = formatBytes (val * 1024) False unit True in num (toFixedFloat v (if val \<ge> 10 then 0 else 1)) @ '' '' @ u)"

definition gb_content :: "(rat \<Rightarrow> nat \<Rightarrow> string) \<Rightarrow> Unit \<Rightarrow> rat \<Rightarrow> string" where
  "gb_content dec unit val =
    (let (v, u) = formatBytes (val * 1024) False unit True in dec v (if v \<ge> 100 then 1 else 2) @ '' '' @ u)"

definition js_round :: "rat \<Rightarrow> int" where "js_round x = \<lfloor>x + 1 / 2\<rfloor>"

definition disk_domain :: "rat \<Rightarrow> rat" where
  "disk_domain diskSize = (if diskSize \<ge> 100 then of_int (js_round diskSize) else diskSize)"

definition disk_tick :: "(rat \<Rightarrow> string) \<Rightarrow> rat \<Rightarrow> string" where
  "disk_tick num val =
    (let (v, u) = formatBytes (val * 1024) False Bytes True in num (toFixedFloat v (if v \<ge> 10 then 0 else 1)) @ '' '' @ u)"

definition swap_domain :: "SystemStats StatsRec list \<Rightarrow> rat" where
  "swap_domain systemStats = toFixedFloat (case last_stats systemStats of None \<Rightarrow> 4 / 100 | Some s \<Rightarrow> st_s s) 2"

definition pinnedAxisDomain :: "rat \<Rightarrow> rat" where
  "pinnedAxisDomain dataMax =
    (if dataMax > 10 then of_int (js_round dataMax)
     else if dataMax > 1 then of_int (js_round (dataMax / (1 / 10))) * (1 / 10)
     else dataMax)"

section \<open>Chart times\<close>

definition all_chart_times :: "ChartTimes list" where
  "all_chart_times = [T_1m, T_1h, T_12h, T_24h, T_1w, T_30d]"

definition availableChartTimes :: "SemVer \<Rightarrow> ChartTimes list" where
  "availableChartTimes agentVersion =
    filter (\<lambda>ct. case ct_minVersion (chartTimeData ct) of
        None \<Rightarrow> True | Some v \<Rightarrow> js_ge (compareSemVer agentVersion (parseSemVer v)) (Fin 0)) all_chart_times"

section \<open>Tooltips\<close>

text \<open>
  The items of a tooltip, one per series; a filter keeps those one of whose terms is in the name. A
  value may be \<open>null\<close> or undefined.
\<close>

datatype TipValue = Num rat | Null | Undefined

record 'p TipItem =
  tip_name :: "string option"
  tip_dataKey :: "string option"
  tip_value :: TipValue
  tip_color :: "string option"
  tip_fill :: "string option"
  tip_payload :: 'p

definition tip_matches :: "(string \<Rightarrow> string) \<Rightarrow> string \<Rightarrow> 'p TipItem \<Rightarrow> bool" where
  "tip_matches lower flt i =
    (flt = [] \<or> (case tip_name i of None \<Rightarrow> False | Some n \<Rightarrow> list_ex (str_includes (lower n)) (filter_terms lower flt)))"

definition tooltip_items :: "(string \<Rightarrow> string) \<Rightarrow> string \<Rightarrow> ('p TipItem \<Rightarrow> 'p TipItem \<Rightarrow> rat) option \<Rightarrow> 'p TipItem list \<Rightarrow> 'p TipItem list" where
  "tooltip_items lower flt sorter payload =
    (let kept = filter (tip_matches lower flt) payload
     in case sorter of None \<Rightarrow> kept | Some cmp \<Rightarrow> js_sort cmp kept)"

text \<open>The total of the finite values: \<open>Number(null)\<close> is 0, \<open>Number(undefined)\<close> is not finite.\<close>

fun tip_number :: "TipValue \<Rightarrow> rat option" where
  "tip_number (Num x) = Some x" | "tip_number Null = Some 0" | "tip_number Undefined = None"

definition add_tip :: "rat \<times> bool \<Rightarrow> 'p TipItem \<Rightarrow> rat \<times> bool" where
  "add_tip t i = (case tip_number (tip_value i) of None \<Rightarrow> t | Some x \<Rightarrow> (fst t + x, True))"

definition tooltip_total :: "bool \<Rightarrow> 'p TipItem list \<Rightarrow> rat option" where
  "tooltip_total showTotal payload =
    (if \<not> showTotal \<or> payload = [] then None
     else (let (total, hasNumeric) = foldl add_tip (0, False) payload in if hasNumeric then Some total else None))"

definition legend_items :: "bool \<Rightarrow> 'a list \<Rightarrow> 'a list option" where
  "legend_items rev_order payload = (if payload = [] then None else Some (if rev_order then rev payload else payload))"

text \<open>The x axis is one cached element, made again only when the domain starts elsewhere.\<close>

record XAxis =
  xa_domain :: "int \<times> int"
  xa_ticks :: "int list"
  xa_chartTime :: ChartTimes

definition xAxis :: "int \<times> int \<Rightarrow> int list \<Rightarrow> ChartTimes \<Rightarrow> XAxis option \<Rightarrow> XAxis \<times> XAxis option" where
  "xAxis chart_domain ticks ct cachedAxis =
    (case cachedAxis of
       Some a \<Rightarrow> if fst chart_domain = fst (xa_domain a) then (a, cachedAxis)
                 else (let a' = \<lparr>xa_domain = chart_domain, xa_ticks = ticks, xa_chartTime = ct\<rparr> in (a', Some a'))
     | None \<Rightarrow> (let a' = \<lparr>xa_domain = chart_domain, xa_ticks = ticks, xa_chartTime = ct\<rparr> in (a', Some a')))"

section \<open>Lemmas\<close>

lemma dget_add_to: "dget (add_to m e) k = (if k = fst e then Some ((case dget m k of None \<Rightarrow> 0 | Some v \<Rightarrow> v) + snd e) else dget m k)"
  by (auto simp: add_to_def)

lemma distinct_add_to: "distinct (dkeys m) \<Longrightarrow> distinct (dkeys (add_to m e))"
  by (simp add: add_to_def distinct_update)

lemma filter_key_absent: "k \<notin> fst ` set es \<Longrightarrow> filter (\<lambda>e. fst e = k) es = []"
  by (auto simp: filter_empty_conv)

lemma fold_add_to:
  "dget (foldl add_to m es) k =
    (if k \<in> fst ` set es
     then Some ((case dget m k of None \<Rightarrow> 0 | Some v \<Rightarrow> v) + sum_list (map snd (filter (\<lambda>e. fst e = k) es)))
     else dget m k)"
  by (induction es arbitrary: m) (auto simp: dget_add_to add.assoc filter_key_absent)

lemma distinct_totals_of: "distinct (dkeys (totals_of es))"
proof -
  have "distinct (dkeys m) \<Longrightarrow> distinct (dkeys (foldl add_to m es))" for m
    by (induction es arbitrary: m) (auto simp: distinct_add_to)
  then show ?thesis by (simp add: totals_of_def)
qed

lemma dget_totals_of:
  "dget (totals_of es) k = (if k \<in> fst ` set es then Some (sum_list (map snd (filter (\<lambda>e. fst e = k) es))) else None)"
  by (simp add: totals_of_def fold_add_to)

lemma dkeys_totals_of: "set (dkeys (totals_of es)) = fst ` set es"
  using dget_totals_of [of es] dget_Some_iff_dkeys [of "totals_of es"] by (metis (no_types, lifting) option.distinct(1) subsetI subset_antisym)

interpretation by_usage: comparator "\<lambda>a b. snd b - (snd a :: rat)" UNIV
  by unfold_locales auto

lemma hue_eq: "i < n \<Longrightarrow> hue i n = of_nat (i * 360) / of_nat n"
proof -
  assume "i < n"
  then have "0 \<le> (of_nat (i * 360) / of_nat n :: rat) / 360" "(of_nat (i * 360) / of_nat n :: rat) / 360 < 1"
    by (simp_all add: field_simps)
  then have "\<lfloor>(of_nat (i * 360) / of_nat n :: rat) / 360\<rfloor> = 0" by linarith
  then show ?thesis by (simp add: hue_def Let_def)
qed

lemma hue_bounds: "i < n \<Longrightarrow> 0 \<le> hue i n \<and> hue i n < 360"
  by (simp add: hue_eq field_simps)

lemma hue_inj: "i < n \<Longrightarrow> j < n \<Longrightarrow> hue i n = hue j n \<Longrightarrow> i = j"
  by (simp add: hue_eq field_simps)

lemma map_fst_colored [simp]: "map fst (colored names) = names"
  by (rule nth_equalityI) (simp_all add: colored_def)

lemma distinct_hues: "distinct (map snd (colored names))"
  by (simp add: colored_def distinct_map inj_on_def comp_def) (auto intro!: inj_onI dest: hue_inj simp: distinct_map)

lemma colored_config:
  "distinct (map fst (colored (by_total (totals_of es)))) \<and> set (map fst (colored (by_total (totals_of es)))) = fst ` set es
   \<and> distinct (map snd (colored (by_total (totals_of es))))"
proof -
  have m: "mset (by_total (totals_of es)) = mset (dkeys (totals_of es))"
    unfolding by_total_def mset_map mset_js_sort by simp
  then have "distinct (by_total (totals_of es))" using distinct_totals_of mset_eq_imp_distinct_iff by blast
  moreover have "set (by_total (totals_of es)) = fst ` set es"
    using m dkeys_totals_of by (metis set_mset_mset)
  ultimately show ?thesis using distinct_hues by simp
qed

lemma by_total_sorted:
  "sorted_wrt (\<lambda>a b. the (dget (totals_of es) a) \<ge> the (dget (totals_of es) b)) (by_total (totals_of es))"
proof -
  have s: "sorted_wrt (\<lambda>a b. snd b - snd a \<le> (0::rat)) (js_sort (\<lambda>a b. snd b - snd a) (totals_of es))"
    by (rule by_usage.sorted_js_sort) simp
  have "dget (totals_of es) (fst e) = Some (snd e)" if "e \<in> set (js_sort (\<lambda>a b. snd b - snd a) (totals_of es))" for e
    using that distinct_totals_of by (simp add: map_of_eq_Some_iff)
  then show ?thesis unfolding by_total_def sorted_wrt_map by (intro sorted_wrt_mono_rel [OF _ s]) auto
qed

lemma rxtx_total_from:
  "foldl (\<lambda>(s, r) (k, c). if k \<in> set dimmed then (s, r) else (s + sent_bytes c, r + recv_bytes c)) (s0, r0) payload =
    (s0 + sum_list (map (\<lambda>(k, c). sent_bytes c) (filter (\<lambda>(k, c). k \<notin> set dimmed) payload)),
     r0 + sum_list (map (\<lambda>(k, c). recv_bytes c) (filter (\<lambda>(k, c). k \<notin> set dimmed) payload)))"
  by (induction payload arbitrary: s0 r0) (auto simp: add.assoc)

section \<open>Properties\<close>

text \<open>
  C35. The series of a container chart: one for every container that occurs in the data, each with a
  colour of its own, ordered by the sum of the container's usage over all data points.
\<close>

theorem container_series_complete:
  "let config = containerChartConfig chartType d; usage = concat (map (point_usage chartType) d);
       total = (\<lambda>n. sum_list (map snd (filter (\<lambda>e. fst e = n) usage)))
   in set (map fst config) = fst ` set usage \<and> distinct (map fst config) \<and> distinct (map snd config)
    \<and> list_all (\<lambda>h. 0 \<le> h \<and> h < 360) (map snd config)
    \<and> sorted_wrt (\<lambda>a b. total a \<ge> total b) (map fst config)"
proof -
  define es where "es = concat (map (point_usage chartType) d)"
  have c: "containerChartConfig chartType d = colored (by_total (totals_of es))"
    by (simp add: containerChartConfig_def totalUsage_def es_def)
  have keys: "k \<in> set (by_total (totals_of es)) \<Longrightarrow> the (dget (totals_of es) k) = sum_list (map snd (filter (\<lambda>e. fst e = k) es))" for k
    using colored_config [of es] by (auto simp: dget_totals_of)
  have "sorted_wrt (\<lambda>a b. sum_list (map snd (filter (\<lambda>e. fst e = a) es)) \<ge> sum_list (map snd (filter (\<lambda>e. fst e = b) es))) (by_total (totals_of es))"
    by (rule sorted_wrt_mono_rel [OF _ by_total_sorted]) (simp add: keys)
  moreover have "list_all (\<lambda>h. 0 \<le> h \<and> h < 360) (map snd (colored (by_total (totals_of es))))"
    by (auto simp: colored_def hue_bounds list_all_iff)
  ultimately show ?thesis unfolding Let_def c es_def [symmetric] using colored_config [of es] by simp
qed

text \<open>
  The one-minute chart is offered exactly for agents from version 0.13.0 on, the other chart
  times always, in their order.
\<close>

theorem chart_times_by_version:
  "availableChartTimes (semver ma mi pa) =
     (if ma > 0 \<or> (ma = 0 \<and> mi \<ge> 13 \<and> (mi > 13 \<or> pa \<ge> 0)) then [T_1m] else []) @ [T_1h, T_12h, T_24h, T_1w, T_30d]"
proof -
  have "parseSemVer ''0.13.0'' = semver 0 13 0"
    using parseSemVer_show [of 0 13 0 None] by (simp add: semver_string_def show_nat.simps digit_char_eval)
  then show ?thesis
    by (auto simp: availableChartTimes_def all_chart_times_def compareSemVer_def js_ge_def js_eq_def semver_def)
qed

text \<open>
  The total in the network tooltip is the sum over the containers that are not dimmed, and without
  a filter the sum of everything the chart plots at that point.
\<close>

theorem rxtx_total_correct:
  "fst (rxtx_total dimmed payload) = sum_list (map (\<lambda>(k, c). sent_bytes c) (filter (\<lambda>(k, c). k \<notin> set dimmed) payload))
   \<and> snd (rxtx_total dimmed payload) = sum_list (map (\<lambda>(k, c). recv_bytes c) (filter (\<lambda>(k, c). k \<notin> set dimmed) payload))
   \<and> fst (rxtx_total [] payload) + snd (rxtx_total [] payload) = sum_list (map (\<lambda>(k, c). usage_of CT_Network c) payload)"
proof (intro conjI)
  show "fst (rxtx_total [] payload) + snd (rxtx_total [] payload) = sum_list (map (\<lambda>(k, c). usage_of CT_Network c) payload)"
    unfolding rxtx_total_def rxtx_total_from by (induction payload) (auto simp: usage_of_def)
qed (simp_all add: rxtx_total_def rxtx_total_from)

text \<open>
  A filter of blanks has no terms, and the charts treat it differently: the container charts dim
  every series and their tooltips list nothing, while the temperature chart dims none.
\<close>

theorem blank_filter_dims_all:
  assumes "lower '' '' = '' ''"
  shows "filteredKeys lower '' '' config = map fst config \<and> tooltip_items lower '' '' None payload = []
    \<and> \<not> temp_filtered lower '' '' key"
  using assms by (simp add: filteredKeys_def tooltip_items_def tip_matches_def temp_filtered_def filter_terms_def split_beta split: option.split)

theorem blank_filter_dims_all_witness: "filteredKeys id '' '' [(''nginx'', 0)] = [''nginx'']"
  using blank_filter_dims_all [of id "[(''nginx'', 0)]" "[] :: unit TipItem list"] by simp

end
