(* ===== verification/ChartView.thy ===== *)
theory ChartView
  imports Charts
begin

text \<open>
  What the charts show around the plot: the content of a tooltip and of the legend,
  \<^verbatim>\<open>components/ui/chart.tsx\<close>, and the generic area and line charts,
  \<^verbatim>\<open>components/charts/area-chart.tsx\<close> and \<^verbatim>\<open>line-chart.tsx\<close>. Recharts passes the payload of a point to
  the tooltip; every chart gives \<open>ChartTooltipContent\<close> a \<open>contentFormatter\<close> and none a \<open>formatter\<close>, and
  the configuration it looks names up in is the empty object.
\<close>

section \<open>Tooltips\<close>

definition or_text :: "string option \<Rightarrow> string option \<Rightarrow> string option" where
  "or_text a b = (if a = None \<or> a = Some [] then b else a)"

text \<open>\<open>nameKey || item.name || item.dataKey || "value"\<close>\<close>

definition tip_key :: "string option \<Rightarrow> 'p TipItem \<Rightarrow> string" where
  "tip_key nameKey i = the (or_text nameKey (or_text (tip_name i) (or_text (tip_dataKey i) (Some ''value''))))"

text \<open>The label line; \<open>label\<close> is \<open>None\<close> unless Recharts gives a string.\<close>

definition tooltipLabel ::
  "bool \<Rightarrow> string option \<Rightarrow> string option \<Rightarrow> (string option \<Rightarrow> 'p TipItem list \<Rightarrow> string) option \<Rightarrow> 'p TipItem list \<Rightarrow> string option" where
  "tooltipLabel hideLabel labelKey label labelFormatter payload =
    (if hideLabel \<or> payload = [] then None
     else (let v = (if labelKey = None \<or> labelKey = Some [] then label else None)
           in case labelFormatter of
                Some f \<Rightarrow> Some (f v payload)
              | None \<Rightarrow> if v = None \<or> v = Some [] then None else v))"

record TipRow =
  tr_key :: "string option"
  tr_color :: "string option"
  tr_name :: "string option"
  tr_value :: "string option"

definition tip_row :: "string option \<Rightarrow> string option \<Rightarrow> ('p TipItem \<Rightarrow> string \<Rightarrow> string) \<Rightarrow> 'p TipItem \<Rightarrow> TipRow" where
  "tip_row color nameKey content i = \<lparr>tr_key = or_text (tip_name i) (tip_dataKey i),
     tr_color = or_text color (or_text (tip_fill i) (tip_color i)),
     tr_name = tip_name i,
     tr_value = (if tip_value i = Undefined then None else Some (content i (tip_key nameKey i)))\<rparr>"

text \<open>The total is formatted like an item, with the payload of the first one.\<close>

definition total_item :: "string \<Rightarrow> string option \<Rightarrow> 'p \<Rightarrow> rat \<Rightarrow> 'p TipItem" where
  "total_item totalName color first v =
    \<lparr>tip_name = Some totalName, tip_dataKey = Some ''__total__'', tip_value = Num v, tip_color = color, tip_fill = None, tip_payload = first\<rparr>"

definition totalValueDisplay ::
  "bool \<Rightarrow> string \<Rightarrow> string option \<Rightarrow> ('p TipItem \<Rightarrow> string \<Rightarrow> string) \<Rightarrow> 'p TipItem list \<Rightarrow> string option" where
  "totalValueDisplay showTotal totalName color content payload =
    (case tooltip_total showTotal payload of None \<Rightarrow> None | Some v \<Rightarrow> Some (content (total_item totalName color (tip_payload (hd payload)) v) ''__total__''))"

record 'p TooltipProps =
  tq_filter :: string
  tq_itemSorter :: "('p TipItem \<Rightarrow> 'p TipItem \<Rightarrow> rat) option"
  tq_hideLabel :: bool
  tq_labelKey :: "string option"
  tq_labelFormatter :: "(string option \<Rightarrow> 'p TipItem list \<Rightarrow> string) option"
  tq_color :: "string option"
  tq_nameKey :: "string option"
  tq_content :: "'p TipItem \<Rightarrow> string \<Rightarrow> string"
  tq_showTotal :: bool
  tq_totalLabel :: "string option"

record Tooltip =
  to_label :: "string option"
  to_rows :: "TipRow list"
  to_total :: "(string \<times> string) option"

text \<open>
  The whole content: the filter and the order are applied to a new payload, nothing is shown when no
  item is left, and an empty total is left out.
\<close>

definition ChartTooltipContent ::
  "(string \<Rightarrow> string) \<Rightarrow> (string \<Rightarrow> string) \<Rightarrow> 'p TooltipProps \<Rightarrow> bool \<Rightarrow> string option \<Rightarrow> 'p TipItem list \<Rightarrow> Tooltip option" where
  "ChartTooltipContent tr lower q active label payload0 =
    (let payload = tooltip_items lower (tq_filter q) (tq_itemSorter q) payload0;
         totalName = (case tq_totalLabel q of None \<Rightarrow> tr ''Total'' | Some l \<Rightarrow> l);
         total = totalValueDisplay (tq_showTotal q) totalName (tq_color q) (tq_content q) payload
     in if \<not> active \<or> payload = [] then None
        else Some \<lparr>to_label = tooltipLabel (tq_hideLabel q) (tq_labelKey q) label (tq_labelFormatter q) payload,
                   to_rows = map (tip_row (tq_color q) (tq_nameKey q) (tq_content q)) payload,
                   to_total = (if total = None \<or> total = Some [] then None else Some (totalName, the total))\<rparr>)"

section \<open>Legend\<close>

definition ChartLegendContent :: "bool \<Rightarrow> (string \<times> string) list \<Rightarrow> (string \<times> string) list option" where
  "ChartLegendContent rev_order payload = legend_items rev_order payload"

section \<open>Area and line charts\<close>

datatype SeriesColor = ChartVar nat | Css string

definition series_color :: "SeriesColor \<Rightarrow> string" where
  "series_color c = (case c of ChartVar n \<Rightarrow> ''var(--chart-'' @ show_nat n @ '')'' | Css s \<Rightarrow> s)"

record DataPoint =
  dp_label :: string
  dp_color :: SeriesColor
  dp_opacity :: rat
  dp_stackId :: "string option"

text \<open>The range of the y axis: a given one, or from 0 to a maximum, which Recharts finds if not given.\<close>

datatype AxisDomain = GivenDomain "rat \<times> rat" | FromZero "rat option"

definition y_domain :: "(rat \<times> rat) option \<Rightarrow> rat option \<Rightarrow> AxisDomain" where
  "y_domain given upper = (case given of Some d \<Rightarrow> GivenDomain d | None \<Rightarrow> FromZero upper)"

record AreaProps =
  ar_range :: "(rat \<times> rat) option"
  ar_max :: "rat option"
  ar_dataPoints :: "DataPoint list"
  ar_legend :: bool
  ar_reverse :: bool
  ar_hideYAxis :: bool

record ChartElement =
  ce_visible :: bool
  ce_yAxis :: "AxisDomain option"
  ce_series :: "(string \<times> string \<times> rat \<times> string option) list"
  ce_legend :: "bool option"
  ce_left :: "int option"

definition AreaChartDefault :: "AreaProps \<Rightarrow> rat \<Rightarrow> 'a list \<Rightarrow> ChartElement option" where
  "AreaChartDefault q yAxisWidth systemStats =
    (if systemStats = [] then None
     else Some \<lparr>ce_visible = (yAxisWidth \<noteq> 0 \<or> ar_hideYAxis q),
        ce_yAxis = (if ar_hideYAxis q then None else Some (y_domain (ar_range q) (ar_max q))),
        ce_series = map (\<lambda>d. (dp_label d, series_color (dp_color d), dp_opacity d, dp_stackId d)) (ar_dataPoints q),
        ce_legend = (if ar_legend q then Some (ar_reverse q) else None),
        ce_left = (if ar_hideYAxis q then Some 5 else None)\<rparr>)"

definition LineChartDefault :: "AreaProps \<Rightarrow> rat \<Rightarrow> 'a list \<Rightarrow> ChartElement option" where
  "LineChartDefault q yAxisWidth systemStats =
    (if systemStats = [] then None
     else Some \<lparr>ce_visible = (yAxisWidth \<noteq> 0), ce_yAxis = Some (y_domain (ar_range q) (ar_max q)),
        ce_series = map (\<lambda>d. (dp_label d, series_color (dp_color d), 1, None)) (ar_dataPoints q),
        ce_legend = (if ar_legend q then Some False else None), ce_left = None\<rparr>)"

text \<open>The element is kept until the newest record, the axis width or one of two flags changes.\<close>

definition area_memo_key :: "rat \<Rightarrow> bool \<Rightarrow> bool \<Rightarrow> 'a list \<Rightarrow> 'a option \<times> rat \<times> bool \<times> bool" where
  "area_memo_key yAxisWidth maxToggled showTotal systemStats = (at_last systemStats, yAxisWidth, maxToggled, showTotal)"

section \<open>Lemmas\<close>

lemma foldl_add_tip:
  "foldl add_tip (t, h) is = (t + sum_list (map (\<lambda>i. case tip_number (tip_value i) of None \<Rightarrow> 0 | Some x \<Rightarrow> x) is),
     h \<or> list_ex (\<lambda>i. tip_number (tip_value i) \<noteq> None) is)"
  by (induction "is" arbitrary: t h) (auto simp: add_tip_def split: option.split)

lemma tooltip_items_mset: "mset (tooltip_items lower flt sorter payload) = mset (filter (tip_matches lower flt) payload)"
  by (simp add: tooltip_items_def Let_def split: option.split)

section \<open>Properties\<close>

text \<open>
  The tooltip tells what it shows: its rows are the items that match the filter, each once, and the
  total below them, when there is one, is the sum of the values of exactly these rows; nothing is
  shown when no item matches.
\<close>

theorem tooltip_total_of_rows:
  assumes "ChartTooltipContent tr lower q True label payload = Some t"
  shows "mset (to_rows t) = mset (map (tip_row (tq_color q) (tq_nameKey q) (tq_content q)) (filter (tip_matches lower (tq_filter q)) payload))
    \<and> to_rows t \<noteq> []
    \<and> (\<forall>name words. to_total t = Some (name, words) \<longrightarrow> tq_showTotal q
        \<and> (\<exists>i\<in>set payload. words = tq_content q (total_item name (tq_color q) (tip_payload i)
            (sum_list (map (\<lambda>i. case tip_number (tip_value i) of None \<Rightarrow> 0 | Some x \<Rightarrow> x) (filter (tip_matches lower (tq_filter q)) payload)))) ''__total__''))"
proof -
  define shown where "shown = tooltip_items lower (tq_filter q) (tq_itemSorter q) payload"
  let ?val = "\<lambda>i. case tip_number (tip_value i) of None \<Rightarrow> 0 | Some x \<Rightarrow> x"
  have m: "mset shown = mset (filter (tip_matches lower (tq_filter q)) payload)" by (simp only: shown_def tooltip_items_mset)
  have "sum_list (map ?val shown) = sum_mset (image_mset ?val (mset shown))"
    by (metis mset_map sum_mset_sum_list)
  also have "\<dots> = sum_list (map ?val (filter (tip_matches lower (tq_filter q)) payload))"
    unfolding m by (metis mset_map sum_mset_sum_list)
  finally have sum: "sum_list (map ?val shown) = sum_list (map ?val (filter (tip_matches lower (tq_filter q)) payload))" .
  have rows: "to_rows t = map (tip_row (tq_color q) (tq_nameKey q) (tq_content q)) shown" "shown \<noteq> []"
    and total: "to_total t = (let total = totalValueDisplay (tq_showTotal q) (case tq_totalLabel q of None \<Rightarrow> tr ''Total'' | Some l \<Rightarrow> l)
        (tq_color q) (tq_content q) shown
      in if total = None \<or> total = Some [] then None else Some (case tq_totalLabel q of None \<Rightarrow> tr ''Total'' | Some l \<Rightarrow> l, the total))"
    using assms by (auto simp: ChartTooltipContent_def Let_def shown_def [symmetric] split: if_splits)
  have "mset (to_rows t) = image_mset (tip_row (tq_color q) (tq_nameKey q) (tq_content q)) (mset shown)" by (simp add: rows)
  then have "mset (to_rows t) = mset (map (tip_row (tq_color q) (tq_nameKey q) (tq_content q)) (filter (tip_matches lower (tq_filter q)) payload))"
    unfolding m by (simp only: mset_map)
  moreover have "to_rows t \<noteq> []" using rows by simp
  moreover have "tq_showTotal q \<and> words = tq_content q (total_item name (tq_color q) (tip_payload (hd shown)) (sum_list (map ?val shown))) ''__total__''"
    if "to_total t = Some (name, words)" for name words
    using that unfolding total Let_def
    by (auto simp: totalValueDisplay_def tooltip_total_def foldl_add_tip split: if_splits option.splits)
  moreover have "hd shown \<in> set payload"
    using rows(2) m by (metis filter_is_subset hd_in_set set_mset_mset subsetD)
  ultimately show ?thesis unfolding sum by blast
qed

end
