(* ===== verification/Settings.thy ===== *)
theory Settings
  imports Api Toast
begin

text \<open>
  The settings pages, \<^verbatim>\<open>components/routes/settings\<close> (\<^verbatim>\<open>layout.tsx\<close>,
  \<^verbatim>\<open>general.tsx\<close>, \<^verbatim>\<open>notifications.tsx\<close>, \<^verbatim>\<open>sidebar-nav.tsx\<close>,
  \<^verbatim>\<open>config-yaml.tsx\<close>), and the tag input they use, \<^verbatim>\<open>components/ui/input-tags.tsx\<close>.
  \<open>hub\<close> is the settings record the hub stores; a toast is its title, description and variant;
  \<open>tr\<close> translates a message.
\<close>

type_synonym settings_toast = "string \<times> string \<times> string option"

section \<open>Saving\<close>

text \<open>\<open>{...old, ...new}\<close>: the fields present in \<open>new\<close> win.\<close>

definition merge_settings :: "UserSettings \<Rightarrow> UserSettings \<Rightarrow> UserSettings" where
  "merge_settings old new = \<lparr>
     us_chartTime = or_else (us_chartTime new) (us_chartTime old),
     us_emails = or_else (us_emails new) (us_emails old),
     us_webhooks = or_else (us_webhooks new) (us_webhooks old),
     us_unitTemp = or_else (us_unitTemp new) (us_unitTemp old),
     us_unitNet = or_else (us_unitNet new) (us_unitNet old),
     us_unitDisk = or_else (us_unitDisk new) (us_unitDisk old),
     us_colorWarn = or_else (us_colorWarn new) (us_colorWarn old),
     us_colorCrit = or_else (us_colorCrit new) (us_colorCrit old),
     us_hourFormat = or_else (us_hourFormat new) (us_hourFormat old),
     us_layoutWidth = or_else (us_layoutWidth new) (us_layoutWidth old),
     us_quickLinks = or_else (us_quickLinks new) (us_quickLinks old),
     us_externalLinks = or_else (us_externalLinks new) (us_externalLinks old)\<rparr>"

definition saved_toast :: "(string \<Rightarrow> string) \<Rightarrow> settings_toast" where
  "saved_toast tr = (tr ''Settings saved'', tr ''Your user settings have been updated.'', None)"

definition failed_toast :: "(string \<Rightarrow> string) \<Rightarrow> settings_toast" where
  "failed_toast tr = (tr ''Failed to save settings'', tr ''Check logs for more details.'', Some ''destructive'')"

text \<open>
  A fresh copy is read, merged and written back; the store takes what the hub returns, which is what
  it stored. \<open>fetchOk\<close> and \<open>writeOk\<close> say whether the requests succeed.
\<close>

definition saveSettings ::
  "(string \<Rightarrow> string) \<Rightarrow> UserSettings \<Rightarrow> bool \<Rightarrow> bool \<Rightarrow> AppState \<times> UserSettings \<Rightarrow> (AppState \<times> UserSettings) \<times> settings_toast" where
  "saveSettings tr newSettings fetchOk writeOk s =
    (case s of (st, hub) \<Rightarrow>
      if fetchOk \<and> writeOk
      then (let updated = merge_settings hub newSettings in ((set_userSettings updated st, updated), saved_toast tr))
      else ((st, hub), failed_toast tr))"

section \<open>General\<close>

text \<open>
  The form's fields as they are submitted. Form data are strings; the readers of the settings compare
  them loosely (\<open>unit == Unit.Bits\<close>, \<open>value >= colorCrit\<close>), so a field stands here for the
  value its text denotes.
\<close>

record GeneralForm =
  gf_layoutWidth :: int
  gf_chartTime :: ChartTimes
  gf_hourFormat :: HourFormat
  gf_unitTemp :: Unit
  gf_unitNet :: Unit
  gf_unitDisk :: Unit
  gf_colorWarn :: rat
  gf_colorCrit :: rat

definition layoutWidth :: "UserSettings \<Rightarrow> int" where
  "layoutWidth s = (case us_layoutWidth s of None \<Rightarrow> 1500 | Some w \<Rightarrow> w)"

definition or_default :: "'a option \<Rightarrow> 'a \<Rightarrow> 'a" where
  "or_default x d = (case x of None \<Rightarrow> d | Some v \<Rightarrow> v)"

text \<open>The values the fields start with; \<open>hour12\<close> is \<open>currentHour12()\<close>.\<close>

definition general_init :: "bool \<Rightarrow> UserSettings \<Rightarrow> ChartTimes \<Rightarrow> GeneralForm" where
  "general_init hour12 s chartTime = \<lparr>gf_layoutWidth = layoutWidth s, gf_chartTime = chartTime,
     gf_hourFormat = or_default (us_hourFormat s) (if hour12 then H12 else H24),
     gf_unitTemp = or_default (us_unitTemp s) Celsius, gf_unitNet = or_default (us_unitNet s) Bytes,
     gf_unitDisk = or_default (us_unitDisk s) Bytes, gf_colorWarn = or_default (us_colorWarn s) 65,
     gf_colorCrit = or_default (us_colorCrit s) 90\<rparr>"

text \<open>
  What the controls let the user choose: the slider's steps, the items of the selects, and a whole
  number of percent or nothing in a threshold's field. An emptied field submits the empty text, which
  the comparisons read as zero.
\<close>

definition width_offered :: "int \<Rightarrow> bool" where
  "width_offered w \<longleftrightarrow> 1000 \<le> w \<and> w \<le> 2000 \<and> (w - 1000) mod 10 = 0"

definition chartTime_items :: "ChartTimes list" where
  "chartTime_items = [T_1m, T_1h, T_12h, T_24h, T_1w, T_30d]"

definition hourFormat_items :: "HourFormat list" where
  "hourFormat_items = [H12, H24]"

definition unitTemp_items :: "Unit list" where
  "unitTemp_items = [Celsius, Fahrenheit]"

definition unitNet_items :: "Unit list" where
  "unitNet_items = [Bytes, Bits]"

definition unitDisk_items :: "Unit list" where
  "unitDisk_items = [Bytes, Bits]"

definition threshold_value :: "nat option \<Rightarrow> rat" where
  "threshold_value t = (case t of None \<Rightarrow> 0 | Some n \<Rightarrow> of_nat n)"

definition threshold_offered :: "nat option \<Rightarrow> bool" where
  "threshold_offered t = (case t of None \<Rightarrow> True | Some n \<Rightarrow> 1 \<le> n \<and> n \<le> 100)"

definition general_offered :: "nat option \<Rightarrow> nat option \<Rightarrow> GeneralForm \<Rightarrow> bool" where
  "general_offered warn crit f \<longleftrightarrow> width_offered (gf_layoutWidth f) \<and> gf_chartTime f \<in> set chartTime_items
     \<and> gf_hourFormat f \<in> set hourFormat_items \<and> gf_unitTemp f \<in> set unitTemp_items
     \<and> gf_unitNet f \<in> set unitNet_items \<and> gf_unitDisk f \<in> set unitDisk_items
     \<and> threshold_offered warn \<and> gf_colorWarn f = threshold_value warn
     \<and> threshold_offered crit \<and> gf_colorCrit f = threshold_value crit"

definition form_settings :: "GeneralForm \<Rightarrow> UserSettings" where
  "form_settings f = empty_settings\<lparr>us_layoutWidth := Some (gf_layoutWidth f), us_chartTime := Some (gf_chartTime f),
     us_hourFormat := Some (gf_hourFormat f), us_unitTemp := Some (gf_unitTemp f), us_unitNet := Some (gf_unitNet f),
     us_unitDisk := Some (gf_unitDisk f), us_colorWarn := Some (gf_colorWarn f), us_colorCrit := Some (gf_colorCrit f)\<rparr>"

definition general_handleSubmit ::
  "(string \<Rightarrow> string) \<Rightarrow> GeneralForm \<Rightarrow> bool \<Rightarrow> bool \<Rightarrow> AppState \<times> UserSettings \<Rightarrow> (AppState \<times> UserSettings) \<times> settings_toast" where
  "general_handleSubmit tr f fetchOk writeOk s = saveSettings tr (form_settings f) fetchOk writeOk s"

text \<open>The slider changes the store at once.\<close>

definition slide_layoutWidth :: "int \<Rightarrow> AppState \<Rightarrow> AppState" where
  "slide_layoutWidth w st = st\<lparr>st_userSettings := (st_userSettings st)\<lparr>us_layoutWidth := Some w\<rparr>\<rparr>"

section \<open>Tags\<close>

record TagInput =
  ti_value :: "string list"
  ti_pending :: string

text \<open>The effect after a change of the text: a comma ends the tags in it.\<close>

definition tags_effect :: "TagInput \<Rightarrow> TagInput" where
  "tags_effect t =
    (if CHR '','' \<in> set (ti_pending t)
     then t\<lparr>ti_value := uniq (ti_value t @ map trim (split_on CHR '','' (ti_pending t))), ti_pending := []\<rparr>
     else t)"

definition addPendingDataPoint :: "TagInput \<Rightarrow> TagInput" where
  "addPendingDataPoint t =
    (if ti_pending t \<noteq> [] then t\<lparr>ti_value := uniq (ti_value t @ [ti_pending t]), ti_pending := []\<rparr> else t)"

definition tags_remove :: "string \<Rightarrow> TagInput \<Rightarrow> TagInput" where
  "tags_remove item t = t\<lparr>ti_value := filter (\<lambda>i. i \<noteq> item) (ti_value t)\<rparr>"

definition tags_input :: "string \<Rightarrow> TagInput \<Rightarrow> TagInput" where
  "tags_input text t = tags_effect (t\<lparr>ti_pending := text\<rparr>)"

definition tags_keydown :: "string \<Rightarrow> TagInput \<Rightarrow> TagInput" where
  "tags_keydown key t =
    (if key = ''Enter'' \<or> key = '','' then addPendingDataPoint t
     else if key = ''Backspace'' \<and> ti_pending t = [] \<and> ti_value t \<noteq> [] then t\<lparr>ti_value := butlast (ti_value t)\<rparr>
     else t)"

section \<open>Notifications\<close>

record NotificationForm =
  nf_webhooks :: "string list"
  nf_emails :: "string list"

definition notifications_init :: "UserSettings \<Rightarrow> NotificationForm" where
  "notifications_init s = \<lparr>nf_webhooks = or_default (us_webhooks s) [], nf_emails = or_default (us_emails s) []\<rparr>"

definition addWebhook :: "NotificationForm \<Rightarrow> NotificationForm" where
  "addWebhook f = f\<lparr>nf_webhooks := nf_webhooks f @ [[]]\<rparr>"

definition removeWebhook :: "nat \<Rightarrow> NotificationForm \<Rightarrow> NotificationForm" where
  "removeWebhook index f = f\<lparr>nf_webhooks := take index (nf_webhooks f) @ drop (Suc index) (nf_webhooks f)\<rparr>"

text \<open>The index is that of a rendered row.\<close>

definition updateWebhook :: "nat \<Rightarrow> string \<Rightarrow> NotificationForm \<Rightarrow> NotificationForm" where
  "updateWebhook index v f = f\<lparr>nf_webhooks := (nf_webhooks f)[index := v]\<rparr>"

text \<open>
  \<open>NotificationSchema\<close> with valibot's \<open>email\<close> and \<open>url\<close> as parameters; \<open>msg\<close> is the message
  of the error it throws.
\<close>

definition schema_ok :: "(string \<Rightarrow> bool) \<Rightarrow> (string \<Rightarrow> bool) \<Rightarrow> NotificationForm \<Rightarrow> bool" where
  "schema_ok email url f \<longleftrightarrow> list_all email (nf_emails f) \<and> list_all url (nf_webhooks f)"

definition updateSettings ::
  "(string \<Rightarrow> string) \<Rightarrow> (string \<Rightarrow> bool) \<Rightarrow> (string \<Rightarrow> bool) \<Rightarrow> (NotificationForm \<Rightarrow> string) \<Rightarrow> NotificationForm \<Rightarrow> bool \<Rightarrow> bool
   \<Rightarrow> AppState \<times> UserSettings \<Rightarrow> (AppState \<times> UserSettings) \<times> settings_toast" where
  "updateSettings tr email url msg f fetchOk writeOk s =
    (if schema_ok email url f
     then saveSettings tr (empty_settings\<lparr>us_emails := Some (nf_emails f), us_webhooks := Some (nf_webhooks f)\<rparr>) fetchOk writeOk s
     else (s, (tr ''Failed to save settings'', msg f, Some ''destructive'')))"

text \<open>The test's answer: no \<open>err\<close> field, a falsy one (\<open>Some None\<close>), or an error.\<close>

definition test_toast :: "(string \<Rightarrow> string) \<Rightarrow> string option option \<Rightarrow> settings_toast" where
  "test_toast tr err =
    (case err of
       Some None \<Rightarrow> (tr ''Test notification sent'', tr ''Check your notification service'', None)
     | Some (Some e) \<Rightarrow> (tr ''Error'', e, Some ''destructive'')
     | None \<Rightarrow> (tr ''Error'', tr ''Failed to send test notification'', Some ''destructive''))"

definition test_disabled :: "bool \<Rightarrow> string \<Rightarrow> bool" where
  "test_disabled isLoading url \<longleftrightarrow> isLoading \<or> url = []"

section \<open>Navigation\<close>

record NavItem =
  ni_name :: string
  ni_admin :: bool
  ni_noReadOnly :: bool

definition sidebarNavItems :: "NavItem list" where
  "sidebarNavItems =
    [\<lparr>ni_name = ''general'', ni_admin = False, ni_noReadOnly = False\<rparr>,
     \<lparr>ni_name = ''notifications'', ni_admin = False, ni_noReadOnly = False\<rparr>,
     \<lparr>ni_name = ''tokens'', ni_admin = False, ni_noReadOnly = True\<rparr>,
     \<lparr>ni_name = ''alert-history'', ni_admin = False, ni_noReadOnly = False\<rparr>,
     \<lparr>ni_name = ''config'', ni_admin = True, ni_noReadOnly = False\<rparr>]"

definition mobile_items :: "string option \<Rightarrow> NavItem list" where
  "mobile_items role = filter (\<lambda>i. \<not> (ni_admin i \<and> \<not> isAdmin role)) sidebarNavItems"

definition desktop_items :: "string option \<Rightarrow> NavItem list" where
  "desktop_items role =
    filter (\<lambda>i. \<not> ((ni_admin i \<and> \<not> isAdmin role) \<or> (ni_noReadOnly i \<and> isReadOnlyUser role))) sidebarNavItems"

datatype SettingsPage = GeneralSettings | NotificationsSettings | ConfigYamlSettings | FingerprintsSettings | AlertsHistoryDataTableSettings

definition SettingsContent :: "string \<Rightarrow> SettingsPage option" where
  "SettingsContent name =
    (if name = ''general'' then Some GeneralSettings else if name = ''notifications'' then Some NotificationsSettings
     else if name = ''config'' then Some ConfigYamlSettings else if name = ''tokens'' then Some FingerprintsSettings
     else if name = ''alert-history'' then Some AlertsHistoryDataTableSettings else None)"

text \<open>Where the page redirects to: the settings without a name, and the YAML page for others than admins.\<close>

definition settings_redirect :: "string option \<Rightarrow> string option \<Rightarrow> string option" where
  "settings_redirect role name =
    (case name of
       None \<Rightarrow> Some ''general''
     | Some n \<Rightarrow> if n = [] then Some ''general'' else if n = ''config'' \<and> \<not> isAdmin role then Some ''general'' else None)"

section \<open>YAML export\<close>

text \<open>The exported text and whether a request is running, after its answer.\<close>

definition fetchConfig :: "(string \<Rightarrow> string) \<Rightarrow> string + string \<Rightarrow> string \<times> bool \<Rightarrow> (string \<times> bool) \<times> settings_toast list" where
  "fetchConfig tr response s =
    (case response of
       Inr config \<Rightarrow> ((config, False), [])
     | Inl e \<Rightarrow> ((fst s, False), [(tr ''Error'', e, Some ''destructive'')]))"

definition config_rows :: "string \<Rightarrow> nat" where
  "config_rows content = min 25 (length (split_on CHR 0x0A content))"

section \<open>Lemmas\<close>

lemma or_else_simps [simp]:
  "or_else None x = x" "or_else x None = x" "or_else (Some y) x = Some y" "or_else (or_else a b) c = or_else a (or_else b c)"
  by (auto simp: or_else_def split: option.split)

lemma merge_settings_assoc: "merge_settings (merge_settings a b) c = merge_settings a (merge_settings b c)"
  by (simp add: merge_settings_def)

lemma merge_empty [simp]: "merge_settings a empty_settings = a" "merge_settings empty_settings a = a"
  by (simp_all add: merge_settings_def empty_settings_def)

lemma merge_form:
  "merge_settings hub (form_settings f) =
    hub\<lparr>us_layoutWidth := Some (gf_layoutWidth f), us_chartTime := Some (gf_chartTime f),
        us_hourFormat := Some (gf_hourFormat f), us_unitTemp := Some (gf_unitTemp f), us_unitNet := Some (gf_unitNet f),
        us_unitDisk := Some (gf_unitDisk f), us_colorWarn := Some (gf_colorWarn f), us_colorCrit := Some (gf_colorCrit f)\<rparr>"
  by (cases hub) (simp add: merge_settings_def form_settings_def empty_settings_def)

text \<open>The actions on a tag input, and the states they lead to.\<close>

datatype TagAction = Typed string | Key string | Removed string

fun tag_step :: "TagAction \<Rightarrow> TagInput \<Rightarrow> TagInput" where
  "tag_step (Typed text) t = tags_input text t"
| "tag_step (Key key) t = tags_keydown key t"
| "tag_step (Removed item) t = tags_remove item t"

definition tags_inv :: "TagInput \<Rightarrow> bool" where
  "tags_inv t \<longleftrightarrow> distinct (ti_value t) \<and> CHR '','' \<notin> set (ti_pending t)"

lemma tag_step_inv: "tags_inv t \<Longrightarrow> tags_inv (tag_step a t)"
  by (cases a) (auto simp: tags_inv_def tags_input_def tags_effect_def tags_keydown_def tags_remove_def
      addPendingDataPoint_def distinct_butlast)

lemma tag_steps_inv: "tags_inv t \<Longrightarrow> tags_inv (foldl (\<lambda>t a. tag_step a t) t as)"
  by (induction as arbitrary: t) (auto simp: tag_step_inv)

section \<open>Properties\<close>

text \<open>
  Saving the general settings changes exactly the fields of the form: afterwards the hub and the
  page's store hold the same settings, with the form's values and everything else, the links and the
  notification targets among it, as the hub had it; the default chart time is the one chosen. If a
  request fails nothing changes and the toast says so.
\<close>

theorem general_settings_saved:
  "general_handleSubmit tr f True True (st, hub) =
     (let s = hub\<lparr>us_layoutWidth := Some (gf_layoutWidth f), us_chartTime := Some (gf_chartTime f),
          us_hourFormat := Some (gf_hourFormat f), us_unitTemp := Some (gf_unitTemp f), us_unitNet := Some (gf_unitNet f),
          us_unitDisk := Some (gf_unitDisk f), us_colorWarn := Some (gf_colorWarn f), us_colorCrit := Some (gf_colorCrit f)\<rparr>
      in ((st\<lparr>st_userSettings := s, st_chartTime := Some (gf_chartTime f)\<rparr>, s), saved_toast tr))
   \<and> general_handleSubmit tr f False w (st, hub) = ((st, hub), failed_toast tr)
   \<and> general_handleSubmit tr f r False (st, hub) = ((st, hub), failed_toast tr)"
  by (simp add: general_handleSubmit_def saveSettings_def merge_form set_userSettings_def Let_def)

text \<open>A form that was saved is filled in again with the same values.\<close>

theorem general_form_roundtrip:
  "general_init hour12 (st_userSettings (fst (fst (general_handleSubmit tr f True True (st, hub))))) (gf_chartTime f) = f"
  by (simp add: general_handleSubmit_def saveSettings_def merge_form set_userSettings_def general_init_def
      layoutWidth_def or_default_def Let_def)

text \<open>For settings never saved, what the form starts with is among what it offers.\<close>

lemma general_defaults_offered: "general_offered (Some 65) (Some 90) (general_init hour12 empty_settings chartTime)"
  by (cases chartTime; cases hour12)
    (simp_all add: general_offered_def general_init_def layoutWidth_def or_default_def empty_settings_def width_offered_def
      chartTime_items_def hourFormat_items_def unitTemp_items_def unitNet_items_def unitDisk_items_def
      threshold_offered_def threshold_value_def)

text \<open>Saving with the critical threshold emptied makes every meter critical, also one at zero.\<close>

theorem empty_threshold_always_critical:
  assumes "general_offered warn None f" "v \<ge> 0"
  shows "getMeterState (st_userSettings (fst (fst (general_handleSubmit tr f True True (st, hub))))) v = Crit"
  using assms
  by (simp add: general_offered_def threshold_value_def general_handleSubmit_def saveSettings_def merge_form
      set_userSettings_def getMeterState_def Let_def)

text \<open>
  The tags are pairwise different whatever is typed, pasted and removed, and a comma never stays
  in the text; what was typed or pasted between commas is among the tags afterwards.
\<close>

theorem tags_distinct:
  assumes "distinct emails"
  shows "let t = foldl (\<lambda>t a. tag_step a t) \<lparr>ti_value = emails, ti_pending = []\<rparr> actions
         in distinct (ti_value t) \<and> CHR '','' \<notin> set (ti_pending t)
          \<and> (CHR '','' \<in> set text \<longrightarrow> set (ti_value (tags_input text t)) = set (ti_value t) \<union> trim ` set (split_on CHR '','' text))"
proof -
  have "tags_inv \<lparr>ti_value = emails, ti_pending = []\<rparr>" using assms by (simp add: tags_inv_def)
  from tag_steps_inv [OF this, of actions] show ?thesis
    by (simp add: Let_def tags_inv_def tags_input_def tags_effect_def)
qed

theorem tags_distinct_witness:
  "distinct (ti_value (foldl (\<lambda>t a. tag_step a t) \<lparr>ti_value = [''a@b''], ti_pending = []\<rparr> [Typed ''a@b'', Key ''Enter'']))"
  using tags_distinct [of "[''a@b'']" "[Typed ''a@b'', Key ''Enter'']" "[]"] by (simp add: Let_def)

text \<open>
  Pasting an address with a comma after it adds an empty tag, which is not an address: the next
  save is refused.
\<close>

theorem pasted_comma_adds_empty_tag:
  assumes "CHR '','' \<notin> set address" "\<not> email []"
  shows "[] \<in> set (ti_value (tags_input (address @ '','') t))
    \<and> \<not> schema_ok email url \<lparr>nf_webhooks = ws, nf_emails = ti_value (tags_input (address @ '','') t)\<rparr>"
proof -
  have "split_on CHR '','' (address @ '','') = [address, []]"
    using split_on_append_sep [OF assms(1), of "[]"] by simp
  moreover have "trim [] = []" by (simp add: trim_digits)
  ultimately have "[] \<in> set (ti_value (tags_input (address @ '','') t))" by (simp add: tags_input_def tags_effect_def)
  with assms(2) show ?thesis by (auto simp: schema_ok_def list_all_iff)
qed

theorem pasted_comma_adds_empty_tag_witness:
  "[] \<in> set (ti_value (tags_input ''a@b,'' \<lparr>ti_value = [], ti_pending = []\<rparr>))"
  using pasted_comma_adds_empty_tag [of "''a@b''" "\<lambda>e. e \<noteq> []" "\<lparr>ti_value = [], ti_pending = []\<rparr>"] by simp

text \<open>
  On a narrow screen a read-only user is offered the tokens page, which the wide layout hides.
\<close>

theorem readonly_mobile_tokens:
  "''tokens'' \<in> set (map ni_name (mobile_items (Some ''readonly''))) \<and> ''tokens'' \<notin> set (map ni_name (desktop_items (Some ''readonly'')))
   \<and> set (desktop_items role) \<subseteq> set (mobile_items role)"
  by (auto simp: mobile_items_def desktop_items_def sidebarNavItems_def isAdmin_def isReadOnlyUser_def)

text \<open>
  Two saves that overlap lose one of them: if the links are saved between the reading and the
  writing of the settings, the hub ends with the old links, although both saves reported success.
\<close>

theorem overlapping_saves_lose_links:
  "let copy = hub; (st1, hub1) = saveQuickLinks links True True (st, hub); hub2 = merge_settings copy (form_settings f)
   in us_quickLinks hub1 = Some links \<and> us_quickLinks hub2 = us_quickLinks hub
    \<and> us_quickLinks (snd (fst (general_handleSubmit tr f True True (st1, hub1)))) = Some links"
  by (simp add: saveQuickLinks_def merge_form general_handleSubmit_def saveSettings_def Let_def)

end
