(* ===== verification/NotificationsPage.thy ===== *)
theory NotificationsPage
  imports Settings Router Pages
begin

text \<open>
  The page of notification targets, \<^verbatim>\<open>components/routes/settings/notifications.tsx\<close>, as a component:
  the addresses and webhook URLs being edited, the save in progress, and a card per URL with its own
  test request. React keeps the state of a card by its position (\<open>key={index}\<close>), so a card is an
  instance with a number, and removing a URL unmounts the last instance. \<open>email\<close> and \<open>url\<close> are
  valibot's checks, \<open>msg\<close> the message of the error they throw.
\<close>

section \<open>State\<close>

record UrlCard =
  uc_instance :: nat
  uc_isLoading :: bool

record NotifyPage =
  np_form :: NotificationForm
  np_pending :: string
  np_isLoading :: bool
  np_cards :: "UrlCard list"
  np_fresh :: nat
  np_tests :: "(nat \<times> string) list"
  np_save :: "NotificationForm option"
  np_stores :: "AppState \<times> UserSettings"
  np_toasts :: "settings_toast list"

text \<open>The cards after a render: those of positions that are left stay, new positions get new cards.\<close>

definition render_cards :: "NotifyPage \<Rightarrow> NotifyPage" where
  "render_cards p =
    (let n = length (nf_webhooks (np_form p)); new = n - length (np_cards p)
     in p\<lparr>np_cards := take n (np_cards p) @ map (\<lambda>i. \<lparr>uc_instance = i, uc_isLoading = False\<rparr>) [np_fresh p..<np_fresh p + new],
          np_fresh := np_fresh p + new\<rparr>)"

definition notify_mounted :: "AppState \<times> UserSettings \<Rightarrow> NotifyPage" where
  "notify_mounted s = render_cards
    \<lparr>np_form = notifications_init (st_userSettings (fst s)), np_pending = [], np_isLoading = False, np_cards = [], np_fresh = 0,
     np_tests = [], np_save = None, np_stores = s, np_toasts = []\<rparr>"

section \<open>Operations\<close>

definition edit_form :: "(NotificationForm \<Rightarrow> NotificationForm) \<Rightarrow> NotifyPage \<Rightarrow> NotifyPage" where
  "edit_form g p = render_cards (p\<lparr>np_form := g (np_form p)\<rparr>)"

text \<open>The effect of new settings in the store: what is being edited is replaced.\<close>

definition settings_effect :: "AppState \<times> UserSettings \<Rightarrow> NotifyPage \<Rightarrow> NotifyPage" where
  "settings_effect s p = edit_form (\<lambda>_. notifications_init (st_userSettings (fst s))) (p\<lparr>np_stores := s\<rparr>)"

definition edit_tags :: "TagAction \<Rightarrow> NotifyPage \<Rightarrow> NotifyPage" where
  "edit_tags a p =
    (let t = tag_step a \<lparr>ti_value = nf_emails (np_form p), ti_pending = np_pending p\<rparr>
     in p\<lparr>np_form := (np_form p)\<lparr>nf_emails := ti_value t\<rparr>, np_pending := ti_pending t\<rparr>)"

text \<open>Saving: what fails the schema is refused at once; otherwise the button waits for the request.\<close>

definition save_click :: "(string \<Rightarrow> string) \<Rightarrow> (string \<Rightarrow> bool) \<Rightarrow> (string \<Rightarrow> bool) \<Rightarrow> (NotificationForm \<Rightarrow> string) \<Rightarrow> NotifyPage \<Rightarrow> NotifyPage" where
  "save_click tr email url msg p =
    (if np_isLoading p then p
     else if schema_ok email url (np_form p) then p\<lparr>np_isLoading := True, np_save := Some (np_form p)\<rparr>
     else p\<lparr>np_toasts := np_toasts p @ [(tr ''Failed to save settings'', msg (np_form p), Some ''destructive'')]\<rparr>)"

definition save_answer ::
  "(string \<Rightarrow> string) \<Rightarrow> (string \<Rightarrow> bool) \<Rightarrow> (string \<Rightarrow> bool) \<Rightarrow> (NotificationForm \<Rightarrow> string) \<Rightarrow> bool \<Rightarrow> bool \<Rightarrow> NotifyPage \<Rightarrow> NotifyPage" where
  "save_answer tr email url msg fetchOk writeOk p =
    (case np_save p of
       None \<Rightarrow> p
     | Some f \<Rightarrow>
        (let (s, t) = updateSettings tr email url msg f fetchOk writeOk (np_stores p);
             p1 = (if fetchOk \<and> writeOk then settings_effect s p else p)
         in p1\<lparr>np_save := None, np_isLoading := False, np_toasts := np_toasts p @ [t]\<rparr>))"

section \<open>Test notifications\<close>

definition set_loading :: "nat \<Rightarrow> bool \<Rightarrow> UrlCard list \<Rightarrow> UrlCard list" where
  "set_loading k b cs = map (\<lambda>c. if uc_instance c = k then c\<lparr>uc_isLoading := b\<rparr> else c) cs"

definition test_click :: "nat \<Rightarrow> NotifyPage \<Rightarrow> NotifyPage" where
  "test_click i p =
    (if i < length (np_cards p) \<and> i < length (nf_webhooks (np_form p))
        \<and> \<not> test_disabled (uc_isLoading (np_cards p ! i)) (nf_webhooks (np_form p) ! i)
     then p\<lparr>np_cards := set_loading (uc_instance (np_cards p ! i)) True (np_cards p),
            np_tests := np_tests p @ [(uc_instance (np_cards p ! i), nf_webhooks (np_form p) ! i)]\<rparr>
     else p)"

text \<open>
  The request's end. An answer shows a toast and frees the card; a request that fails (\<open>Inl\<close>) ends
  \<open>sendTestNotification\<close> with an exception nothing catches.
\<close>

definition test_end :: "(string \<Rightarrow> string) \<Rightarrow> nat \<times> string \<Rightarrow> unit + string option option \<Rightarrow> NotifyPage \<Rightarrow> NotifyPage" where
  "test_end tr q res p =
    (if q \<notin> set (np_tests p) then p
     else case res of
       Inl _ \<Rightarrow> p\<lparr>np_tests := remove1 q (np_tests p)\<rparr>
     | Inr err \<Rightarrow> p\<lparr>np_tests := remove1 q (np_tests p), np_cards := set_loading (fst q) False (np_cards p),
                  np_toasts := np_toasts p @ [test_toast tr err]\<rparr>)"

section \<open>What is shown\<close>

record UrlCardView =
  uv_value :: string
  uv_placeholder :: string
  uv_testDisabled :: bool
  uv_spinner :: bool
  uv_label :: string

definition ShoutrrrUrlCard :: "(string \<Rightarrow> string) \<Rightarrow> string \<Rightarrow> UrlCard \<Rightarrow> UrlCardView" where
  "ShoutrrrUrlCard tr url c =
    \<lparr>uv_value = url, uv_placeholder = ''generic://webhook.site/xxxxxx'', uv_testDisabled = test_disabled (uc_isLoading c) url,
     uv_spinner = uc_isLoading c, uv_label = (if uc_isLoading c then [] else tr ''Test URL'')\<rparr>"

record NotifyView =
  nv_texts :: "string list"
  nv_mailLink :: "string option"
  nv_emails :: "string list"
  nv_urls :: "UrlCardView list option"
  nv_saveDisabled :: bool
  nv_saveSpinner :: bool

definition SettingsNotificationsPage :: "(string \<Rightarrow> string) \<Rightarrow> string \<Rightarrow> string option \<Rightarrow> NotifyPage \<Rightarrow> NotifyView" where
  "SettingsNotificationsPage tr base role p =
    \<lparr>nv_texts = map tr [''Notifications'', ''Configure how you receive alert notifications.'',
       ''Looking instead for where to create alerts? Click the bell icons in the systems table.'',
       ''Email notifications'', ''To email(s)'',
       ''Save address using enter key or comma. Leave blank to disable email notifications.'',
       ''Webhook / Push notifications'', ''Beszel uses Shoutrrr to integrate with popular notification services.'',
       ''Add URL'', ''Save Settings''],
     nv_mailLink = (if isAdmin role then Some (prependBasePath base ''/_/#/settings/mail'') else None),
     nv_emails = nf_emails (np_form p),
     nv_urls = (if nf_webhooks (np_form p) = [] then None
                else Some (map2 (ShoutrrrUrlCard tr) (nf_webhooks (np_form p)) (np_cards p))),
     nv_saveDisabled = np_isLoading p, nv_saveSpinner = np_isLoading p\<rparr>"

section \<open>Every order of events\<close>

datatype NotifyEvent =
    AddUrl | RemoveUrl nat | EditUrl nat string | EditTags TagAction | SaveClick | SaveAnswer bool bool
  | TestClick nat | TestEnd "nat \<times> string" "unit + string option option" | OtherSettings "AppState \<times> UserSettings"

fun notify_event ::
  "(string \<Rightarrow> string) \<Rightarrow> (string \<Rightarrow> bool) \<Rightarrow> (string \<Rightarrow> bool) \<Rightarrow> (NotificationForm \<Rightarrow> string) \<Rightarrow> NotifyEvent \<Rightarrow> NotifyPage \<Rightarrow> NotifyPage" where
  "notify_event tr email url msg AddUrl p = edit_form addWebhook p"
| "notify_event tr email url msg (RemoveUrl i) p = edit_form (removeWebhook i) p"
| "notify_event tr email url msg (EditUrl i v) p = edit_form (updateWebhook i v) p"
| "notify_event tr email url msg (EditTags a) p = edit_tags a p"
| "notify_event tr email url msg SaveClick p = save_click tr email url msg p"
| "notify_event tr email url msg (SaveAnswer r w) p = save_answer tr email url msg r w p"
| "notify_event tr email url msg (TestClick i) p = test_click i p"
| "notify_event tr email url msg (TestEnd q res) p = test_end tr q res p"
| "notify_event tr email url msg (OtherSettings s) p = settings_effect s p"

definition notify_run ::
  "(string \<Rightarrow> string) \<Rightarrow> (string \<Rightarrow> bool) \<Rightarrow> (string \<Rightarrow> bool) \<Rightarrow> (NotificationForm \<Rightarrow> string) \<Rightarrow> NotifyEvent list \<Rightarrow> NotifyPage \<Rightarrow> NotifyPage" where
  "notify_run tr email url msg = run (notify_event tr email url msg)"

section \<open>Lemmas\<close>

named_theorems notify_defs

lemmas [notify_defs] = edit_form_def settings_effect_def edit_tags_def save_click_def save_answer_def test_click_def test_end_def

lemma render_cards_fields [simp]:
  "np_form (render_cards p) = np_form p" "np_save (render_cards p) = np_save p" "np_isLoading (render_cards p) = np_isLoading p"
  "np_tests (render_cards p) = np_tests p" "np_stores (render_cards p) = np_stores p" "np_toasts (render_cards p) = np_toasts p"
  "np_pending (render_cards p) = np_pending p"
  by (simp_all add: render_cards_def Let_def)

lemma render_cards_length [simp]: "length (np_cards (render_cards p)) = length (nf_webhooks (np_form p))"
  by (simp add: render_cards_def Let_def)

lemma set_loading_simps [simp]:
  "length (set_loading k b cs) = length cs" "map uc_instance (set_loading k b cs) = map uc_instance cs"
  by (simp_all add: set_loading_def)

lemma set_loading_mem:
  "c \<in> set (set_loading k b cs) \<Longrightarrow> uc_isLoading c = (if uc_instance c = k then b else uc_isLoading c)
     \<and> (\<exists>d\<in>set cs. uc_instance d = uc_instance c \<and> (uc_instance c \<noteq> k \<longrightarrow> uc_isLoading d = uc_isLoading c))"
  by (auto simp: set_loading_def split: if_splits)

text \<open>One card per URL; the button waits exactly while a save is under way, and what it saves passed the schema.\<close>

definition notify_inv :: "(string \<Rightarrow> bool) \<Rightarrow> (string \<Rightarrow> bool) \<Rightarrow> NotifyPage \<Rightarrow> bool" where
  "notify_inv email url p \<longleftrightarrow> length (np_cards p) = length (nf_webhooks (np_form p))
     \<and> (np_isLoading p \<longleftrightarrow> np_save p \<noteq> None) \<and> (\<forall>f. np_save p = Some f \<longrightarrow> schema_ok email url f)"

lemma notify_inv_mounted: "notify_inv email url (notify_mounted s)"
  by (simp add: notify_inv_def notify_mounted_def)

lemma notify_inv_event:
  assumes "notify_inv email url p"
  shows "notify_inv email url (notify_event tr email url msg e p)"
proof -
  note inv = assms [unfolded notify_inv_def]
  show ?thesis
    by (cases e) (use inv in \<open>auto simp: notify_inv_def notify_defs Let_def split: option.split sum.split prod.split\<close>)
qed

text \<open>Instances are numbered apart, and one with a test under way is waiting for it and has no other.\<close>

definition tests_inv :: "NotifyPage \<Rightarrow> bool" where
  "tests_inv p \<longleftrightarrow> distinct (map fst (np_tests p)) \<and> (\<forall>c\<in>set (np_cards p). uc_instance c < np_fresh p)
     \<and> (\<forall>q\<in>set (np_tests p). fst q < np_fresh p \<and> (\<forall>c\<in>set (np_cards p). uc_instance c = fst q \<longrightarrow> uc_isLoading c))"

text \<open>A card that waits although no test of its is under way.\<close>

definition stuck :: "nat \<Rightarrow> NotifyPage \<Rightarrow> bool" where
  "stuck k p \<longleftrightarrow> k < np_fresh p \<and> k \<notin> fst ` set (np_tests p) \<and> (\<forall>c\<in>set (np_cards p). uc_instance c = k \<longrightarrow> uc_isLoading c)"

lemma render_cards_mem:
  "c \<in> set (np_cards (render_cards p)) \<Longrightarrow> c \<in> set (np_cards p) \<or> np_fresh p \<le> uc_instance c \<and> uc_instance c < np_fresh (render_cards p)"
  by (auto simp: render_cards_def Let_def dest: in_set_takeD)

lemma render_cards_fresh: "np_fresh p \<le> np_fresh (render_cards p)"
  by (simp add: render_cards_def Let_def)

lemma tests_inv_render: "tests_inv p \<Longrightarrow> tests_inv (render_cards p)"
  using render_cards_fresh [of p] unfolding tests_inv_def render_cards_fields
  by (fastforce dest: render_cards_mem)

lemma stuck_render: "stuck k p \<Longrightarrow> stuck k (render_cards p)"
  using render_cards_fresh [of p] unfolding stuck_def render_cards_fields by (fastforce dest: render_cards_mem)

lemma tests_frame [simp]:
  "tests_inv (p\<lparr>np_form := f\<rparr>) = tests_inv p" "tests_inv (p\<lparr>np_pending := t\<rparr>) = tests_inv p" "tests_inv (p\<lparr>np_isLoading := b\<rparr>) = tests_inv p"
  "tests_inv (p\<lparr>np_save := v\<rparr>) = tests_inv p" "tests_inv (p\<lparr>np_stores := s\<rparr>) = tests_inv p" "tests_inv (p\<lparr>np_toasts := ts\<rparr>) = tests_inv p"
  "stuck k (p\<lparr>np_form := f\<rparr>) = stuck k p" "stuck k (p\<lparr>np_pending := t\<rparr>) = stuck k p" "stuck k (p\<lparr>np_isLoading := b\<rparr>) = stuck k p"
  "stuck k (p\<lparr>np_save := v\<rparr>) = stuck k p" "stuck k (p\<lparr>np_stores := s\<rparr>) = stuck k p" "stuck k (p\<lparr>np_toasts := ts\<rparr>) = stuck k p"
  by (simp_all add: tests_inv_def stuck_def)

lemma tests_inv_click:
  assumes "tests_inv p"
  shows "tests_inv (test_click i p)"
proof (cases "test_click i p = p")
  case False
  then have i: "i < length (np_cards p)" "\<not> uc_isLoading (np_cards p ! i)"
    by (auto simp: test_click_def test_disabled_def split: if_splits)
  then have "uc_instance (np_cards p ! i) \<notin> fst ` set (np_tests p)" "uc_instance (np_cards p ! i) < np_fresh p"
    using assms nth_mem [OF i(1)] by (auto simp: tests_inv_def)
  with assms show ?thesis by (auto simp: test_click_def tests_inv_def set_loading_def)
qed (use assms in simp)

lemma remove1_key:
  assumes "distinct (map fst xs)" "q \<in> set xs"
  shows "distinct (map fst (remove1 q xs))" "x \<in> set (remove1 q xs) \<Longrightarrow> x \<in> set xs \<and> fst x \<noteq> fst q"
  using assms by (auto simp: distinct_map inj_on_def)

lemma tests_inv_end:
  assumes "tests_inv p"
  shows "tests_inv (test_end tr q res p)"
proof (cases "q \<in> set (np_tests p)")
  case True
  have "distinct (map fst (np_tests p))" using assms by (simp add: tests_inv_def)
  note r = remove1_key [OF this True]
  show ?thesis
    using assms True r(1) by (auto simp: test_end_def tests_inv_def set_loading_def split: sum.split dest!: r(2))
qed (use assms in \<open>simp add: test_end_def\<close>)

lemma stuck_end: "stuck k p \<Longrightarrow> stuck k (test_end tr q res p)"
  using set_remove1_subset [of q "np_tests p"] by (auto simp: test_end_def stuck_def set_loading_def split: sum.split)

lemma stuck_click: "stuck k p \<Longrightarrow> stuck k (test_click i p)"
  by (auto simp: test_click_def stuck_def set_loading_def test_disabled_def)

lemma edit_form_kept: "tests_inv p \<Longrightarrow> tests_inv (edit_form g p)" "stuck k p \<Longrightarrow> stuck k (edit_form g p)"
  by (simp_all add: edit_form_def tests_inv_render stuck_render)

lemma save_answer_kept:
  "tests_inv p \<Longrightarrow> tests_inv (save_answer tr email url msg r w p)" "stuck k p \<Longrightarrow> stuck k (save_answer tr email url msg r w p)"
  by (simp_all add: save_answer_def settings_effect_def Let_def edit_form_kept split: option.split prod.split)

lemma tests_kept:
  "tests_inv p \<Longrightarrow> tests_inv (notify_event tr email url msg e p)" "stuck k p \<Longrightarrow> stuck k (notify_event tr email url msg e p)"
  by (cases e; simp add: settings_effect_def edit_tags_def save_click_def edit_form_kept save_answer_kept
      tests_inv_click tests_inv_end stuck_click stuck_end Let_def)+

interpretation notify_page: event_page "notify_event tr email url msg" "\<lambda>p. p = notify_mounted s" "\<lambda>p. notify_inv email url p \<and> tests_inv p"
  for tr email url msg s
proof (unfold_locales, goal_cases)
  case (1 p)
  have "tests_inv (notify_mounted s)" unfolding notify_mounted_def by (rule tests_inv_render) (simp add: tests_inv_def)
  with 1 show ?case by (simp add: notify_inv_mounted)
next
  case (2 p e)
  then show ?case by (simp add: notify_inv_event tests_kept)
qed

interpretation stuck_card: event_page "notify_event tr email url msg" "stuck k" "stuck k" for tr email url msg k
  by unfold_locales (simp_all add: tests_kept)

lemmas notify_run_inv = notify_page.inv_run [OF refl, folded notify_run_def]
lemmas stuck_run = stuck_card.inv_run [folded notify_run_def]

lemma merge_targets:
  "merge_settings hub (empty_settings\<lparr>us_emails := Some es, us_webhooks := Some ws\<rparr>) = hub\<lparr>us_emails := Some es, us_webhooks := Some ws\<rparr>"
  by (cases hub) (simp add: merge_settings_def empty_settings_def)

section \<open>Properties\<close>

text \<open>
  C39. In every state the page shows one card per URL. The button waits only while a save is under way;
  what is being saved passed the checks, and when the save succeeds hub, store and page have exactly
  those addresses and URLs, everything else is as the hub had it, and the button is free again. When
  it fails the stores and what is being edited stay.
\<close>

theorem notification_targets_saved:
  assumes "p = notify_run tr email url msg es (notify_mounted s)"
  shows "length (np_cards p) = length (nf_webhooks (np_form p)) \<and> (np_isLoading p \<longleftrightarrow> np_save p \<noteq> None)
    \<and> (\<forall>f. np_save p = Some f \<longrightarrow> list_all email (nf_emails f) \<and> list_all url (nf_webhooks f)
        \<and> (let q = save_answer tr email url msg True True p; hub = (snd (np_stores p))\<lparr>us_emails := Some (nf_emails f), us_webhooks := Some (nf_webhooks f)\<rparr>
           in np_form q = f \<and> snd (np_stores q) = hub \<and> st_userSettings (fst (np_stores q)) = hub \<and> \<not> np_isLoading q)
        \<and> (\<forall>r w. \<not> (r \<and> w) \<longrightarrow> (let q = save_answer tr email url msg r w p
           in np_form q = np_form p \<and> np_stores q = np_stores p \<and> \<not> np_isLoading q)))"
proof (intro conjI allI impI)
  note inv = notify_run_inv [of email url tr msg es s, folded assms, THEN conjunct1, unfolded notify_inv_def]
  show "length (np_cards p) = length (nf_webhooks (np_form p))" "np_isLoading p \<longleftrightarrow> np_save p \<noteq> None" using inv by simp_all
  fix f
  assume f: "np_save p = Some f"
  with inv have ok: "schema_ok email url f" by simp
  then show "list_all email (nf_emails f)" "list_all url (nf_webhooks f)" by (simp_all add: schema_ok_def)
  obtain st hub where s: "np_stores p = (st, hub)" by fastforce
  show "let q = save_answer tr email url msg True True p; hub = (snd (np_stores p))\<lparr>us_emails := Some (nf_emails f), us_webhooks := Some (nf_webhooks f)\<rparr>
           in np_form q = f \<and> snd (np_stores q) = hub \<and> st_userSettings (fst (np_stores q)) = hub \<and> \<not> np_isLoading q"
    by (simp add: save_answer_def f updateSettings_def ok saveSettings_def s settings_effect_def edit_form_def merge_targets
        set_userSettings_def notifications_init_def or_default_def Let_def)
  show "let q = save_answer tr email url msg r w p in np_form q = np_form p \<and> np_stores q = np_stores p \<and> \<not> np_isLoading q"
    if "\<not> (r \<and> w)" for r w
    using that by (auto simp: save_answer_def f updateSettings_def ok saveSettings_def s Let_def split: prod.split)
qed

definition sample_targets :: "AppState \<times> UserSettings" where
  "sample_targets = (init_stores True (Some ''me@b''), empty_settings)"

definition sample_notify :: NotifyPage where
  "sample_notify = notify_run id (\<lambda>e. e \<noteq> []) (\<lambda>u. u \<noteq> []) (\<lambda>_. []) [AddUrl, EditUrl 0 ''ntfy://a'', TestClick 0, SaveClick] (notify_mounted sample_targets)"

lemma sample_notify_simps:
  "np_save sample_notify = Some \<lparr>nf_webhooks = [''ntfy://a''], nf_emails = [''me@b'']\<rparr>" "np_tests sample_notify = [(0, ''ntfy://a'')]"
  "np_cards sample_notify = [\<lparr>uc_instance = 0, uc_isLoading = True\<rparr>]"
  by code_simp+

theorem notification_targets_saved_witness:
  "np_form (save_answer id (\<lambda>e. e \<noteq> []) (\<lambda>u. u \<noteq> []) (\<lambda>_. []) True True sample_notify) = \<lparr>nf_webhooks = [''ntfy://a''], nf_emails = [''me@b'']\<rparr>
   \<and> us_webhooks (snd (np_stores (save_answer id (\<lambda>e. e \<noteq> []) (\<lambda>u. u \<noteq> []) (\<lambda>_. []) True True sample_notify))) = Some [''ntfy://a'']"
  using notification_targets_saved [OF sample_notify_def] by (simp add: sample_notify_simps Let_def)

text \<open>
  A test of a URL that is answered frees its card and shows one toast. A test whose request fails
  leaves its card waiting, in every continuation, for as long as it is shown.
\<close>

theorem failed_test_blocks_card:
  assumes "p = notify_run tr email url msg es (notify_mounted s)" "q \<in> set (np_tests p)"
  shows "(\<forall>c\<in>set (np_cards (test_end tr q (Inr err) p)). uc_instance c = fst q \<longrightarrow> \<not> uc_isLoading c)
    \<and> np_toasts (test_end tr q (Inr err) p) = np_toasts p @ [test_toast tr err]
    \<and> np_toasts (test_end tr q (Inl ()) p) = np_toasts p
    \<and> (\<forall>c\<in>set (np_cards (notify_run tr email url msg es' (test_end tr q (Inl ()) p))). uc_instance c = fst q \<longrightarrow>
         uv_testDisabled (ShoutrrrUrlCard tr u c))"
proof -
  have inv: "tests_inv p" unfolding assms(1) using notify_run_inv by blast
  then have "fst q \<notin> fst ` set (remove1 q (np_tests p))" using remove1_key(2) [of "np_tests p" q] assms(2) by (fastforce simp: tests_inv_def)
  then have "stuck (fst q) (test_end tr q (Inl ()) p)" using inv assms(2) by (simp add: test_end_def stuck_def tests_inv_def)
  from stuck_run [OF this, of tr email url msg es'] show ?thesis
    using assms(2) by (auto simp: stuck_def test_end_def ShoutrrrUrlCard_def test_disabled_def set_loading_def)
qed

theorem failed_test_blocks_card_witness:
  "uv_testDisabled (ShoutrrrUrlCard id ''ntfy://b'' (hd (np_cards (notify_run id (\<lambda>e. e \<noteq> []) (\<lambda>u. u \<noteq> []) (\<lambda>_. [])
     [EditUrl 0 ''ntfy://b''] (test_end id (0, ''ntfy://a'') (Inl ()) sample_notify)))))"
proof -
  let ?p = "notify_run id (\<lambda>e. e \<noteq> []) (\<lambda>u. u \<noteq> []) (\<lambda>_. []) [EditUrl 0 ''ntfy://b''] (test_end id (0, ''ntfy://a'') (Inl ()) sample_notify)"
  have "(0, ''ntfy://a'') \<in> set (np_tests sample_notify)" by (simp add: sample_notify_simps)
  note blocks = failed_test_blocks_card [OF sample_notify_def this, of "Some None" "[EditUrl 0 ''ntfy://b'']" "''ntfy://b''"]
  have c: "np_cards ?p = [\<lparr>uc_instance = 0, uc_isLoading = True\<rparr>]" by code_simp
  from blocks show ?thesis unfolding c by simp
qed

text \<open>
  Cards go by position: when the URL whose test is under way is removed, the card of the next URL
  waits in its stead, and its test cannot be started.
\<close>

theorem removal_moves_waiting_card:
  assumes "Suc i < length (nf_webhooks (np_form p))" "length (np_cards p) = length (nf_webhooks (np_form p))"
    and "uc_isLoading (np_cards p ! i)"
  shows "let p' = edit_form (removeWebhook i) p
    in nf_webhooks (np_form p') ! i = nf_webhooks (np_form p) ! Suc i \<and> uc_isLoading (np_cards p' ! i) \<and> test_click i p' = p'"
  using assms by (simp add: edit_form_def render_cards_def removeWebhook_def test_click_def test_disabled_def nth_append Let_def)

text \<open>What is typed while a save is under way is lost when it succeeds: the page shows what was saved.\<close>

theorem edits_during_save_lost:
  assumes "np_save p = Some f" "schema_ok email url f"
  shows "np_form (save_answer tr email url msg True True (edit_form g p)) = f"
  using assms by (cases "np_stores p") (simp add: save_answer_def updateSettings_def saveSettings_def settings_effect_def edit_form_def
      merge_targets set_userSettings_def notifications_init_def or_default_def Let_def)

end
