(* ===== verification/Login.thy ===== *)
theory Login
  imports Router Toast
begin

text \<open>
  Signing in, \<^verbatim>\<open>components/login\<close>: the sign-in and first-run form of \<^verbatim>\<open>auth-form.tsx\<close>, the
  one-time passwords of \<^verbatim>\<open>otp-forms.tsx\<close>, the reset request of \<^verbatim>\<open>forgot-pass-form.tsx\<close>
  and the page around them, \<^verbatim>\<open>login.tsx\<close>. The hub's answers and valibot's \<open>email\<close> are
  parameters, \<open>tr\<close> translates a message. Every operation returns the requests it sent.
\<close>

type_synonym login_toast = "string \<times> string \<times> string option"

section \<open>The form\<close>

record LoginData =
  ld_website :: string
  ld_email :: string
  ld_password :: string
  ld_passwordConfirm :: string

text \<open>\<open>s.length\<close> counts UTF-16 units, \<open>maxBytes\<close> counts the bytes of the UTF-8 text.\<close>

definition js_length :: "string \<Rightarrow> nat" where
  "js_length s = sum_list (map (\<lambda>c. if c \<ge> 65536 then 2 else 1) (code_points s))"

definition password_issues :: "(string \<Rightarrow> string) \<Rightarrow> string \<Rightarrow> string list" where
  "password_issues tr p =
    (if js_length p < 8 then [tr ''Password must be at least 8 characters.''] else [])
    @ (if length p > 72 then [tr ''Password must be less than 72 bytes.''] else [])"

text \<open>The issues of a form, in the order of the schema's fields; \<open>honeypotMsg\<close> is valibot's own message.\<close>

definition issues ::
  "(string \<Rightarrow> string) \<Rightarrow> (string \<Rightarrow> bool) \<Rightarrow> string \<Rightarrow> bool \<Rightarrow> LoginData \<Rightarrow> (string \<times> string) list" where
  "issues tr email honeypotMsg isFirstRun d =
    (if ld_website d \<noteq> [] then [(''website'', honeypotMsg)] else [])
    @ (if \<not> email (ld_email d) then [(''email'', tr ''Invalid email address.'')] else [])
    @ map (\<lambda>m. (''password'', m)) (password_issues tr (ld_password d))
    @ (if isFirstRun then map (\<lambda>m. (''passwordConfirm'', m)) (password_issues tr (ld_passwordConfirm d)) else [])"

definition issue_errors :: "(string \<times> string) list \<Rightarrow> (string, string) dict" where
  "issue_errors is = foldl (\<lambda>errors i. dset (fst i) (snd i) errors) [] is"

section \<open>Signing in\<close>

datatype AuthResponse = Accepted | NeedsMfa string | Rejected

datatype LoginRequest =
    CreateUser string string
  | AuthWithPassword string string
  | RequestOTP string
  | AuthWithOTP string string string
  | AuthWithOAuth2 string
  | RequestPasswordReset string

text \<open>The hub: whether a user can be created, the answer to a password, the id of a one-time password.\<close>

record Hub =
  hub_create :: "string \<Rightarrow> string \<Rightarrow> bool"
  hub_auth :: "string \<Rightarrow> string \<Rightarrow> AuthResponse"
  hub_otp :: "string \<Rightarrow> string option"

record AuthForm =
  af_isLoading :: bool
  af_isOauthLoading :: bool
  af_errors :: "(string, string) dict"
  af_mfaId :: "string option"
  af_otpId :: "string option"

definition init_auth_form :: AuthForm where
  "init_auth_form = \<lparr>af_isLoading = False, af_isOauthLoading = False, af_errors = [], af_mfaId = None, af_otpId = None\<rparr>"

definition showLoginFaliedToast :: "(string \<Rightarrow> string) \<Rightarrow> string option \<Rightarrow> login_toast" where
  "showLoginFaliedToast tr description =
    (tr ''Login attempt failed'',
     (case description of Some d \<Rightarrow> if d \<noteq> [] then d else tr ''Please check your credentials and try again''
      | None \<Rightarrow> tr ''Please check your credentials and try again''),
     Some ''destructive'')"

text \<open>The outcome: the form, whether \<open>$authenticated\<close> is set to true, the requests and the toasts.\<close>

type_synonym login_result = "AuthForm \<times> bool \<times> LoginRequest list \<times> login_toast list"

text \<open>What follows the answer to the password: sign in, ask for a one-time password, or report the failure.\<close>

definition after_auth :: "(string \<Rightarrow> string) \<Rightarrow> Hub \<Rightarrow> string \<Rightarrow> AuthResponse \<Rightarrow> LoginRequest list \<Rightarrow> AuthForm \<Rightarrow> login_result" where
  "after_auth tr hub email response sent af =
    (case response of
       Accepted \<Rightarrow> (af, True, sent, [])
     | NeedsMfa mfaId \<Rightarrow>
         (if mfaId = [] then (af, False, sent, [showLoginFaliedToast tr None])
          else case hub_otp hub email of
                 Some otpId \<Rightarrow> (af\<lparr>af_mfaId := Some mfaId, af_otpId := Some otpId\<rparr>, False, sent @ [RequestOTP email], [])
               | None \<Rightarrow> (af\<lparr>af_mfaId := Some mfaId\<rparr>, False, sent @ [RequestOTP email], [showLoginFaliedToast tr None]))
     | Rejected \<Rightarrow> (af, False, sent, [showLoginFaliedToast tr None]))"

definition login_handleSubmit ::
  "(string \<Rightarrow> string) \<Rightarrow> (string \<Rightarrow> bool) \<Rightarrow> string \<Rightarrow> Hub \<Rightarrow> bool \<Rightarrow> LoginData \<Rightarrow> AuthForm \<Rightarrow> login_result" where
  "login_handleSubmit tr email honeypotMsg hub isFirstRun d af0 =
    (let af = af0\<lparr>af_isLoading := True\<rparr>;
         is = issues tr email honeypotMsg isFirstRun d;
         e = ld_email d; p = ld_password d;
         (af', auth, sent, toasts) =
           (if is \<noteq> [] then (af\<lparr>af_errors := issue_errors is\<rparr>, False, [], [])
            else if isFirstRun \<and> p \<noteq> ld_passwordConfirm d
            then (af\<lparr>af_errors := [(''passwordConfirm'', ''Passwords do not match'')]\<rparr>, False, [], [])
            else if isFirstRun
            then (if hub_create hub e p then after_auth tr hub e (hub_auth hub e p) [CreateUser e p, AuthWithPassword e p] af
                  else (af, False, [CreateUser e p], [showLoginFaliedToast tr None]))
            else after_auth tr hub e (hub_auth hub e p) [AuthWithPassword e p] af)
     in (af'\<lparr>af_isLoading := False\<rparr>, auth, sent, toasts))"

definition form_changed :: "AuthForm \<Rightarrow> AuthForm" where
  "form_changed af = af\<lparr>af_errors := []\<rparr>"

section \<open>OAuth\<close>

record Provider =
  pr_name :: string
  pr_displayName :: string

record AuthMethods =
  am_oauthEnabled :: bool
  am_providers :: "Provider list"
  am_passwordEnabled :: bool
  am_otpEnabled :: bool
  am_mfaEnabled :: bool

definition oauthEnabled :: "AuthMethods \<Rightarrow> bool" where
  "oauthEnabled m \<longleftrightarrow> am_oauthEnabled m \<and> am_providers m \<noteq> []"

definition getAuthProviderIcon :: "string \<Rightarrow> Provider \<Rightarrow> string" where
  "getAuthProviderIcon base provider =
    (let name = (if prefix ''oidc'' (pr_name provider) then ''oidc'' else pr_name provider)
     in prependBasePath base (''/_/images/oauth2/'' @ name @ ''.svg''))"

text \<open>
  \<open>isIOS\<close>: the user agent names an iPhone, iPad or iPod; \<open>popup\<close>: \<open>window.open()\<close> gave a window.
  A blocked popup ends the attempt.
\<close>

definition loginWithOauth :: "(string \<Rightarrow> string) \<Rightarrow> bool \<Rightarrow> bool \<Rightarrow> Provider \<Rightarrow> bool \<Rightarrow> AuthForm \<Rightarrow> AuthForm \<times> LoginRequest list \<times> login_toast list" where
  "loginWithOauth tr isIOS popup provider forcePopup af =
    (if (forcePopup \<or> isIOS) \<and> \<not> popup
     then (af\<lparr>af_isOauthLoading := False\<rparr>, [], [(tr ''Error'', tr ''Please enable pop-ups for this site'', None)])
     else (af\<lparr>af_isOauthLoading := True\<rparr>, [AuthWithOAuth2 (pr_name provider)], []))"

text \<open>\<open>valid\<close> is \<open>pb.authStore.isValid\<close> after a successful answer.\<close>

definition oauth_settled :: "(string \<Rightarrow> string) \<Rightarrow> string option + bool \<Rightarrow> AuthForm \<Rightarrow> AuthForm \<times> bool option \<times> login_toast list" where
  "oauth_settled tr response af =
    (case response of
       Inr valid \<Rightarrow> (af\<lparr>af_isOauthLoading := False\<rparr>, Some valid, [])
     | Inl e \<Rightarrow> (af\<lparr>af_isOauthLoading := False\<rparr>, None, [showLoginFaliedToast tr e]))"

definition auto_login :: "AuthMethods \<Rightarrow> string option \<Rightarrow> Provider option" where
  "auto_login m lo =
    (if \<not> am_passwordEnabled m \<and> length (am_providers m) = 1 \<and> (lo = None \<or> lo = Some []) then Some (hd (am_providers m)) else None)"

text \<open>The parts of the form that are shown.\<close>

datatype LoginPart = PasswordForm | ContinueWith | OtpLink | ProviderButtons | GitHubDialog | ForgotLink

definition login_parts :: "bool \<Rightarrow> AuthMethods \<Rightarrow> LoginPart list" where
  "login_parts isFirstRun m =
    (if am_passwordEnabled m
     then PasswordForm # (if isFirstRun \<or> oauthEnabled m \<or> (am_otpEnabled m \<and> \<not> am_mfaEnabled m) then [ContinueWith] else [])
     else [])
    @ (if am_otpEnabled m \<and> \<not> am_mfaEnabled m then [OtpLink] else [])
    @ (if oauthEnabled m then [ProviderButtons] else [])
    @ (if \<not> oauthEnabled m \<and> isFirstRun then [GitHubDialog] else [])
    @ (if am_passwordEnabled m \<and> \<not> isFirstRun then [ForgotLink] else [])"

definition shows_otp_input :: "AuthForm \<Rightarrow> bool" where
  "shows_otp_input af \<longleftrightarrow> (af_otpId af \<noteq> None \<and> af_otpId af \<noteq> Some []) \<and> (af_mfaId af \<noteq> None \<and> af_mfaId af \<noteq> Some [])"

section \<open>One-time passwords and resets\<close>

text \<open>A rendering with six digits sends them.\<close>

definition otp_render :: "string \<Rightarrow> string \<Rightarrow> string \<Rightarrow> LoginRequest list" where
  "otp_render otpId mfaId v = (if length v = 6 then [AuthWithOTP otpId v mfaId] else [])"

definition otp_settled :: "(string \<Rightarrow> string) \<Rightarrow> string option + unit \<Rightarrow> (string \<times> bool) option \<times> login_toast list" where
  "otp_settled tr response =
    (case response of Inr _ \<Rightarrow> (Some (''/'', True), []) | Inl m \<Rightarrow> (None, [showLoginFaliedToast tr m]))"

record EmailForm =
  ef_isLoading :: bool
  ef_email :: string
  ef_otpId :: "string option"

definition otp_request :: "(string \<Rightarrow> string) \<Rightarrow> Hub \<Rightarrow> string option \<Rightarrow> EmailForm \<Rightarrow> EmailForm \<times> LoginRequest list \<times> login_toast list" where
  "otp_request tr hub message f =
    (case hub_otp hub (ef_email f) of
       Some otpId \<Rightarrow> (f\<lparr>ef_otpId := Some otpId, ef_isLoading := False, ef_email := []\<rparr>, [RequestOTP (ef_email f)], [])
     | None \<Rightarrow> (f\<lparr>ef_isLoading := False, ef_email := []\<rparr>, [RequestOTP (ef_email f)], [showLoginFaliedToast tr message]))"

definition forgot_handleSubmit :: "(string \<Rightarrow> string) \<Rightarrow> bool \<Rightarrow> EmailForm \<Rightarrow> EmailForm \<times> LoginRequest list \<times> login_toast list" where
  "forgot_handleSubmit tr ok f =
    (f\<lparr>ef_isLoading := False, ef_email := []\<rparr>, [RequestPasswordReset (ef_email f)],
     (if ok then [(tr ''Password reset request received'', tr (''Check '' @ ef_email f @ '' for a reset link.''), None)]
      else [showLoginFaliedToast tr None]))"

section \<open>The page\<close>

definition subtitle :: "(string \<Rightarrow> string) \<Rightarrow> bool \<Rightarrow> string option \<Rightarrow> string" where
  "subtitle tr isFirstRun route =
    (if isFirstRun then tr ''Please create an admin account''
     else if route = Some ''forgot_password'' then tr ''Enter email address to reset password''
     else if route = Some ''request_otp'' then tr ''Request a one-time password''
     else tr ''Please sign in to your account'')"

datatype LoginView = ForgotPassword | OtpRequestForm | UserAuthForm

definition login_view :: "string option \<Rightarrow> AuthMethods option \<Rightarrow> LoginView option" where
  "login_view route methods =
    (case methods of None \<Rightarrow> None
     | Some _ \<Rightarrow> Some (if route = Some ''forgot_password'' then ForgotPassword
                       else if route = Some ''request_otp'' then OtpRequestForm else UserAuthForm))"

section \<open>Properties\<close>

lemma after_auth_authenticated: "fst (snd (after_auth tr hub e r sent af)) \<longleftrightarrow> r = Accepted"
  by (cases r) (auto simp: after_auth_def split: option.split)

lemma after_auth_sent: "set sent \<subseteq> set (fst (snd (snd (after_auth tr hub e r sent af))))
    \<and> set (fst (snd (snd (after_auth tr hub e r sent af)))) \<subseteq> set sent \<union> {RequestOTP e}"
  by (cases r) (auto simp: after_auth_def split: option.split)

lemma after_auth_passwords:
  "(\<forall>e' p. AuthWithPassword e' p \<in> set sent \<longrightarrow> e' = e \<and> p = q)
   \<Longrightarrow> AuthWithPassword e' p \<in> set (fst (snd (snd (after_auth tr hub e r sent af)))) \<Longrightarrow> e' = e \<and> p = q"
  using after_auth_sent [of sent tr hub e r af] by blast

lemma issues_Nil:
  "issues tr email msg isFirstRun d = [] \<Longrightarrow>
    ld_website d = [] \<and> email (ld_email d) \<and> 8 \<le> js_length (ld_password d) \<and> length (ld_password d) \<le> 72"
  by (auto simp: issues_def password_issues_def split: if_splits)

text \<open>
  C25. The form signs a user in exactly when it is filled in correctly (no issue, and on the first run
  equal passwords and a user created) and the hub accepts the password. A form with an issue, the
  hidden field filled in among them, sends nothing; a password leaves the form only between 8
  characters and 72 bytes; and the form is never left loading.
\<close>

theorem login_only_when_accepted:
  "case login_handleSubmit tr email msg hub isFirstRun d af of (af', auth, sent, toasts) \<Rightarrow>
     (auth \<longleftrightarrow> issues tr email msg isFirstRun d = [] \<and> (isFirstRun \<longrightarrow> ld_password d = ld_passwordConfirm d
                 \<and> hub_create hub (ld_email d) (ld_password d)) \<and> hub_auth hub (ld_email d) (ld_password d) = Accepted)
     \<and> \<not> af_isLoading af'
     \<and> (sent \<noteq> [] \<longrightarrow> ld_website d = [] \<and> email (ld_email d) \<and> 8 \<le> js_length (ld_password d) \<and> length (ld_password d) \<le> 72)
     \<and> (\<forall>e p. AuthWithPassword e p \<in> set sent \<longrightarrow> e = ld_email d \<and> p = ld_password d)"
proof (cases "issues tr email msg isFirstRun d = [] \<and> (isFirstRun \<longrightarrow> ld_password d = ld_passwordConfirm d
    \<and> hub_create hub (ld_email d) (ld_password d))")
  case False
  then show ?thesis
    using issues_Nil [of tr email msg isFirstRun d] by (auto simp: login_handleSubmit_def Let_def)
next
  case True
  define sent where "sent = (if isFirstRun then [CreateUser (ld_email d) (ld_password d)] else []) @ [AuthWithPassword (ld_email d) (ld_password d)]"
  define res where "res = after_auth tr hub (ld_email d) (hub_auth hub (ld_email d) (ld_password d)) sent (af\<lparr>af_isLoading := True\<rparr>)"
  have eq: "login_handleSubmit tr email msg hub isFirstRun d af = ((fst res)\<lparr>af_isLoading := False\<rparr>, snd res)"
    using True by (cases isFirstRun) (auto simp: login_handleSubmit_def Let_def res_def sent_def split_beta)
  have "AuthWithPassword e p \<in> set (fst (snd (snd res))) \<Longrightarrow> e = ld_email d \<and> p = ld_password d" for e p
    unfolding res_def by (rule after_auth_passwords [of sent]) (auto simp: sent_def)
  moreover have "fst (snd res) \<longleftrightarrow> hub_auth hub (ld_email d) (ld_password d) = Accepted"
    unfolding res_def by (rule after_auth_authenticated)
  ultimately show ?thesis using True issues_Nil [of tr email msg isFirstRun d] by (auto simp: eq split_beta)
qed

definition sample_hub :: Hub where
  "sample_hub = \<lparr>hub_create = (\<lambda>_ _. True), hub_auth = (\<lambda>e p. if p = ''correct horse'' then Accepted else Rejected), hub_otp = (\<lambda>_. None)\<rparr>"

definition sample_login :: LoginData where
  "sample_login = \<lparr>ld_website = ''spam'', ld_email = ''a@b'', ld_password = ''correct horse'', ld_passwordConfirm = []\<rparr>"

theorem login_only_when_accepted_witness:
  "\<not> fst (snd (login_handleSubmit id (\<lambda>_. True) [] sample_hub False sample_login init_auth_form))"
  using login_only_when_accepted [where tr = id and email = "\<lambda>_. True" and msg = "[]" and hub = sample_hub
      and isFirstRun = False and d = sample_login and af = init_auth_form]
  by (simp add: split_beta issues_def) (simp add: sample_login_def)

end
