(* ===== verification/LoginView.thy ===== *)
theory LoginView
  imports Login
begin

text \<open>
  What the form for signing in shows, \<^verbatim>\<open>components/login/auth-form.tsx\<close>: the fields with their labels,
  errors and marks, the buttons, and the dialog about providers on the first run.
\<close>

section \<open>Fields\<close>

record LoginField =
  lf_name :: string
  lf_label :: string
  lf_placeholder :: string
  lf_type :: string
  lf_disabled :: bool
  lf_marked :: bool
  lf_error :: "string option"

text \<open>A truthy message is shown; the third field is marked by the error of the second.\<close>

definition shown_error :: "AuthForm \<Rightarrow> string \<Rightarrow> string option" where
  "shown_error af k = (case dget (af_errors af) k of None \<Rightarrow> None | Some m \<Rightarrow> if m = [] then None else Some m)"

definition login_fields :: "(string \<Rightarrow> string) \<Rightarrow> bool \<Rightarrow> AuthForm \<Rightarrow> LoginField list" where
  "login_fields tr isFirstRun af =
    (let off = af_isLoading af \<or> af_isOauthLoading af; pass = shown_error af ''password'' in
     [\<lparr>lf_name = ''email'', lf_label = tr ''Email'', lf_placeholder = ''name@example.com'', lf_type = ''text'', lf_disabled = off,
       lf_marked = (shown_error af ''email'' \<noteq> None), lf_error = shown_error af ''email''\<rparr>,
      \<lparr>lf_name = ''password'', lf_label = tr ''Password'', lf_placeholder = tr ''Password'', lf_type = ''password'', lf_disabled = off,
       lf_marked = (pass \<noteq> None), lf_error = pass\<rparr>]
     @ (if isFirstRun
        then [\<lparr>lf_name = ''passwordConfirm'', lf_label = tr ''Confirm password'', lf_placeholder = tr ''Confirm password'', lf_type = ''password'',
          lf_disabled = off, lf_marked = (pass \<noteq> None), lf_error = shown_error af ''passwordConfirm''\<rparr>]
        else []))"

section \<open>Buttons and the rest\<close>

record LoginButton =
  lb_label :: string
  lb_icon :: string
  lb_disabled :: bool
  lb_spinner :: bool

definition submit_button :: "(string \<Rightarrow> string) \<Rightarrow> bool \<Rightarrow> AuthForm \<Rightarrow> LoginButton" where
  "submit_button tr isFirstRun af =
    \<lparr>lb_label = (if isFirstRun then tr ''Create account'' else tr ''Sign in''), lb_icon = [], lb_disabled = af_isLoading af, lb_spinner = af_isLoading af\<rparr>"

definition provider_buttons :: "string \<Rightarrow> AuthMethods \<Rightarrow> AuthForm \<Rightarrow> LoginButton list" where
  "provider_buttons base m af =
    map (\<lambda>p. \<lparr>lb_label = pr_displayName p, lb_icon = (if af_isOauthLoading af then [] else getAuthProviderIcon base p),
       lb_disabled = (af_isLoading af \<or> af_isOauthLoading af), lb_spinner = af_isOauthLoading af\<rparr>) (am_providers m)"

definition github_dialog :: "(string \<Rightarrow> string) \<Rightarrow> string \<Rightarrow> LoginButton \<times> string list" where
  "github_dialog tr base =
    (\<lparr>lb_label = ''GitHub'', lb_icon = prependBasePath base ''/_/images/oauth2/github.svg'', lb_disabled = False, lb_spinner = False\<rparr>,
     map tr [''OAuth 2 / OIDC support'', ''Beszel supports OpenID Connect and many OAuth2 authentication providers.'',
       ''Please see the documentation for instructions.''])"

datatype LoginElement =
    FormFields "LoginField list" LoginButton
  | Divider string
  | LinkTo string string
  | Providers "LoginButton list"
  | ProviderDialog "LoginButton \<times> string list"

text \<open>\<open>forgot\<close> is the path of the page that resets the password.\<close>

definition login_element :: "(string \<Rightarrow> string) \<Rightarrow> string \<Rightarrow> string \<Rightarrow> bool \<Rightarrow> AuthMethods \<Rightarrow> AuthForm \<Rightarrow> LoginPart \<Rightarrow> LoginElement" where
  "login_element tr base forgot isFirstRun m af part =
    (case part of
       PasswordForm \<Rightarrow> FormFields (login_fields tr isFirstRun af) (submit_button tr isFirstRun af)
     | ContinueWith \<Rightarrow> Divider (tr ''Or continue with'')
     | OtpLink \<Rightarrow> LinkTo (tr ''One-time password'') ''/request-otp''
     | ProviderButtons \<Rightarrow> Providers (provider_buttons base m af)
     | GitHubDialog \<Rightarrow> ProviderDialog (github_dialog tr base)
     | ForgotLink \<Rightarrow> LinkTo (tr ''Forgot password?'') forgot)"

definition UserAuthForm :: "(string \<Rightarrow> string) \<Rightarrow> string \<Rightarrow> string \<Rightarrow> bool \<Rightarrow> AuthMethods \<Rightarrow> AuthForm \<Rightarrow> LoginElement list" where
  "UserAuthForm tr base forgot isFirstRun m af = map (login_element tr base forgot isFirstRun m af) (login_parts isFirstRun m)"

section \<open>Lemmas\<close>

lemma issue_errors_get: "dget (issue_errors is) k = map_of (rev is) k"
proof -
  have "dget (foldl (\<lambda>errors i. dset (fst i) (snd i) errors) e is) k = (case map_of (rev is) k of None \<Rightarrow> dget e k | Some m \<Rightarrow> Some m)" for e
    by (induction "is" arbitrary: e) (auto simp: map_add_def split: option.split)
  then show ?thesis by (simp add: issue_errors_def split: option.split)
qed

lemma issue_fields:
  "(k, m) \<in> set (issues tr email hp isFirstRun d) \<Longrightarrow> ld_website d = [] \<Longrightarrow> k \<in> lf_name ` set (login_fields tr' isFirstRun af)"
  by (auto simp: issues_def login_fields_def Let_def split: if_splits)

lemma field_error: "f \<in> set (login_fields tr isFirstRun af) \<Longrightarrow> lf_error f = shown_error af (lf_name f)"
  by (auto simp: login_fields_def Let_def split: if_splits)

lemma issue_message:
  assumes "(k, m) \<in> set (issues tr email hp isFirstRun d)" "\<And>s. s \<noteq> [] \<Longrightarrow> tr s \<noteq> []" "hp \<noteq> []"
  shows "m \<noteq> []"
proof -
  have "tr ''Invalid email address.'' \<noteq> []" "tr ''Password must be at least 8 characters.'' \<noteq> []" "tr ''Password must be less than 72 bytes.'' \<noteq> []"
    by (rule assms(2), simp)+
  with assms(1,3) show ?thesis unfolding issues_def password_issues_def by (auto split: if_splits)
qed

section \<open>Properties\<close>

text \<open>
  A form that is refused says why. When the values entered do not pass the checks, or on the first run
  the two passwords differ, nothing is sent and no one is signed in; every field with a problem is among
  the fields shown and has one of its messages below it, and the other fields have none.
\<close>

theorem refusal_explained:
  assumes "\<And>s. s \<noteq> [] \<Longrightarrow> tr s \<noteq> []" "hp \<noteq> []" "ld_website d = []" "issues tr email hp isFirstRun d \<noteq> []"
    and "login_handleSubmit tr email hp hub isFirstRun d af = (af', auth, sent, toasts)"
  shows "\<not> auth \<and> sent = [] \<and> toasts = [] \<and> \<not> af_isLoading af'
    \<and> fst ` set (issues tr email hp isFirstRun d) \<subseteq> lf_name ` set (login_fields tr isFirstRun af')
    \<and> (\<forall>f\<in>set (login_fields tr isFirstRun af').
         case lf_error f of None \<Rightarrow> lf_name f \<notin> fst ` set (issues tr email hp isFirstRun d)
         | Some m \<Rightarrow> (lf_name f, m) \<in> set (issues tr email hp isFirstRun d))"
proof -
  let ?is = "issues tr email hp isFirstRun d"
  have r: "af' = af\<lparr>af_isLoading := False, af_errors := issue_errors ?is\<rparr>" "\<not> auth" "sent = []" "toasts = []"
    using assms(4,5) by (auto simp: login_handleSubmit_def Let_def)
  have "fst ` set ?is \<subseteq> lf_name ` set (login_fields tr isFirstRun af')" using issue_fields [OF _ assms(3)] by force
  moreover have "case lf_error f of None \<Rightarrow> lf_name f \<notin> fst ` set ?is | Some m \<Rightarrow> (lf_name f, m) \<in> set ?is"
    if "f \<in> set (login_fields tr isFirstRun af')" for f
  proof (cases "map_of (rev ?is) (lf_name f)")
    case None
    then have "lf_name f \<notin> fst ` set ?is" by (simp add: map_of_eq_None_iff)
    then show ?thesis using None field_error [OF that] by (simp add: r(1) shown_error_def issue_errors_get)
  next
    case (Some m)
    then have m: "(lf_name f, m) \<in> set ?is" using map_of_SomeD [OF Some] by simp
    then have "m \<noteq> []" by (rule issue_message) (use assms in auto)
    then show ?thesis using Some m field_error [OF that] by (simp add: r(1) shown_error_def issue_errors_get)
  qed
  ultimately show ?thesis using r by simp
qed

definition sample_entry :: LoginData where
  "sample_entry = \<lparr>ld_website = [], ld_email = ''a@b'', ld_password = ''short'', ld_passwordConfirm = []\<rparr>"

definition open_hub :: Hub where
  "open_hub = \<lparr>hub_create = (\<lambda>_ _. True), hub_auth = (\<lambda>_ _. Accepted), hub_otp = (\<lambda>_. None)\<rparr>"

theorem refusal_explained_witness:
  "map lf_error (login_fields id False (fst (login_handleSubmit id (\<lambda>_. True) ''bot'' open_hub False sample_entry init_auth_form)))
   = [None, Some ''Password must be at least 8 characters.'']"
proof -
  have i: "issues id (\<lambda>_. True) ''bot'' False sample_entry = [(''password'', ''Password must be at least 8 characters.'')]"
    by (simp add: issues_def sample_entry_def password_issues_def js_length_def)
  have w: "ld_website sample_entry = []" by (simp add: sample_entry_def)
  obtain af' auth sent toasts where r: "login_handleSubmit id (\<lambda>_. True) ''bot'' open_hub False sample_entry init_auth_form = (af', auth, sent, toasts)"
    by (metis surj_pair)
  have "\<forall>f\<in>set (login_fields id False af').
      case lf_error f of None \<Rightarrow> lf_name f \<notin> fst ` set (issues id (\<lambda>_. True) ''bot'' False sample_entry)
      | Some m \<Rightarrow> (lf_name f, m) \<in> set (issues id (\<lambda>_. True) ''bot'' False sample_entry)"
    by (intro refusal_explained [OF _ _ _ _ r, THEN conjunct2, THEN conjunct2, THEN conjunct2, THEN conjunct2, THEN conjunct2]) (simp_all add: i w)
  then have "case lf_error (login_fields id False af' ! 0) of None \<Rightarrow> True | Some m \<Rightarrow> False"
    "case lf_error (login_fields id False af' ! 1) of None \<Rightarrow> False | Some m \<Rightarrow> m = ''Password must be at least 8 characters.''"
    unfolding i by (cases "shown_error af' ''email''"; cases "shown_error af' ''password''"; simp add: login_fields_def Let_def)+
  then show ?thesis unfolding r fst_conv by (simp add: login_fields_def Let_def split: option.splits)
qed

text \<open>
  When the two passwords differ the message stands below the third field, but no field is marked: the
  third is marked only by an error of the second.
\<close>

theorem differing_passwords_unmarked:
  assumes "issues tr email hp True d = []" "ld_password d \<noteq> ld_passwordConfirm d"
    and "login_handleSubmit tr email hp hub True d af = (af', auth, sent, toasts)"
  shows "sent = [] \<and> map lf_error (login_fields tr True af') = [None, None, Some ''Passwords do not match'']
    \<and> \<not> list_ex lf_marked (login_fields tr True af')"
  using assms by (auto simp: login_handleSubmit_def login_fields_def shown_error_def Let_def)

text \<open>The only silent refusal is the one for the hidden field: a filled honeypot alone shows no error anywhere.\<close>

theorem honeypot_refused_silently:
  assumes "issues tr email hp isFirstRun d = [(''website'', hp)]"
    and "login_handleSubmit tr email hp hub isFirstRun d af = (af', auth, sent, toasts)"
  shows "\<not> auth \<and> sent = [] \<and> toasts = [] \<and> list_all (\<lambda>f. lf_error f = None) (login_fields tr isFirstRun af')"
  using assms by (auto simp: login_handleSubmit_def login_fields_def shown_error_def issue_errors_def Let_def)

end
