(* ===== verification/AddSystemView.thy ===== *)
theory AddSystemView
  imports AddSystem TokenPage
begin

text \<open>
  The dialog that adds or edits a system as a component, \<^verbatim>\<open>components/add-system.tsx\<close>: its
  button, the state that outlives its being closed, the fields with their constraints, the copy buttons
  of the two tabs and the submission. The component stays mounted once it has been opened; only its
  content, with the inputs for name and port that keep their own values, is mounted anew each time.
\<close>

section \<open>State\<close>

record SystemDialog =
  sd_open :: bool
  sd_opened :: bool
  sd_name :: string
  sd_host :: string
  sd_port :: string
  sd_tab :: string
  sd_addToQuickLinks :: bool
  sd_local :: string
  sd_domain :: string
  sd_category :: string

text \<open>\<open>system\<close> is the edited system; \<open>storedTab\<close> what the browser has stored under \<open>as-tab\<close>.\<close>

definition dialog_mounted :: "SystemRecord option \<Rightarrow> string option \<Rightarrow> SystemDialog" where
  "dialog_mounted system storedTab =
    \<lparr>sd_open = False, sd_opened = False, sd_name = [], sd_host = (case system of Some s \<Rightarrow> sys_host s | None \<Rightarrow> []),
     sd_port = [], sd_tab = (case storedTab of Some t \<Rightarrow> t | None \<Rightarrow> ''docker''), sd_addToQuickLinks = False,
     sd_local = [], sd_domain = [], sd_category = []\<rparr>"

definition default_port :: "SystemRecord option \<Rightarrow> string" where
  "default_port system = (case system of Some s \<Rightarrow> if sys_port s \<noteq> [] then sys_port s else ''45876'' | None \<Rightarrow> ''45876'')"

text \<open>Opening mounts the inputs with their default values; closing resets the host.\<close>

definition dialog_open :: "SystemRecord option \<Rightarrow> SystemDialog \<Rightarrow> SystemDialog" where
  "dialog_open system d =
    d\<lparr>sd_open := True, sd_opened := True, sd_name := (case system of Some s \<Rightarrow> sys_name s | None \<Rightarrow> []),
      sd_port := default_port system\<rparr>"

definition dialog_close :: "SystemRecord option \<Rightarrow> SystemDialog \<Rightarrow> SystemDialog" where
  "dialog_close system d = d\<lparr>sd_open := False, sd_host := (case system of Some s \<Rightarrow> sys_host s | None \<Rightarrow> [])\<rparr>"

text \<open>The button of the navigation bar is not there for read-only users; the dialog follows the first opening.\<close>

definition AddSystemButton :: "string option \<Rightarrow> SystemDialog \<Rightarrow> (bool \<times> bool) option" where
  "AddSystemButton role d = (if isReadOnlyUser role then None else Some (sd_open d, sd_opened d))"

section \<open>Fields\<close>

datatype DialogField = NameField string | HostField string | PortField string | TabField string
  | QuickLinkBox bool | CategoryField string | LocalField string | DomainField string

fun set_field :: "DialogField \<Rightarrow> SystemDialog \<Rightarrow> SystemDialog" where
  "set_field (NameField v) d = d\<lparr>sd_name := v\<rparr>"
| "set_field (HostField v) d = d\<lparr>sd_host := v\<rparr>"
| "set_field (PortField v) d = d\<lparr>sd_port := v\<rparr>"
| "set_field (TabField v) d = d\<lparr>sd_tab := v\<rparr>"
| "set_field (QuickLinkBox b) d = d\<lparr>sd_addToQuickLinks := b\<rparr>"
| "set_field (CategoryField v) d = d\<lparr>sd_category := v\<rparr>"
| "set_field (LocalField v) d = d\<lparr>sd_local := v\<rparr>"
| "set_field (DomainField v) d = d\<lparr>sd_domain := v\<rparr>"

record FieldView =
  fv_label :: string
  fv_value :: string
  fv_required :: bool
  fv_hidden :: bool

definition dialog_fields :: "(string \<Rightarrow> string) \<Rightarrow> string \<Rightarrow> string \<Rightarrow> SystemDialog \<Rightarrow> FieldView list" where
  "dialog_fields tr publicKey token d =
    (let socket = isUnixSocket (sd_host d) in
     [\<lparr>fv_label = tr ''Name'', fv_value = sd_name d, fv_required = True, fv_hidden = False\<rparr>,
      \<lparr>fv_label = tr ''Host / IP'', fv_value = sd_host d, fv_required = True, fv_hidden = False\<rparr>,
      \<lparr>fv_label = tr ''Port'', fv_value = sd_port d, fv_required = \<not> socket, fv_hidden = socket\<rparr>,
      \<lparr>fv_label = tr ''Public Key'', fv_value = publicKey, fv_required = False, fv_hidden = False\<rparr>,
      \<lparr>fv_label = tr ''Token'', fv_value = token, fv_required = False, fv_hidden = False\<rparr>])"

definition quick_link_fields :: "(string \<Rightarrow> string) \<Rightarrow> SystemRecord option \<Rightarrow> SystemDialog \<Rightarrow> (bool \<times> (string \<times> string) list) option" where
  "quick_link_fields tr system d =
    (if system \<noteq> None then None
     else Some (sd_addToQuickLinks d,
       if sd_addToQuickLinks d
       then [(tr ''Category'', sd_category d), (tr ''Local URL'', sd_local d), (tr ''Domain URL'', sd_domain d)] else []))"

definition fields_valid :: "FieldView list \<Rightarrow> bool" where
  "fields_valid fs = list_all (\<lambda>f. fv_required f \<longrightarrow> fv_value f \<noteq> []) fs"

definition dialog_heading :: "(string \<Rightarrow> string) \<Rightarrow> SystemRecord option \<Rightarrow> string \<times> string" where
  "dialog_heading tr system =
    (case system of Some _ \<Rightarrow> (tr ''Edit System'', tr ''Save system'') | None \<Rightarrow> (tr ''Add System'', tr ''Add system''))"

section \<open>Copy buttons\<close>

text \<open>The button of the chosen tab with the entries of its menu.\<close>

definition copy_buttons :: "(string \<Rightarrow> string) \<Rightarrow> string \<Rightarrow> string \<Rightarrow> string \<Rightarrow> SystemDialog \<Rightarrow> MenuEntry list" where
  "copy_buttons tr hubURL publicKey token d =
    (let port = listen_address (sd_host d) (Some (sd_port d)) in
     if sd_tab d = ''docker''
     then [CopyText (tr ''Copy docker compose'') (dockerCompose port publicKey token hubURL),
           CopyText (tr ''Copy docker run'') (dockerRun port publicKey token hubURL)]
     else if sd_tab d = ''binary''
     then [CopyText (tr ''Copy Linux command'') (linuxCommand port publicKey token False hubURL),
           CopyText (tr ''Homebrew command'') (linuxCommand port publicKey token True hubURL),
           CopyText (tr ''Windows command'') (windowsCommand port publicKey token hubURL),
           CopyText (tr ''FreeBSD command'') (linuxCommand port publicKey token False hubURL),
           OpenUrl (tr ''Manual setup instructions'') ''https://beszel.dev/guide/agent-installation#binary'']
     else [])"

text \<open>A menu of installation texts: an entry with an address is a link, the others copy their text.\<close>

fun InstallDropdown :: "MenuEntry list \<Rightarrow> (string \<times> string option) list" where
  "InstallDropdown [] = []"
| "InstallDropdown (CopyText label content # es) = (label, None) # InstallDropdown es"
| "InstallDropdown (OpenUrl label url # es) = (label, Some url) # InstallDropdown es"

section \<open>Submission\<close>

definition dialog_form :: "SystemDialog \<Rightarrow> SystemForm" where
  "dialog_form d = \<lparr>sf_name = sd_name d, sf_host = sd_host d, sf_port = sd_port d,
     sf_addToQuickLinks = sd_addToQuickLinks d, sf_local = sd_local d, sf_domain = sd_domain d, sf_category = sd_category d\<rparr>"

text \<open>Adding: the browser refuses an incomplete form; otherwise the dialog closes and the requests follow.\<close>

definition dialog_add ::
  "(string \<Rightarrow> string) \<Rightarrow> string \<Rightarrow> string \<Rightarrow> string option \<Rightarrow> bool \<Rightarrow> string \<Rightarrow> SystemDialog \<times> DialogState \<Rightarrow> SystemDialog \<times> DialogState" where
  "dialog_add tr base publicKey created fpOk user s =
    (case s of (d, ds) \<Rightarrow>
      if fields_valid (dialog_fields tr publicKey (ds_token ds) d)
      then (dialog_close None d, handleSubmit_add base created fpOk user (dialog_form d) ds) else s)"

section \<open>Properties\<close>

text \<open>
  A system is added only from a complete form: the row the hub gets has a name and a host, and a port
  unless the host is a socket.
\<close>

theorem added_system_complete:
  assumes "dialog_add tr base pk (Some k) fpOk user (d, ds) = (d', ds')" "r \<in> set (ht_systems (ds_hub ds'))"
    and "r \<notin> set (ht_systems (ds_hub ds))"
  shows "row_id r = k \<and> row_name r \<noteq> [] \<and> row_host r \<noteq> [] \<and> (row_port r \<noteq> [] \<or> isUnixSocket (row_host r))
    \<and> row_users r = user \<and> \<not> sd_open d'"
  using assms
  by (auto simp: dialog_add_def dialog_fields_def fields_valid_def handleSubmit_add_eq dialog_form_def form_row_def
      dialog_close_def Let_def split: if_splits)

text \<open>
  The fields of the quick link outlive the dialog: after a system was added with one, the next
  dialog starts with an empty name and host and the default port, but with the box still ticked and
  the addresses of the system before, which the next system then gets as its link.
\<close>

theorem quick_link_fields_kept:
  assumes "fields_valid (dialog_fields tr pk (ds_token ds) d)" "sd_addToQuickLinks d"
    and "dialog_add tr base pk created fpOk user (d, ds) = (d', ds')"
  shows "let e = dialog_open None d' in
    sd_name e = [] \<and> sd_host e = [] \<and> sd_port e = ''45876''
    \<and> sd_addToQuickLinks e \<and> sd_local e = sd_local d \<and> sd_domain e = sd_domain d \<and> sd_category e = sd_category d"
  using assms by (auto simp: dialog_add_def dialog_open_def dialog_close_def default_port_def Let_def)

end
