(* ===== verification/App.thy ===== *)
theory App
  imports Api Alerts Router Pages
begin

text \<open>
  The application, \<^verbatim>\<open>main.tsx\<close>: what is shown, the start of a session, and the interleaving of
  its requests, realtime messages, log-outs and log-ins over the stores of the other components.
  \<open>setKey\<close> and \<open>aKey\<close> are the \<open>setKey\<close> operations of the systems and alerts stores.
\<close>

section \<open>What is shown\<close>

datatype View = LoginPage | NotFound | Home | SystemDetail string | Containers | Smart | Settings | Nothing

text \<open>A matched page: its route and its \<open>id\<close> parameter.\<close>

type_synonym page = "string \<times> string"

definition App_view :: "page option \<Rightarrow> View" where
  "App_view page =
    (case page of
       None \<Rightarrow> NotFound
     | Some (route, k) \<Rightarrow>
        if route = ''home'' then Home else if route = ''system'' then SystemDetail k
        else if route = ''containers'' then Containers else if route = ''smart'' then Smart
        else if route = ''settings'' then Settings else Nothing)"

definition Layout_view :: "page option \<Rightarrow> AppState \<Rightarrow> View" where
  "Layout_view page st = (if \<not> st_authenticated st then LoginPage else App_view page)"

definition shows_copy_dialog :: "AppState \<Rightarrow> bool" where
  "shows_copy_dialog st \<longleftrightarrow> st_authenticated st \<and> st_copyContent st \<noteq> []"

section \<open>Sessions\<close>

text \<open>
  Each time \<open>App\<close> is mounted its effect starts a chain of promises: load the systems, subscribe to
  them, load the alerts, subscribe to them. Nothing cancels a chain. \<open>ap_sysSubs\<close> and
  \<open>ap_alertSubs\<close> are the subscriptions that deliver messages, by the number of the mount that made
  them, \<open>ap_sysUnsub\<close> and \<open>ap_alertUnsub\<close> the module variables \<open>unsub\<close>; \<open>ap_loads\<close>
  counts the lists of systems received.
\<close>

datatype Phase = LoadSystems | SubscribeSystems | LoadAlerts | SubscribeAlerts

record App =
  ap_stores :: AppState
  ap_session :: "(string, string) dict"
  ap_local :: "(string, string) dict"
  ap_batch :: "(string, alert_msg) dict"
  ap_mounted :: bool
  ap_mounts :: nat
  ap_chains :: "(nat \<times> Phase) list"
  ap_loads :: nat
  ap_sysSubs :: "nat list"
  ap_sysUnsub :: "nat option"
  ap_alertSubs :: "nat list"
  ap_alertUnsub :: "nat option"

definition app_init :: "bool \<Rightarrow> string option \<Rightarrow> (string, string) dict \<Rightarrow> App" where
  "app_init auth email local = \<lparr>ap_stores = init_stores auth email, ap_session = [], ap_local = local, ap_batch = [],
     ap_mounted = False, ap_mounts = 0, ap_chains = [], ap_loads = 0, ap_sysSubs = [], ap_sysUnsub = None,
     ap_alertSubs = [], ap_alertUnsub = None\<rparr>"

definition mount :: "App \<Rightarrow> App" where
  "mount a = a\<lparr>ap_mounted := True, ap_stores := init (ap_stores a),
     ap_chains := ap_chains a @ [(ap_mounts a, LoadSystems)], ap_mounts := Suc (ap_mounts a)\<rparr>"

definition drop_sub :: "nat option \<Rightarrow> nat list \<Rightarrow> nat list" where
  "drop_sub u subs = (case u of None \<Rightarrow> subs | Some n \<Rightarrow> filter (\<lambda>m. m \<noteq> n) subs)"

definition unmount :: "App \<Rightarrow> App" where
  "unmount a = a\<lparr>ap_mounted := False, ap_alertSubs := drop_sub (ap_alertUnsub a) (ap_alertSubs a),
     ap_sysSubs := drop_sub (ap_sysUnsub a) (ap_sysSubs a), ap_sysUnsub := None\<rparr>"

text \<open>The step of a chain, and its end.\<close>

definition advance :: "nat \<Rightarrow> Phase \<Rightarrow> App \<Rightarrow> App" where
  "advance n p a = a\<lparr>ap_chains := map (\<lambda>c. if fst c = n then (n, p) else c) (ap_chains a)\<rparr>"

definition finish :: "nat \<Rightarrow> App \<Rightarrow> App" where
  "finish n a = a\<lparr>ap_chains := filter (\<lambda>c. fst c \<noteq> n) (ap_chains a)\<rparr>"

definition systems_loaded :: "SystemRecord setKey \<Rightarrow> nat \<Rightarrow> (string + SystemRecord list) \<Rightarrow> App \<Rightarrow> App" where
  "systems_loaded setKey n response a =
    advance n SubscribeSystems
      (a\<lparr>ap_stores := fst (refresh setKey response (ap_stores a)), ap_loads := Suc (ap_loads a)\<rparr>)"

definition systems_subscribed :: "nat \<Rightarrow> bool \<Rightarrow> App \<Rightarrow> App" where
  "systems_subscribed n ok a =
    advance n LoadAlerts (if ok then a\<lparr>ap_sysSubs := ap_sysSubs a @ [n], ap_sysUnsub := Some n\<rparr> else a)"

definition alerts_loaded :: "(string, AlertRecord) dict setKey \<Rightarrow> nat \<Rightarrow> AlertRecord list option \<Rightarrow> App \<Rightarrow> App" where
  "alerts_loaded aKey n response a =
    (case response of
       None \<Rightarrow> finish n a
     | Some records \<Rightarrow> advance n SubscribeAlerts
         (a\<lparr>ap_stores := (ap_stores a)\<lparr>st_alerts := alerts_refresh aKey records (st_alerts (ap_stores a))\<rparr>\<rparr>))"

definition alerts_subscribed :: "nat \<Rightarrow> bool \<Rightarrow> App \<Rightarrow> App" where
  "alerts_subscribed n ok a =
    finish n (if ok then a\<lparr>ap_alertSubs := ap_alertSubs a @ [n], ap_alertUnsub := Some n\<rparr> else a)"

text \<open>A realtime message reaches the handler of every subscription.\<close>

definition system_message :: "SystemRecord setKey \<Rightarrow> PbAction \<Rightarrow> SystemRecord \<Rightarrow> App \<Rightarrow> App" where
  "system_message setKey action r a =
    a\<lparr>ap_stores := foldl (\<lambda>st _. actionFns setKey action r st) (ap_stores a) (ap_sysSubs a)\<rparr>"

definition alert_message :: "alert_msg \<Rightarrow> App \<Rightarrow> App" where
  "alert_message m a = a\<lparr>ap_batch := foldl (\<lambda>b _. batch_add m b) (ap_batch a) (ap_alertSubs a)\<rparr>"

definition flush_alerts :: "(string, AlertRecord) dict setKey \<Rightarrow> App \<Rightarrow> App" where
  "flush_alerts aKey a =
    (let (alerts, batch) = batch_flush aKey (ap_batch a) (st_alerts (ap_stores a))
     in a\<lparr>ap_stores := (ap_stores a)\<lparr>st_alerts := alerts\<rparr>, ap_batch := batch\<rparr>)"

text \<open>The other answers: the public key and the user settings.\<close>

definition key_loaded :: "string \<Rightarrow> App \<Rightarrow> App" where
  "key_loaded key a = a\<lparr>ap_stores := (ap_stores a)\<lparr>st_publicKey := key\<rparr>\<rparr>"

definition settings_loaded ::
  "(string + UserSettings) \<Rightarrow> (string + UserSettings) \<Rightarrow> (string \<Rightarrow> QuickLink list option) \<Rightarrow> bool \<Rightarrow> App \<Rightarrow> App" where
  "settings_loaded fetched created parse saveOk a =
    (case fst (updateUserSettings fetched created parse saveOk (ap_stores a, ap_local a)) of
       (st, local) \<Rightarrow> a\<lparr>ap_stores := st, ap_local := local\<rparr>)"

text \<open>
  A change of the authentication: \<open>$authenticated\<close> follows it, and \<open>Layout\<close> unmounts \<open>App\<close> when
  it is gone. \<open>log_out\<close> is \<open>logOut\<close>, which also drops every subscription of the client.
\<close>

definition auth_changed :: "bool \<Rightarrow> App \<Rightarrow> App" where
  "auth_changed valid a =
    (let a1 = a\<lparr>ap_stores := (ap_stores a)\<lparr>st_authenticated := valid\<rparr>\<rparr>
     in if ap_mounted a1 \<and> \<not> valid then unmount a1 else a1)"

definition log_out :: "SystemRecord setKey \<Rightarrow> App \<Rightarrow> App" where
  "log_out setKey a =
    (let (st, session) = logOut setKey (ap_stores a, ap_session a)
     in auth_changed False (a\<lparr>ap_stores := st, ap_session := session, ap_sysSubs := [], ap_alertSubs := []\<rparr>))"

text \<open>
  Every interleaving of these events up to the first log-out: a log-out resets the stores without the
  listener, see \<open>logOut_keeps_status_stores\<close>.
\<close>

inductive app_reach :: "SystemRecord setKey \<Rightarrow> (string, AlertRecord) dict setKey \<Rightarrow> App \<Rightarrow> bool" for setKey aKey where
  start: "app_reach setKey aKey (app_init auth email local)"
| mounts: "app_reach setKey aKey a \<Longrightarrow> st_authenticated (ap_stores a) \<Longrightarrow> \<not> ap_mounted a \<Longrightarrow> app_reach setKey aKey (mount a)"
| loads: "app_reach setKey aKey a \<Longrightarrow> (n, LoadSystems) \<in> set (ap_chains a)
    \<Longrightarrow> \<forall>s\<in>set (fetchSystems response). sys_id s \<noteq> [] \<Longrightarrow> app_reach setKey aKey (systems_loaded setKey n response a)"
| subscribes: "app_reach setKey aKey a \<Longrightarrow> (n, SubscribeSystems) \<in> set (ap_chains a)
    \<Longrightarrow> app_reach setKey aKey (systems_subscribed n ok a)"
| loads_alerts: "app_reach setKey aKey a \<Longrightarrow> (n, LoadAlerts) \<in> set (ap_chains a)
    \<Longrightarrow> app_reach setKey aKey (alerts_loaded aKey n records a)"
| subscribes_alerts: "app_reach setKey aKey a \<Longrightarrow> (n, SubscribeAlerts) \<in> set (ap_chains a)
    \<Longrightarrow> app_reach setKey aKey (alerts_subscribed n ok a)"
| message: "app_reach setKey aKey a \<Longrightarrow> sys_id r \<noteq> [] \<Longrightarrow> app_reach setKey aKey (system_message setKey action r a)"
| alert: "app_reach setKey aKey a \<Longrightarrow> app_reach setKey aKey (alert_message m a)"
| flush: "app_reach setKey aKey a \<Longrightarrow> app_reach setKey aKey (flush_alerts aKey a)"
| key: "app_reach setKey aKey a \<Longrightarrow> ap_mounts a > 0 \<Longrightarrow> app_reach setKey aKey (key_loaded k a)"
| settings: "app_reach setKey aKey a \<Longrightarrow> ap_mounts a > 0
    \<Longrightarrow> app_reach setKey aKey (settings_loaded fetched created parse saveOk a)"
| auth: "app_reach setKey aKey a \<Longrightarrow> app_reach setKey aKey (auth_changed valid a)"

text \<open>
  The same events one by one, log-outs included: an answer of a chain counts only when the chain waits for it, \<open>App\<close> is mounted
  only when it is shown, and the public key and the settings are requested by its effect. \<open>LogOutPressed\<close> is \<open>logOut\<close>, called by
  the user menu or, after an empty list of systems, by \<open>verifyAuth\<close>.
\<close>

datatype AppEvent = AppMounted | SystemsAnswer nat "string + SystemRecord list" | SystemsSubscribed nat bool
  | AlertsAnswer nat "AlertRecord list option" | AlertsSubscribed nat bool | SystemMessage PbAction SystemRecord
  | AlertMessage alert_msg | BatchTimer | KeyAnswer string
  | SettingsAnswer "string + UserSettings" "string + UserSettings" "string \<Rightarrow> QuickLink list option" bool
  | AuthChange bool | LogOutPressed

definition chain_waits :: "nat \<Rightarrow> Phase \<Rightarrow> App \<Rightarrow> bool" where
  "chain_waits n p a \<longleftrightarrow> (n, p) \<in> set (ap_chains a)"

fun app_event :: "SystemRecord setKey \<Rightarrow> (string, AlertRecord) dict setKey \<Rightarrow> AppEvent \<Rightarrow> App \<Rightarrow> App" where
  "app_event setKey aKey AppMounted a = (if st_authenticated (ap_stores a) \<and> \<not> ap_mounted a then mount a else a)"
| "app_event setKey aKey (SystemsAnswer n response) a = (if chain_waits n LoadSystems a then systems_loaded setKey n response a else a)"
| "app_event setKey aKey (SystemsSubscribed n ok) a = (if chain_waits n SubscribeSystems a then systems_subscribed n ok a else a)"
| "app_event setKey aKey (AlertsAnswer n response) a = (if chain_waits n LoadAlerts a then alerts_loaded aKey n response a else a)"
| "app_event setKey aKey (AlertsSubscribed n ok) a = (if chain_waits n SubscribeAlerts a then alerts_subscribed n ok a else a)"
| "app_event setKey aKey (SystemMessage action r) a = system_message setKey action r a"
| "app_event setKey aKey (AlertMessage m) a = alert_message m a"
| "app_event setKey aKey BatchTimer a = flush_alerts aKey a"
| "app_event setKey aKey (KeyAnswer k) a = (if ap_mounts a > 0 then key_loaded k a else a)"
| "app_event setKey aKey (SettingsAnswer fetched created parse saveOk) a =
     (if ap_mounts a > 0 then settings_loaded fetched created parse saveOk a else a)"
| "app_event setKey aKey (AuthChange valid) a = auth_changed valid a"
| "app_event setKey aKey LogOutPressed a = log_out setKey a"

section \<open>Lemmas\<close>

text \<open>The stores the systems manager keeps; the rest of the state does not matter to its invariant.\<close>

definition same_systems :: "AppState \<Rightarrow> AppState \<Rightarrow> bool" where
  "same_systems st st' \<longleftrightarrow> st_allSystemsByName st' = st_allSystemsByName st \<and> st_allSystemsById st' = st_allSystemsById st
     \<and> st_upSystems st' = st_upSystems st \<and> st_downSystems st' = st_downSystems st \<and> st_pausedSystems st' = st_pausedSystems st
     \<and> st_longestSystemNameLen st' = st_longestSystemNameLen st \<and> st_initialized st' = st_initialized st
     \<and> st_prevDownCount st' = st_prevDownCount st"

lemma systems_inv_same: "same_systems st st' \<Longrightarrow> systems_inv st \<Longrightarrow> systems_inv st'"
  by (simp add: same_systems_def systems_inv_defs)

lemma same_systems_simps [simp]:
  "same_systems st (st\<lparr>st_alerts := x\<rparr>)" "same_systems st (st\<lparr>st_publicKey := k\<rparr>)" "same_systems st (st\<lparr>st_authenticated := b\<rparr>)"
  by (simp_all add: same_systems_def)

lemma updateUserSettings_same:
  "same_systems st (fst (fst (updateUserSettings fetched created parse saveOk (st, local))))
   \<and> st_alerts (fst (fst (updateUserSettings fetched created parse saveOk (st, local)))) = st_alerts st"
  by (auto simp: updateUserSettings_def same_systems_def set_userSettings_def Let_def split: sum.split option.split prod.split)

lemma apply_group_empty: "apply_group aKey [] act m = m"
  by (simp add: apply_group_def batch_group_def)

lemma batch_flush_empty: "batch_flush aKey [] m = (m, [])"
  by (simp add: batch_flush_def apply_group_empty)

text \<open>
  The invariant: before the first mount the stores are as at the start and nothing is under way;
  from then on the systems invariant holds. Anything beyond the first step of a chain, a subscription
  or an alert means that a list of systems has been received.
\<close>

definition app_inv :: "App \<Rightarrow> bool" where
  "app_inv a \<longleftrightarrow>
     (if ap_mounts a = 0 then \<exists>auth email. ap_stores a = init_stores auth email else systems_inv (ap_stores a))
     \<and> (ap_loads a = 0 \<longrightarrow> (\<forall>c\<in>set (ap_chains a). snd c = LoadSystems) \<and> ap_sysSubs a = [] \<and> ap_alertSubs a = []
          \<and> ap_batch a = [] \<and> st_alerts (ap_stores a) = [])
     \<and> (ap_mounts a = 0 \<longrightarrow> ap_chains a = [] \<and> ap_loads a = 0)"

lemmas app_events = mount_def unmount_def advance_def finish_def systems_loaded_def systems_subscribed_def
  alerts_loaded_def alerts_subscribed_def system_message_def alert_message_def flush_alerts_def key_loaded_def
  settings_loaded_def auth_changed_def drop_sub_def

lemma app_inv_same:
  assumes "app_inv a" "same_systems (ap_stores a) (ap_stores a')" "ap_mounts a' = ap_mounts a" "ap_mounts a > 0"
    "ap_loads a' = ap_loads a"
    "ap_loads a = 0 \<longrightarrow> (\<forall>c\<in>set (ap_chains a'). snd c = LoadSystems) \<and> ap_sysSubs a' = [] \<and> ap_alertSubs a' = []
       \<and> ap_batch a' = [] \<and> st_alerts (ap_stores a') = []"
  shows "app_inv a'"
  using assms systems_inv_same [OF assms(2)] by (auto simp: app_inv_def)

lemma chains_past_loads:
  assumes "app_inv a" "(n, p) \<in> set (ap_chains a)"
  shows "ap_mounts a > 0" "p \<noteq> LoadSystems \<Longrightarrow> ap_loads a > 0"
  using assms by (auto simp: app_inv_def)

lemma mount_inv: "app_inv a \<Longrightarrow> app_inv (mount a)"
  using init_systems_inv
  by (auto simp: app_inv_def mount_def init_def init_stores_def systems_inv_def split: if_splits)

lemma messages_inv:
  assumes "systems_store setKey" "systems_inv st" "sys_id r \<noteq> []"
  shows "systems_inv (foldl (\<lambda>st (_ :: nat). actionFns setKey action r st) st subs)"
  using assms(2)
proof (induction subs arbitrary: st)
  case (Cons x subs)
  have "systems_inv (actionFns setKey action r st)"
    using systems_store.add_inv [OF assms(1)] systems_store.update_inv [OF assms(1)] systems_store.remove_inv(1) [OF assms(1)]
      Cons.prems assms(3) by (cases action) auto
  with Cons.IH show ?case by simp
qed simp

lemma unstarted:
  assumes "app_inv a" "ap_mounts a = 0"
  shows "ap_sysSubs a = []" "ap_alertSubs a = []" "ap_batch a = []" "st_alerts (ap_stores a) = []"
  using assms by (auto simp: app_inv_def)

lemma flush_unstarted: "app_inv a \<Longrightarrow> ap_mounts a = 0 \<Longrightarrow> flush_alerts aKey a = a"
  using unstarted [of a] by (cases a; cases "ap_stores a") (simp add: flush_alerts_def batch_flush_empty)

lemma auth_changed_inv: "app_inv a \<Longrightarrow> app_inv (auth_changed valid a)"
proof (cases "ap_mounts a = 0")
  case True
  assume inv: "app_inv a"
  then obtain auth email where "ap_stores a = init_stores auth email" using True by (auto simp: app_inv_def)
  then have "(ap_stores a)\<lparr>st_authenticated := valid\<rparr> = init_stores valid email" by (simp add: init_stores_def)
  then have "ap_stores (auth_changed valid a) = init_stores valid email"
    "ap_mounts (auth_changed valid a) = 0" "ap_chains (auth_changed valid a) = []" "ap_loads (auth_changed valid a) = 0"
    "ap_sysSubs (auth_changed valid a) = []" "ap_alertSubs (auth_changed valid a) = []" "ap_batch (auth_changed valid a) = []"
    using inv True by (simp_all add: app_inv_def auth_changed_def unmount_def drop_sub_def Let_def split: option.split)
  then show ?thesis by (auto simp: app_inv_def) (simp add: init_stores_def)
next
  case False
  assume inv: "app_inv a"
  show ?thesis
    by (rule app_inv_same [OF inv]) (use inv False in \<open>auto simp: app_inv_def app_events Let_def split: option.split\<close>)
qed

lemma loaded_inv:
  assumes "systems_store setKey" "app_inv a" "(n, LoadSystems) \<in> set (ap_chains a)" "\<forall>s\<in>set (fetchSystems response). sys_id s \<noteq> []"
  shows "app_inv (systems_loaded setKey n response a)"
proof -
  have "ap_mounts a > 0" using chains_past_loads [OF assms(2,3)] by simp
  moreover have "systems_inv (fst (refresh setKey response (ap_stores a)))"
    using systems_store.refresh_inv [OF assms(1)] assms(2,4) calculation by (auto simp: app_inv_def)
  ultimately show ?thesis by (simp add: app_inv_def app_events)
qed

lemma quiet_inv:
  assumes "app_inv a" "ap_mounts a > 0 \<or> ap_loads a > 0"
  shows "app_inv (flush_alerts aKey a)" "app_inv (key_loaded k a)" "app_inv (settings_loaded fetched created parse saveOk a)"
    "app_inv (alert_message m a)"
proof -
  have m: "ap_mounts a > 0" using assms by (auto simp: app_inv_def)
  show "app_inv (flush_alerts aKey a)"
    by (rule app_inv_same [OF assms(1)]) (use assms m in \<open>auto simp: app_inv_def app_events batch_flush_empty Let_def split: prod.splits\<close>)
  show "app_inv (key_loaded k a)" by (rule app_inv_same [OF assms(1)]) (use assms m in \<open>auto simp: app_inv_def app_events\<close>)
  show "app_inv (settings_loaded fetched created parse saveOk a)"
    by (rule app_inv_same [OF assms(1)])
      (use assms m updateUserSettings_same [of "ap_stores a" fetched created parse saveOk "ap_local a"] in
        \<open>auto simp: app_inv_def app_events split: prod.splits\<close>)
  show "app_inv (alert_message m a)" for m
    by (rule app_inv_same [OF assms(1)]) (use assms m in \<open>auto simp: app_inv_def app_events same_systems_def\<close>)
qed

lemma chain_inv:
  assumes "app_inv a"
  shows "(n, SubscribeSystems) \<in> set (ap_chains a) \<Longrightarrow> app_inv (systems_subscribed n ok a)"
    and "(n, LoadAlerts) \<in> set (ap_chains a) \<Longrightarrow> app_inv (alerts_loaded aKey n records a)"
    and "(n, SubscribeAlerts) \<in> set (ap_chains a) \<Longrightarrow> app_inv (alerts_subscribed n ok a)"
  using chains_past_loads [OF assms] assms
  by (auto simp: app_events same_systems_def split: option.split intro!: app_inv_same [OF assms] dest: chains_past_loads [OF assms])

lemma message_inv:
  assumes "systems_store setKey" "app_inv a" "sys_id r \<noteq> []"
  shows "app_inv (system_message setKey action r a)"
proof (cases "ap_loads a = 0")
  case True
  then have "ap_sysSubs a = []" using assms(2) by (simp add: app_inv_def)
  with assms(2) show ?thesis by (simp add: system_message_def)
next
  case False
  then have "ap_mounts a > 0" using assms(2) by (auto simp: app_inv_def)
  with False assms(2) messages_inv [OF assms(1) _ assms(3)] show ?thesis by (auto simp: app_inv_def system_message_def)
qed

lemma app_reach_inv:
  assumes "nano_map setKey" "app_reach setKey aKey a"
  shows "app_inv a"
proof -
  from assms(1) have sys: "systems_store setKey" by (simp add: systems_store_def)
  show ?thesis using assms(2)
  proof (induction rule: app_reach.induct)
    case (start auth email local)
    show ?case by (auto simp: app_inv_def app_init_def init_stores_def)
  next
    case (alert a m)
    then show ?case
      using quiet_inv(4) [of a m] unstarted(2) [of a] by (cases "ap_mounts a = 0") (auto simp: alert_message_def)
  next
    case (flush a)
    then show ?case
      using quiet_inv(1) [of a aKey] flush_unstarted [of a aKey] by (cases "ap_mounts a = 0") auto
  qed (auto intro: mount_inv loaded_inv [OF sys] chain_inv message_inv [OF sys] quiet_inv auth_changed_inv)
qed

text \<open>What the systems manager leaves alone.\<close>

lemma listener_frame:
  "st_authenticated (fst (listener setKey n st)) = st_authenticated st
   \<and> st_allSystemsByName (fst (listener setKey n st)) = st_allSystemsByName st"
  by (simp add: listener_def byId_setKey_def place_def onSystemsChanged_def Let_def case_prod_beta
      split: option.split SystemStatus.split)

lemma deliver_frame:
  "st_authenticated (deliver setKey fuel ns st) = st_authenticated st
   \<and> st_allSystemsByName (deliver setKey fuel ns st) = st_allSystemsByName st"
proof (induction setKey fuel ns st rule: deliver.induct)
  case (3 setKey fuel n ns st)
  then show ?case using listener_frame [of setKey n st] by (simp add: case_prod_beta)
qed simp_all

lemma add_frame:
  assumes "nano_map setKey" "validateSystemInfo s"
  shows "st_authenticated (add setKey s st) = st_authenticated st"
    "dget (st_allSystemsByName (add setKey s st)) (sys_name s) = Some s"
  using assms(2) nano_map.setKey_get [OF assms(1)]
  by (simp_all add: add_def setSystem_def byId_setKey_def Let_def case_prod_beta deliver_frame)

lemma actionFns_frame: "st_authenticated (actionFns setKey action r st) = st_authenticated st"
  by (cases action)
    (simp_all add: add_def update_def remove_def setSystem_def byId_setKey_def Let_def case_prod_beta deliver_frame)

lemma refresh_frame: "st_authenticated (fst (refresh setKey response st)) = st_authenticated st"
proof -
  have "st_authenticated (foldl (\<lambda>st s. add setKey s st) st ss) = st_authenticated st" for ss
    by (induction ss arbitrary: st) (simp_all add: add_def setSystem_def byId_setKey_def Let_def case_prod_beta deliver_frame)
  then show ?thesis by (simp add: refresh_def Let_def)
qed

lemma settings_frame:
  "st_authenticated (fst (fst (updateUserSettings fetched created parse saveOk (st, local)))) = st_authenticated st"
  by (auto simp: updateUserSettings_def set_userSettings_def Let_def split: sum.split option.split prod.split)

text \<open>Events that do not answer the chain \<open>n\<close>, and those that do not sign anyone in.\<close>

fun answers_chain :: "nat \<Rightarrow> AppEvent \<Rightarrow> bool" where
  "answers_chain n (SystemsAnswer m _) = (m = n)"
| "answers_chain n (SystemsSubscribed m _) = (m = n)"
| "answers_chain n (AlertsAnswer m _) = (m = n)"
| "answers_chain n (AlertsSubscribed m _) = (m = n)"
| "answers_chain n _ = False"

lemma chain_waits_event: "chain_waits n p a \<Longrightarrow> \<not> answers_chain n e \<Longrightarrow> chain_waits n p (app_event setKey aKey e a)"
  by (cases e) (auto simp: chain_waits_def app_events log_out_def Let_def image_iff case_prod_beta split: option.split)

lemma chain_waits_run: "chain_waits n p a \<Longrightarrow> \<forall>e\<in>set es. \<not> answers_chain n e \<Longrightarrow> chain_waits n p (run (app_event setKey aKey) es a)"
  by (induction es arbitrary: a) (simp_all add: chain_waits_event)

lemma messages_frame:
  "st_authenticated (foldl (\<lambda>st (_ :: nat). actionFns setKey action r st) st subs) = st_authenticated st"
  by (induction subs arbitrary: st) (simp_all add: actionFns_frame)

lemma signed_out_event:
  "\<not> st_authenticated (ap_stores a) \<Longrightarrow> e \<noteq> AuthChange True \<Longrightarrow> \<not> st_authenticated (ap_stores (app_event setKey aKey e a))"
  by (cases e)
    (auto simp: app_events log_out_def Let_def case_prod_beta refresh_frame messages_frame settings_frame split: option.split)

lemma signed_out_run:
  "\<not> st_authenticated (ap_stores a) \<Longrightarrow> AuthChange True \<notin> set es \<Longrightarrow> \<not> st_authenticated (ap_stores (run (app_event setKey aKey) es a))"
proof (induction es arbitrary: a)
  case (Cons e es)
  then have "\<not> st_authenticated (ap_stores (app_event setKey aKey e a))" by (intro signed_out_event) auto
  with Cons show ?case by simp
qed simp

text \<open>These are the events of \<open>app_reach\<close>, apart from the log-out.\<close>

lemma app_reach_event:
  assumes "app_reach setKey aKey a" "e \<noteq> LogOutPressed"
    "\<And>n response s. e = SystemsAnswer n response \<Longrightarrow> s \<in> set (fetchSystems response) \<Longrightarrow> sys_id s \<noteq> []"
    "\<And>action r. e = SystemMessage action r \<Longrightarrow> sys_id r \<noteq> []"
  shows "app_reach setKey aKey (app_event setKey aKey e a)"
  using assms by (cases e) (auto simp: chain_waits_def intro: app_reach.intros)

section \<open>Properties\<close>


text \<open>A session up to an alert, with a second chain started in between.\<close>

definition sample_session_alert :: AlertRecord where
  "sample_session_alert = \<lparr>al_id = ''x'', al_system = ''a'', al_name = ''CPU'', al_triggered = False, al_value = 80, al_min = 10\<rparr>"

definition sample_app :: App where
  "sample_app = alerts_loaded nano_setKey 0 (Some [sample_session_alert]) (systems_subscribed 0 True
     (mount (auth_changed True (auth_changed False
       (systems_loaded nano_setKey 0 (Inr [sample_system ''a'' ''web'' Up]) (mount (app_init True None [])))))))"

lemma sample_app_reach: "app_reach nano_setKey nano_setKey sample_app"
  unfolding sample_app_def
  by (rule app_reach.loads_alerts, rule app_reach.subscribes, rule app_reach.mounts, rule app_reach.auth, rule app_reach.auth,
      rule app_reach.loads, rule app_reach.mounts, rule app_reach.start)
    (simp_all add: app_events app_init_def init_def fetchSystems_def Let_def, simp_all add: init_stores_def sample_system_def)


text \<open>
  What is shown: without authentication the login page whatever the address, else the page of the
  route, a 404 exactly when no route matches, and nothing for the routes of the login page.
\<close>

theorem views_guarded:
  "(\<not> st_authenticated st \<longrightarrow> Layout_view page st = LoginPage)
   \<and> (st_authenticated st \<longrightarrow> Layout_view page st \<noteq> LoginPage
        \<and> (Layout_view page st = NotFound \<longleftrightarrow> page = None)
        \<and> (\<forall>k. Layout_view page st = Nothing \<longleftrightarrow> page \<noteq> None \<and> fst (the page) \<notin> {''home'', ''system'', ''containers'', ''smart'', ''settings''}))"
  by (auto simp: Layout_view_def App_view_def split: option.split if_splits)

theorem views_guarded_witness: "Layout_view (Some (''settings'', [])) (init_stores False None) = LoginPage"
  using views_guarded [of "init_stores False None" "Some (''settings'', [])"] by (simp add: init_stores_def)

text \<open>
  C37. Nothing stops the chain of promises of a session: if its list of systems is still under way when the user logs out, then
  whatever happens next, as long as nobody signs in again (further log-outs, messages and answers of other chains included), the
  chain still waits for it. When it arrives the stores hold its systems again, under the login page, and the chain goes on to
  subscribe to the systems.
\<close>

theorem late_systems_after_logout:
  assumes "nano_map setKey" "validateSystemInfo s" "chain_waits n LoadSystems a" "\<forall>e\<in>set es. \<not> answers_chain n e \<and> e \<noteq> AuthChange True"
  shows "let out = run (app_event setKey aKey) (LogOutPressed # es) a;
             loaded = app_event setKey aKey (SystemsAnswer n (Inr [s])) out;
             subscribed = app_event setKey aKey (SystemsSubscribed n True) loaded
     in chain_waits n LoadSystems out
        \<and> dget (st_allSystemsByName (ap_stores loaded)) (sys_name s) = Some s
        \<and> Layout_view page (ap_stores loaded) = LoginPage
        \<and> n \<in> set (ap_sysSubs subscribed) \<and> Layout_view page (ap_stores subscribed) = LoginPage"
proof -
  define out where "out = run (app_event setKey aKey) (LogOutPressed # es) a"
  define loaded where "loaded = app_event setKey aKey (SystemsAnswer n (Inr [s])) out"
  define subscribed where "subscribed = app_event setKey aKey (SystemsSubscribed n True) loaded"
  have w: "chain_waits n LoadSystems out" unfolding out_def by (rule chain_waits_run) (use assms(3,4) in auto)
  have "\<not> st_authenticated (ap_stores (log_out setKey a))"
    by (simp add: log_out_def auth_changed_def unmount_def Let_def case_prod_beta)
  then have auth: "\<not> st_authenticated (ap_stores out)"
    using assms(4) signed_out_run [of "log_out setKey a" es setKey aKey] by (auto simp: out_def)
  then have auth': "\<not> st_authenticated (ap_stores loaded)" unfolding loaded_def by (rule signed_out_event) simp
  then have auth'': "\<not> st_authenticated (ap_stores subscribed)" unfolding subscribed_def by (rule signed_out_event) simp
  have l: "loaded = systems_loaded setKey n (Inr [s]) out" using w by (simp add: loaded_def)
  then have "ap_stores loaded = add setKey s (ap_stores out)"
    by (simp add: systems_loaded_def advance_def refresh_def fetchSystems_def)
  moreover have "chain_waits n SubscribeSystems loaded"
    unfolding l using w by (force simp: chain_waits_def systems_loaded_def advance_def)
  then have "n \<in> set (ap_sysSubs subscribed)" by (simp add: subscribed_def systems_subscribed_def advance_def)
  ultimately show ?thesis
    unfolding Let_def out_def [symmetric] loaded_def [symmetric] subscribed_def [symmetric]
    using w auth' auth'' add_frame(2) [OF assms(1,2)] by (simp add: Layout_view_def)
qed

theorem late_systems_after_logout_witness:
  "let out = run (app_event nano_setKey nano_setKey) [LogOutPressed, AuthChange False] (mount (app_init True None []));
       loaded = app_event nano_setKey nano_setKey (SystemsAnswer 0 (Inr [sample_system ''a'' ''web'' Up])) out
   in chain_waits 0 LoadSystems out \<and> Layout_view None (ap_stores loaded) = LoginPage
      \<and> dget (st_allSystemsByName (ap_stores loaded)) ''web'' = Some (sample_system ''a'' ''web'' Up)"
proof -
  have "chain_waits 0 LoadSystems (mount (app_init True None []))" by (simp add: chain_waits_def mount_def app_init_def)
  from late_systems_after_logout [OF nano_reference.nano_map_axioms sample_valid this,
      of "[AuthChange False]" nano_setKey "''a''" "''web''" Up None]
  show ?thesis by (simp add: Let_def sample_system_def del: app_event.simps)
qed

end
