(* ===== verification/Panels.thy ===== *)
theory Panels
  imports Charts
begin

text \<open>
  The smaller panels: the bar above a system's charts, \<^verbatim>\<open>components/routes/system/info-bar.tsx\<close>,
  and the sheets with the CPU and network charts, \<^verbatim>\<open>cpu-sheet.tsx\<close> and
  \<^verbatim>\<open>network-sheet.tsx\<close>. \<open>tr\<close> translates a message, \<open>num\<close> prints a number,
  \<open>dec v d\<close> is \<open>decimalString(v, d)\<close>, \<open>plural n one other\<close> is Lingui's choice.
\<close>

section \<open>The info bar\<close>

datatype InfoIcon = GlobeIcon | MonitorIcon | ClockIcon | OsIcon Os | CpuIcon | MemoryIcon

record InfoItem =
  ii_icon :: InfoIcon
  ii_value :: "string option"
  ii_label :: "string option"
  ii_hide :: bool

definition uptime_unit :: "rat \<Rightarrow> SecondsUnit" where
  "uptime_unit u = (if u < 3600 then U_minute else if u < 360000 then U_hour else U_day)"

definition or_value :: "string \<Rightarrow> string option \<Rightarrow> string option" where
  "or_value s alternative = (if s \<noteq> [] then Some s else alternative)"

text \<open>The operating system: on macOS the kernel follows the name, and an undefined one is printed.\<close>

definition osInfo :: "Os \<Rightarrow> string \<Rightarrow> string option \<Rightarrow> InfoItem" where
  "osInfo os osName kern =
    (if os = Darwin
     then \<lparr>ii_icon = OsIcon os, ii_value = or_value osName (Some (''macOS '' @ (case kern of None \<Rightarrow> ''undefined'' | Some k \<Rightarrow> k))),
           ii_label = None, ii_hide = False\<rparr>
     else \<lparr>ii_icon = OsIcon os, ii_value = or_value osName kern,
           ii_label = (if osName \<noteq> [] then kern else None), ii_hide = False\<rparr>)"

text \<open>
  The items: the details win over the system's own info. \<open>arch\<close> is the details' architecture, a
  field the record's type does not declare.
\<close>

definition systemInfo ::
  "(string \<Rightarrow> string) \<Rightarrow> (int \<Rightarrow> string \<Rightarrow> string \<Rightarrow> string) \<Rightarrow> (int \<Rightarrow> string) \<Rightarrow> (rat \<Rightarrow> string) \<Rightarrow> string
   \<Rightarrow> SystemDetailsRecord option \<Rightarrow> SystemRecord \<Rightarrow> InfoItem list" where
  "systemInfo tr plural toLocale num arch details system =
    (let info = sys_info system;
         hostname = (case details of Some d \<Rightarrow> det_hostname d | None \<Rightarrow> si_h info);
         kern = (case details of Some d \<Rightarrow> Some (det_kernel d) | None \<Rightarrow> si_k info);
         cores = (case details of Some d \<Rightarrow> det_cores d | None \<Rightarrow> si_c info);
         threads = (case details of Some d \<Rightarrow> det_threads d | None \<Rightarrow> (case si_t info of None \<Rightarrow> 0 | Some t \<Rightarrow> t));
         cpuModel = (case details of Some d \<Rightarrow> det_cpu d | None \<Rightarrow> si_m info);
         os = (case details of Some d \<Rightarrow> det_os d | None \<Rightarrow> (case si_os info of None \<Rightarrow> Linux | Some os \<Rightarrow> os));
         osName = (case details of Some d \<Rightarrow> det_os_name d | None \<Rightarrow> []);
         memory = (case details of Some d \<Rightarrow> det_memory d | None \<Rightarrow> 0);
         u = si_u info
     in [\<lparr>ii_icon = GlobeIcon, ii_value = Some (getHostDisplayValue system), ii_label = None, ii_hide = False\<rparr>,
         \<lparr>ii_icon = MonitorIcon, ii_value = Some hostname, ii_label = Some ''Hostname'',
          ii_hide = (hostname = sys_host system \<or> hostname = sys_name system)\<rparr>,
         \<lparr>ii_icon = ClockIcon, ii_value = Some (secondsToString plural toLocale u (uptime_unit u)), ii_label = Some (tr ''Uptime''),
          ii_hide = (u = 0)\<rparr>,
         osInfo os osName kern,
         \<lparr>ii_icon = CpuIcon, ii_value = Some cpuModel,
          ii_label = Some (plural cores (toLocale cores @ '' core'') (toLocale cores @ '' cores'') @ '' / ''
            @ plural threads (toLocale threads @ '' thread'') (toLocale threads @ '' threads'') @ (if arch \<noteq> [] then '' / '' @ arch else [])),
          ii_hide = (cpuModel = [])\<rparr>]
        @ (if memory \<noteq> 0
           then (let (v, unit) = formatBytes memory False Bytes False
                 in [\<lparr>ii_icon = MemoryIcon, ii_value = Some (num (toFixedFloat v (if v \<ge> 10 then 1 else 2)) @ '' '' @ unit),
                      ii_label = Some (tr ''Memory''), ii_hide = False\<rparr>])
           else []))"

definition shown_info :: "InfoItem list \<Rightarrow> InfoItem list" where
  "shown_info items = filter (\<lambda>i. \<not> ii_hide i \<and> ii_value i \<noteq> None \<and> ii_value i \<noteq> Some []) items"

fun status_text :: "SystemStatus \<Rightarrow> string" where
  "status_text Up = ''up''" | "status_text Down = ''down''" | "status_text Paused = ''paused''" | "status_text Pending = ''pending''"

definition translatedStatus :: "(string \<Rightarrow> string) \<Rightarrow> SystemStatus \<Rightarrow> string" where
  "translatedStatus tr s = (if s = Up then tr ''Up'' else if s = Down then tr ''Down'' else status_text s)"

fun status_dot :: "SystemStatus \<Rightarrow> string" where
  "status_dot Up = ''bg-green-500''" | "status_dot Down = ''bg-red-500''"
| "status_dot Paused = ''bg-primary/40''" | "status_dot Pending = ''bg-yellow-500''"

section \<open>The CPU sheet\<close>

definition supportsBreakdown :: "SemVer \<Rightarrow> bool" where
  "supportsBreakdown agentVersion \<longleftrightarrow> at_least agentVersion ''0.15.3''"

definition cpu_part :: "nat \<Rightarrow> SystemStats \<Rightarrow> rat option" where
  "cpu_part i s = (case st_cpub s of None \<Rightarrow> None | Some ps \<Rightarrow> nth_opt ps i)"

definition cpu_other :: "SystemStats \<Rightarrow> rat option" where
  "cpu_other s =
    (let total = (case st_cpub s of None \<Rightarrow> 0 | Some ps \<Rightarrow> foldl (+) 0 ps)
     in if total > 0 then Some (100 - total) else None)"

definition breakdownDataPoints :: "(string \<Rightarrow> string) \<Rightarrow> (string \<times> (SystemStats \<Rightarrow> rat option)) list" where
  "breakdownDataPoints tr =
    [(''System'', cpu_part 1), (''User'', cpu_part 0), (''IOWait'', cpu_part 2), (''Steal'', cpu_part 3),
     (''Idle'', cpu_part 4), (tr ''Other'', cpu_other)]"

definition core_count :: "SystemStats option \<Rightarrow> nat" where
  "core_count latest = (case latest of None \<Rightarrow> 0 | Some s \<Rightarrow> (case st_cpus s of None \<Rightarrow> 0 | Some cs \<Rightarrow> length cs))"

definition hasBreakdown :: "SystemStats option \<Rightarrow> bool" where
  "hasBreakdown latest \<longleftrightarrow> (case latest of None \<Rightarrow> False | Some s \<Rightarrow> (case st_cpub s of None \<Rightarrow> False | Some ps \<Rightarrow> ps \<noteq> []))"

text \<open>A core's value in the stacked chart: a sliver where it is missing; \<open>None\<close> is no record.\<close>

definition core_value :: "nat \<Rightarrow> SystemStats option \<Rightarrow> rat" where
  "core_value i s =
    (let cpus = (case s of None \<Rightarrow> None | Some st \<Rightarrow> st_cpus st)
     in case (case cpus of None \<Rightarrow> None | Some cs \<Rightarrow> nth_opt cs i) of
          Some v \<Rightarrow> v
        | None \<Rightarrow> 1 / (case cpus of None \<Rightarrow> 1 | Some cs \<Rightarrow> of_nat (length cs)))"

definition core_series :: "nat \<Rightarrow> (string \<times> rat) list" where
  "core_series n = map (\<lambda>i. (''CPU '' @ show_nat i, 226 + hue i (max 1 n))) [0..<n]"

section \<open>The network sheet\<close>

text \<open>The four charts: title, index of the interface's value, and whether it is a rate.\<close>

definition net_charts :: "(string \<times> nat \<times> bool) list" where
  "net_charts = [(''Download'', 1, True), (''Upload'', 0, True), (''Cumulative Download'', 3, False), (''Cumulative Upload'', 2, False)]"

definition showNetLegend :: "nat \<Rightarrow> bool" where
  "showNetLegend n \<longleftrightarrow> n > 0 \<and> n < 15"

definition net_tick :: "(rat \<Rightarrow> string) \<Rightarrow> UserSettings \<Rightarrow> bool \<Rightarrow> rat \<Rightarrow> string" where
  "net_tick num settings perSecond val =
    (let (v, u) = formatBytes val perSecond (unit_or (us_unitNet settings) Bytes) False
     in num (toFixedFloat v (if v \<ge> 10 then 0 else 1)) @ '' '' @ u)"

definition net_content :: "(rat \<Rightarrow> nat \<Rightarrow> string) \<Rightarrow> UserSettings \<Rightarrow> bool \<Rightarrow> rat \<Rightarrow> string" where
  "net_content dec settings perSecond val =
    (let (v, u) = formatBytes val perSecond (unit_or (us_unitNet settings) Bytes) False
     in dec v (if v \<ge> 100 then 1 else 2) @ '' '' @ u)"

section \<open>Lemmas\<close>

lemma uptime_count:
  assumes "0 \<le> u"
  shows "case uptime_unit u of U_minute \<Rightarrow> \<lfloor>u / 60\<rfloor> < 60 | U_hour \<Rightarrow> 1 \<le> \<lfloor>u / 3600\<rfloor> \<and> \<lfloor>u / 3600\<rfloor> < 100 | U_day \<Rightarrow> 4 \<le> \<lfloor>u / 86400\<rfloor>"
  using assms by (auto simp: uptime_unit_def floor_less_iff le_floor_iff)

section \<open>Properties\<close>

text \<open>
  The parts of the CPU time add up: for a record with the five parts the agent reports, the shown
  parts with the rest under \<open>Other\<close> make 100 percent, whenever the agent measured anything.
\<close>

theorem cpu_breakdown_complete:
  assumes "st_cpub s = Some [user, system, iowait, steal, idle]" "user + system + iowait + steal + idle > 0"
  shows "sum_list (map (\<lambda>p. the (snd p s)) (breakdownDataPoints tr)) = 100
    \<and> list_all (\<lambda>p. snd p s \<noteq> None) (breakdownDataPoints tr)"
  using assms by (simp add: breakdownDataPoints_def cpu_part_def cpu_other_def)

end
