(* ===== verification/Nav.thy ===== *)
theory Nav
  imports Router Api I18n
begin

text \<open>
  Around the pages: the navigation bar and the command palette, \<^verbatim>\<open>components/navbar.tsx\<close> and
  \<^verbatim>\<open>components/command-palette.tsx\<close>, the theme, \<^verbatim>\<open>components/theme-provider.tsx\<close> and
  \<^verbatim>\<open>components/mode-toggle.tsx\<close>, the dialog for copying, \<^verbatim>\<open>components/copy-to-clipboard.tsx\<close>, and the
  visibility of a chart card, \<^verbatim>\<open>lib/use-intersection-observer.ts\<close>. A target of a link is its route
  with the parameter, from which \<open>getPagePath\<close> makes the path.
\<close>

section \<open>Command palette\<close>

datatype Target =
    Page string string            \<comment> \<open>a route and its parameter\<close>
  | BasePath                      \<comment> \<open>\<open>navigate(basePath)\<close>\<close>
  | NewWindow string              \<comment> \<open>a path opened in a new window\<close>
  | External string               \<comment> \<open>the browser leaves for another site\<close>

text \<open>What selecting an item does: its target, and whether the palette is closed.\<close>

record PaletteItem =
  pi_title :: string
  pi_target :: Target
  pi_closes :: bool

definition go :: "string \<Rightarrow> Target \<Rightarrow> PaletteItem" where
  "go title target = \<lparr>pi_title = title, pi_target = target, pi_closes = True\<rparr>"

definition system_entries :: "SystemRecord list \<Rightarrow> PaletteItem list" where
  "system_entries xs = map (\<lambda>s. go (sys_name s) (Page ''system'' (sys_id s))) xs"

definition page_entries :: "(string \<Rightarrow> string) \<Rightarrow> PaletteItem list" where
  "page_entries tr =
    [go (tr ''All Systems'') BasePath, go (tr ''All Containers'') (Page ''containers'' []), go ''S.M.A.R.T.'' (Page ''smart'' []),
     go (tr ''Settings'') (Page ''settings'' ''general''), go (tr ''Notifications'') (Page ''settings'' ''notifications''),
     go (tr ''Tokens & Fingerprints'') (Page ''settings'' ''tokens''), go (tr ''Alert History'') (Page ''settings'' ''alert-history''),
     \<lparr>pi_title = tr ''Documentation'', pi_target = External ''https://beszel.dev/guide/what-is-beszel'', pi_closes = False\<rparr>]"

definition admin_entries :: "string \<Rightarrow> (string \<Rightarrow> string) \<Rightarrow> PaletteItem list" where
  "admin_entries base tr =
    map (\<lambda>(title, path). go (tr title) (NewWindow (prependBasePath base path)))
      [(''Users'', ''/_/''), (''Logs'', ''/_/#/logs''), (''Backups'', ''/_/#/settings/backups''), (''SMTP settings'', ''/_/#/settings/mail'')]"

definition palette_items :: "string \<Rightarrow> (string \<Rightarrow> string) \<Rightarrow> string option \<Rightarrow> SystemRecord list \<Rightarrow> PaletteItem list" where
  "palette_items base tr role xs =
    system_entries xs @ page_entries tr @ (if isAdmin role then admin_entries base tr else [])"

text \<open>The shortcut opens and closes the palette; the items are those of the moment it was opened or closed.\<close>

definition palette_keydown :: "string \<Rightarrow> bool \<Rightarrow> bool \<Rightarrow> bool" where
  "palette_keydown key metaOrCtrl isOpen = (if key = ''k'' \<and> metaOrCtrl then \<not> isOpen else isOpen)"

definition palette_select :: "PaletteItem \<Rightarrow> bool \<Rightarrow> Target \<times> bool" where
  "palette_select item isOpen = (pi_target item, if pi_closes item then False else isOpen)"

section \<open>Navigation bar\<close>

definition user_menu :: "string \<Rightarrow> (string \<Rightarrow> string) \<Rightarrow> string option \<Rightarrow> (string \<times> Target option) list" where
  "user_menu base tr role =
    (if isAdmin role
     then map (\<lambda>(title, path). (tr title, Some (NewWindow (prependBasePath base path))))
       [(''Users'', ''/_/''), (''Systems'', ''/_/#/collections?collection=systems''), (''Logs'', ''/_/#/logs''), (''Backups'', ''/_/#/settings/backups'')]
     else []) @ [(tr ''Log Out'', None)]"

definition navbar_links :: "(string \<times> Target) list" where
  "navbar_links = [(''Home'', BasePath), (''Containers'', Page ''containers'' []), (''S.M.A.R.T.'', Page ''smart'' []),
     (''Settings'', Page ''settings'' ''general'')]"

definition isMac :: "(string \<Rightarrow> string) \<Rightarrow> string \<Rightarrow> bool" where
  "isMac upper platform = str_includes (upper platform) ''MAC''"

section \<open>Theme\<close>

text \<open>The stored theme is a text; the state and the classes of the root element follow it.\<close>

record ThemeState =
  th_storage :: "(string, string) dict"
  th_theme :: string
  th_classes :: "string list"

definition theme_effect :: "bool \<Rightarrow> ThemeState \<Rightarrow> ThemeState" where
  "theme_effect prefersDark t =
    (let cleared = filter (\<lambda>c. c \<noteq> ''light'' \<and> c \<noteq> ''dark'') (th_classes t);
         added = (if th_theme t = ''system'' then (if prefersDark then ''dark'' else ''light'') else th_theme t)
     in t\<lparr>th_classes := (if added \<in> set cleared then cleared else cleared @ [added])\<rparr>)"

definition ThemeProvider :: "bool \<Rightarrow> (string, string) dict \<Rightarrow> string list \<Rightarrow> ThemeState" where
  "ThemeProvider prefersDark storage classes =
    theme_effect prefersDark \<lparr>th_storage = storage,
      th_theme = (case dget storage ''ui-theme'' of None \<Rightarrow> ''system'' | Some t \<Rightarrow> if t = [] then ''system'' else t), th_classes = classes\<rparr>"

definition setTheme :: "bool \<Rightarrow> string \<Rightarrow> ThemeState \<Rightarrow> ThemeState" where
  "setTheme prefersDark theme t =
    (let t1 = t\<lparr>th_storage := dset ''ui-theme'' theme (th_storage t), th_theme := theme\<rparr>
     in if theme = th_theme t then t1 else theme_effect prefersDark t1)"

definition ModeToggle :: "bool \<Rightarrow> ThemeState \<Rightarrow> ThemeState" where
  "ModeToggle prefersDark t = setTheme prefersDark (if th_theme t = ''dark'' then ''light'' else ''dark'') t"

section \<open>Copying by hand\<close>

text \<open>The dialog's text area shows every line, and the content is dropped when it closes.\<close>

definition copy_rows :: "string \<Rightarrow> nat" where
  "copy_rows content = length (split_on CHR 0x0A content)"

definition copy_closed :: "AppState \<Rightarrow> AppState" where
  "copy_closed st = st\<lparr>st_copyContent := []\<rparr>"

section \<open>Visibility\<close>

text \<open>
  \<open>useIntersectionObserver\<close>: the state is whether the element is visible and the last entry
  (\<open>isIntersecting\<close> and \<open>intersectionRatio\<close>). While it is frozen the observer is disconnected, so no
  entries arrive; the entries of one callback are all worked off, since \<open>unobserve\<close> is never set.
\<close>

type_synonym entry = "bool \<times> rat"

record Observer =
  ob_isIntersecting :: bool
  ob_entry :: "entry option"

definition frozen :: "bool \<Rightarrow> Observer \<Rightarrow> bool" where
  "frozen freeze ob \<longleftrightarrow> freeze \<and> (case ob_entry ob of None \<Rightarrow> False | Some e \<Rightarrow> fst e)"

definition observe_entry :: "rat list \<Rightarrow> Observer \<Rightarrow> entry \<Rightarrow> Observer" where
  "observe_entry thresholds ob e =
    ob\<lparr>ob_isIntersecting := (fst e \<and> list_ex (\<lambda>t. snd e \<ge> t) thresholds), ob_entry := Some e\<rparr>"

definition observe :: "bool \<Rightarrow> rat list \<Rightarrow> entry list \<Rightarrow> Observer \<Rightarrow> Observer" where
  "observe freeze thresholds entries ob =
    (if frozen freeze ob then ob else foldl (observe_entry thresholds) ob entries)"

section \<open>Lemmas\<close>

lemma observe_frozen_visible:
  assumes "list_ex (\<lambda>t. t \<le> 0) thresholds" "\<forall>e\<in>set entries. snd e \<ge> 0" "frozen True ob \<longrightarrow> ob_isIntersecting ob"
  shows "frozen True (observe True thresholds entries ob) \<longrightarrow> ob_isIntersecting (observe True thresholds entries ob)"
proof (cases "frozen True ob \<or> entries = []")
  case True
  with assms(3) show ?thesis by (auto simp: observe_def)
next
  case False
  then obtain es e where "entries = es @ [e]" by (metis rev_exhaust)
  moreover from this assms(1,2) have "list_ex (\<lambda>t. snd e \<ge> t) thresholds"
    by (auto simp: list_ex_iff) (meson order_trans)
  ultimately show ?thesis using False by (simp add: observe_def observe_entry_def frozen_def)
qed

lemma observe_stays: "frozen True ob \<Longrightarrow> foldl (\<lambda>ob es. observe True thresholds es ob) ob batches = ob"
  by (induction batches) (simp_all add: observe_def)

lemma theme_effect_classes:
  "th_theme t \<in> {''light'', ''dark'', ''system''} \<Longrightarrow>
    (set (th_classes (theme_effect d t)) \<inter> {''light'', ''dark''}) =
      {if th_theme t = ''system'' then (if d then ''dark'' else ''light'') else th_theme t}"
  by (auto simp: theme_effect_def Let_def)

section \<open>Properties\<close>

text \<open>
  A chart that has become visible stays: with the default threshold, once a callback leaves the
  observer frozen the chart is visible, and no later callback changes that.
\<close>

theorem visible_once_stays:
  assumes "list_ex (\<lambda>t. t \<le> 0) thresholds" "\<forall>b\<in>set batches. \<forall>e\<in>set b. snd e \<ge> 0"
    and "ob = foldl (\<lambda>ob es. observe True thresholds es ob) \<lparr>ob_isIntersecting = False, ob_entry = None\<rparr> batches"
    and "frozen True ob"
  shows "ob_isIntersecting ob \<and> foldl (\<lambda>ob es. observe True thresholds es ob) ob later = ob"
proof -
  have "frozen True (foldl (\<lambda>ob es. observe True thresholds es ob) o1 batches)
      \<longrightarrow> ob_isIntersecting (foldl (\<lambda>ob es. observe True thresholds es ob) o1 batches)"
    if "frozen True o1 \<longrightarrow> ob_isIntersecting o1" "\<forall>b\<in>set batches. \<forall>e\<in>set b. snd e \<ge> 0" for o1 batches
    using that
  proof (induction batches arbitrary: o1)
    case (Cons b bs)
    then show ?case using observe_frozen_visible [OF assms(1), of b o1] by simp
  qed simp
  from this [of "\<lparr>ob_isIntersecting = False, ob_entry = None\<rparr>" batches] assms(2-4)
  show ?thesis using observe_stays [OF assms(4)] by (simp add: frozen_def)
qed

theorem visible_once_stays_witness:
  "ob_isIntersecting (foldl (\<lambda>ob es. observe True [0] es ob) \<lparr>ob_isIntersecting = False, ob_entry = None\<rparr>
     ([[(False, 0)], [(True, 1 / 2)]] @ [[(False, 0)]]))"
proof -
  let ?ob = "foldl (\<lambda>ob es. observe True [0] es ob) \<lparr>ob_isIntersecting = False, ob_entry = None\<rparr> [[(False, 0)], [(True, 1 / 2)]]"
  have "frozen True ?ob" by (simp add: observe_def observe_entry_def frozen_def)
  from visible_once_stays [of "[0]" "[[(False, 0)], [(True, 1 / 2)]]" ?ob "[[(False, 0)]]", OF _ _ refl this]
  show ?thesis by simp
qed

text \<open>
  The chosen theme is kept: after setting a theme the next start has it, with exactly its class on the
  root element (for the system's theme the one the system prefers); toggling twice from a dark or
  light theme gives the same theme.
\<close>

theorem theme_roundtrip:
  assumes "theme \<in> {''light'', ''dark'', ''system''}"
  shows "let t' = ThemeProvider d (th_storage (setTheme d0 theme t)) classes
     in th_theme t' = theme
      \<and> set (th_classes t') \<inter> {''light'', ''dark''} = {if theme = ''system'' then (if d then ''dark'' else ''light'') else theme}
      \<and> (th_theme t = ''dark'' \<or> th_theme t = ''light'' \<longrightarrow> th_theme (ModeToggle d (ModeToggle d t)) = th_theme t)"
proof -
  have stored: "dget (th_storage (setTheme d0 theme t)) ''ui-theme'' = Some theme"
    by (simp add: setTheme_def Let_def theme_effect_def)
  have keep: "th_theme (theme_effect d x) = th_theme x" for x by (simp add: theme_effect_def Let_def)
  have "th_theme (ModeToggle d x) = (if th_theme x = ''dark'' then ''light'' else ''dark'')" for x
    by (simp add: ModeToggle_def setTheme_def Let_def keep)
  moreover have "theme \<noteq> []" using assms by auto
  ultimately show ?thesis
    using assms theme_effect_classes [of "\<lparr>th_storage = th_storage (setTheme d0 theme t), th_theme = theme, th_classes = classes\<rparr>" d]
    by (simp add: Let_def ThemeProvider_def stored keep)
qed

theorem theme_roundtrip_witness:
  "th_theme (ThemeProvider True (th_storage (setTheme False ''light'' (ThemeProvider True [] []))) []) = ''light''"
  using theme_roundtrip [of "''light''" True False "ThemeProvider True [] []" "[]"] by (simp add: Let_def)

text \<open>
  The palette offers administration only to administrators, and to everyone one entry for each system,
  which leads to that system; every entry inside the application leads to a route there is.
\<close>

theorem palette_complete:
  "(\<forall>i. i \<in> set (palette_items base tr role xs) \<longrightarrow> (case pi_target i of NewWindow p \<Rightarrow> isAdmin role | Page r k \<Rightarrow> r \<in> set (dkeys routes) | _ \<Rightarrow> True))
   \<and> map pi_target (take (length xs) (palette_items base tr role xs)) = map (\<lambda>s. Page ''system'' (sys_id s)) xs"
  by (auto simp: palette_items_def system_entries_def page_entries_def admin_entries_def go_def routes_def)

theorem palette_complete_witness:
  "case pi_target (go ''S.M.A.R.T.'' (Page ''smart'' [])) of Page r k \<Rightarrow> r \<in> set (dkeys routes) | _ \<Rightarrow> True"
proof -
  have "go ''S.M.A.R.T.'' (Page ''smart'' []) \<in> set (palette_items [] id None [])"
    by (simp add: palette_items_def page_entries_def)
  with palette_complete [of "[]" id None "[]"] show ?thesis by (auto simp: go_def)
qed

end
