(* ===== verification/LinkSaves.thy ===== *)
theory LinkSaves
  imports Links Pages
begin

text \<open>
  Saving links, \<open>saveQuickLinks\<close> and \<open>saveExternalLinks\<close> of \<^verbatim>\<open>lib/api.ts\<close>, request by request: a save sets its store
  at once, reads the settings of the hub, and writes them back with its links replaced. Each of the two requests can fail, which
  is only logged, and saves can overlap. The state holds the two stores, the hub's record and the saves under way.
\<close>

section \<open>State and events\<close>

datatype LinkSave = QuickSave "QuickLink list" | ExternalSave "ExternalLink list"

record PendingSave =
  ps_save :: LinkSave
  ps_read :: "UserSettings option"

record LinkStores =
  lk_quick :: "QuickLink list"
  lk_external :: "ExternalLink list"
  lk_hub :: UserSettings
  lk_pending :: "PendingSave list"
  lk_failed :: bool

definition external_links :: "UserSettings \<Rightarrow> ExternalLink list" where
  "external_links u = (case us_externalLinks u of None \<Rightarrow> [] | Some l \<Rightarrow> l)"

text \<open>After the settings were loaded the stores have the hub's links.\<close>

definition links_loaded :: "UserSettings \<Rightarrow> LinkStores" where
  "links_loaded u = \<lparr>lk_quick = server_links u, lk_external = external_links u, lk_hub = u, lk_pending = [], lk_failed = False\<rparr>"

text \<open>\<open>{ ...req.settings, quickLinks: links }\<close>\<close>

fun put_links :: "LinkSave \<Rightarrow> UserSettings \<Rightarrow> UserSettings" where
  "put_links (QuickSave ls) u = u\<lparr>us_quickLinks := Some ls\<rparr>"
| "put_links (ExternalSave ls) u = u\<lparr>us_externalLinks := Some ls\<rparr>"

fun set_links :: "LinkSave \<Rightarrow> LinkStores \<Rightarrow> LinkStores" where
  "set_links (QuickSave ls) s = s\<lparr>lk_quick := ls\<rparr>"
| "set_links (ExternalSave ls) s = s\<lparr>lk_external := ls\<rparr>"

datatype SaveEvent = Save LinkSave | ReadAnswer nat bool | WriteAnswer nat bool

definition read_answer :: "nat \<Rightarrow> bool \<Rightarrow> LinkStores \<Rightarrow> LinkStores" where
  "read_answer i ok s =
    (if i \<ge> length (lk_pending s) \<or> ps_read (lk_pending s ! i) \<noteq> None then s
     else if ok then s\<lparr>lk_pending := (lk_pending s)[i := (lk_pending s ! i)\<lparr>ps_read := Some (lk_hub s)\<rparr>]\<rparr>
     else s\<lparr>lk_pending := drop_at i (lk_pending s), lk_failed := True\<rparr>)"

definition write_answer :: "nat \<Rightarrow> bool \<Rightarrow> LinkStores \<Rightarrow> LinkStores" where
  "write_answer i ok s =
    (if i \<ge> length (lk_pending s) then s
     else case ps_read (lk_pending s ! i) of
       None \<Rightarrow> s
     | Some copy \<Rightarrow>
         if ok then s\<lparr>lk_hub := put_links (ps_save (lk_pending s ! i)) copy, lk_pending := drop_at i (lk_pending s)\<rparr>
         else s\<lparr>lk_pending := drop_at i (lk_pending s), lk_failed := True\<rparr>)"

fun save_event :: "SaveEvent \<Rightarrow> LinkStores \<Rightarrow> LinkStores" where
  "save_event (Save w) s = (set_links w s)\<lparr>lk_pending := lk_pending s @ [\<lparr>ps_save = w, ps_read = None\<rparr>]\<rparr>"
| "save_event (ReadAnswer i ok) s = read_answer i ok s"
| "save_event (WriteAnswer i ok) s = write_answer i ok s"

text \<open>Saves one after another: the next begins when none is under way.\<close>

definition one_save :: "SaveEvent \<Rightarrow> LinkStores \<Rightarrow> bool" where
  "one_save e s \<longleftrightarrow> (case e of Save w \<Rightarrow> lk_pending s = [] | _ \<Rightarrow> True)"

section \<open>Lemmas\<close>

text \<open>Settings that agree but for the links.\<close>

definition same_settings :: "UserSettings \<Rightarrow> UserSettings \<Rightarrow> bool" where
  "same_settings u v \<longleftrightarrow> u\<lparr>us_quickLinks := None, us_externalLinks := None\<rparr> = v\<lparr>us_quickLinks := None, us_externalLinks := None\<rparr>"

lemma same_settings_put: "same_settings base u \<Longrightarrow> same_settings base (put_links w u)"
  by (cases w) (simp_all add: same_settings_def)

lemma set_links_fields [simp]:
  "lk_hub (set_links w s) = lk_hub s" "lk_pending (set_links w s) = lk_pending s" "lk_failed (set_links w s) = lk_failed s"
  by (cases w; simp)+

definition settings_inv :: "UserSettings \<Rightarrow> LinkStores \<Rightarrow> bool" where
  "settings_inv base s \<longleftrightarrow> same_settings base (lk_hub s)
    \<and> (\<forall>p\<in>set (lk_pending s). \<forall>u. ps_read p = Some u \<longrightarrow> same_settings base u)"

lemma settings_inv_read: "settings_inv base s \<Longrightarrow> settings_inv base (read_answer i ok s)"
  using set_update_subset_insert [of "lk_pending s" i] set_drop_at [of i "lk_pending s"]
  by (fastforce simp: settings_inv_def read_answer_def)

lemma settings_inv_write:
  assumes "settings_inv base s"
  shows "settings_inv base (write_answer i ok s)"
proof (cases "i < length (lk_pending s)")
  case True
  then have "lk_pending s ! i \<in> set (lk_pending s)" by simp
  then have "same_settings base copy" if "ps_read (lk_pending s ! i) = Some copy" for copy
    using assms that unfolding settings_inv_def by fastforce
  then show ?thesis
    using assms True set_drop_at [of i "lk_pending s"]
    by (auto simp: settings_inv_def write_answer_def same_settings_put split: option.split)
qed (use assms in \<open>simp add: write_answer_def\<close>)

interpretation other_settings: event_page save_event "\<lambda>s. s = links_loaded base" "settings_inv base" for base
proof (unfold_locales, goal_cases)
  case (1 s)
  then show ?case by (simp add: settings_inv_def links_loaded_def same_settings_def)
next
  case (2 s e)
  then show ?case by (cases e) (simp_all add: settings_inv_read settings_inv_write, simp add: settings_inv_def)
qed

text \<open>With one save at a time: it read the present record, and the stores and the hub differ at most by it.\<close>

definition agrees :: "LinkStores \<Rightarrow> bool" where
  "agrees s \<longleftrightarrow> server_links (lk_hub s) = lk_quick s \<and> external_links (lk_hub s) = lk_external s"

definition serial_inv :: "LinkStores \<Rightarrow> bool" where
  "serial_inv s \<longleftrightarrow>
    (case lk_pending s of
       [] \<Rightarrow> \<not> lk_failed s \<longrightarrow> agrees s
     | [p] \<Rightarrow> (case ps_read p of None \<Rightarrow> True | Some u \<Rightarrow> u = lk_hub s)
         \<and> (\<not> lk_failed s \<longrightarrow> agrees (s\<lparr>lk_hub := put_links (ps_save p) (lk_hub s)\<rparr>))
     | _ \<Rightarrow> False)"

lemma serial_inv_save: "serial_inv s \<Longrightarrow> lk_pending s = [] \<Longrightarrow> serial_inv (save_event (Save w) s)"
  by (cases w) (auto simp: serial_inv_def agrees_def server_links_def external_links_def)

lemma serial_inv_cases:
  assumes "serial_inv s" "i < length (lk_pending s)"
  obtains p where "lk_pending s = [p]" "i = 0" "case ps_read p of None \<Rightarrow> True | Some u \<Rightarrow> u = lk_hub s"
    "\<not> lk_failed s \<longrightarrow> agrees (s\<lparr>lk_hub := put_links (ps_save p) (lk_hub s)\<rparr>)"
  using assms by (cases "lk_pending s" rule: remdups_adj.cases) (auto simp: serial_inv_def)

lemma serial_inv_answer:
  assumes "serial_inv s"
  shows "serial_inv (read_answer i ok s)" "serial_inv (write_answer i ok s)"
proof -
  have "serial_inv (read_answer i ok s) \<and> serial_inv (write_answer i ok s)"
  proof (cases "i < length (lk_pending s)")
    case True
    with assms obtain p where p: "lk_pending s = [p]" "i = 0" "case ps_read p of None \<Rightarrow> True | Some u \<Rightarrow> u = lk_hub s"
      "\<not> lk_failed s \<longrightarrow> agrees (s\<lparr>lk_hub := put_links (ps_save p) (lk_hub s)\<rparr>)" by (rule serial_inv_cases)
    have "serial_inv (read_answer i ok s)" using p assms
      by (auto simp: read_answer_def serial_inv_def drop_at_def agrees_def)
    moreover have "serial_inv (write_answer i ok s)" using p assms
      by (auto simp: write_answer_def serial_inv_def drop_at_def agrees_def split: option.splits)
    ultimately show ?thesis ..
  qed (use assms in \<open>simp add: read_answer_def write_answer_def\<close>)
  then show "serial_inv (read_answer i ok s)" "serial_inv (write_answer i ok s)" by blast+
qed

interpretation serial_saves: session_page save_event one_save "\<lambda>s. \<exists>base. s = links_loaded base" serial_inv
proof (unfold_locales, goal_cases)
  case (1 s)
  then show ?case by (auto simp: serial_inv_def links_loaded_def agrees_def)
next
  case (2 s e)
  show ?case
  proof (cases e)
    case (Save w)
    with 2 show ?thesis using serial_inv_save [of s w] by (simp add: one_save_def)
  qed (simp_all add: serial_inv_answer 2)
qed

section \<open>Properties\<close>

text \<open>
  C29. Saved links come back. Whatever saves are made, overlapping or not and with whatever failures, the other settings on
  the hub stay as they were. When the saves are made one after another and none failed, then once the last has ended the hub has
  exactly the links the two stores show, and a browser without local links that loads the settings shows them.
\<close>

theorem saved_links_come_back:
  assumes "session save_event one_save (\<lambda>s. \<exists>base. s = links_loaded base) s" "lk_pending s = []" "\<not> lk_failed s"
    and "dget local ''besz-quick-links'' = None"
  shows "same_settings base (lk_hub (run save_event es (links_loaded base)))
    \<and> (let st' = fst (fst (updateUserSettings (Inr (lk_hub s)) created parse ok (st, local)))
       in st_quickLinks st' = lk_quick s \<and> st_externalLinks st' = lk_external s)"
proof -
  have "settings_inv base (run save_event es (links_loaded base))" by (rule other_settings.inv_run) simp
  moreover have "agrees s" using serial_saves.session_inv [OF assms(1)] assms(2,3) by (simp add: serial_inv_def)
  ultimately show ?thesis using assms(4)
    by (simp add: settings_inv_def agrees_def updateUserSettings_def external_links_def Let_def del: map_of_eq_None_iff)
qed

definition sample_saves :: "SaveEvent list" where
  "sample_saves = [Save (QuickSave [sample_link ''a'']), ReadAnswer 0 True, WriteAnswer 0 True, Save (ExternalSave []), ReadAnswer 0 True, WriteAnswer 0 True]"

theorem saved_links_come_back_witness:
  "st_quickLinks (fst (fst (updateUserSettings (Inr (lk_hub (run save_event sample_saves (links_loaded empty_settings))))
     (Inl []) (\<lambda>_. None) True (init_stores True None, [])))) = [sample_link ''a'']"
proof -
  let ?s = "run save_event sample_saves (links_loaded empty_settings)"
  have "session save_event one_save (\<lambda>s. \<exists>base. s = links_loaded base) ?s"
    unfolding sample_saves_def run_simps
    by (intro session.event, rule session.start)
      (auto simp: one_save_def links_loaded_def read_answer_def write_answer_def drop_at_def)
  moreover have s: "lk_pending ?s = []" "\<not> lk_failed ?s" "lk_quick ?s = [sample_link ''a'']"
    by (simp_all add: sample_saves_def links_loaded_def read_answer_def write_answer_def drop_at_def)
  ultimately show ?thesis
    using saved_links_come_back [of ?s "[]" empty_settings "[]" "Inl []" "\<lambda>_. None" True "init_stores True None"] by (simp add: Let_def)
qed

text \<open>
  Saves that overlap lose links: when the external links are read before the quick links are written and written after
  them, every request succeeds and the hub ends with the quick links from before, while the store shows the new ones.
\<close>

theorem overlapping_link_saves:
  "let s = run save_event [Save (QuickSave q), Save (ExternalSave x), ReadAnswer 0 True, ReadAnswer 1 True, WriteAnswer 0 True, WriteAnswer 0 True]
         (links_loaded base)
   in \<not> lk_failed s \<and> lk_pending s = [] \<and> lk_quick s = q \<and> us_quickLinks (lk_hub s) = us_quickLinks base
      \<and> us_externalLinks (lk_hub s) = Some x"
  by (simp add: links_loaded_def read_answer_def write_answer_def drop_at_def Let_def)

text \<open>A save that fails is not undone: the store shows links the hub does not have, and nothing is told to the user.\<close>

theorem failed_save_kept_in_store:
  "let s = run save_event [Save (QuickSave q), ReadAnswer 0 ok, WriteAnswer 0 False] (links_loaded base)
   in lk_quick s = q \<and> lk_hub s = base \<and> lk_pending s = []"
  by (cases ok) (simp_all add: links_loaded_def read_answer_def write_answer_def drop_at_def Let_def)

end
