(* ===== verification/LoginFlow.thy ===== *)
theory LoginFlow
  imports Login Pages
begin

text \<open>
  Signing in with a second factor as a whole: the form of \<^verbatim>\<open>components/login/auth-form.tsx\<close> is submitted any number of
  times; once the hub has asked for a second factor and sent a one-time password, the input of \<^verbatim>\<open>otp-forms.tsx\<close> takes its
  place, and every rendering with six digits sends them. The hub may answer each time as it likes. The state keeps the
  passwords sent with what the hub answered, and the one-time passwords under way and accepted.
\<close>

section \<open>State and events\<close>

text \<open>
  A one-time password as it is sent: the id of the one-time password, the digits and the id of the second factor. A password
  as it was answered: the account, the password, the answer, and the id of a one-time password for the account, if the hub sends one.
\<close>

type_synonym OtpRequest = "string \<times> string \<times> string"

type_synonym PasswordAnswer = "string \<times> string \<times> AuthResponse \<times> string option"

record LoginSession =
  ls_form :: AuthForm
  ls_value :: string
  ls_passwords :: "PasswordAnswer list"
  ls_pending :: "OtpRequest list"
  ls_accepted :: "OtpRequest list"
  ls_authenticated :: bool

definition login_start :: LoginSession where
  "login_start = \<lparr>ls_form = init_auth_form, ls_value = [], ls_passwords = [], ls_pending = [], ls_accepted = [], ls_authenticated = False\<rparr>"

datatype LoginEvent = SubmitForm Hub LoginData | FormChange | TypeCode string | Rerender | OtpAnswer OtpRequest bool

definition submit_form :: "(string \<Rightarrow> string) \<Rightarrow> (string \<Rightarrow> bool) \<Rightarrow> string \<Rightarrow> bool \<Rightarrow> Hub \<Rightarrow> LoginData \<Rightarrow> LoginSession \<Rightarrow> LoginSession" where
  "submit_form tr email msg isFirstRun hub d s =
    (if shows_otp_input (ls_form s) then s
     else case login_handleSubmit tr email msg hub isFirstRun d (ls_form s) of
       (af, auth, sent, toasts) \<Rightarrow>
         s\<lparr>ls_form := af, ls_authenticated := (ls_authenticated s \<or> auth),
           ls_passwords := ls_passwords s @ (if AuthWithPassword (ld_email d) (ld_password d) \<in> set sent
              then [(ld_email d, ld_password d, hub_auth hub (ld_email d) (ld_password d), hub_otp hub (ld_email d))] else [])\<rparr>)"

text \<open>Rendering the input for the digits.\<close>

definition otp_rendered :: "LoginSession \<Rightarrow> LoginSession" where
  "otp_rendered s =
    (case (af_otpId (ls_form s), af_mfaId (ls_form s)) of
       (Some o1, Some m1) \<Rightarrow> s\<lparr>ls_pending := ls_pending s @ (if otp_render o1 m1 (ls_value s) \<noteq> [] then [(o1, ls_value s, m1)] else [])\<rparr>
     | _ \<Rightarrow> s)"

definition otp_answer :: "OtpRequest \<Rightarrow> bool \<Rightarrow> LoginSession \<Rightarrow> LoginSession" where
  "otp_answer q ok s =
    (if q \<notin> set (ls_pending s) then s
     else if ok then s\<lparr>ls_pending := remove1 q (ls_pending s), ls_accepted := ls_accepted s @ [q], ls_authenticated := True\<rparr>
     else s\<lparr>ls_pending := remove1 q (ls_pending s)\<rparr>)"

fun login_event :: "(string \<Rightarrow> string) \<Rightarrow> (string \<Rightarrow> bool) \<Rightarrow> string \<Rightarrow> bool \<Rightarrow> LoginEvent \<Rightarrow> LoginSession \<Rightarrow> LoginSession" where
  "login_event tr email msg isFirstRun (SubmitForm hub d) s = submit_form tr email msg isFirstRun hub d s"
| "login_event tr email msg isFirstRun FormChange s = (if shows_otp_input (ls_form s) then s else s\<lparr>ls_form := form_changed (ls_form s)\<rparr>)"
| "login_event tr email msg isFirstRun (TypeCode v) s =
    (if shows_otp_input (ls_form s) \<and> length v \<le> 6 then otp_rendered (s\<lparr>ls_value := v\<rparr>) else s)"
| "login_event tr email msg isFirstRun Rerender s = (if shows_otp_input (ls_form s) then otp_rendered s else s)"
| "login_event tr email msg isFirstRun (OtpAnswer q ok) s = otp_answer q ok s"

section \<open>Lemmas\<close>

text \<open>
  The ids belong to one account whose password was sent: the hub answered it with this second factor and sent this one-time
  password to the account.
\<close>

definition proven_pair :: "PasswordAnswer list \<Rightarrow> string \<Rightarrow> string \<Rightarrow> bool" where
  "proven_pair passwords o1 m1 \<longleftrightarrow> (\<exists>e p. (e, p, NeedsMfa m1, Some o1) \<in> set passwords)"

lemma proven_pair_mono: "proven_pair ps o1 m1 \<Longrightarrow> proven_pair (ps @ qs) o1 m1"
  by (auto simp: proven_pair_def)

text \<open>
  A submission either keeps the id of the one-time password, or sets both ids together from the answers for the account
  submitted.
\<close>

lemma after_auth_ids:
  assumes "after_auth tr hub e (hub_auth hub e p) sent af = (af', auth, sent', toasts)"
  shows "(af_otpId af' = af_otpId af \<and> (af_mfaId af' = af_mfaId af \<or> hub_otp hub e = None))
    \<or> (\<exists>o1 m1. af_otpId af' = Some o1 \<and> af_mfaId af' = Some m1 \<and> m1 \<noteq> [] \<and> hub_auth hub e p = NeedsMfa m1 \<and> hub_otp hub e = Some o1)"
  using assms by (auto simp: after_auth_def split: AuthResponse.splits option.splits if_splits)

lemma submit_cases:
  assumes "login_handleSubmit tr email msg hub isFirstRun d af = (af', auth, sent, toasts)"
  obtains (refused) "af_otpId af' = af_otpId af" "\<not> auth" "AuthWithPassword (ld_email d) (ld_password d) \<notin> set sent"
  | (asked) af1 where "after_auth tr hub (ld_email d) (hub_auth hub (ld_email d) (ld_password d))
        ((if isFirstRun then [CreateUser (ld_email d) (ld_password d)] else []) @ [AuthWithPassword (ld_email d) (ld_password d)])
        (af\<lparr>af_isLoading := True\<rparr>) = (af1, auth, sent, toasts)" "af' = af1\<lparr>af_isLoading := False\<rparr>"
proof (cases "issues tr email msg isFirstRun d = [] \<and> (isFirstRun \<longrightarrow> ld_password d = ld_passwordConfirm d
    \<and> hub_create hub (ld_email d) (ld_password d))")
  case True
  obtain af1 auth1 sent1 t1 where r: "after_auth tr hub (ld_email d) (hub_auth hub (ld_email d) (ld_password d))
      ((if isFirstRun then [CreateUser (ld_email d) (ld_password d)] else []) @ [AuthWithPassword (ld_email d) (ld_password d)])
      (af\<lparr>af_isLoading := True\<rparr>) = (af1, auth1, sent1, t1)"
    using prod_cases4 by blast
  have "login_handleSubmit tr email msg hub isFirstRun d af = (af1\<lparr>af_isLoading := False\<rparr>, auth1, sent1, t1)"
    using True r by (cases isFirstRun) (auto simp: login_handleSubmit_def Let_def)
  then show thesis using asked [of af1] assms r by simp
next
  case False
  have "af_otpId af' = af_otpId af \<and> \<not> auth \<and> AuthWithPassword (ld_email d) (ld_password d) \<notin> set sent"
  proof (cases "issues tr email msg isFirstRun d = []")
    case True
    with False have isFirstRun "ld_password d \<noteq> ld_passwordConfirm d \<or> \<not> hub_create hub (ld_email d) (ld_password d)" by auto
    then show ?thesis using assms True
      by (cases "ld_password d = ld_passwordConfirm d"; cases "hub_create hub (ld_email d) (ld_password d)") (auto simp: login_handleSubmit_def Let_def)
  qed (use assms in \<open>auto simp: login_handleSubmit_def Let_def\<close>)
  then show thesis using refused by blast
qed

lemma asked_sent:
  assumes "after_auth tr hub e r (xs @ [AuthWithPassword e p]) af = (af', auth, sent, toasts)"
  shows "AuthWithPassword e p \<in> set sent" "auth \<longleftrightarrow> r = Accepted"
  using after_auth_sent [of "xs @ [AuthWithPassword e p]" tr hub e r af] after_auth_authenticated [of tr hub e r "xs @ [AuthWithPassword e p]" af] assms
  by simp_all

lemma submit_ids:
  assumes "login_handleSubmit tr email msg hub isFirstRun d af = (af', auth, sent, toasts)"
  shows "af_otpId af' = af_otpId af
    \<or> (\<exists>o1 m1. af_otpId af' = Some o1 \<and> af_mfaId af' = Some m1 \<and> m1 \<noteq> [] \<and> AuthWithPassword (ld_email d) (ld_password d) \<in> set sent
         \<and> hub_auth hub (ld_email d) (ld_password d) = NeedsMfa m1 \<and> hub_otp hub (ld_email d) = Some o1)"
  using assms
proof (cases rule: submit_cases)
  case (asked af1)
  then show ?thesis using after_auth_ids [OF asked(1)] asked_sent(1) [OF asked(1)] by auto
qed simp

text \<open>An accepted password was sent.\<close>

lemma submit_auth:
  assumes "login_handleSubmit tr email msg hub isFirstRun d af = (af', auth, sent, toasts)"
  shows "auth \<longleftrightarrow> AuthWithPassword (ld_email d) (ld_password d) \<in> set sent \<and> hub_auth hub (ld_email d) (ld_password d) = Accepted"
  using assms
proof (cases rule: submit_cases)
  case (asked af1)
  then show ?thesis using asked_sent [OF asked(1)] by simp
qed simp

text \<open>The invariant: the ids, the requests, and why the user is signed in.\<close>

definition flow_inv :: "LoginSession \<Rightarrow> bool" where
  "flow_inv s \<longleftrightarrow>
    (\<forall>o1. af_otpId (ls_form s) = Some o1 \<and> o1 \<noteq> []
       \<longrightarrow> (\<exists>m1. af_mfaId (ls_form s) = Some m1 \<and> m1 \<noteq> [] \<and> proven_pair (ls_passwords s) o1 m1))
    \<and> (\<forall>q\<in>set (ls_pending s) \<union> set (ls_accepted s). length (fst (snd q)) = 6 \<and> proven_pair (ls_passwords s) (fst q) (snd (snd q)))
    \<and> (ls_authenticated s \<longleftrightarrow> ls_accepted s \<noteq> [] \<or> (\<exists>e p o1. (e, p, Accepted, o1) \<in> set (ls_passwords s)))"

lemma flow_inv_submit:
  assumes "flow_inv s"
  shows "flow_inv (submit_form tr email msg isFirstRun hub d s)"
proof (cases "shows_otp_input (ls_form s)")
  case False
  obtain af auth sent toasts where r: "login_handleSubmit tr email msg hub isFirstRun d (ls_form s) = (af, auth, sent, toasts)"
    using prod_cases4 by blast
  let ?new = "if AuthWithPassword (ld_email d) (ld_password d) \<in> set sent
    then [(ld_email d, ld_password d, hub_auth hub (ld_email d) (ld_password d), hub_otp hub (ld_email d))] else []"
  have s': "submit_form tr email msg isFirstRun hub d s =
      s\<lparr>ls_form := af, ls_authenticated := (ls_authenticated s \<or> auth), ls_passwords := ls_passwords s @ ?new\<rparr>"
    using False r by (simp add: submit_form_def)
  have "\<exists>m1. af_mfaId af = Some m1 \<and> m1 \<noteq> [] \<and> proven_pair (ls_passwords s @ ?new) o1 m1" if otp: "af_otpId af = Some o1" "o1 \<noteq> []" for o1
  proof -
    have "af_otpId (ls_form s) \<noteq> Some o1" using False assms otp(2) by (auto simp: shows_otp_input_def flow_inv_def)
    then obtain m1 where "af_mfaId af = Some m1" "m1 \<noteq> []" "AuthWithPassword (ld_email d) (ld_password d) \<in> set sent"
      "hub_auth hub (ld_email d) (ld_password d) = NeedsMfa m1" "hub_otp hub (ld_email d) = Some o1"
      using submit_ids [OF r] otp by auto
    then show ?thesis unfolding proven_pair_def by simp blast
  qed
  moreover have "(ls_authenticated s \<or> auth) \<longleftrightarrow> ls_accepted s \<noteq> [] \<or> (\<exists>e p o1. (e, p, Accepted, o1) \<in> set (ls_passwords s @ ?new))"
    using assms submit_auth [OF r] by (auto simp: flow_inv_def)
  ultimately show ?thesis using assms proven_pair_mono unfolding s' flow_inv_def by simp
qed (use assms in \<open>simp add: submit_form_def\<close>)

lemma flow_inv_render:
  assumes "flow_inv s" "shows_otp_input (ls_form s)"
  shows "flow_inv (otp_rendered s)"
proof -
  obtain o1 m1 where ids: "af_otpId (ls_form s) = Some o1" "o1 \<noteq> []" "af_mfaId (ls_form s) = Some m1"
    using assms(2) by (auto simp: shows_otp_input_def)
  with assms(1) have "proven_pair (ls_passwords s) o1 m1" by (auto simp: flow_inv_def)
  with assms(1) ids show ?thesis by (auto simp: flow_inv_def otp_rendered_def otp_render_def split: if_splits)
qed

lemma flow_inv_answer: "flow_inv s \<Longrightarrow> flow_inv (otp_answer q ok s)"
  using set_remove1_subset [of q "ls_pending s"] by (auto simp: flow_inv_def otp_answer_def)

interpretation login_flow: event_page "login_event tr email msg isFirstRun" "\<lambda>s. s = login_start" flow_inv for tr email msg isFirstRun
proof (unfold_locales, goal_cases)
  case (1 s)
  then show ?case by (simp add: flow_inv_def login_start_def init_auth_form_def)
next
  case (2 s e)
  have typed: "flow_inv (s\<lparr>ls_value := v\<rparr>) = flow_inv s" for v by (simp add: flow_inv_def)
  show ?case
  proof (cases e)
    case FormChange
    with 2 show ?thesis by (simp add: flow_inv_def form_changed_def)
  next
    case (TypeCode v)
    with 2 show ?thesis using flow_inv_render [of "s\<lparr>ls_value := v\<rparr>"] by (simp add: typed)
  qed (use 2 in \<open>simp_all add: flow_inv_submit flow_inv_render flow_inv_answer\<close>)
qed

section \<open>Properties\<close>

text \<open>
  C26. The second factor is not skipped and not mixed up. However often the form is submitted, for whatever accounts, and whatever
  the hub answers in whatever order: a one-time password is sent with six digits and with ids that the hub issued together, for
  one account whose password it had just been given; and the user is signed in exactly when the hub accepted such a one-time password
  or a password. So where the hub asks for a second factor after every password, no password signs anyone in.
\<close>

theorem second_factor_not_skipped:
  "let s = run (login_event tr email msg isFirstRun) es login_start in
    (\<forall>q\<in>set (ls_pending s) \<union> set (ls_accepted s). length (fst (snd q)) = 6 \<and> proven_pair (ls_passwords s) (fst q) (snd (snd q)))
    \<and> (ls_authenticated s \<longleftrightarrow> ls_accepted s \<noteq> [] \<or> (\<exists>e p o1. (e, p, Accepted, o1) \<in> set (ls_passwords s)))"
proof -
  let ?s = "run (login_event tr email msg isFirstRun) es login_start"
  have "flow_inv ?s" by (rule login_flow.inv_run) simp
  then show ?thesis unfolding flow_inv_def Let_def by blast
qed

definition sample_mfa_hub :: Hub where
  "sample_mfa_hub = \<lparr>hub_create = (\<lambda>_ _. True), hub_auth = (\<lambda>_ _. NeedsMfa ''m1''), hub_otp = (\<lambda>_. Some ''o1'')\<rparr>"

definition sample_flow :: "LoginEvent list" where
  "sample_flow = [SubmitForm sample_mfa_hub (sample_login\<lparr>ld_website := []\<rparr>), TypeCode ''12345'', TypeCode ''123456'', OtpAnswer (''o1'', ''123456'', ''m1'') True]"

theorem second_factor_not_skipped_witness:
  "let s = run (login_event id (\<lambda>_. True) [] False) sample_flow login_start in
    ls_accepted s = [(''o1'', ''123456'', ''m1'')] \<and> ls_authenticated s"
proof -
  let ?s = "run (login_event id (\<lambda>_. True) [] False) sample_flow login_start"
  have "issues id (\<lambda>_. True) [] False (sample_login\<lparr>ld_website := []\<rparr>) = []"
    by (simp add: issues_def sample_login_def password_issues_def js_length_def)
  then have acc: "ls_accepted ?s = [(''o1'', ''123456'', ''m1'')]"
    by (simp add: sample_flow_def login_start_def submit_form_def login_handleSubmit_def after_auth_def sample_mfa_hub_def init_auth_form_def
        shows_otp_input_def otp_rendered_def otp_render_def otp_answer_def Let_def)
  with second_factor_not_skipped [of id "\<lambda>_. True" "[]" False sample_flow] show ?thesis by (simp add: Let_def)
qed

text \<open>Six digits that are still there are sent again by every rendering, whatever caused it.\<close>

theorem code_sent_again:
  assumes "shows_otp_input (ls_form s)" "length (ls_value s) = 6"
  shows "length (ls_pending (run (login_event tr email msg isFirstRun) (replicate n Rerender) s)) = length (ls_pending s) + n"
  using assms
proof (induction n arbitrary: s)
  case (Suc n)
  obtain o1 m1 where "af_otpId (ls_form s) = Some o1" "af_mfaId (ls_form s) = Some m1" using Suc.prems(1) by (auto simp: shows_otp_input_def)
  then have r: "otp_rendered s = s\<lparr>ls_pending := ls_pending s @ [(o1, ls_value s, m1)]\<rparr>"
    using Suc.prems(2) by (simp add: otp_rendered_def otp_render_def)
  with Suc.prems Suc.IH [of "otp_rendered s"] show ?case by simp
qed simp

end
