(* ===== verification/Spec2Isabelle.thy ===== *)
theory Spec2Isabelle
  imports Utils Toast Calendar TimeFormats SystemPage QuietHoursPage HistoryPage TokenPage AlertsSheet DisksPage ContainersPage
    PackagesView LinksView SystemsView RowActions Router ChartView NotificationsPage LoginView AddSystemView Fleet App Panels Nav
    LinkSaves LoginFlow
begin

text \<open>
  A verification library for the Beszel dashboard, the TypeScript front end under
  \<^verbatim>\<open>src/internal/site/src\<close> (paths below are relative to it).

  \<^bold>\<open>The program.\<close> The dashboard is a React application served by the Beszel hub. After signing in,
  \<^verbatim>\<open>main.tsx\<close> loads the systems and the alerts and subscribes to their changes; the records go
  into stores of the nanostores library, which \<^verbatim>\<open>lib/stores.ts\<close> declares and
  \<^verbatim>\<open>lib/systemsManager.ts\<close> and \<^verbatim>\<open>lib/alerts.ts\<close> keep up to date. The pages read the stores:
  the table of systems, the page of one system with its charts and tables (containers, services,
  disks, package updates), the alert sheets and the settings. They send requests to the hub and change
  their own state with the answers, which may come late, fail, or come in another order.

  \<^bold>\<open>Foundations.\<close>
  \<^item> \<^verbatim>\<open>Prelude\<close>: insertion-ordered dictionaries (JavaScript objects and \<open>Map\<close>s are association
    lists \<open>('k, 'v) dict\<close> with \<open>dget\<close>, \<open>dset\<close>, \<open>ddel\<close>; a JavaScript object puts keys that look like array
    indices first, so where an order is stated of one it is that of other keys), first-occurrence \<open>uniq\<close>, stable
    sorting by a comparator (\<open>js_sort\<close>) with the locale \<open>comparator\<close>, floors of rationals, and the
    collections \<open>js_defs\<close> and \<open>dict_simps\<close>.
  \<^item> \<^verbatim>\<open>JsValues\<close>: \<open>split\<close>, \<open>join\<close>, \<open>trim\<close>, \<open>padStart\<close>, printing and reading numbers.
  \<^item> \<^verbatim>\<open>Calendar\<close>: UTC dates from milliseconds and back.
  \<^item> \<^verbatim>\<open>Types\<close>: \<^verbatim>\<open>lib/enums.ts\<close> as datatypes and the interfaces of \<^verbatim>\<open>types.d.ts\<close> the modelled
    code reads as records, one field per property.
  \<^item> \<^verbatim>\<open>Stores\<close>: the record \<open>AppState\<close>, one field per store; the locale \<open>nano_map\<close> states what
    nanostores documents of \<open>setKey\<close> (the key reads back, the others are kept, listeners are told only
    of a change), and \<open>nano_reference\<close> interprets it on a function with that behaviour.

  \<^bold>\<open>Shared state.\<close>
  \<^item> \<^verbatim>\<open>Systems\<close> (\<^verbatim>\<open>lib/systemsManager.ts\<close>): add, update, remove, refresh, the listener that
    files a changed system under its status and the nested notifications its own writes cause
    (\<open>deliver\<close>), and \<open>reachable\<close>, every sequence of messages. Proved in the locale \<open>systems_store\<close>:
    the status stores are exactly the systems of that status, lookups by id and by name agree, and
    notifications always come to an end.
  \<^item> \<^verbatim>\<open>Alerts\<close> (\<^verbatim>\<open>lib/alerts.ts\<close>, \<^verbatim>\<open>components/alerts/*\<close>, \<^verbatim>\<open>active-alerts.tsx\<close>): the
    store by system and name, the batch of 50 ms (equal to applying the messages one by one) and the
    active alerts. \<^verbatim>\<open>AlertsSheet\<close>: the sheet with its tabs, controls and debounced requests,
    together with the hub's handlers (\<^verbatim>\<open>src/internal/alerts/alerts_api.go\<close>): the requests fit the
    hub's types, and the hub ends with what the sheet shows.
  \<^item> \<^verbatim>\<open>Api\<close> (\<^verbatim>\<open>lib/api.ts\<close>), \<^verbatim>\<open>Utils\<close> (\<^verbatim>\<open>lib/utils.ts\<close>), \<^verbatim>\<open>I18n\<close>, \<^verbatim>\<open>Router\<close>,
    \<^verbatim>\<open>Toast\<close> (\<^verbatim>\<open>ui/use-toast.ts\<close>): roles, settings and their migration, filter timestamps whose
    string order is the order in time, formats of bytes and durations with their bounds, versions,
    debounce, the language and its storage, links under the base path, toasts and their timers.
  \<^item> \<^verbatim>\<open>App\<close> (\<^verbatim>\<open>main.tsx\<close>): the start of a session as a chain of requests, and the relation
    \<open>app_reach\<close> that interleaves any number of chains with messages, answers and the loss of the
    authentication; the invariant of the stores over all of them, and which view a user sees. \<open>app_event\<close> has the same
    events one by one and the log-out, after which the invariant no longer holds; a chain is proved to outlive it.

  \<^bold>\<open>Pages.\<close>
  \<^item> \<^verbatim>\<open>SystemDetail\<close>, \<^verbatim>\<open>Charts\<close>, \<^verbatim>\<open>ChartView\<close>, \<^verbatim>\<open>Panels\<close> (\<^verbatim>\<open>routes/system.tsx\<close>,
    \<^verbatim>\<open>routes/system/info-bar.tsx\<close>, \<^verbatim>\<open>cpu-sheet.tsx\<close>, \<^verbatim>\<open>network-sheet.tsx\<close>,
    \<^verbatim>\<open>components/charts/*\<close>, \<^verbatim>\<open>ui/chart.tsx\<close>): incremental fetching with the cache and its bound,
    empty values exactly where data are missing, the real-time window, which cards are shown and what
    they plot, series and colours, ticks, domains, tooltips and legends. \<^verbatim>\<open>SystemPage\<close> is the page as it
    outlives a change of system: its requests and subscriptions with their answers in any order.
  \<^item> \<^verbatim>\<open>Feeds\<close>: lists kept in step by subscriptions. The locale \<open>keyed_feed\<close> says how a reducer
    follows the hub's messages through lookups by id; \<^verbatim>\<open>History\<close>, \<^verbatim>\<open>QuietHours\<close>,
    \<^verbatim>\<open>Tokens\<close> and \<^verbatim>\<open>Smart\<close> interpret it on their reducers and add their own operations.
    \<^verbatim>\<open>QuietHoursPage\<close> is the whole page of quiet hours; the identity of records, on which the effect
    that fills the form depends, is part of its state. \<^verbatim>\<open>TokenPage\<close> is the rest of the page of tokens and
    the universal token on both sides, with the handler of \<^verbatim>\<open>src/internal/hub/hub.go\<close> and its
    expiring map: the page shows what the hub accepts, over every interleaving with other users.
  \<^item> \<^verbatim>\<open>DataTable\<close>: what the tables rely on of the table library. The locale \<open>table_engine\<close>
    states the documented row models (filtered, sorted, paged, selected by row id), and
    \<open>reference_table\<close> interprets it on an engine with that behaviour. \<^verbatim>\<open>SystemsView\<close>,
    \<^verbatim>\<open>HistoryTable\<close> and \<^verbatim>\<open>TableViews\<close> (containers, services, disks) are the table components over
    any such engine: their state, menus, stored settings, selection, pages and what they show.
  \<^item> \<^verbatim>\<open>Polling\<close>: tables that are fetched again. The locale \<open>recent_merge\<close> says which rows a merge
    keeps; \<^verbatim>\<open>Containers\<close> and \<^verbatim>\<open>Systemd\<close> interpret it.
  \<^item> \<^verbatim>\<open>Sheets\<close>: the sheets of a service, a container and a disk with their requests in any order,
    and every row of the service sheet. The service sheet is proved to show only answers to requests for its
    service on the system of the page; the other two are proved to show stale answers.
  \<^item> \<^verbatim>\<open>Packages\<close>: the whole package-updates component: fetching, selection, holds, the running job
    and its polling; \<^verbatim>\<open>PackagesView\<close>: the card's controls, by pointer and by keyboard, proved to be exactly the user's actions, and its rows.
  \<^item> \<^verbatim>\<open>SystemsTable\<close>, \<^verbatim>\<open>Fleet\<close>: the table of systems with filter, search and its caches, sort
    orders, cells, the row menu and its permissions; reboot and fleet updates.
  \<^item> \<^verbatim>\<open>Links\<close>, \<^verbatim>\<open>LinksView\<close>, \<^verbatim>\<open>Settings\<close>, \<^verbatim>\<open>AddSystem\<close>, \<^verbatim>\<open>AddSystemView\<close>, \<^verbatim>\<open>Login\<close>, \<^verbatim>\<open>Nav\<close>: quick and external links with
    their card, dialog and manager, the settings pages with the forms' values and what they offer, adding a system with its token and its two requests, whose answers may come after the dialog was opened again, signing
    in with the second factor and one-time passwords, the command palette, the navigation bar, the
    stored theme and the visibility observer. \<^verbatim>\<open>LinkSaves\<close> takes the saving of links apart into its requests, which
    can fail and overlap; \<^verbatim>\<open>LoginFlow\<close> follows the login form and the input of the one-time password over any number of
    submissions and answers.

  \<^item> \<^verbatim>\<open>Pages\<close>: a page as a step function of events. The locale \<open>event_page\<close> carries an invariant
    over every run of events, \<open>session_page\<close> (of which it is an instance) over the sessions whose
    events the page accepts, \<open>request_page\<close> ties a wait to the request that ends it, and
    \<open>guarded_request\<close> says that a request leaves only by a confirmation. \<^verbatim>\<open>AddSystem\<close>,
    \<^verbatim>\<open>LinkSaves\<close>, \<^verbatim>\<open>LoginFlow\<close> and the theories below, \<^verbatim>\<open>LoginView\<close> apart, interpret them.
  \<^item> \<^verbatim>\<open>RowActions\<close> (\<^verbatim>\<open>systems-table/*\<close>): the menu of a row, the reboot badge of a card, their dialogs and requests, in
    the grid and in the table, whose rows are keyed by position; \<^verbatim>\<open>DisksPage\<close>,
    \<^verbatim>\<open>ServicesPage\<close> and \<^verbatim>\<open>ContainersPage\<close>: the tables of disks, services and containers with their
    requests, subscriptions and sheets while the system changes; \<^verbatim>\<open>NotificationsPage\<close>
    (\<^verbatim>\<open>settings/notifications.tsx\<close>): emails, webhooks, their tests and the saved targets.
  \<^item> \<^verbatim>\<open>HistoryPage\<close>: the deletion dialog and the page buttons of the alert history;
    \<^verbatim>\<open>LoginView\<close>: the form of signing in and what it reports; \<^verbatim>\<open>TimeFormats\<close>: the formatters of
    dates, rebuilt when the hour format changes.

  \<^bold>\<open>Modelling decisions.\<close> Numbers are rationals or integers where the code computes with finite
  values; \<open>NaN\<close> and the infinities appear as a datatype where they can arise (versions, container
  status). Rounding of IEEE doubles is not modelled. State is passed explicitly; a rejected promise is a
  value of a sum or option type and every \<open>catch\<close> is a branch. What other packages do is an argument: the
  hub's answers, \<open>tr\<close> for the translation of a message, \<open>dec\<close> and \<open>num\<close> for the printing of numbers,
  \<open>lower\<close> and \<open>upper\<close> for case conversion, the engine of the tables, the parser of dates, D3's interval offsets and the email and
  URL checks of valibot. Where a property needs something of an argument, it is a hypothesis, and its
  witness instantiates it.

  \<^bold>\<open>Bounds and fuel.\<close> The loops of the source are structural recursion, except the delivery of
  nested notifications: \<open>deliver\<close> takes fuel, one round more than there are systems, and
  \<open>delivery_ends\<close> shows that this works off every notification and that more fuel gives the same state. Interleavings are inductive relations
  without a bound on their length.

  \<^bold>\<open>What the theorems show.\<close> Invariants over all interleavings (stores, application, service sheet,
  toasts, tags, tokens, caches, the quiet-hours page); agreement of page and hub (universal token, alert
  sheet); agreement with a reference (batched alerts, search caches, merges,
  incremental fetching, version order); round trips (saved links, locale, theme, settings, timestamps); types of requests (alert sheet);
  bounds (bytes, durations, statistics cache); error behaviour (failed saves, failed batches, refused
  logins); requests that leave only after a confirmation (row menus, alert history); lists kept to the
  system the page is about (services, and disks up to the subscriptions that leak); and the places where the code departs from what it intends, each as a theorem.

  \<^bold>\<open>Not modelled.\<close> The markup: class names, icons, layout, focus and scrolling; drawing by Recharts and
  which rows are drawn of a long table (its padding is modelled); the primitives under \<^verbatim>\<open>components/ui\<close> that wrap Radix components, apart from
  the toast store, the chart helpers and the tag input; syntax highlighting (\<^verbatim>\<open>lib/shiki.ts\<close>, an
  argument); message catalogues; matching of URLs by the router library; the build configuration; and
  the agent and the rest of the hub, which are written in Go.
\<close>

end
